(* ===== verification/Prelude.thy ===== *)
theory Prelude
  imports Complex_Main "HOL-Library.Word" "HOL-Library.Finite_Map" "HOL-Library.State_Monad"
    "HOL-Library.List_Lexorder" "HOL-Library.Char_ord"
begin

text \<open>
  What every component of the model shares.

  \<^item> Go's \<open>error\<close> values, 64-bit integers, and the parts of the standard library
    (\<^verbatim>\<open>strings\<close>, \<^verbatim>\<open>strconv\<close>) that the operator calls.
  \<^item> The monad of the effectful code: a state monad over a \<open>world\<close>, which holds the
    state of the outside servers and the list of everything the operator has asked them,
    in order.
  \<^item> \<open>post\<close>, a weakest-precondition style predicate for statements that hold whatever the
    servers answer, with one rule per construct of the monad collected in \<open>post_intros\<close>,
    and \<open>only\<close>, its special case that bounds the set of effects.
\<close>

named_theorems post_intros \<open>introduction rules of \<open>post\<close>, one per construct of the monad\<close>
named_theorems only_intros \<open>rules for \<open>only\<close>, one per construct of the monad and per operation\<close>
named_theorems post_specs \<open>what the operations of the components return and do, as \<open>post\<close> facts\<close>

section \<open>Errors, integers, panics\<close>

text \<open>
  An error value is represented by what the code can observe of it: the text of
  \<open>Error()\<close> and whether the API machinery's \<open>IsNotFound\<close> and \<open>IsConflict\<close> accept it.
\<close>

record gerror =
  ErrorText :: string
  IsNotFound :: bool
  IsConflict :: bool

text \<open>\<open>errors.New\<close>, and \<open>fmt.Errorf\<close> without \<open>%w\<close>.\<close>

definition errors_New :: "string \<Rightarrow> gerror" where
  "errors_New msg = \<lparr>ErrorText = msg, IsNotFound = False, IsConflict = False\<rparr>"

text \<open>\<open>fmt.Errorf\<close> with \<open>%w\<close>: the text is new, the wrapped error stays observable.\<close>

definition Errorf_wrap :: "string \<Rightarrow> gerror \<Rightarrow> gerror" where
  "Errorf_wrap msg e = e\<lparr>ErrorText := msg\<rparr>"

lemma ErrorText_errors_New [simp]: "ErrorText (errors_New msg) = msg"
  by (simp add: errors_New_def)

lemma IsNotFound_errors_New [simp]: "\<not> IsNotFound (errors_New msg)"
  by (simp add: errors_New_def)

text \<open>A call that may panic instead of returning.\<close>

datatype 'a outcome = Returns 'a | Panics

text \<open>
  \<open>int64\<close> is \<open>int\<close> kept in range: every arithmetic operation of the code whose result may
  leave the range is written with \<open>wrap64\<close>.
\<close>

definition wrap64 :: "int \<Rightarrow> int" where
  "wrap64 x = signed_take_bit 63 x"

definition in_int64 :: "int \<Rightarrow> bool" where
  "in_int64 x \<longleftrightarrow> - (2 ^ 63) \<le> x \<and> x < 2 ^ 63"

lemma wrap64_in_int64: "in_int64 (wrap64 x)"
  using signed_take_bit_int_greater_eq_minus_exp [of 63 x] signed_take_bit_int_less_exp [of 63 x]
  by (simp add: in_int64_def wrap64_def)

lemma wrap64_id [simp]: "in_int64 x \<Longrightarrow> wrap64 x = x"
  by (simp add: in_int64_def wrap64_def signed_take_bit_int_eq_self)

lemma wrap64_max: "wrap64 (2 ^ 63 - 1 + 1) = - (2 ^ 63)"
  by (simp add: wrap64_def signed_take_bit_eq_if_negative take_bit_eq_mod bit_simps)

section \<open>Strings\<close>

type_synonym strmap = "(string, string) fmap"

text \<open>\<open>strings.Replace(s, "_", "-", 1)\<close> for one-byte patterns: the first occurrence only.\<close>

fun replace_first :: "char \<Rightarrow> char \<Rightarrow> string \<Rightarrow> string" where
  "replace_first a b [] = []"
| "replace_first a b (c # s) = (if c = a then b # s else c # replace_first a b s)"

text \<open>\<open>strings.ReplaceAll\<close> for one-byte patterns.\<close>

definition replace_all :: "char \<Rightarrow> char \<Rightarrow> string \<Rightarrow> string" where
  "replace_all a b = map (\<lambda>c. if c = a then b else c)"

text \<open>\<open>strings.ReplaceAll(s, "\n", "")\<close>: every occurrence of a byte removed.\<close>

definition remove_all :: "char \<Rightarrow> string \<Rightarrow> string" where
  "remove_all a = filter (\<lambda>c. c \<noteq> a)"

text \<open>
  \<open>strings.ToUpper\<close> on ASCII text. (The only caller applies it to application names, which
  are also label values and so ASCII.)
\<close>

definition ToUpper :: "string \<Rightarrow> string" where
  "ToUpper = map (\<lambda>c. let n = of_char c :: nat in if 97 \<le> n \<and> n \<le> 122 then char_of (n - 32) else c)"

fun str_join :: "string \<Rightarrow> string list \<Rightarrow> string" where
  "str_join sep [] = []"
| "str_join sep [s] = s"
| "str_join sep (s # t # ss) = s @ sep @ str_join sep (t # ss)"

fun str_contains :: "string \<Rightarrow> string \<Rightarrow> bool" where
  "str_contains s [] = (s = [])"
| "str_contains s (c # cs) = (take (length s) (c # cs) = s \<or> str_contains s cs)"

lemma length_replace_first [simp]: "length (replace_first a b s) = length s"
  by (induction s) auto

lemma replace_first_append:
  "a \<notin> set p \<Longrightarrow> replace_first a b (p @ a # s) = p @ b # s"
  by (induction p) auto

lemma str_contains_append: "str_contains s (p @ s @ q)"
proof (induction p)
  case Nil
  then show ?case by (cases s; cases q) auto
qed simp

text \<open>Prepending to an optional result.\<close>

lemma append_single: "(@) [c] = (#) c"
  by auto

lemma append_append: "(@) (a @ b) = (\<lambda>x. a @ b @ x)"
  by auto

lemma append_Cons_fun: "(@) (a # b) = (\<lambda>x. a # b @ x)"
  by auto

lemma map_option_append_Nil [simp]: "map_option ((@) []) x = x"
  by (cases x) simp_all

section \<open>Decimal numbers\<close>

definition digit :: "nat \<Rightarrow> char" where
  "digit d = char_of (48 + d)"

definition digit_val :: "char \<Rightarrow> nat option" where
  "digit_val c = (let n = of_char c in if 48 \<le> n \<and> n \<le> (57 :: nat) then Some (n - 48) else None)"

fun format_nat :: "nat \<Rightarrow> string" where
  "format_nat n = (if n < 10 then [digit n] else format_nat (n div 10) @ [digit (n mod 10)])"

declare format_nat.simps [simp del]

text \<open>\<open>strconv.FormatInt(x, 10)\<close>.\<close>

definition FormatInt :: "int \<Rightarrow> string" where
  "FormatInt x = (if x < 0 then CHR ''-'' # format_nat (nat (- x)) else format_nat (nat x))"

fun parse_digits :: "nat \<Rightarrow> string \<Rightarrow> nat option" where
  "parse_digits acc [] = Some acc"
| "parse_digits acc (c # s) =
     (case digit_val c of None \<Rightarrow> None | Some d \<Rightarrow> parse_digits (10 * acc + d) s)"

definition parse_nat :: "string \<Rightarrow> nat option" where
  "parse_nat s = (if s = [] then None else parse_digits 0 s)"

text \<open>
  \<open>strconv.ParseInt(s, 10, 64)\<close>: an optional sign, at least one digit, nothing else, and a
  value in range. \<open>None\<close> is a syntax or a range error; the caller does not tell them apart.
\<close>

definition ParseInt :: "string \<Rightarrow> int option" where
  "ParseInt s =
     (case (case s of
              [] \<Rightarrow> None
            | c # r \<Rightarrow>
                (if c = CHR ''-'' then map_option (\<lambda>n. - int n) (parse_nat r)
                 else if c = CHR ''+'' then map_option int (parse_nat r)
                 else map_option int (parse_nat s))) of
        None \<Rightarrow> None
      | Some x \<Rightarrow> if in_int64 x then Some x else None)"

text \<open>\<open>strconv.ParseBool\<close>; \<open>None\<close> is the syntax error.\<close>

definition ParseBool :: "string \<Rightarrow> bool option" where
  "ParseBool s =
     (if s \<in> set [''1'', ''t'', ''T'', ''TRUE'', ''true'', ''True''] then Some True
      else if s \<in> set [''0'', ''f'', ''F'', ''FALSE'', ''false'', ''False''] then Some False
      else None)"

definition FormatBool :: "bool \<Rightarrow> string" where
  "FormatBool b = (if b then ''true'' else ''false'')"

lemma digit_val_digit [simp]: "d < 10 \<Longrightarrow> digit_val (digit d) = Some d"
  by (simp add: digit_val_def digit_def Let_def)

lemma digit_simps [simp]:
  "digit 0 = CHR ''0''" "digit (Suc 0) = CHR ''1''" "digit 1 = CHR ''1''" "digit 2 = CHR ''2''"
  "digit 3 = CHR ''3''" "digit 4 = CHR ''4''" "digit 5 = CHR ''5''" "digit 6 = CHR ''6''"
  "digit 7 = CHR ''7''" "digit 8 = CHR ''8''" "digit 9 = CHR ''9''"
  by code_simp+

lemma digit_val_sign:
  "digit_val (CHR ''-'') = None" "digit_val (CHR ''+'') = None" "digit_val (CHR ''_'') = None"
  by (simp_all add: digit_val_def)

lemma digit_not_sign: "d < 10 \<Longrightarrow> digit d \<noteq> CHR ''-''" "d < 10 \<Longrightarrow> digit d \<noteq> CHR ''+''"
  by (metis digit_val_digit digit_val_sign(1) option.distinct(1),
      metis digit_val_digit digit_val_sign(2) option.distinct(1))

lemma digit_not_underscore: "d < 10 \<Longrightarrow> digit d \<noteq> CHR ''_''"
  by (metis digit_val_digit digit_val_sign(3) option.distinct(1))

lemma format_nat_Cons: "\<exists>d s. format_nat n = digit d # s \<and> d < 10"
proof (induction n rule: format_nat.induct)
  case (1 n)
  show ?case
  proof (cases "n < 10")
    case True
    then show ?thesis by (subst format_nat.simps) auto
  next
    case False
    with 1 show ?thesis by (subst format_nat.simps) auto
  qed
qed

lemma parse_digits_append:
  "parse_digits acc (s @ t) =
     (case parse_digits acc s of None \<Rightarrow> None | Some n \<Rightarrow> parse_digits n t)"
  by (induction acc s rule: parse_digits.induct) (auto split: option.split)

lemma parse_digits_format_nat: "parse_digits 0 (format_nat n) = Some n"
proof (induction n rule: format_nat.induct)
  case (1 n)
  show ?case
  proof (cases "n < 10")
    case True
    then show ?thesis by (simp add: format_nat.simps [of n])
  next
    case False
    with 1 show ?thesis by (simp add: format_nat.simps [of n] parse_digits_append)
  qed
qed

lemma parse_nat_format_nat [simp]: "parse_nat (format_nat n) = Some n"
  using format_nat_Cons [of n] by (auto simp: parse_nat_def parse_digits_format_nat)

lemma format_nat_inject [simp]: "format_nat m = format_nat n \<longleftrightarrow> m = n"
  by (metis parse_nat_format_nat option.inject)

lemma format_nat_digits: "c \<in> set (format_nat n) \<Longrightarrow> \<exists>d<10. c = digit d"
proof (induction n rule: format_nat.induct)
  case (1 n)
  show ?case
  proof (cases "n < 10")
    case True
    with 1 show ?thesis by (auto simp: format_nat.simps [of n])
  next
    case False
    with 1 show ?thesis
      by (simp add: format_nat.simps [of n]) (metis mod_less_divisor zero_less_numeral)
  qed
qed

text \<open>Printing and parsing an \<open>int64\<close> are inverse.\<close>

lemma ParseInt_FormatInt: "in_int64 x \<Longrightarrow> ParseInt (FormatInt x) = Some x"
proof -
  assume x: "in_int64 x"
  obtain d s where ds: "format_nat (nat x) = digit d # s" "d < 10"
    using format_nat_Cons by blast
  then have "parse_nat (digit d # s) = Some (nat x)"
    by (metis parse_nat_format_nat)
  with x ds show ?thesis
    by (auto simp: ParseInt_def FormatInt_def digit_not_sign)
qed

section \<open>Effectful code\<close>

text \<open>
  The world of an effectful call: the state of the servers the operator talks to (of an
  arbitrary type \<open>'w\<close>; what they answer is a parameter of the model), and the effects
  performed so far, oldest first.
\<close>

record ('w, 'e) world =
  server :: 'w
  effects :: "'e list"

type_synonym ('w, 'e, 'a) io = "(('w, 'e) world, 'a) state"

abbreviation ret :: "'a \<Rightarrow> ('s, 'a) state" where
  "ret \<equiv> State_Monad.return"

text \<open>Send a request: it is recorded and the server's answer comes back.\<close>

definition perform :: "'e \<Rightarrow> ('w \<Rightarrow> 'a \<times> 'w) \<Rightarrow> ('w, 'e, 'a) io" where
  "perform e f = State (\<lambda>w. case f (server w) of
     (r, s) \<Rightarrow> (r, w\<lparr>server := s, effects := effects w @ [e]\<rparr>))"

text \<open>A one-way effect: an event for the recorder, a metric.\<close>

definition emit :: "'e \<Rightarrow> ('w, 'e, unit) io" where
  "emit e = State (\<lambda>w. ((), w\<lparr>effects := effects w @ [e]\<rparr>))"

text \<open>Read something of the world that is not a request (the clock).\<close>

definition observe :: "('w \<Rightarrow> 'a \<times> 'w) \<Rightarrow> ('w, 'e, 'a) io" where
  "observe f = State (\<lambda>w. case f (server w) of (r, s) \<Rightarrow> (r, w\<lparr>server := s\<rparr>))"

lemma run_perform [simp]:
  "run_state (perform e f) w =
     (case f (server w) of (r, s) \<Rightarrow> (r, w\<lparr>server := s, effects := effects w @ [e]\<rparr>))"
  by (simp add: perform_def)

lemma run_emit [simp]: "run_state (emit e) w = ((), w\<lparr>effects := effects w @ [e]\<rparr>)"
  by (simp add: emit_def)

lemma run_observe [simp]:
  "run_state (observe f) w = (case f (server w) of (r, s) \<Rightarrow> (r, w\<lparr>server := s\<rparr>))"
  by (simp add: observe_def)

text \<open>
  \<open>post m Q\<close>: whatever the servers are and answer, \<open>m\<close> only adds effects, and its result
  \<open>r\<close> and the effects \<open>es\<close> it adds satisfy \<open>Q r es\<close>.
\<close>

definition post :: "('w, 'e, 'a) io \<Rightarrow> ('a \<Rightarrow> 'e list \<Rightarrow> bool) \<Rightarrow> bool" where
  "post m Q \<longleftrightarrow>
     (\<forall>w. \<exists>es. effects (snd (run_state m w)) = effects w @ es \<and> Q (fst (run_state m w)) es)"

lemma postD:
  assumes "post m Q" and "run_state m w = (r, w')"
  shows "\<exists>es. effects w' = effects w @ es \<and> Q r es"
  using assms unfolding post_def by (metis fst_conv snd_conv)

lemma post_mono: "post m P \<Longrightarrow> (\<And>r es. P r es \<Longrightarrow> Q r es) \<Longrightarrow> post m Q"
  unfolding post_def by meson

lemma post_conj: "post m P \<Longrightarrow> post m Q \<Longrightarrow> post m (\<lambda>r es. P r es \<and> Q r es)"
  unfolding post_def by (metis same_append_eq)

lemma post_return [post_intros]: "Q x [] \<Longrightarrow> post (ret x) Q"
  by (simp add: post_def)

lemma post_bind [post_intros]:
  assumes "post m (\<lambda>x es. post (f x) (\<lambda>y es'. Q y (es @ es')))"
  shows "post (State_Monad.bind m f) Q"
  unfolding post_def
proof
  fix w
  obtain x w1 where m: "run_state m w = (x, w1)" by fastforce
  obtain y w2 where f: "run_state (f x) w1 = (y, w2)" by fastforce
  from postD [OF assms m] obtain es where
    es: "effects w1 = effects w @ es" and "post (f x) (\<lambda>y es'. Q y (es @ es'))" by blast
  with postD [OF _ f] obtain es' where "effects w2 = effects w1 @ es'" "Q y (es @ es')" by blast
  with m f es show "\<exists>es. effects (snd (run_state (State_Monad.bind m f) w)) = effects w @ es \<and>
      Q (fst (run_state (State_Monad.bind m f) w)) es"
    by auto
qed

lemma post_perform [post_intros]: "(\<And>r. Q r [e]) \<Longrightarrow> post (perform e f) Q"
  by (simp add: post_def split: prod.split)

lemma post_perform_result: "(\<And>w r w'. f w = (r, w') \<Longrightarrow> Q r [e]) \<Longrightarrow> post (perform e f) Q"
  by (fastforce simp: post_def split: prod.split)

lemma post_emit [post_intros]: "Q () [e] \<Longrightarrow> post (emit e) Q"
  by (simp add: post_def)

lemma post_observe [post_intros]: "(\<And>r. Q r []) \<Longrightarrow> post (observe f) Q"
  by (simp add: post_def split: prod.split)

lemma post_if [post_intros]:
  "(b \<Longrightarrow> post m Q) \<Longrightarrow> (\<not> b \<Longrightarrow> post n Q) \<Longrightarrow> post (if b then m else n) Q"
  by simp

lemma post_case_sum [post_intros]:
  "(\<And>e. x = Inl e \<Longrightarrow> post (f e) Q) \<Longrightarrow> (\<And>y. x = Inr y \<Longrightarrow> post (g y) Q) \<Longrightarrow>
   post (case x of Inl e \<Rightarrow> f e | Inr y \<Rightarrow> g y) Q"
  by (cases x) auto

lemma post_case_option [post_intros]:
  "(x = None \<Longrightarrow> post m Q) \<Longrightarrow> (\<And>y. x = Some y \<Longrightarrow> post (f y) Q) \<Longrightarrow>
   post (case x of None \<Rightarrow> m | Some y \<Rightarrow> f y) Q"
  by (cases x) auto

lemma post_case_prod [post_intros]:
  "(\<And>a b. x = (a, b) \<Longrightarrow> post (f a b) Q) \<Longrightarrow> post (case x of (a, b) \<Rightarrow> f a b) Q"
  by (cases x) auto

lemma post_case_outcome [post_intros]:
  "(\<And>y. x = Returns y \<Longrightarrow> post (f y) Q) \<Longrightarrow> (x = Panics \<Longrightarrow> post m Q) \<Longrightarrow>
   post (case x of Returns y \<Rightarrow> f y | Panics \<Rightarrow> m) Q"
  by (cases x) auto

lemma post_Let [post_intros]: "post (f x) Q \<Longrightarrow> post (let y = x in f y) Q"
  by simp

text \<open>
  \<open>only S m\<close>: whatever the servers answer, every effect of \<open>m\<close> is in \<open>S\<close>. The rules
  in \<open>only_intros\<close> follow the constructs of the monad; a component adds one per operation.
\<close>

definition only :: "'e set \<Rightarrow> ('w, 'e, 'a) io \<Rightarrow> bool" where
  "only S m \<longleftrightarrow> post m (\<lambda>_ es. set es \<subseteq> S)"

lemma onlyD:
  "only S m \<Longrightarrow> \<exists>es. effects (snd (run_state m w)) = effects w @ es \<and> set es \<subseteq> S"
  by (simp add: only_def post_def)

lemma only_post: "post m (\<lambda>r es. P r \<and> set es \<subseteq> S) \<Longrightarrow> only S m"
  unfolding only_def by (erule post_mono) simp

lemma post_only: "only S m \<Longrightarrow> (\<And>r es. set es \<subseteq> S \<Longrightarrow> Q r es) \<Longrightarrow> post m Q"
  unfolding only_def by (erule post_mono) simp

lemma only_mono: "only S m \<Longrightarrow> S \<subseteq> T \<Longrightarrow> only T m"
  unfolding only_def by (erule post_mono) auto

lemma only_return [only_intros]: "only S (ret x)"
  by (simp add: only_def post_return)

lemma only_bind_result:
  "post m (\<lambda>x es. set es \<subseteq> S \<and> only S (f x)) \<Longrightarrow> only S (State_Monad.bind m f)"
  unfolding only_def
  by (rule post_bind, erule post_mono) (elim conjE post_mono, simp)

lemma only_bind [only_intros]:
  "only S m \<Longrightarrow> (\<And>x. only S (f x)) \<Longrightarrow> only S (State_Monad.bind m f)"
  unfolding only_def [of S m] by (rule only_bind_result, erule post_mono) simp

lemma only_perform [only_intros]: "e \<in> S \<Longrightarrow> only S (perform e f)"
  by (simp add: only_def post_perform)

lemma only_emit [only_intros]: "e \<in> S \<Longrightarrow> only S (emit e)"
  by (simp add: only_def post_emit)

lemma only_observe [only_intros]: "only S (observe f)"
  by (simp add: only_def post_observe)

lemma only_if [only_intros]:
  "(b \<Longrightarrow> only S m) \<Longrightarrow> (\<not> b \<Longrightarrow> only S n) \<Longrightarrow> only S (if b then m else n)"
  by simp

lemma only_case_sum [only_intros]:
  "(\<And>e. x = Inl e \<Longrightarrow> only S (f e)) \<Longrightarrow> (\<And>y. x = Inr y \<Longrightarrow> only S (g y)) \<Longrightarrow>
   only S (case x of Inl e \<Rightarrow> f e | Inr y \<Rightarrow> g y)"
  by (cases x) auto

lemma only_case_option [only_intros]:
  "(x = None \<Longrightarrow> only S m) \<Longrightarrow> (\<And>y. x = Some y \<Longrightarrow> only S (f y)) \<Longrightarrow>
   only S (case x of None \<Rightarrow> m | Some y \<Rightarrow> f y)"
  by (cases x) auto

lemma only_case_prod [only_intros]:
  "(\<And>a b. x = (a, b) \<Longrightarrow> only S (f a b)) \<Longrightarrow> only S (case x of (a, b) \<Rightarrow> f a b)"
  by (cases x) auto

lemma only_case_outcome [only_intros]:
  "(\<And>y. x = Returns y \<Longrightarrow> only S (f y)) \<Longrightarrow> (x = Panics \<Longrightarrow> only S m) \<Longrightarrow>
   only S (case x of Returns y \<Rightarrow> f y | Panics \<Rightarrow> m)"
  by (cases x) auto

lemma only_Let [only_intros]: "only S (f x) \<Longrightarrow> only S (let y = x in f y)"
  by simp

text \<open>The effects a run has added.\<close>

definition new_effects :: "('w, 'e) world \<Rightarrow> ('w, 'e) world \<Rightarrow> 'e list" where
  "new_effects w w' = drop (length (effects w)) (effects w')"

lemma only_new: "only S m \<Longrightarrow> run_state m w = (r, w') \<Longrightarrow> e \<in> set (new_effects w w') \<Longrightarrow> e \<in> S"
  using onlyD [of S m w] by (auto simp: new_effects_def)

lemma only_run:
  assumes "only S m" and "run_state m w = (r, w')"
  shows "\<exists>es. effects w' = effects w @ es \<and> set es \<subseteq> S"
  using onlyD [OF assms(1), of w] assms(2) by simp

end
