(* ===== verification/Lang.thy ===== *)
theory Lang
  imports Prelude
begin

text \<open>
  \<^verbatim>\<open>controllers/utils/lang.go\<close> and \<^verbatim>\<open>controllers/utils/misc.go\<close>: the helpers on slices,
  maps and numbers that the other components call, with what each computes.
\<close>

section \<open>Dynamic values\<close>

text \<open>
  The values an \<open>interface{}\<close> of the code can hold: what decoding JSON, or reading an
  unstructured Kubernetes object, yields. A \<open>float64\<close> is the rational number it denotes.
\<close>

datatype goval =
    GNil
  | GBool bool
  | GInt int
  | GFloat rat
  | GStr string
  | GList "goval list"
  | GMap "(string, goval) fmap"

text \<open>The numbers of Go's \<open>reflect.Kind\<close> for these values; \<open>nil\<close> has no type at all.\<close>

fun reflect_kind :: "goval \<Rightarrow> nat option" where
  "reflect_kind GNil = None"
| "reflect_kind (GBool _) = Some 1"
| "reflect_kind (GInt _) = Some 6"
| "reflect_kind (GFloat _) = Some 14"
| "reflect_kind (GStr _) = Some 24"
| "reflect_kind (GList _) = Some 23"
| "reflect_kind (GMap _) = Some 21"

section \<open>Operations\<close>

fun ContainsString :: "string list \<Rightarrow> string \<Rightarrow> bool" where
  "ContainsString [] s = False"
| "ContainsString (v # list) s = (if v = s then True else ContainsString list s)"

definition Abs :: "int \<Rightarrow> int" where
  "Abs x = (if x < 0 then wrap64 (- x) else x)"

text \<open>The first loop of \<open>Difference\<close> fills a map used as a set, the second one filters.\<close>

fun difference_index :: "string list \<Rightarrow> (string, unit) fmap \<Rightarrow> (string, unit) fmap" where
  "difference_index [] bMap = bMap"
| "difference_index (key # b) bMap = difference_index b (fmupd key () bMap)"

fun difference_loop :: "(string, unit) fmap \<Rightarrow> string list \<Rightarrow> string list \<Rightarrow> string list" where
  "difference_loop bMap [] diff = diff"
| "difference_loop bMap (key # a) diff =
     difference_loop bMap a (if fmlookup bMap key = None then diff @ [key] else diff)"

definition Difference :: "string list \<Rightarrow> string list \<Rightarrow> string list" where
  "Difference a b = difference_loop (difference_index b fmempty) a []"

text \<open>The inner loop of \<open>Omit\<close> does not stop at the first match.\<close>

fun omit_ignored :: "string \<Rightarrow> string list \<Rightarrow> bool \<Rightarrow> bool" where
  "omit_ignored k [] ignored = ignored"
| "omit_ignored k (ignoredKey # keys) ignored =
     omit_ignored k keys (if k = ignoredKey then True else ignored)"

definition Omit :: "strmap \<Rightarrow> string list \<Rightarrow> strmap" where
  "Omit value ignoredKeys = fmfilter (\<lambda>k. \<not> omit_ignored k ignoredKeys False) value"

definition Min :: "int \<Rightarrow> int \<Rightarrow> int" where
  "Min x y = (if x < y then x else y)"

text \<open>\<open>reflect.TypeOf(nil)\<close> is \<open>nil\<close>, and calling \<open>Kind\<close> on it panics.\<close>

definition IsNumber :: "goval \<Rightarrow> bool outcome" where
  "IsNumber x =
     (case reflect_kind x of
        None \<Rightarrow> Panics
      | Some kind \<Rightarrow> Returns (2 \<le> kind \<and> kind \<le> 16))"

text \<open>A \<open>nil\<close> map is \<open>None\<close>.\<close>

fun merge_loop :: "strmap \<Rightarrow> strmap option list \<Rightarrow> strmap" where
  "merge_loop result [] = result"
| "merge_loop result (None # maps) = merge_loop result maps"
| "merge_loop result (Some m # maps) = merge_loop (result ++\<^sub>f m) maps"

definition Merge :: "strmap option list \<Rightarrow> strmap" where
  "Merge maps = merge_loop fmempty maps"

definition inventorySchema :: string where
  "inventorySchema = ''inventory''"

definition AppFullTableName :: "string \<Rightarrow> string" where
  "AppFullTableName tableName = inventorySchema @ ''.'' @ tableName"

definition AppDefaultDbSecretName :: "string \<Rightarrow> string" where
  "AppDefaultDbSecretName appName = appName @ ''-db''"

section \<open>What they compute\<close>

lemma ContainsString_iff [simp]: "ContainsString list s \<longleftrightarrow> s \<in> set list"
  by (induction list) auto

lemma Abs_nonneg: "in_int64 x \<Longrightarrow> x \<noteq> - (2 ^ 63) \<Longrightarrow> Abs x = \<bar>x\<bar>"
proof -
  assume "in_int64 x" "x \<noteq> - (2 ^ 63)"
  then have "x < 0 \<Longrightarrow> in_int64 (- x)" by (simp add: in_int64_def)
  then show ?thesis by (simp add: Abs_def)
qed

text \<open>The one value whose absolute value does not fit comes back negative.\<close>

lemma Abs_min: "Abs (- (2 ^ 63)) = - (2 ^ 63)"
  using wrap64_max by (simp add: Abs_def)

lemma difference_index_lookup:
  "fmlookup (difference_index b m) k = (if k \<in> set b then Some () else fmlookup m k)"
  by (induction b m rule: difference_index.induct) auto

lemma difference_loop_filter:
  "difference_loop m a diff = diff @ filter (\<lambda>k. fmlookup m k = None) a"
  by (induction m a diff rule: difference_loop.induct) auto

lemma Difference_filter: "Difference a b = filter (\<lambda>k. k \<notin> set b) a"
  by (simp add: Difference_def difference_loop_filter difference_index_lookup)

lemma set_Difference [simp]: "set (Difference a b) = set a - set b"
  by (auto simp: Difference_filter)

lemma length_Difference: "distinct a \<Longrightarrow> length (Difference a b) = card (set a - set b)"
  using distinct_card [of "Difference a b"] set_Difference [of a b]
  by (simp add: Difference_filter)

lemma omit_ignored_iff: "omit_ignored k keys ignored \<longleftrightarrow> ignored \<or> k \<in> set keys"
  by (induction k keys ignored rule: omit_ignored.induct) auto

lemma Omit_lookup [simp]:
  "fmlookup (Omit m keys) k = (if k \<in> set keys then None else fmlookup m k)"
  by (simp add: Omit_def omit_ignored_iff)

lemma Omit_eqI:
  assumes "\<And>k. k \<notin> set keys \<Longrightarrow> fmlookup m k = fmlookup m' k"
  shows "Omit m keys = Omit m' keys"
  by (rule fmap_ext) (use assms in simp)

text \<open>
  \<open>merged_lookup\<close> is what \<open>Merge\<close> promises: the last map of the list that has the key
  decides.
\<close>

fun merged_lookup :: "strmap option list \<Rightarrow> string \<Rightarrow> string option" where
  "merged_lookup [] k = None"
| "merged_lookup (m # ms) k =
     (case merged_lookup ms k of
        Some v \<Rightarrow> Some v
      | None \<Rightarrow> (case m of None \<Rightarrow> None | Some m' \<Rightarrow> fmlookup m' k))"

lemma merge_loop_lookup:
  "fmlookup (merge_loop r ms) k =
     (case merged_lookup ms k of Some v \<Rightarrow> Some v | None \<Rightarrow> fmlookup r k)"
  by (induction r ms rule: merge_loop.induct)
    (auto simp: fmlookup_dom_iff split: option.splits)

lemma Merge_lookup: "fmlookup (Merge ms) k = merged_lookup ms k"
  by (simp add: Merge_def merge_loop_lookup split: option.split)

lemma AppFullTableName_inject [simp]: "AppFullTableName a = AppFullTableName b \<longleftrightarrow> a = b"
  by (simp add: AppFullTableName_def)

text \<open>
  validation compares two lists of identifiers through two calls of \<open>Difference\<close>; both
  differences are empty exactly when the lists hold the same identifiers.
\<close>

lemma Difference_symmetric_empty:
  "Difference a b = [] \<and> Difference b a = [] \<longleftrightarrow> set a = set b"
  by (auto simp: Difference_filter filter_empty_conv)

end
