(* ===== verification/Pipeline.thy ===== *)
theory Pipeline
  imports Lang
begin

text \<open>
  \<^verbatim>\<open>api/v1alpha1\<close>: the \<open>CyndiPipeline\<close> resource (\<^verbatim>\<open>cyndipipeline_types.go\<close>), its state
  machine and the names derived from a pipeline version (\<^verbatim>\<open>state.go\<close>, \<^verbatim>\<open>utils.go\<close>), and
  \<open>AppDbSecretName\<close> of \<^verbatim>\<open>controllers/utils/misc.go\<close>.

  The functions on status conditions belong to the API machinery: they are the parameter
  \<open>meta_api\<close>, and the locale \<open>status_conditions\<close> states what their documentation promises.
  \<open>SetStatusCondition\<close> reads the clock; the reading is its first argument.
\<close>

section \<open>The resource\<close>

datatype ConditionStatus = ConditionTrue | ConditionFalse | ConditionUnknown

record Condition =
  cond_Type :: string
  cond_Status :: ConditionStatus
  cond_ObservedGeneration :: int
  cond_LastTransitionTime :: string
  cond_Reason :: string
  cond_Message :: string

record CyndiPipelineSpec =
  AppName :: string
  InsightsOnly :: bool
  AdditionalFilters :: "strmap list"
  ConnectCluster :: "string option"
  MaxAge :: "int option"
  ValidationThreshold :: "int option"
  Topic :: "string option"
  DbSecret :: "string option"
  InventoryDbSecret :: "string option"
  DBTableIndexSQL :: string
  Refresh :: string
  ManagedConnectors :: "bool option"
  ConnectorPaused :: bool

record CyndiPipelineStatus =
  ValidationFailedCount :: int
  PipelineVersion :: string
  status_ConnectorName :: string
  status_TableName :: string
  CyndiConfigVersion :: string
  status_SpecHash :: string
  InitialSyncInProgress :: bool
  ActiveTableName :: string
  Conditions :: "Condition list"
  HostCount :: int

text \<open>The part of the object metadata the operator reads or writes.\<close>

record ObjectMeta =
  meta_Name :: string
  meta_Namespace :: string
  meta_UID :: string
  meta_Generation :: int
  meta_ResourceVersion :: string
  meta_DeletionTimestamp :: "string option"
  meta_Finalizers :: "string list"

record CyndiPipeline =
  Meta :: ObjectMeta
  Spec :: CyndiPipelineSpec
  Status :: CyndiPipelineStatus

text \<open>The zero values of the Go structs.\<close>

definition zero_Status :: CyndiPipelineStatus where
  "zero_Status = \<lparr>ValidationFailedCount = 0, PipelineVersion = '''', status_ConnectorName = '''',
     status_TableName = '''', CyndiConfigVersion = '''', status_SpecHash = '''',
     InitialSyncInProgress = False, ActiveTableName = '''', Conditions = [], HostCount = 0\<rparr>"

definition DataSpec :: "CyndiPipelineSpec \<Rightarrow> CyndiPipelineSpec" where
  "DataSpec s = s\<lparr>ManagedConnectors := None, ConnectorPaused := False, Refresh := ''''\<rparr>"

definition GetUIDString :: "CyndiPipeline \<Rightarrow> string" where
  "GetUIDString inst = meta_UID (Meta inst)"

definition AppDbSecretName :: "CyndiPipelineSpec \<Rightarrow> string" where
  "AppDbSecretName spec =
     (case DbSecret spec of
        Some s \<Rightarrow> s
      | None \<Rightarrow> AppDefaultDbSecretName (AppName spec))"

section \<open>Status conditions: the interface\<close>

record meta_api =
  SetStatusCondition :: "string \<Rightarrow> Condition list \<Rightarrow> Condition \<Rightarrow> Condition list"
  FindStatusCondition :: "Condition list \<Rightarrow> string \<Rightarrow> Condition option"
  IsStatusConditionPresentAndEqual :: "Condition list \<Rightarrow> string \<Rightarrow> ConditionStatus \<Rightarrow> bool"

section \<open>The state machine\<close>

datatype PipelineState =
    STATE_NEW | STATE_INITIAL_SYNC | STATE_VALID | STATE_INVALID | STATE_REMOVED | STATE_UNKNOWN

definition state_name :: "PipelineState \<Rightarrow> string" where
  "state_name s =
     (case s of
        STATE_NEW \<Rightarrow> ''NEW''
      | STATE_INITIAL_SYNC \<Rightarrow> ''INITIAL_SYNC''
      | STATE_VALID \<Rightarrow> ''VALID''
      | STATE_INVALID \<Rightarrow> ''INVALID''
      | STATE_REMOVED \<Rightarrow> ''REMOVED''
      | STATE_UNKNOWN \<Rightarrow> ''UNKNOWN'')"

definition tablePrefix :: string where
  "tablePrefix = ''hosts_v''"

definition validConditionType :: string where
  "validConditionType = ''Valid''"

definition IsValid :: "meta_api \<Rightarrow> CyndiPipeline \<Rightarrow> bool" where
  "IsValid M inst =
     IsStatusConditionPresentAndEqual M (Conditions (Status inst)) validConditionType ConditionTrue"

definition GetValid :: "meta_api \<Rightarrow> CyndiPipeline \<Rightarrow> ConditionStatus" where
  "GetValid M inst =
     (case FindStatusCondition M (Conditions (Status inst)) validConditionType of
        None \<Rightarrow> ConditionUnknown
      | Some condition \<Rightarrow> cond_Status condition)"

definition GetState :: "meta_api \<Rightarrow> CyndiPipeline \<Rightarrow> PipelineState" where
  "GetState M inst =
     (if meta_DeletionTimestamp (Meta inst) \<noteq> None then STATE_REMOVED
      else if PipelineVersion (Status inst) = '''' then STATE_NEW
      else if IsValid M inst then STATE_VALID
      else if InitialSyncInProgress (Status inst) then STATE_INITIAL_SYNC
      else if GetValid M inst = ConditionFalse then STATE_INVALID
      else STATE_UNKNOWN)"

definition ConnectorsManaged :: "CyndiPipeline \<Rightarrow> bool" where
  "ConnectorsManaged inst =
     (case ManagedConnectors (Spec inst) of None \<Rightarrow> True | Some b \<Rightarrow> b)"

definition TableName :: "string \<Rightarrow> string" where
  "TableName pipelineVersion = tablePrefix @ pipelineVersion"

definition ConnectorName :: "string \<Rightarrow> string \<Rightarrow> string" where
  "ConnectorName pipelineVersion appName =
     ''cyndi-'' @ appName @ ''-'' @ replace_first (CHR ''_'') (CHR ''-'') pipelineVersion"

text \<open>The slice expression panics when the name is shorter than the prefix.\<close>

definition TableNameToConnectorName :: "string \<Rightarrow> string \<Rightarrow> string outcome" where
  "TableNameToConnectorName tableName appName =
     (if length tableName < length tablePrefix then Panics
      else Returns (ConnectorName (drop (length tablePrefix) tableName) appName))"

definition SetValid :: "meta_api \<Rightarrow> string \<Rightarrow> ConditionStatus \<Rightarrow> string \<Rightarrow> string \<Rightarrow> int \<Rightarrow>
    CyndiPipeline \<Rightarrow> CyndiPipeline" where
  "SetValid M now status reason message hostCount inst =
     (let st = Status inst;
          st1 = st\<lparr>Conditions := SetStatusCondition M now (Conditions st)
                   \<lparr>cond_Type = validConditionType, cond_Status = status,
                    cond_ObservedGeneration = 0, cond_LastTransitionTime = '''',
                    cond_Reason = reason, cond_Message = message\<rparr>,
                   HostCount := hostCount\<rparr>
      in inst\<lparr>Status :=
           (case status of
              ConditionFalse \<Rightarrow>
                st1\<lparr>ValidationFailedCount := wrap64 (ValidationFailedCount st1 + 1)\<rparr>
            | ConditionUnknown \<Rightarrow> st1\<lparr>ValidationFailedCount := 0\<rparr>
            | ConditionTrue \<Rightarrow> st1\<lparr>ValidationFailedCount := 0, InitialSyncInProgress := False\<rparr>)\<rparr>)"

definition ResetValid :: "meta_api \<Rightarrow> string \<Rightarrow> CyndiPipeline \<Rightarrow> CyndiPipeline" where
  "ResetValid M now inst =
     SetValid M now ConditionUnknown ''New'' ''Validation not yet run'' (-1) inst"

text \<open>
  \<open>assertState\<close> evaluates \<open>GetState\<close> once per candidate; \<open>None\<close> is the \<open>nil\<close> error.
\<close>

fun assertState :: "meta_api \<Rightarrow> CyndiPipeline \<Rightarrow> PipelineState \<Rightarrow> PipelineState list \<Rightarrow> gerror option"
where
  "assertState M inst targetState [] =
     Some (errors_New (''Attempted invalid state transition from '' @ state_name (GetState M inst) @
       '' to '' @ state_name targetState))"
| "assertState M inst targetState (state # validStates) =
     (if GetState M inst = state then None else assertState M inst targetState validStates)"

definition TransitionToNew :: "meta_api \<Rightarrow> string \<Rightarrow> CyndiPipeline \<Rightarrow> CyndiPipeline" where
  "TransitionToNew M now inst =
     (let inst1 = ResetValid M now inst
      in inst1\<lparr>Status := (Status inst1)\<lparr>InitialSyncInProgress := False, PipelineVersion := ''''\<rparr>\<rparr>)"

definition TransitionToInitialSync ::
  "meta_api \<Rightarrow> string \<Rightarrow> string \<Rightarrow> CyndiPipeline \<Rightarrow> gerror + CyndiPipeline" where
  "TransitionToInitialSync M now pipelineVersion inst =
     (case assertState M inst STATE_INITIAL_SYNC [STATE_INITIAL_SYNC, STATE_NEW] of
        Some err \<Rightarrow> Inl err
      | None \<Rightarrow>
          let inst1 = ResetValid M now inst;
              st = (Status inst1)\<lparr>InitialSyncInProgress := True, PipelineVersion := pipelineVersion\<rparr>;
              st1 = (if ConnectorsManaged inst1 then
                       st\<lparr>status_TableName := TableName pipelineVersion,
                          status_ConnectorName := ConnectorName pipelineVersion (AppName (Spec inst1))\<rparr>
                     else if status_TableName st = '''' then
                       st\<lparr>status_TableName := TableName pipelineVersion\<rparr>
                     else st)
          in Inr (inst1\<lparr>Status := st1\<rparr>))"

section \<open>Names\<close>

lemma TableName_inject [simp]: "TableName v = TableName v' \<longleftrightarrow> v = v'"
  by (simp add: TableName_def)

lemma TableNameToConnectorName_TableName [simp]:
  "TableNameToConnectorName (TableName v) app = Returns (ConnectorName v app)"
  by (simp add: TableNameToConnectorName_def TableName_def)

text \<open>The version string the pipeline controller makes from a clock reading.\<close>

definition version_of_nanos :: "int \<Rightarrow> string" where
  "version_of_nanos nanos = ''1_'' @ FormatInt nanos"

lemma FormatInt_inject [simp]: "FormatInt a = FormatInt b \<longleftrightarrow> a = b"
proof
  have minus: "CHR ''-'' # s \<noteq> format_nat n" for s n
    using format_nat_Cons [of n] digit_not_sign by fastforce
  assume "FormatInt a = FormatInt b"
  then show "a = b"
    using minus minus [symmetric] by (auto simp: FormatInt_def split: if_splits)
qed simp

lemma version_nonempty [simp]: "version_of_nanos n \<noteq> ''''"
  by (simp add: version_of_nanos_def)

lemma ConnectorName_version:
  "ConnectorName (version_of_nanos n) app = ''cyndi-'' @ app @ ''-1-'' @ FormatInt n"
  by (simp add: ConnectorName_def version_of_nanos_def)

text \<open>
  the connector derived from a table name is the connector of the version the table was
  made for, and connectors and tables of different versions (clock readings) differ: the
  names identify the version.
\<close>

theorem names_identify_version:
  "TableNameToConnectorName (TableName (version_of_nanos n)) app =
     Returns (ConnectorName (version_of_nanos n) app) \<and>
   (ConnectorName (version_of_nanos n) app = ConnectorName (version_of_nanos m) app \<longleftrightarrow> n = m) \<and>
   (TableName (version_of_nanos n) = TableName (version_of_nanos m) \<longleftrightarrow> n = m)"
  by (simp add: ConnectorName_version) (simp add: version_of_nanos_def)

section \<open>Frame facts\<close>

lemma SetValid_frame [simp]:
  "Meta (SetValid M t s r m h inst) = Meta inst"
  "Spec (SetValid M t s r m h inst) = Spec inst"
  "PipelineVersion (Status (SetValid M t s r m h inst)) = PipelineVersion (Status inst)"
  "status_TableName (Status (SetValid M t s r m h inst)) = status_TableName (Status inst)"
  "status_ConnectorName (Status (SetValid M t s r m h inst)) = status_ConnectorName (Status inst)"
  "ActiveTableName (Status (SetValid M t s r m h inst)) = ActiveTableName (Status inst)"
  "CyndiConfigVersion (Status (SetValid M t s r m h inst)) = CyndiConfigVersion (Status inst)"
  "status_SpecHash (Status (SetValid M t s r m h inst)) = status_SpecHash (Status inst)"
  "HostCount (Status (SetValid M t s r m h inst)) = h"
  "InitialSyncInProgress (Status (SetValid M t s r m h inst)) \<longleftrightarrow>
     s \<noteq> ConditionTrue \<and> InitialSyncInProgress (Status inst)"
  "ValidationFailedCount (Status (SetValid M t s r m h inst)) =
     (if s = ConditionFalse then wrap64 (ValidationFailedCount (Status inst) + 1) else 0)"
  by (simp_all add: SetValid_def Let_def split: ConditionStatus.split)

lemma TransitionToNew_frame [simp]:
  "Meta (TransitionToNew M t inst) = Meta inst"
  "Spec (TransitionToNew M t inst) = Spec inst"
  "PipelineVersion (Status (TransitionToNew M t inst)) = ''''"
  "status_TableName (Status (TransitionToNew M t inst)) = status_TableName (Status inst)"
  "status_ConnectorName (Status (TransitionToNew M t inst)) = status_ConnectorName (Status inst)"
  "\<not> InitialSyncInProgress (Status (TransitionToNew M t inst))"
  "ValidationFailedCount (Status (TransitionToNew M t inst)) = 0"
  "Conditions (Status (TransitionToNew M t inst)) = Conditions (Status (ResetValid M t inst))"
  by (simp_all add: TransitionToNew_def ResetValid_def Let_def)

lemma assertState_None_iff: "assertState M inst s ss = None \<longleftrightarrow> GetState M inst \<in> set ss"
  by (induction M inst s ss rule: assertState.induct) auto

lemma GetState_new_iff:
  "GetState M p = STATE_NEW \<longleftrightarrow> meta_DeletionTimestamp (Meta p) = None \<and> PipelineVersion (Status p) = ''''"
  by (auto simp: GetState_def)

lemma TransitionToInitialSync_cases:
  assumes "TransitionToInitialSync M t v inst = Inr inst'"
  shows "GetState M inst \<in> {STATE_INITIAL_SYNC, STATE_NEW}"
    and "Meta inst' = Meta inst" and "Spec inst' = Spec inst"
    and "PipelineVersion (Status inst') = v" and "InitialSyncInProgress (Status inst')"
    and "ValidationFailedCount (Status inst') = 0"
    and "Conditions (Status inst') = Conditions (Status (ResetValid M t inst))"
    and "status_TableName (Status inst') =
      (if ConnectorsManaged inst \<or> status_TableName (Status inst) = '''' then TableName v
       else status_TableName (Status inst))"
    and "status_ConnectorName (Status inst') =
      (if ConnectorsManaged inst then ConnectorName v (AppName (Spec inst))
       else status_ConnectorName (Status inst))"
  using assms
  by (auto simp: TransitionToInitialSync_def ResetValid_def ConnectorsManaged_def Let_def
        assertState_None_iff split: option.splits if_splits)

lemma TransitionToInitialSync_iff:
  "(\<exists>inst'. TransitionToInitialSync M t v inst = Inr inst') \<longleftrightarrow>
     GetState M inst \<in> {STATE_INITIAL_SYNC, STATE_NEW}"
  using assertState_None_iff [of M inst STATE_INITIAL_SYNC "[STATE_INITIAL_SYNC, STATE_NEW]"]
  by (auto simp: TransitionToInitialSync_def Let_def split: option.split)

text \<open>A pipeline as it is created, used in concrete runs.\<close>

definition new_pipeline :: CyndiPipeline where
  "new_pipeline = \<lparr>Meta = \<lparr>meta_Name = ''advisor'', meta_Namespace = ''app'', meta_UID = ''uid'',
       meta_Generation = 1, meta_ResourceVersion = ''1'', meta_DeletionTimestamp = None, meta_Finalizers = []\<rparr>,
     Spec = \<lparr>AppName = ''advisor'', InsightsOnly = False, AdditionalFilters = [], ConnectCluster = None,
       MaxAge = None, ValidationThreshold = None, Topic = None, DbSecret = None, InventoryDbSecret = None,
       DBTableIndexSQL = '''', Refresh = '''', ManagedConnectors = None, ConnectorPaused = False\<rparr>,
     Status = zero_Status\<rparr>"

end
