(* ===== verification/Hashing.thy ===== *)
theory Hashing
  imports Pipeline
begin

text \<open>
  \<open>ConfigMapHash\<close> and \<open>SpecHash\<close> of \<^verbatim>\<open>controllers/utils/k8s.go\<close>, with what they use of
  the standard library: \<^verbatim>\<open>encoding/json\<close> for a string map (keys sorted) and for the
  specification struct (field order, \<open>omitempty\<close>), and the 32-bit FNV-1a hash of
  \<^verbatim>\<open>hash/fnv\<close>.
\<close>

unbundle bit_operations_syntax

section \<open>JSON encoding\<close>

definition hex_digit :: "nat \<Rightarrow> char" where
  "hex_digit n = ''0123456789abcdef'' ! n"

text \<open>
  \<open>utf8.DecodeRune\<close>, as far as the encoder needs it: the length of the valid multi-byte
  sequence a string starts with, or 1 when there is none.
\<close>

definition is_cont :: "nat \<Rightarrow> nat \<Rightarrow> string \<Rightarrow> bool" where
  "is_cont lo hi s = (case s of [] \<Rightarrow> False | c # _ \<Rightarrow> lo \<le> of_char c \<and> of_char c \<le> hi)"

definition rune_len :: "string \<Rightarrow> nat" where
  "rune_len s =
     (case s of
        [] \<Rightarrow> 1
      | c # r \<Rightarrow>
        let b = of_char c :: nat;
            c1 = is_cont 128 191 (drop 1 r); c2 = is_cont 128 191 (drop 2 r)
        in if 194 \<le> b \<and> b \<le> 223 \<and> is_cont 128 191 r then 2
           else if 224 \<le> b \<and> b \<le> 239 \<and>
             is_cont (if b = 224 then 160 else 128) (if b = 237 then 159 else 191) r \<and> c1 then 3
           else if 240 \<le> b \<and> b \<le> 244 \<and>
             is_cont (if b = 240 then 144 else 128) (if b = 244 then 143 else 191) r \<and> c1 \<and> c2 then 4
           else 1)"

text \<open>One ASCII byte inside a JSON string, HTML escaping on (as \<open>json.Marshal\<close> has it).\<close>

definition escape_ascii :: "char \<Rightarrow> string" where
  "escape_ascii c =
     (let b = of_char c :: nat in
      if c = CHR 0x22 \<or> c = CHR 0x5C then [CHR 0x5C, c]
      else if b = 8 then [CHR 0x5C, CHR ''b'']
      else if b = 12 then [CHR 0x5C, CHR ''f'']
      else if b = 10 then [CHR 0x5C, CHR ''n'']
      else if b = 13 then [CHR 0x5C, CHR ''r'']
      else if b = 9 then [CHR 0x5C, CHR ''t'']
      else if b < 32 \<or> c = CHR ''<'' \<or> c = CHR ''>'' \<or> c = CHR ''&'' then
        CHR 0x5C # ''u00'' @ [hex_digit (b div 16), hex_digit (b mod 16)]
      else [c])"

function escape :: "string \<Rightarrow> string" where
  "escape [] = []"
| "escape (c # s) =
     (if (of_char c :: nat) < 128 then escape_ascii c @ escape s
      else let n = rune_len (c # s) in
        (if n = 1 then CHR 0x5C # ''ufffd''
         else if take 3 (c # s) = [CHR 0xE2, CHR 0x80, CHR 0xA8] then CHR 0x5C # ''u2028''
         else if take 3 (c # s) = [CHR 0xE2, CHR 0x80, CHR 0xA9] then CHR 0x5C # ''u2029''
         else take n (c # s)) @ escape (drop (n - 1) s))"
  by pat_completeness auto
termination
  by (relation "measure length") auto

definition json_string :: "string \<Rightarrow> string" where
  "json_string s = CHR 0x22 # escape s @ [CHR 0x22]"

definition json_member :: "string \<Rightarrow> string \<Rightarrow> string" where
  "json_member k v = json_string k @ '':'' @ v"

definition json_object :: "string list \<Rightarrow> string" where
  "json_object members = ''{'' @ str_join '','' members @ ''}''"

definition json_map :: "strmap \<Rightarrow> string" where
  "json_map m =
     json_object (map (\<lambda>k. json_member k (json_string (case fmlookup m k of None \<Rightarrow> '''' | Some v \<Rightarrow> v)))
       (sorted_list_of_fset (fmdom m)))"

definition json_array :: "string list \<Rightarrow> string" where
  "json_array items = ''['' @ str_join '','' items @ '']''"

text \<open>
  The fields of the specification in declaration order, under their JSON names. A pointer
  field with \<open>omitempty\<close> is left out when \<open>nil\<close>, a slice or a string when empty, a
  \<open>bool\<close> when false.
\<close>

definition opt_member :: "string \<Rightarrow> ('a \<Rightarrow> string) \<Rightarrow> 'a option \<Rightarrow> string list" where
  "opt_member k f x = (case x of None \<Rightarrow> [] | Some v \<Rightarrow> [json_member k (f v)])"

definition nonempty :: "'a list \<Rightarrow> 'a list option" where
  "nonempty xs = (if xs = [] then None else Some xs)"

definition json_spec :: "CyndiPipelineSpec \<Rightarrow> string" where
  "json_spec s = json_object (
     [json_member ''appName'' (json_string (AppName s)),
      json_member ''insightsOnly'' (FormatBool (InsightsOnly s))] @
     opt_member ''additionalFilters'' (\<lambda>fs. json_array (map json_map fs)) (nonempty (AdditionalFilters s)) @
     opt_member ''connectCluster'' json_string (ConnectCluster s) @
     opt_member ''maxAge'' FormatInt (MaxAge s) @
     opt_member ''validationThreshold'' FormatInt (ValidationThreshold s) @
     opt_member ''topic'' json_string (Topic s) @
     opt_member ''dbSecret'' json_string (DbSecret s) @
     opt_member ''inventoryDbSecret'' json_string (InventoryDbSecret s) @
     opt_member ''dbTableIndexSQL'' json_string (nonempty (DBTableIndexSQL s)) @
     opt_member ''refresh'' json_string (nonempty (Refresh s)) @
     opt_member ''managedConnectors'' FormatBool (ManagedConnectors s) @
     opt_member ''connectorPaused'' FormatBool (if ConnectorPaused s then Some True else None))"

section \<open>The hash functions\<close>

text \<open>\<open>fnv.New32a\<close> and \<open>Write\<close>: for every byte, exclusive or, then multiply.\<close>

fun fnv32a_write :: "32 word \<Rightarrow> string \<Rightarrow> 32 word" where
  "fnv32a_write h [] = h"
| "fnv32a_write h (c # s) = fnv32a_write ((h XOR of_nat (of_char c)) * 16777619) s"

definition fnv32a :: "string \<Rightarrow> string" where
  "fnv32a s = format_nat (unat (fnv32a_write 2166136261 s))"

text \<open>Marshalling a string map cannot fail, so the branch that returns \<open>"-2"\<close> is not taken.\<close>

definition ConfigMapHash :: "strmap \<Rightarrow> string list \<Rightarrow> string" where
  "ConfigMapHash cm ignoredKeys =
     (if fmdom cm = {||} then ''-1'' else fnv32a (json_map (Omit cm ignoredKeys)))"

text \<open>Neither marshalling the struct nor writing to the hash can fail.\<close>

definition SpecHash :: "CyndiPipelineSpec \<Rightarrow> gerror + string" where
  "SpecHash spec = Inr (fnv32a (json_spec spec))"

section \<open>What the hashes depend on\<close>

lemma ConfigMapHash_Omit_eq:
  "fmdom m \<noteq> {||} \<Longrightarrow> fmdom m' \<noteq> {||} \<Longrightarrow> Omit m keys = Omit m' keys \<Longrightarrow>
   ConfigMapHash m keys = ConfigMapHash m' keys"
  by (simp add: ConfigMapHash_def)

lemma DataSpec_ignores:
  "DataSpec (s\<lparr>ManagedConnectors := a, ConnectorPaused := b, Refresh := c\<rparr>) = DataSpec s"
  by (simp add: DataSpec_def)

section \<open>Evaluation in binary arithmetic\<close>

text \<open>
  The same functions on \<open>int\<close>, for evaluating hashes of concrete values: naturals are
  evaluated in unary notation, which is out of the question for 32-bit numbers.
\<close>

function format_pos :: "int \<Rightarrow> string" where
  "format_pos x = (if x < 10 then [digit (nat x)] else format_pos (x div 10) @ [digit (nat (x mod 10))])"
  by pat_completeness auto
termination
  by (relation "measure nat") auto

declare format_pos.simps [simp del]

lemma format_pos: "0 \<le> x \<Longrightarrow> format_pos x = format_nat (nat x)"
proof (induction x rule: format_pos.induct)
  case (1 x)
  then show ?case
    by (subst format_pos.simps, subst format_nat.simps) (auto simp: nat_div_distrib nat_mod_distrib)
qed

lemma FormatInt_code [code]:
  "FormatInt x = (if x < 0 then CHR ''-'' # format_pos (- x) else format_pos x)"
  by (simp add: FormatInt_def format_pos)

fun fnv32a_int :: "int \<Rightarrow> string \<Rightarrow> int" where
  "fnv32a_int h [] = h"
| "fnv32a_int h (c # s) = fnv32a_int (take_bit 32 ((h XOR of_char c) * 16777619)) s"

lemma uint_fnv32a_write: "uint (fnv32a_write h s) = fnv32a_int (uint h) s"
proof (induction h s rule: fnv32a_write.induct)
  case (2 h c s)
  have "(of_char c :: nat) < 256" by simp
  moreover have "(256 :: nat) \<le> 2 ^ 32" by simp
  ultimately have "(of_char c :: nat) < 2 ^ 32" by (rule less_le_trans)
  then have "uint (of_nat (of_char c) :: 32 word) = of_char c"
    by (subst unsigned_of_nat) (simp add: take_bit_nat_eq_self of_nat_of_char)
  with 2 show ?case
    by (simp add: uint_word_ariths unsigned_xor_eq take_bit_eq_mod)
qed simp

lemma fnv32a_code [code]: "fnv32a s = format_pos (fnv32a_int 2166136261 s)"
proof -
  have "fnv32a_int 2166136261 s = uint (fnv32a_write 2166136261 s)"
    using uint_fnv32a_write [of 2166136261 s] by simp
  then show ?thesis by (simp only: fnv32a_def) (simp add: format_pos)
qed

text \<open>The value the repository's own test expects for this map.\<close>

lemma ConfigMapHash_sample:
  "ConfigMapHash (fmap_of_list [(''connect.cluster'', ''cluster01'')]) [] = ''1480767004''"
  by code_simp

end
