(* ===== verification/Defaults.thy ===== *)
theory Defaults
  imports Prelude
begin

text \<open>
  The text constants of \<^verbatim>\<open>controllers/config/defaults.go\<close>: the template of the
  connector configuration, the script that creates a table and the statements that create
  its indexes, line by line. Quotes, tabs and backslashes are written as character codes.
\<close>

definition text_lines :: "string list \<Rightarrow> string" where
  "text_lines = str_join [CHR 0x0A]"

definition defaultConnectorTemplate :: string where
  "defaultConnectorTemplate = text_lines
    [''{'',
     [CHR 0x09, CHR 0x22] @ ''connector.class'' @ [CHR 0x22] @ '': '' @ [CHR 0x22] @ ''io.confluent.connect.jdbc.JdbcSinkConnector'' @ [CHR 0x22] @ '','',
     [CHR 0x09, CHR 0x22] @ ''tasks.max'' @ [CHR 0x22] @ '': '' @ [CHR 0x22] @ ''{{.TasksMax}}'' @ [CHR 0x22] @ '','',
     [CHR 0x09, CHR 0x22] @ ''topics'' @ [CHR 0x22] @ '': '' @ [CHR 0x22] @ ''{{.Topic}}'' @ [CHR 0x22] @ '','',
     [CHR 0x09, CHR 0x22] @ ''key.converter'' @ [CHR 0x22] @ '': '' @ [CHR 0x22] @ ''org.apache.kafka.connect.storage.StringConverter'' @ [CHR 0x22] @ '','',
     [CHR 0x09, CHR 0x22] @ ''value.converter'' @ [CHR 0x22] @ '': '' @ [CHR 0x22] @ ''org.apache.kafka.connect.json.JsonConverter'' @ [CHR 0x22] @ '','',
     [CHR 0x09, CHR 0x22] @ ''value.converter.schemas.enable'' @ [CHR 0x22] @ '': false,'',
     [CHR 0x09, CHR 0x22] @ ''connection.url'' @ [CHR 0x22] @ '': '' @ [CHR 0x22] @ ''jdbc:postgresql://{{.DBHostname}}:{{.DBPort}}/{{.DBName}}?sslmode={{.SSLMode}}&sslrootcert={{.SSLRootCert}}'' @ [CHR 0x22] @ '','',
     [CHR 0x09, CHR 0x22] @ ''connection.user'' @ [CHR 0x22] @ '': '' @ [CHR 0x22] @ ''{{.DBUser}}'' @ [CHR 0x22] @ '','',
     [CHR 0x09, CHR 0x22] @ ''connection.password'' @ [CHR 0x22] @ '': '' @ [CHR 0x22] @ ''{{.DBPassword}}'' @ [CHR 0x22] @ '','',
     [CHR 0x09, CHR 0x22] @ ''dialect.name'' @ [CHR 0x22] @ '': '' @ [CHR 0x22] @ ''EnhancedPostgreSqlDatabaseDialect'' @ [CHR 0x22] @ '','',
     [CHR 0x09, CHR 0x22] @ ''auto.create'' @ [CHR 0x22] @ '': false,'',
     [CHR 0x09, CHR 0x22] @ ''insert.mode'' @ [CHR 0x22] @ '': '' @ [CHR 0x22] @ ''upsert'' @ [CHR 0x22] @ '','',
     [CHR 0x09, CHR 0x22] @ ''delete.enabled'' @ [CHR 0x22] @ '': true,'',
     [CHR 0x09, CHR 0x22] @ ''batch.size'' @ [CHR 0x22] @ '': '' @ [CHR 0x22] @ ''{{.BatchSize}}'' @ [CHR 0x22] @ '','',
     [CHR 0x09, CHR 0x22] @ ''table.name.format'' @ [CHR 0x22] @ '': '' @ [CHR 0x22] @ ''inventory.{{.TableName}}'' @ [CHR 0x22] @ '','',
     [CHR 0x09, CHR 0x22] @ ''pk.mode'' @ [CHR 0x22] @ '': '' @ [CHR 0x22] @ ''record_key'' @ [CHR 0x22] @ '','',
     [CHR 0x09, CHR 0x22] @ ''pk.fields'' @ [CHR 0x22] @ '': '' @ [CHR 0x22] @ ''id'' @ [CHR 0x22] @ '','',
     [CHR 0x09, CHR 0x22] @ ''fields.whitelist'' @ [CHR 0x22] @ '': '' @ [CHR 0x22] @ ''account,org_id,display_name,tags,updated,created,last_check_in,stale_timestamp,system_profile,insights_id,reporter,per_reporter_staleness,groups'' @ [CHR 0x22] @ '','',
     '''',
     [CHR 0x09] @ ''{{ range $element := .AdditionalFilters }}'',
     [CHR 0x09] @ ''{{ range $key, $value := $element }}'',
     [CHR 0x09] @ ''{{ if and (ne $key '' @ [CHR 0x22] @ ''name'' @ [CHR 0x22] @ '') (ne $key '' @ [CHR 0x22] @ ''where'' @ [CHR 0x22] @ '') }}'',
     [CHR 0x09, CHR 0x22] @ ''transforms.{{ $element.name }}.{{ $key }}'' @ [CHR 0x22] @ '':'' @ [CHR 0x22] @ ''{{ $value }}'' @ [CHR 0x22] @ '','',
     [CHR 0x09] @ ''{{ end }}'',
     [CHR 0x09] @ ''{{ end }}'',
     [CHR 0x09] @ ''{{ end }}'',
     '''',
     [CHR 0x09] @ ''{{ if eq .InsightsOnly '' @ [CHR 0x22] @ ''true'' @ [CHR 0x22] @ '' }}'',
     [CHR 0x09, CHR 0x22] @ ''transforms'' @ [CHR 0x22] @ '': '' @ [CHR 0x22] @ ''timestampFilter,insightsFilter,{{ range $element := .AdditionalFilters }}{{ $element.name }},{{ end }}deleteToTombstone,extractHost,systemProfileFilter,systemProfileToJson,tagsToJson,perReporterStalenessToJson,groupsToJson,injectSchemaKey,injectSchemaValue'' @ [CHR 0x22] @ '','',
     [CHR 0x09, CHR 0x22] @ ''transforms.insightsFilter.type'' @ [CHR 0x22] @ '':'' @ [CHR 0x22] @ ''com.redhat.insights.kafka.connect.transforms.Filter'' @ [CHR 0x22] @ '','',
     [CHR 0x09, CHR 0x22] @ ''transforms.insightsFilter.if'' @ [CHR 0x22] @ '': '' @ [CHR 0x22] @ ''record.headers().lastWithName('' @ [CHR 0x27] @ ''insights_id'' @ [CHR 0x27] @ '').value() && record.headers().lastWithName('' @ [CHR 0x27] @ ''insights_id'' @ [CHR 0x27] @ '').value() != '' @ [CHR 0x27] @ ''00000000-0000-0000-0000-000000000000'' @ [CHR 0x27, CHR 0x22] @ '','',
     [CHR 0x09] @ ''{{ else  }}'',
     [CHR 0x09, CHR 0x22] @ ''transforms'' @ [CHR 0x22] @ '': '' @ [CHR 0x22] @ ''timestampFilter,{{ range $element := .AdditionalFilters }}{{ $element.name }},{{ end }}deleteToTombstone,extractHost,systemProfileFilter,systemProfileToJson,tagsToJson,perReporterStalenessToJson,groupsToJson,injectSchemaKey,injectSchemaValue'' @ [CHR 0x22] @ '','',
     [CHR 0x09] @ ''{{ end }}'',
     '''',
     [CHR 0x09, CHR 0x22] @ ''transforms.timestampFilter.type'' @ [CHR 0x22] @ '':'' @ [CHR 0x22] @ ''com.redhat.insights.kafka.connect.transforms.Filter'' @ [CHR 0x22] @ '','',
     [CHR 0x09, CHR 0x22] @ ''transforms.timestampFilter.if'' @ [CHR 0x22] @ '': '' @ [CHR 0x22] @ ''(Date.now() - record.timestamp()) < {{.MaxAge}} * 24 * 60 * 60 * 1000'' @ [CHR 0x22] @ '','',
     [CHR 0x09, CHR 0x22] @ ''transforms.deleteToTombstone.type'' @ [CHR 0x22] @ '':'' @ [CHR 0x22] @ ''com.redhat.insights.kafka.connect.transforms.DropIf$Value'' @ [CHR 0x22] @ '','',
     [CHR 0x09, CHR 0x22] @ ''transforms.deleteToTombstone.if'' @ [CHR 0x22] @ '': '' @ [CHR 0x22, CHR 0x27] @ ''delete'' @ [CHR 0x27] @ ''.equals(record.headers().lastWithName('' @ [CHR 0x27] @ ''event_type'' @ [CHR 0x27] @ '').value())'' @ [CHR 0x22] @ '','',
     [CHR 0x09, CHR 0x22] @ ''transforms.extractHost.type'' @ [CHR 0x22] @ '':'' @ [CHR 0x22] @ ''org.apache.kafka.connect.transforms.ExtractField$Value'' @ [CHR 0x22] @ '','',
     [CHR 0x09, CHR 0x22] @ ''transforms.extractHost.field'' @ [CHR 0x22] @ '':'' @ [CHR 0x22] @ ''host'' @ [CHR 0x22] @ '','',
     [CHR 0x09, CHR 0x22] @ ''transforms.systemProfileFilter.type'' @ [CHR 0x22] @ '': '' @ [CHR 0x22] @ ''com.redhat.insights.kafka.connect.transforms.FilterFields$Value'' @ [CHR 0x22] @ '','',
     [CHR 0x09, CHR 0x22] @ ''transforms.systemProfileFilter.field'' @ [CHR 0x22] @ '': '' @ [CHR 0x22] @ ''system_profile'' @ [CHR 0x22] @ '','',
     [CHR 0x09, CHR 0x22] @ ''transforms.systemProfileFilter.allowlist'' @ [CHR 0x22] @ '': '' @ [CHR 0x22] @ ''{{.AllowlistSP}}'' @ [CHR 0x22] @ '','',
     [CHR 0x09, CHR 0x22] @ ''transforms.systemProfileToJson.type'' @ [CHR 0x22] @ '': '' @ [CHR 0x22] @ ''com.redhat.insights.kafka.connect.transforms.FieldToJson$Value'' @ [CHR 0x22] @ '','',
     [CHR 0x09, CHR 0x22] @ ''transforms.systemProfileToJson.originalField'' @ [CHR 0x22] @ '': '' @ [CHR 0x22] @ ''system_profile'' @ [CHR 0x22] @ '','',
     [CHR 0x09, CHR 0x22] @ ''transforms.systemProfileToJson.destinationField'' @ [CHR 0x22] @ '': '' @ [CHR 0x22] @ ''system_profile'' @ [CHR 0x22] @ '','',
     [CHR 0x09, CHR 0x22] @ ''transforms.tagsToJson.type'' @ [CHR 0x22] @ '': '' @ [CHR 0x22] @ ''com.redhat.insights.kafka.connect.transforms.FieldToJson$Value'' @ [CHR 0x22] @ '','',
     [CHR 0x09, CHR 0x22] @ ''transforms.tagsToJson.originalField'' @ [CHR 0x22] @ '': '' @ [CHR 0x22] @ ''tags'' @ [CHR 0x22] @ '','',
     [CHR 0x09, CHR 0x22] @ ''transforms.tagsToJson.destinationField'' @ [CHR 0x22] @ '': '' @ [CHR 0x22] @ ''tags'' @ [CHR 0x22] @ '','',
     [CHR 0x09, CHR 0x22] @ ''transforms.perReporterStalenessToJson.type'' @ [CHR 0x22] @ '': '' @ [CHR 0x22] @ ''com.redhat.insights.kafka.connect.transforms.FieldToJson$Value'' @ [CHR 0x22] @ '','',
     [CHR 0x09, CHR 0x22] @ ''transforms.perReporterStalenessToJson.originalField'' @ [CHR 0x22] @ '': '' @ [CHR 0x22] @ ''per_reporter_staleness'' @ [CHR 0x22] @ '','',
     [CHR 0x09, CHR 0x22] @ ''transforms.perReporterStalenessToJson.destinationField'' @ [CHR 0x22] @ '': '' @ [CHR 0x22] @ ''per_reporter_staleness'' @ [CHR 0x22] @ '','',
     [CHR 0x09, CHR 0x22] @ ''transforms.groupsToJson.type'' @ [CHR 0x22] @ '': '' @ [CHR 0x22] @ ''com.redhat.insights.kafka.connect.transforms.FieldToJson$Value'' @ [CHR 0x22] @ '','',
     [CHR 0x09, CHR 0x22] @ ''transforms.groupsToJson.originalField'' @ [CHR 0x22] @ '': '' @ [CHR 0x22] @ ''groups'' @ [CHR 0x22] @ '','',
     [CHR 0x09, CHR 0x22] @ ''transforms.groupsToJson.destinationField'' @ [CHR 0x22] @ '': '' @ [CHR 0x22] @ ''groups'' @ [CHR 0x22] @ '','',
     [CHR 0x09, CHR 0x22] @ ''transforms.injectSchemaKey.type'' @ [CHR 0x22] @ '': '' @ [CHR 0x22] @ ''com.redhat.insights.kafka.connect.transforms.InjectSchema$Key'' @ [CHR 0x22] @ '','',
     [CHR 0x09, CHR 0x22] @ ''transforms.injectSchemaKey.schema'' @ [CHR 0x22] @ '': '' @ [CHR 0x22] @ ''{'' @ [CHR 0x5C, CHR 0x22] @ ''type'' @ [CHR 0x5C, CHR 0x22] @ '':'' @ [CHR 0x5C, CHR 0x22] @ ''string'' @ [CHR 0x5C, CHR 0x22] @ '','' @ [CHR 0x5C, CHR 0x22] @ ''optional'' @ [CHR 0x5C, CHR 0x22] @ '':false, '' @ [CHR 0x5C, CHR 0x22] @ ''name'' @ [CHR 0x5C, CHR 0x22] @ '': '' @ [CHR 0x5C, CHR 0x22] @ ''com.redhat.cloud.inventory.syndication.pgtype=uuid'' @ [CHR 0x5C, CHR 0x22] @ ''}'' @ [CHR 0x22] @ '','',
     [CHR 0x09, CHR 0x22] @ ''transforms.injectSchemaValue.type'' @ [CHR 0x22] @ '': '' @ [CHR 0x22] @ ''com.redhat.insights.kafka.connect.transforms.InjectSchema$Value'' @ [CHR 0x22] @ '','',
     [CHR 0x09, CHR 0x22] @ ''transforms.injectSchemaValue.schema'' @ [CHR 0x22] @ '': '' @ [CHR 0x22] @ ''{'' @ [CHR 0x5C, CHR 0x22] @ ''type'' @ [CHR 0x5C, CHR 0x22] @ '':'' @ [CHR 0x5C, CHR 0x22] @ ''struct'' @ [CHR 0x5C, CHR 0x22] @ '','' @ [CHR 0x5C, CHR 0x22] @ ''fields'' @ [CHR 0x5C, CHR 0x22] @ '':[{'' @ [CHR 0x5C, CHR 0x22] @ ''type'' @ [CHR 0x5C, CHR 0x22] @ '':'' @ [CHR 0x5C, CHR 0x22] @ ''string'' @ [CHR 0x5C, CHR 0x22] @ '','' @ [CHR 0x5C, CHR 0x22] @ ''optional'' @ [CHR 0x5C, CHR 0x22] @ '':true,'' @ [CHR 0x5C, CHR 0x22] @ ''field'' @ [CHR 0x5C, CHR 0x22] @ '':'' @ [CHR 0x5C, CHR 0x22] @ ''account'' @ [CHR 0x5C, CHR 0x22] @ ''},{'' @ [CHR 0x5C, CHR 0x22] @ ''type'' @ [CHR 0x5C, CHR 0x22] @ '':'' @ [CHR 0x5C, CHR 0x22] @ ''string'' @ [CHR 0x5C, CHR 0x22] @ '','' @ [CHR 0x5C, CHR 0x22] @ ''optional'' @ [CHR 0x5C, CHR 0x22] @ '':true,'' @ [CHR 0x5C, CHR 0x22] @ ''field'' @ [CHR 0x5C, CHR 0x22] @ '':'' @ [CHR 0x5C, CHR 0x22] @ ''org_id'' @ [CHR 0x5C, CHR 0x22] @ ''},{'' @ [CHR 0x5C, CHR 0x22] @ ''type'' @ [CHR 0x5C, CHR 0x22] @ '':'' @ [CHR 0x5C, CHR 0x22] @ ''string'' @ [CHR 0x5C, CHR 0x22] @ '','' @ [CHR 0x5C, CHR 0x22] @ ''optional'' @ [CHR 0x5C, CHR 0x22] @ '':false,'' @ [CHR 0x5C, CHR 0x22] @ ''field'' @ [CHR 0x5C, CHR 0x22] @ '':'' @ [CHR 0x5C, CHR 0x22] @ ''display_name'' @ [CHR 0x5C, CHR 0x22] @ ''},{'' @ [CHR 0x5C, CHR 0x22] @ ''type'' @ [CHR 0x5C, CHR 0x22] @ '':'' @ [CHR 0x5C, CHR 0x22] @ ''string'' @ [CHR 0x5C, CHR 0x22] @ '','' @ [CHR 0x5C, CHR 0x22] @ ''optional'' @ [CHR 0x5C, CHR 0x22] @ '':false,'' @ [CHR 0x5C, CHR 0x22] @ ''field'' @ [CHR 0x5C, CHR 0x22] @ '':'' @ [CHR 0x5C, CHR 0x22] @ ''tags'' @ [CHR 0x5C, CHR 0x22] @ '', '' @ [CHR 0x5C, CHR 0x22] @ ''name'' @ [CHR 0x5C, CHR 0x22] @ '': '' @ [CHR 0x5C, CHR 0x22] @ ''com.redhat.cloud.inventory.syndication.pgtype=jsonb'' @ [CHR 0x5C, CHR 0x22] @ ''},{'' @ [CHR 0x5C, CHR 0x22] @ ''type'' @ [CHR 0x5C, CHR 0x22] @ '':'' @ [CHR 0x5C, CHR 0x22] @ ''string'' @ [CHR 0x5C, CHR 0x22] @ '','' @ [CHR 0x5C, CHR 0x22] @ ''optional'' @ [CHR 0x5C, CHR 0x22] @ '':false,'' @ [CHR 0x5C, CHR 0x22] @ ''field'' @ [CHR 0x5C, CHR 0x22] @ '':'' @ [CHR 0x5C, CHR 0x22] @ ''updated'' @ [CHR 0x5C, CHR 0x22] @ '', '' @ [CHR 0x5C, CHR 0x22] @ ''name'' @ [CHR 0x5C, CHR 0x22] @ '': '' @ [CHR 0x5C, CHR 0x22] @ ''com.redhat.cloud.inventory.syndication.pgtype=timestamptz'' @ [CHR 0x5C, CHR 0x22] @ ''},{'' @ [CHR 0x5C, CHR 0x22] @ ''type'' @ [CHR 0x5C, CHR 0x22] @ '':'' @ [CHR 0x5C, CHR 0x22] @ ''string'' @ [CHR 0x5C, CHR 0x22] @ '','' @ [CHR 0x5C, CHR 0x22] @ ''optional'' @ [CHR 0x5C, CHR 0x22] @ '':false,'' @ [CHR 0x5C, CHR 0x22] @ ''field'' @ [CHR 0x5C, CHR 0x22] @ '':'' @ [CHR 0x5C, CHR 0x22] @ ''created'' @ [CHR 0x5C, CHR 0x22] @ '', '' @ [CHR 0x5C, CHR 0x22] @ ''name'' @ [CHR 0x5C, CHR 0x22] @ '': '' @ [CHR 0x5C, CHR 0x22] @ ''com.redhat.cloud.inventory.syndication.pgtype=timestamptz'' @ [CHR 0x5C, CHR 0x22] @ ''},{'' @ [CHR 0x5C, CHR 0x22] @ ''type'' @ [CHR 0x5C, CHR 0x22] @ '':'' @ [CHR 0x5C, CHR 0x22] @ ''string'' @ [CHR 0x5C, CHR 0x22] @ '','' @ [CHR 0x5C, CHR 0x22] @ ''optional'' @ [CHR 0x5C, CHR 0x22] @ '':false,'' @ [CHR 0x5C, CHR 0x22] @ ''field'' @ [CHR 0x5C, CHR 0x22] @ '':'' @ [CHR 0x5C, CHR 0x22] @ ''last_check_in'' @ [CHR 0x5C, CHR 0x22] @ '', '' @ [CHR 0x5C, CHR 0x22] @ ''name'' @ [CHR 0x5C, CHR 0x22] @ '': '' @ [CHR 0x5C, CHR 0x22] @ ''com.redhat.cloud.inventory.syndication.pgtype=timestamptz'' @ [CHR 0x5C, CHR 0x22] @ ''},{'' @ [CHR 0x5C, CHR 0x22] @ ''type'' @ [CHR 0x5C, CHR 0x22] @ '':'' @ [CHR 0x5C, CHR 0x22] @ ''string'' @ [CHR 0x5C, CHR 0x22] @ '','' @ [CHR 0x5C, CHR 0x22] @ ''optional'' @ [CHR 0x5C, CHR 0x22] @ '':false,'' @ [CHR 0x5C, CHR 0x22] @ ''field'' @ [CHR 0x5C, CHR 0x22] @ '':'' @ [CHR 0x5C, CHR 0x22] @ ''stale_timestamp'' @ [CHR 0x5C, CHR 0x22] @ '', '' @ [CHR 0x5C, CHR 0x22] @ ''name'' @ [CHR 0x5C, CHR 0x22] @ '': '' @ [CHR 0x5C, CHR 0x22] @ ''com.redhat.cloud.inventory.syndication.pgtype=timestamptz'' @ [CHR 0x5C, CHR 0x22] @ ''},{'' @ [CHR 0x5C, CHR 0x22] @ ''type'' @ [CHR 0x5C, CHR 0x22] @ '':'' @ [CHR 0x5C, CHR 0x22] @ ''string'' @ [CHR 0x5C, CHR 0x22] @ '','' @ [CHR 0x5C, CHR 0x22] @ ''optional'' @ [CHR 0x5C, CHR 0x22] @ '':false,'' @ [CHR 0x5C, CHR 0x22] @ ''field'' @ [CHR 0x5C, CHR 0x22] @ '':'' @ [CHR 0x5C, CHR 0x22] @ ''system_profile'' @ [CHR 0x5C, CHR 0x22] @ '', '' @ [CHR 0x5C, CHR 0x22] @ ''name'' @ [CHR 0x5C, CHR 0x22] @ '': '' @ [CHR 0x5C, CHR 0x22] @ ''com.redhat.cloud.inventory.syndication.pgtype=jsonb'' @ [CHR 0x5C, CHR 0x22] @ ''},{'' @ [CHR 0x5C, CHR 0x22] @ ''type'' @ [CHR 0x5C, CHR 0x22] @ '':'' @ [CHR 0x5C, CHR 0x22] @ ''string'' @ [CHR 0x5C, CHR 0x22] @ '','' @ [CHR 0x5C, CHR 0x22] @ ''optional'' @ [CHR 0x5C, CHR 0x22] @ '':true,'' @ [CHR 0x5C, CHR 0x22] @ ''field'' @ [CHR 0x5C, CHR 0x22] @ '':'' @ [CHR 0x5C, CHR 0x22] @ ''insights_id'' @ [CHR 0x5C, CHR 0x22] @ ''},{'' @ [CHR 0x5C, CHR 0x22] @ ''type'' @ [CHR 0x5C, CHR 0x22] @ '':'' @ [CHR 0x5C, CHR 0x22] @ ''string'' @ [CHR 0x5C, CHR 0x22] @ '','' @ [CHR 0x5C, CHR 0x22] @ ''optional'' @ [CHR 0x5C, CHR 0x22] @ '':false,'' @ [CHR 0x5C, CHR 0x22] @ ''field'' @ [CHR 0x5C, CHR 0x22] @ '':'' @ [CHR 0x5C, CHR 0x22] @ ''reporter'' @ [CHR 0x5C, CHR 0x22] @ ''},{'' @ [CHR 0x5C, CHR 0x22] @ ''type'' @ [CHR 0x5C, CHR 0x22] @ '':'' @ [CHR 0x5C, CHR 0x22] @ ''string'' @ [CHR 0x5C, CHR 0x22] @ '','' @ [CHR 0x5C, CHR 0x22] @ ''optional'' @ [CHR 0x5C, CHR 0x22] @ '':false,'' @ [CHR 0x5C, CHR 0x22] @ ''field'' @ [CHR 0x5C, CHR 0x22] @ '':'' @ [CHR 0x5C, CHR 0x22] @ ''per_reporter_staleness'' @ [CHR 0x5C, CHR 0x22] @ '', '' @ [CHR 0x5C, CHR 0x22] @ ''name'' @ [CHR 0x5C, CHR 0x22] @ '': '' @ [CHR 0x5C, CHR 0x22] @ ''com.redhat.cloud.inventory.syndication.pgtype=jsonb'' @ [CHR 0x5C, CHR 0x22] @ ''},{'' @ [CHR 0x5C, CHR 0x22] @ ''type'' @ [CHR 0x5C, CHR 0x22] @ '':'' @ [CHR 0x5C, CHR 0x22] @ ''string'' @ [CHR 0x5C, CHR 0x22] @ '','' @ [CHR 0x5C, CHR 0x22] @ ''optional'' @ [CHR 0x5C, CHR 0x22] @ '':true,'' @ [CHR 0x5C, CHR 0x22] @ ''field'' @ [CHR 0x5C, CHR 0x22] @ '':'' @ [CHR 0x5C, CHR 0x22] @ ''groups'' @ [CHR 0x5C, CHR 0x22] @ '', '' @ [CHR 0x5C, CHR 0x22] @ ''name'' @ [CHR 0x5C, CHR 0x22] @ '': '' @ [CHR 0x5C, CHR 0x22] @ ''com.redhat.cloud.inventory.syndication.pgtype=jsonb'' @ [CHR 0x5C, CHR 0x22] @ ''}],'' @ [CHR 0x5C, CHR 0x22] @ ''optional'' @ [CHR 0x5C, CHR 0x22] @ '':false}'' @ [CHR 0x22] @ '','',
     '''',
     [CHR 0x09, CHR 0x22] @ ''errors.tolerance'' @ [CHR 0x22] @ '': '' @ [CHR 0x22] @ ''all'' @ [CHR 0x22] @ '','',
     [CHR 0x09, CHR 0x22] @ ''errors.deadletterqueue.topic.name'' @ [CHR 0x22] @ '': '' @ [CHR 0x22] @ ''{{.DeadLetterQueueTopicName}}'' @ [CHR 0x22] @ '','',
     [CHR 0x09, CHR 0x22] @ ''errors.deadletterqueue.topic.replication.factor'' @ [CHR 0x22] @ '': {{.TopicReplicationFactor}},'',
     [CHR 0x09, CHR 0x22] @ ''errors.deadletterqueue.context.headers.enable'' @ [CHR 0x22] @ '':true,'',
     [CHR 0x09, CHR 0x22] @ ''errors.retry.delay.max.ms'' @ [CHR 0x22] @ '': 60000,'',
     [CHR 0x09, CHR 0x22] @ ''errors.retry.timeout'' @ [CHR 0x22] @ '': 600000,'',
     [CHR 0x09, CHR 0x22] @ ''errors.log.enable'' @ [CHR 0x22] @ '':true,'',
     [CHR 0x09, CHR 0x22] @ ''errors.log.include.messages'' @ [CHR 0x22] @ '':true,'',
     '''',
     [CHR 0x09, CHR 0x22] @ ''connection.attempts'' @ [CHR 0x22] @ '': 60,'',
     [CHR 0x09, CHR 0x22] @ ''connection.backoff.ms'' @ [CHR 0x22] @ '': 10000'',
     ''}'']"

definition defaultDBTableInitScript :: string where
  "defaultDBTableInitScript = text_lines
    ['''',
     ''CREATE TABLE inventory.{{.TableName}} ('',
     [CHR 0x09] @ ''id uuid PRIMARY KEY,'',
     [CHR 0x09] @ ''account character varying(10),'',
     [CHR 0x09] @ ''display_name character varying(200) NOT NULL,'',
     [CHR 0x09] @ ''tags jsonb NOT NULL,'',
     [CHR 0x09] @ ''updated timestamp with time zone NOT NULL,'',
     [CHR 0x09] @ ''created timestamp with time zone NOT NULL,'',
     [CHR 0x09] @ ''stale_timestamp timestamp with time zone NOT NULL,'',
     [CHR 0x09] @ ''system_profile jsonb NOT NULL,'',
     [CHR 0x09] @ ''insights_id uuid,'',
     [CHR 0x09] @ ''reporter character varying(255) NOT NULL,'',
     [CHR 0x09] @ ''per_reporter_staleness jsonb NOT NULL,'',
     [CHR 0x09] @ ''org_id character varying(36),'',
     [CHR 0x09] @ ''groups jsonb,'',
     [CHR 0x09] @ ''last_check_in timestamp with time zone NOT NULL'',
     '');'',
     '''']"

definition defaultDBTableIndexSQL :: string where
  "defaultDBTableIndexSQL = text_lines
    ['''',
     ''CREATE INDEX {{.TableName}}_account_index ON inventory.{{.TableName}}'',
     ''(account);'',
     '''',
     ''CREATE INDEX {{.TableName}}_org_id_index ON inventory.{{.TableName}}'',
     ''(org_id);'',
     '''',
     ''CREATE INDEX {{.TableName}}_display_name_index ON inventory.{{.TableName}}'',
     ''(display_name);'',
     '''',
     ''CREATE INDEX {{.TableName}}_tags_index ON inventory.{{.TableName}} USING GIN'',
     ''(tags JSONB_PATH_OPS);'',
     '''',
     ''CREATE INDEX {{.TableName}}_last_check_in_index ON'',
     ''inventory.{{.TableName}} (last_check_in);'',
     '''',
     ''CREATE INDEX {{.TableName}}_stale_timestamp_index ON'',
     ''inventory.{{.TableName}} (stale_timestamp);'',
     '''',
     ''CREATE INDEX {{.TableName}}_system_profile_index ON inventory.{{.TableName}}'',
     ''USING GIN (system_profile JSONB_PATH_OPS);'',
     '''',
     ''CREATE INDEX {{.TableName}}_insights_id_index ON'',
     ''inventory.{{.TableName}} (insights_id);'',
     '''',
     ''CREATE INDEX {{.TableName}}_insights_reporter_index ON'',
     ''inventory.{{.TableName}} (reporter);'',
     '''',
     ''CREATE INDEX {{.TableName}}_per_reporter_staleness_index ON inventory.{{.TableName}}'',
     ''USING GIN (per_reporter_staleness JSONB_PATH_OPS);'',
     '''',
     ''CREATE INDEX {{.TableName}}_org_id_id_index ON inventory.{{.TableName}}'',
     ''(org_id,id);'',
     '''',
     ''CREATE INDEX {{.TableName}}_groups_index ON inventory.{{.TableName}}'',
     ''USING GIN (groups JSONB_PATH_OPS);'',
     '''']"

end
