(* ===== verification/Externals.thy ===== *)
theory Externals
  imports Pipeline
begin

text \<open>
  The code the operator calls and does not contain: the PostgreSQL driver
  (\<^verbatim>\<open>pgx\<close>), the Kubernetes client, the accessors of unstructured objects, the template
  engine, JSON decoding and \<^verbatim>\<open>go-cmp\<close>. Each is a record of functions, a parameter of the
  definitions that use it; the record \<open>env\<close> puts them together. A function that talks to a
  server takes and returns the state \<open>'w\<close> of the outside, of which nothing is assumed.

  The datatype \<open>effect\<close> lists everything the operator does to the outside; every request is
  recorded in the \<open>effects\<close> of the world when it is sent.
\<close>

section \<open>Requests\<close>

text \<open>A connection handle; only its identity matters.\<close>

type_synonym conn = nat

datatype kind = KindPipeline | KindConfigMap | KindSecret | KindConnector

datatype event_type = EventTypeNormal | EventTypeWarning

datatype metric =
    GaugeSet string "string list" rat
  | CounterInc string "string list"
  | WithLabelValues string "string list"

datatype effect =
    PgConnect string
  | PgClose conn
  | PgQuery conn string
  | PgExec conn string
  | KubeGet kind string string
  | KubeList kind string strmap
  | KubeCreate goval
  | KubeUpdate goval
  | KubeDelete kind string string
  | KubeUpdatePipeline CyndiPipeline
  | KubeUpdateStatus CyndiPipeline
  | EventRecorded event_type string string "string list"
  | MetricChanged metric

type_synonym ('w, 'a) eff = "('w, effect, 'a) io"

section \<open>The PostgreSQL driver\<close>

text \<open>
  A row is what \<open>Scan\<close> gives for it, for each destination type the code uses
  (\<open>int64\<close>, \<open>string\<close>, \<open>*string\<close>, \<open>bool\<close>). A result also says what \<open>Scan\<close> gives when
  there is no current row, and the error \<open>Err()\<close> reports after the last row.
\<close>

record Row =
  scan_int64 :: "gerror + int"
  scan_string :: "gerror + string"
  scan_string_ptr :: "gerror + string option"
  scan_bool :: "gerror + bool"

record Rows =
  rows_items :: "Row list"
  rows_scan_none :: "gerror + bool"
  rows_Err :: "gerror option"

record 'w pg_api =
  pgx_Connect :: "string \<Rightarrow> 'w \<Rightarrow> (gerror + conn) \<times> 'w"
  pgx_Query :: "conn \<Rightarrow> string \<Rightarrow> 'w \<Rightarrow> (gerror + Rows) \<times> 'w"
  pgx_Exec :: "conn \<Rightarrow> string \<Rightarrow> 'w \<Rightarrow> gerror option \<times> 'w"
  pgx_Close :: "conn \<Rightarrow> 'w \<Rightarrow> gerror option \<times> 'w"

section \<open>The Kubernetes client\<close>

text \<open>
  \<open>Get\<close>, \<open>List\<close>, \<open>Create\<close>, \<open>Update\<close>, \<open>Delete\<close> per kind of object. The data of a
  ConfigMap may be \<open>nil\<close>. Updates of a pipeline return the object the server stored.
\<close>

record Secret =
  secret_Name :: string
  secret_Data :: strmap

record 'w kube_api =
  kube_get_pipeline :: "string \<Rightarrow> string \<Rightarrow> 'w \<Rightarrow> (gerror + CyndiPipeline) \<times> 'w"
  kube_get_configmap :: "string \<Rightarrow> string \<Rightarrow> 'w \<Rightarrow> (gerror + strmap option) \<times> 'w"
  kube_get_secret :: "string \<Rightarrow> string \<Rightarrow> 'w \<Rightarrow> (gerror + Secret) \<times> 'w"
  kube_get_connector :: "string \<Rightarrow> string \<Rightarrow> 'w \<Rightarrow> (gerror + goval) \<times> 'w"
  kube_list_pipelines :: "'w \<Rightarrow> (gerror + CyndiPipeline list) \<times> 'w"
  kube_list_connectors :: "string \<Rightarrow> strmap \<Rightarrow> 'w \<Rightarrow> (gerror + goval list) \<times> 'w"
  kube_create_connector :: "goval \<Rightarrow> 'w \<Rightarrow> gerror option \<times> 'w"
  kube_update_connector :: "goval \<Rightarrow> 'w \<Rightarrow> gerror option \<times> 'w"
  kube_delete_connector :: "string \<Rightarrow> string \<Rightarrow> 'w \<Rightarrow> gerror option \<times> 'w"
  kube_update_pipeline :: "CyndiPipeline \<Rightarrow> 'w \<Rightarrow> (gerror + CyndiPipeline) \<times> 'w"
  kube_update_status :: "CyndiPipeline \<Rightarrow> 'w \<Rightarrow> (gerror + CyndiPipeline) \<times> 'w"

section \<open>Unstructured objects, templates, comparison\<close>

text \<open>
  \<open>NestedString\<close>, \<open>NestedSlice\<close> and \<open>NestedMap\<close> return a value, whether it was found, and
  an error: \<open>Inl\<close> is the error, \<open>Inr None\<close> not found.
\<close>

record unstructured_api =
  u_GetName :: "goval \<Rightarrow> string"
  u_GetLabels :: "goval \<Rightarrow> strmap"
  u_SetLabels :: "strmap \<Rightarrow> goval \<Rightarrow> goval"
  u_SetGroupVersionKind :: "string \<Rightarrow> string \<Rightarrow> string \<Rightarrow> goval \<Rightarrow> goval"
  u_SetControllerReference :: "CyndiPipeline \<Rightarrow> goval \<Rightarrow> gerror + goval"
  u_NestedString :: "goval \<Rightarrow> string list \<Rightarrow> gerror + string option"
  u_NestedSlice :: "goval \<Rightarrow> string list \<Rightarrow> gerror + goval list option"
  u_NestedMap :: "goval \<Rightarrow> string list \<Rightarrow> gerror + (string, goval) fmap option"
  u_SetNestedField :: "goval \<Rightarrow> goval \<Rightarrow> string list \<Rightarrow> gerror + goval"

text \<open>
  The data a template is executed with: strings, and the list of additional filters. Of the
  standard library, templates outside the language of the theory \<open>Template\<close> and the texts
  of JSON errors are left to parameters.
\<close>

datatype tmplval = TStr string | TFilters "strmap list"

record text_api =
  template_execute :: "string \<Rightarrow> (string, tmplval) fmap \<Rightarrow> gerror + string"
  json_error :: "string \<Rightarrow> gerror"

text \<open>
  \<open>cmp_Diff\<close> is \<open>cmp.Diff\<close> of two connector configurations with the given normalisation
  option; \<open>cmp_EqualStatus\<close> is \<open>cmp.Equal\<close> of two statuses.
\<close>

record cmp_api =
  cmp_Diff :: "(goval \<Rightarrow> goval \<Rightarrow> bool outcome) \<Rightarrow> (goval \<Rightarrow> string) \<Rightarrow>
    (string, goval) fmap option \<Rightarrow> (string, goval) fmap option \<Rightarrow> string outcome"
  cmp_EqualStatus :: "CyndiPipelineStatus \<Rightarrow> CyndiPipelineStatus \<Rightarrow> bool"

section \<open>The environment\<close>

record 'w env =
  env_meta :: meta_api
  env_pg :: "'w pg_api"
  env_kube :: "'w kube_api"
  env_u :: unstructured_api
  env_text :: text_api
  env_cmp :: cmp_api
  env_Getenv :: "string \<Rightarrow> string"
  env_UnixNano :: "'w \<Rightarrow> int \<times> 'w"
  env_Now :: "'w \<Rightarrow> string \<times> 'w"

text \<open>The two clock readings: \<open>time.Now().UnixNano()\<close>, and the time of a condition change.\<close>

definition UnixNano :: "'w env \<Rightarrow> ('w, int) eff" where
  "UnixNano E = observe (env_UnixNano E)"

definition Now :: "'w env \<Rightarrow> ('w, string) eff" where
  "Now E = observe (env_Now E)"

text \<open>\<open>strconv.ParseBool(os.Getenv("EPHEMERAL"))\<close>, false when it does not parse.\<close>

definition ephemeral :: "'w env \<Rightarrow> bool" where
  "ephemeral E = (case ParseBool (env_Getenv E ''EPHEMERAL'') of Some b \<Rightarrow> b | None \<Rightarrow> False)"

lemma post_UnixNano [post_intros]: "(\<And>r. Q r []) \<Longrightarrow> post (UnixNano E) Q"
  by (simp add: UnixNano_def post_observe)

lemma post_Now [post_intros]: "(\<And>r. Q r []) \<Longrightarrow> post (Now E) Q"
  by (simp add: Now_def post_observe)

end
