(* ===== verification/Config.thy ===== *)
theory Config
  imports Hashing Defaults Externals
begin

text \<open>
  \<^verbatim>\<open>controllers/config\<close>: the configuration records (\<^verbatim>\<open>types.go\<close>), the defaults
  (\<^verbatim>\<open>defaults.go\<close>), the construction of a configuration from a pipeline and the merged
  ConfigMap (\<^verbatim>\<open>config.go\<close>) and the database secrets (\<^verbatim>\<open>parsers.go\<close>).

  A function that returns a value and an error is a sum; the value that accompanies an
  error is dropped, since no caller reads it.
\<close>

section \<open>Data\<close>

record DBParams =
  db_Name :: string
  db_Host :: string
  db_Port :: string
  db_User :: string
  db_Password :: string
  db_SSLMode :: string
  db_SSLRootCert :: string

record ValidationConfiguration =
  Interval :: int
  AttemptsThreshold :: int
  PercentageThreshold :: int

record CyndiConfiguration =
  cfg_Topic :: string
  cfg_ConnectCluster :: string
  cfg_ConnectorTemplate :: string
  cfg_ConnectorTasksMax :: int
  cfg_ConnectorBatchSize :: int
  cfg_ConnectorMaxAge :: int
  cfg_ConnectorAllowlistSystemProfile :: string
  cfg_TopicReplicationFactor :: int
  cfg_DeadLetterQueueTopicName :: string
  cfg_InventoryDbSecret :: string
  cfg_InventoryDbSchema :: string
  cfg_DBTableInitScript :: string
  cfg_DBTableIndexSQL :: string
  cfg_StandardInterval :: int
  cfg_ValidationConfig :: ValidationConfiguration
  cfg_ValidationConfigInit :: ValidationConfiguration
  cfg_ConfigMapVersion :: string
  cfg_SpecHash :: string
  cfg_SSLMode :: string
  cfg_SSLRootCert :: string

text \<open>The short constants of \<^verbatim>\<open>defaults.go\<close>.\<close>

definition defaultTopic :: string where "defaultTopic = ''platform.inventory.events''"
definition defaultConnectCluster :: string where
  "defaultConnectCluster = ''xjoin-kafka-connect-strimzi''"
definition defaultInventoryDbSecret :: string where
  "defaultInventoryDbSecret = ''host-inventory-read-only-db''"
definition defaultInventoryDbSchema :: string where "defaultInventoryDbSchema = ''public''"
definition defaultConnectorTasksMax :: int where "defaultConnectorTasksMax = 16"
definition defaultConnectorBatchSize :: int where "defaultConnectorBatchSize = 100"
definition defaultConnectorMaxAge :: int where "defaultConnectorMaxAge = 45"
definition defaultTopicReplicationFactor :: int where "defaultTopicReplicationFactor = 1"
definition defaultDeadLetterQueueTopicName :: string where
  "defaultDeadLetterQueueTopicName = ''platform.cyndi.dlq''"
definition defaultAllowlistSystemProfile :: string where
  "defaultAllowlistSystemProfile = ''sap_system,sap_sids''"
definition defaultSSLMode :: string where "defaultSSLMode = ''disable''"
definition defaultSSLRootCert :: string where "defaultSSLRootCert = ''none''"
definition defaultStandardInterval :: int where "defaultStandardInterval = 120"

definition defaultValidationConfig :: ValidationConfiguration where
  "defaultValidationConfig = \<lparr>Interval = 60 * 30, AttemptsThreshold = 3, PercentageThreshold = 5\<rparr>"

definition defaultValidationConfigInit :: ValidationConfiguration where
  "defaultValidationConfigInit = \<lparr>Interval = 60, AttemptsThreshold = 30, PercentageThreshold = 5\<rparr>"

section \<open>Keys\<close>

definition reconcileInterval :: string where "reconcileInterval = ''standard.interval''"
definition validationInterval :: string where "validationInterval = ''validation.interval''"
definition validationAttemptsThreshold :: string where
  "validationAttemptsThreshold = ''validation.attempts.threshold''"
definition validationPercentageThreshold :: string where
  "validationPercentageThreshold = ''validation.percentage.threshold''"

definition keysIgnoredByRefresh :: "string list" where
  "keysIgnoredByRefresh =
     [reconcileInterval, validationInterval, validationAttemptsThreshold,
      validationPercentageThreshold, ''init.'' @ validationInterval,
      ''init.'' @ validationAttemptsThreshold, ''init.'' @ validationPercentageThreshold]"

section \<open>Building a configuration\<close>

text \<open>A \<open>nil\<close> map and an empty one behave alike in both readers.\<close>

definition getStringValue :: "strmap \<Rightarrow> string \<Rightarrow> string \<Rightarrow> string" where
  "getStringValue cm key defaultValue =
     (case fmlookup cm key of Some value \<Rightarrow> value | None \<Rightarrow> defaultValue)"

definition invalid_value :: "string \<Rightarrow> string \<Rightarrow> gerror" where
  "invalid_value value key =
     errors_New ([CHR 0x22] @ value @ [CHR 0x22] @ '' is not a valid value for '' @
       [CHR 0x22] @ key @ [CHR 0x22])"

definition getIntValue :: "strmap \<Rightarrow> string \<Rightarrow> int \<Rightarrow> gerror + int" where
  "getIntValue cm key defaultValue =
     (case fmlookup cm key of
        Some value \<Rightarrow>
          (case ParseInt value of
             None \<Rightarrow> Inl (invalid_value value key)
           | Some parsed \<Rightarrow> Inr parsed)
      | None \<Rightarrow> Inr defaultValue)"

text \<open>\<open>x.Spec.f\<close> of a pipeline that may be \<open>nil\<close>, for an optional field \<open>f\<close>.\<close>

definition spec_field :: "CyndiPipeline option \<Rightarrow> (CyndiPipelineSpec \<Rightarrow> 'a option) \<Rightarrow> 'a option" where
  "spec_field inst f = (case inst of None \<Rightarrow> None | Some p \<Rightarrow> f (Spec p))"

definition int_setting :: "'a option \<Rightarrow> (gerror + 'a) \<Rightarrow> gerror + 'a" where
  "int_setting override fallback = (case override of Some v \<Rightarrow> Inr v | None \<Rightarrow> fallback)"

definition string_setting :: "string option \<Rightarrow> string \<Rightarrow> string" where
  "string_setting override fallback = (case override of Some v \<Rightarrow> v | None \<Rightarrow> fallback)"

definition getValidationConfig :: "CyndiPipeline option \<Rightarrow> strmap \<Rightarrow> string \<Rightarrow>
    ValidationConfiguration \<Rightarrow> gerror + ValidationConfiguration" where
  "getValidationConfig inst cm pre defaultValue =
     (case getIntValue cm (pre @ validationInterval) (Interval defaultValue) of
        Inl err \<Rightarrow> Inl err
      | Inr interval \<Rightarrow>
     (case getIntValue cm (pre @ validationAttemptsThreshold) (AttemptsThreshold defaultValue) of
        Inl err \<Rightarrow> Inl err
      | Inr attempts \<Rightarrow>
     (case int_setting (spec_field inst ValidationThreshold)
             (getIntValue cm (pre @ validationPercentageThreshold) (PercentageThreshold defaultValue)) of
        Inl err \<Rightarrow> Inl err
      | Inr percentage \<Rightarrow>
          Inr \<lparr>Interval = interval, AttemptsThreshold = attempts, PercentageThreshold = percentage\<rparr>)))"

definition BuildCyndiConfig :: "CyndiPipeline option \<Rightarrow> strmap \<Rightarrow> gerror + CyndiConfiguration" where
  "BuildCyndiConfig inst cm =
     (case getIntValue cm ''connector.topic.replication.factor'' defaultTopicReplicationFactor of
        Inl err \<Rightarrow> Inl err | Inr replication \<Rightarrow>
     (case getIntValue cm ''connector.tasks.max'' defaultConnectorTasksMax of
        Inl err \<Rightarrow> Inl err | Inr tasksMax \<Rightarrow>
     (case getIntValue cm ''connector.batch.size'' defaultConnectorBatchSize of
        Inl err \<Rightarrow> Inl err | Inr batchSize \<Rightarrow>
     (case int_setting (spec_field inst MaxAge) (getIntValue cm ''connector.max.age'' defaultConnectorMaxAge) of
        Inl err \<Rightarrow> Inl err | Inr maxAge \<Rightarrow>
     (case getIntValue cm reconcileInterval defaultStandardInterval of
        Inl err \<Rightarrow> Inl err | Inr standardInterval \<Rightarrow>
     (case getValidationConfig inst cm '''' defaultValidationConfig of
        Inl err \<Rightarrow> Inl err | Inr validation \<Rightarrow>
     (case getValidationConfig inst cm ''init.'' defaultValidationConfigInit of
        Inl err \<Rightarrow> Inl err | Inr validationInit \<Rightarrow>
     (case (case inst of None \<Rightarrow> Inr '''' | Some p \<Rightarrow> SpecHash (DataSpec (Spec p))) of
        Inl err \<Rightarrow> Inl err | Inr specHash \<Rightarrow>
     Inr \<lparr>cfg_Topic = string_setting (spec_field inst Topic) (getStringValue cm ''connector.topic'' defaultTopic),
       cfg_ConnectCluster = string_setting (spec_field inst ConnectCluster)
         (getStringValue cm ''connect.cluster'' defaultConnectCluster),
       cfg_ConnectorTemplate = getStringValue cm ''connector.config'' defaultConnectorTemplate,
       cfg_ConnectorTasksMax = tasksMax,
       cfg_ConnectorBatchSize = batchSize,
       cfg_ConnectorMaxAge = maxAge,
       cfg_ConnectorAllowlistSystemProfile =
         getStringValue cm ''connector.allowlist.sp'' defaultAllowlistSystemProfile,
       cfg_TopicReplicationFactor = replication,
       cfg_DeadLetterQueueTopicName =
         getStringValue cm ''connector.deadletterqueue.topic.name'' defaultDeadLetterQueueTopicName,
       cfg_InventoryDbSecret = string_setting (spec_field inst InventoryDbSecret)
         (getStringValue cm ''inventory.dbSecret'' defaultInventoryDbSecret),
       cfg_InventoryDbSchema = getStringValue cm ''inventory.dbSchema'' defaultInventoryDbSchema,
       cfg_DBTableInitScript = getStringValue cm ''db.schema'' defaultDBTableInitScript,
       cfg_DBTableIndexSQL = string_setting
         (spec_field inst (\<lambda>s. if DBTableIndexSQL s \<noteq> '''' then Some (DBTableIndexSQL s) else None))
         defaultDBTableIndexSQL,
       cfg_StandardInterval = standardInterval,
       cfg_ValidationConfig = validation,
       cfg_ValidationConfigInit = validationInit,
       cfg_ConfigMapVersion = ConfigMapHash cm keysIgnoredByRefresh,
       cfg_SpecHash = specHash,
       cfg_SSLMode = getStringValue cm ''db.ssl.mode'' defaultSSLMode,
       cfg_SSLRootCert = getStringValue cm ''db.ssl.root.cert'' defaultSSLRootCert\<rparr>))))))))"

section \<open>Secrets\<close>

definition readSecretValue :: "Secret \<Rightarrow> string \<Rightarrow> gerror + string" where
  "readSecretValue secret key =
     (case fmlookup (secret_Data secret) key of
        None \<Rightarrow> Inl (errors_New (key @ '' missing from '' @ secret_Name secret @ '' secret''))
      | Some value \<Rightarrow>
          if value = '''' then Inl (errors_New (key @ '' missing from '' @ secret_Name secret @ '' secret''))
          else Inr value)"

definition ParseDBSecret :: "Secret \<Rightarrow> gerror + DBParams" where
  "ParseDBSecret secret =
     (case readSecretValue secret ''db.host'' of Inl err \<Rightarrow> Inl err | Inr host \<Rightarrow>
     (case readSecretValue secret ''db.user'' of Inl err \<Rightarrow> Inl err | Inr user \<Rightarrow>
     (case readSecretValue secret ''db.password'' of Inl err \<Rightarrow> Inl err | Inr password \<Rightarrow>
     (case readSecretValue secret ''db.name'' of Inl err \<Rightarrow> Inl err | Inr name \<Rightarrow>
     (case readSecretValue secret ''db.port'' of Inl err \<Rightarrow> Inl err | Inr port \<Rightarrow>
       Inr \<lparr>db_Name = name, db_Host = host, db_Port = port, db_User = user, db_Password = password,
         db_SSLMode = '''', db_SSLRootCert = ''''\<rparr>)))))"

text \<open>
  \<open>LoadDBSecret\<close> after the secret has been fetched; the fetch itself is in the theory of the
  Kubernetes client. The TLS settings come from the configuration.
\<close>

definition secretParams :: "CyndiConfiguration \<Rightarrow> Secret \<Rightarrow> gerror + DBParams" where
  "secretParams config secret =
     (case ParseDBSecret secret of
        Inl err \<Rightarrow> Inl err
      | Inr params \<Rightarrow> Inr (params\<lparr>db_SSLMode := cfg_SSLMode config, db_SSLRootCert := cfg_SSLRootCert config\<rparr>))"

section \<open>What a configuration depends on\<close>

text \<open>The keys whose values must be integers, for a pipeline that overrides some of them.\<close>

definition intKeys :: "CyndiPipeline option \<Rightarrow> string list" where
  "intKeys inst =
     [''connector.topic.replication.factor'', ''connector.tasks.max'', ''connector.batch.size'',
      reconcileInterval, validationInterval, validationAttemptsThreshold,
      ''init.'' @ validationInterval, ''init.'' @ validationAttemptsThreshold] @
     (if spec_field inst MaxAge = None then [''connector.max.age''] else []) @
     (if spec_field inst ValidationThreshold = None
      then [validationPercentageThreshold, ''init.'' @ validationPercentageThreshold] else [])"

definition bad_int :: "strmap \<Rightarrow> string \<Rightarrow> bool" where
  "bad_int cm key = (case fmlookup cm key of None \<Rightarrow> False | Some v \<Rightarrow> ParseInt v = None)"

lemma isl_try [simp]:
  "isl (case x of Inl err \<Rightarrow> Inl err | Inr y \<Rightarrow> f y) \<longleftrightarrow> isl x \<or> isl (f (projr x))"
  by (cases x) auto

lemma isl_getIntValue [simp]: "isl (getIntValue cm k d) \<longleftrightarrow> bad_int cm k"
  by (simp add: getIntValue_def bad_int_def split: option.split)

lemma isl_int_setting [simp]: "isl (int_setting ov x) \<longleftrightarrow> ov = None \<and> isl x"
  by (simp add: int_setting_def split: option.split)

lemma isl_getValidationConfig [simp]:
  "isl (getValidationConfig inst cm p d) \<longleftrightarrow>
     bad_int cm (p @ validationInterval) \<or> bad_int cm (p @ validationAttemptsThreshold) \<or>
     (spec_field inst ValidationThreshold = None \<and> bad_int cm (p @ validationPercentageThreshold))"
  by (simp add: getValidationConfig_def)

lemma isl_BuildCyndiConfig:
  "isl (BuildCyndiConfig inst cm) \<longleftrightarrow> (\<exists>key \<in> set (intKeys inst). bad_int cm key)"
  by (auto simp: BuildCyndiConfig_def SpecHash_def intKeys_def split: option.split)

text \<open>
  C25: building a configuration fails exactly when one of the integer settings that the
  pipeline does not override has a value that is not an integer; in every other case there
  is a configuration.
\<close>

theorem BuildCyndiConfig_fails_iff:
  "(\<exists>err. BuildCyndiConfig inst cm = Inl err) \<longleftrightarrow> list_ex (bad_int cm) (intKeys inst)"
  using isl_BuildCyndiConfig [of inst cm] by (simp add: isl_def list_ex_iff)

text \<open>Two ConfigMaps that agree on every key that matters for a refresh.\<close>

definition same_for_refresh :: "strmap \<Rightarrow> strmap \<Rightarrow> bool" where
  "same_for_refresh cm cm' \<longleftrightarrow>
     fmdom cm \<noteq> {||} \<and> fmdom cm' \<noteq> {||} \<and> Omit cm keysIgnoredByRefresh = Omit cm' keysIgnoredByRefresh"

lemma same_for_refresh_lookup:
  assumes "same_for_refresh cm cm'" and "k \<notin> set keysIgnoredByRefresh"
  shows "fmlookup cm k = fmlookup cm' k"
  using assms Omit_lookup [of cm keysIgnoredByRefresh k] Omit_lookup [of cm' keysIgnoredByRefresh k]
  by (simp add: same_for_refresh_def)

lemmas key_defs = keysIgnoredByRefresh_def reconcileInterval_def validationInterval_def
  validationAttemptsThreshold_def validationPercentageThreshold_def


section \<open>Secrets and overrides\<close>

definition secretKeys :: "string list" where
  "secretKeys = [''db.host'', ''db.user'', ''db.password'', ''db.name'', ''db.port'']"

lemma isl_readSecretValue [simp]:
  "isl (readSecretValue s k) \<longleftrightarrow> (case fmlookup (secret_Data s) k of None \<Rightarrow> True | Some v \<Rightarrow> v = '''')"
  by (simp add: readSecretValue_def split: option.split)

text \<open>
  C30: a database secret is accepted exactly when all five entries are there and none is
  empty.
\<close>

theorem secretParams_ok_iff:
  "(\<exists>params. secretParams config secret = Inr params) \<longleftrightarrow>
     list_all (\<lambda>k. \<exists>v. fmlookup (secret_Data secret) k = Some v \<and> v \<noteq> '''') secretKeys"
proof -
  have "isl (secretParams config secret) \<longleftrightarrow> isl (ParseDBSecret secret)"
    by (simp add: secretParams_def split: sum.split)
  also have "\<dots> \<longleftrightarrow> \<not> list_all (\<lambda>k. \<exists>v. fmlookup (secret_Data secret) k = Some v \<and> v \<noteq> '''') secretKeys"
    by (simp add: ParseDBSecret_def secretKeys_def split: option.splits)
  finally show ?thesis by (cases "secretParams config secret") auto
qed

text \<open>How a text setting is to be found: specification, namespace, global ConfigMap, default.\<close>

definition precedence :: "string option \<Rightarrow> strmap option \<Rightarrow> strmap option \<Rightarrow> string \<Rightarrow> string \<Rightarrow> string" where
  "precedence override local global key d =
     (case override of Some v \<Rightarrow> v | None \<Rightarrow>
       (case Option.bind local (\<lambda>m. fmlookup m key) of Some v \<Rightarrow> v | None \<Rightarrow>
         (case Option.bind global (\<lambda>m. fmlookup m key) of Some v \<Rightarrow> v | None \<Rightarrow> d)))"

lemma BuildCyndiConfig_strings:
  assumes "BuildCyndiConfig inst cm = Inr config"
  shows "cfg_Topic config = string_setting (spec_field inst Topic) (getStringValue cm ''connector.topic'' defaultTopic)"
    and "cfg_ConnectCluster config = string_setting (spec_field inst ConnectCluster)
      (getStringValue cm ''connect.cluster'' defaultConnectCluster)"
    and "cfg_InventoryDbSecret config = string_setting (spec_field inst InventoryDbSecret)
      (getStringValue cm ''inventory.dbSecret'' defaultInventoryDbSecret)"
  using assms by (auto simp: BuildCyndiConfig_def split: sum.splits)

lemma string_setting_precedence:
  "string_setting (spec_field (Some p) f) (getStringValue (Merge [global, local]) key d) =
     precedence (f (Spec p)) local global key d"
  by (auto simp: string_setting_def spec_field_def getStringValue_def Merge_lookup precedence_def
      split: option.splits)


text \<open>
  changing only the operational fields of a specification (\<open>managedConnectors\<close>,
  \<open>connectorPaused\<close>, \<open>refresh\<close>) does not change its hash, and so does not refresh the
  pipeline.
\<close>

theorem operational_fields_do_not_refresh:
  "SpecHash (DataSpec (s\<lparr>ManagedConnectors := a, ConnectorPaused := b, Refresh := c\<rparr>)) = SpecHash (DataSpec s)"
  by (simp add: DataSpec_ignores)

text \<open>
  C40: the documented rule that a change of the ignored keys does not refresh a pipeline has an
  exception: the empty ConfigMap has a version of its own, so adding the first key changes
  the version even when that key is an ignored one.
\<close>

theorem first_key_always_refreshes:
  assumes "fmdom cm \<noteq> {||}"
  shows "ConfigMapHash fmempty keysIgnoredByRefresh \<noteq> ConfigMapHash cm keysIgnoredByRefresh"
proof -
  obtain d s where "ConfigMapHash cm keysIgnoredByRefresh = digit d # s" "d < 10"
    using assms format_nat_Cons unfolding ConfigMapHash_def fnv32a_def by (metis (mono_tags))
  then have "ConfigMapHash cm keysIgnoredByRefresh \<noteq> ''-1''" using digit_not_sign(1) by auto
  then show ?thesis by (simp add: ConfigMapHash_def)
qed

section \<open>Concrete configurations\<close>

definition only_ignored :: strmap where
  "only_ignored = fmap_of_list [(validationInterval, ''10'')]"

theorem first_key_always_refreshes_witness:
  "Omit only_ignored keysIgnoredByRefresh = Omit fmempty keysIgnoredByRefresh \<and>
   ConfigMapHash fmempty keysIgnoredByRefresh \<noteq> ConfigMapHash only_ignored keysIgnoredByRefresh"
proof -
  have "fmdom only_ignored \<noteq> {||}" by (simp add: only_ignored_def)
  from first_key_always_refreshes [OF this] show ?thesis
    by (auto intro: Omit_eqI simp: only_ignored_def key_defs)
qed

definition slow_validation :: "string \<Rightarrow> strmap" where
  "slow_validation seconds = fmap_of_list [(''connect.cluster'', ''c1''), (validationInterval, seconds)]"

definition sample_config :: "CyndiPipeline option \<Rightarrow> strmap \<Rightarrow> CyndiConfiguration" where
  "sample_config inst cm = projr (BuildCyndiConfig inst cm)"

lemma sample_config:
  "\<not> list_ex (bad_int cm) (intKeys inst) \<Longrightarrow> BuildCyndiConfig inst cm = Inr (sample_config inst cm)"
  using isl_BuildCyndiConfig [of inst cm]
  by (cases "BuildCyndiConfig inst cm") (auto simp: sample_config_def list_ex_iff)

lemma slow_validation_ok:
  "\<not> list_ex (bad_int (slow_validation ''10'')) (intKeys None)"
  "\<not> list_ex (bad_int (slow_validation ''20'')) (intKeys None)"
  by code_simp+


definition topic_map :: "string \<Rightarrow> strmap option" where
  "topic_map t = Some (fmap_of_list [(''connector.topic'', t)])"


end
