(* ===== verification/Template.thy ===== *)
theory Template
  imports Externals
begin

text \<open>
  \<^verbatim>\<open>text/template\<close> as the operator's templates use it: texts, fields, variables, \<open>if\<close> with
  \<open>else\<close>, \<open>range\<close> over the filters and over a filter, string literals and the functions
  \<open>eq\<close>, \<open>ne\<close>, \<open>and\<close>, \<open>or\<close>, \<open>not\<close>. A template comes from the configuration and may use the
  rest of the package too: whatever is outside this part of the language, or fails, is left
  to the parameter \<open>template_execute\<close>.
\<close>

section \<open>Syntax\<close>

datatype expr =
    Field "string list"
  | Var string "string list"
  | StrLit string
  | Call string "expr list"

datatype node =
    NText string
  | NOut expr
  | NIf expr "node list" "node list"
  | NRange "string list" expr "node list" "node list"

text \<open>Text and actions, without the delimiters. What has been read is kept in reverse.\<close>

datatype piece = PText string | PAct string

fun scan :: "bool \<Rightarrow> string \<Rightarrow> string \<Rightarrow> piece list option" where
  "scan inside acc [] = (if inside then None else Some [PText (rev acc)])"
| "scan inside acc [c] = (if inside then None else Some [PText (rev (c # acc))])"
| "scan inside acc (c # d # s) =
     (if inside then
        if c = CHR ''}'' \<and> d = CHR ''}'' then map_option ((#) (PAct (rev acc))) (scan False [] s)
        else scan inside (c # acc) (d # s)
      else
        if c = CHR ''{'' \<and> d = CHR ''{'' then map_option ((#) (PText (rev acc))) (scan True [] s)
        else scan inside (c # acc) (d # s))"

section \<open>Actions\<close>

datatype atoken = AField string | AVar string | AStr string | AIdent string | ALeft | ARight | AComma | ADeclare | ASpace

definition is_alnum :: "char \<Rightarrow> bool" where
  "is_alnum c =
     (let n = of_char c :: nat in 48 \<le> n \<and> n \<le> 57 \<or> 65 \<le> n \<and> n \<le> 90 \<or> 97 \<le> n \<and> n \<le> 122 \<or> n = 95)"

definition is_blank :: "char \<Rightarrow> bool" where
  "is_blank c = (c = CHR '' '' \<or> c = CHR 0x09 \<or> c = CHR 0x0D \<or> c = CHR 0x0A)"

text \<open>One token and the rest; names and string literals must be complete.\<close>

definition action_token :: "string \<Rightarrow> (atoken \<times> string) option" where
  "action_token s =
     (case s of
        [] \<Rightarrow> None
      | c # r \<Rightarrow>
          let name = takeWhile is_alnum r; rest = dropWhile is_alnum r in
          if is_blank c then Some (ASpace, dropWhile is_blank r)
          else if c = CHR ''.'' then if name = [] then None else Some (AField name, rest)
          else if c = CHR ''$'' then if name = [] then None else Some (AVar name, rest)
          else if c = CHR 0x22 then
            (let lit = takeWhile (\<lambda>c. c \<noteq> CHR 0x22) r in
             if length lit = length r \<or> list_ex (\<lambda>c. c = CHR 0x5C \<or> c = CHR 0x0A) lit then None
             else Some (AStr lit, drop (Suc (length lit)) r))
          else if c = CHR ''('' then Some (ALeft, r)
          else if c = CHR '')'' then Some (ARight, r)
          else if c = CHR '','' then Some (AComma, r)
          else if c = CHR '':'' \<and> take 1 r = ''='' then Some (ADeclare, drop 1 r)
          else if is_alnum c \<and> digit_val c = None then Some (AIdent (takeWhile is_alnum s), dropWhile is_alnum s)
          else None)"

lemma action_token_shorter: "action_token s = Some (t, r) \<Longrightarrow> length r < length s"
proof -
  have "length (dropWhile P u) \<le> length u" for P and u :: string by (rule length_dropWhile_le)
  then show "action_token s = Some (t, r) \<Longrightarrow> length r < length s"
    by (auto simp: action_token_def Let_def le_imp_less_Suc less_Suc_eq_le split: list.splits if_splits)
qed

function action_tokens :: "string \<Rightarrow> atoken list option" where
  "action_tokens s =
     (if s = [] then Some []
      else case action_token s of
        None \<Rightarrow> None
      | Some (t, r) \<Rightarrow> map_option ((#) t) (action_tokens r))"
  by pat_completeness auto
termination
  by (relation "measure length") (auto dest: action_token_shorter)

declare action_tokens.simps [simp del]

fun field_chain :: "atoken list \<Rightarrow> string list \<times> atoken list" where
  "field_chain (AField f # ts) = (case field_chain ts of (fs, r) \<Rightarrow> (f # fs, r))"
| "field_chain ts = ([], ts)"

definition builtins :: "string list" where
  "builtins = [''eq'', ''ne'', ''and'', ''or'', ''not'']"

text \<open>
  Operands, the arguments of a call (each after a space) and pipelines of one command. The
  first argument bounds the nesting; \<open>whole_pipeline_bound\<close> shows that it is never reached.
\<close>

fun operand :: "nat \<Rightarrow> atoken list \<Rightarrow> (expr \<times> atoken list) option"
  and arguments :: "nat \<Rightarrow> atoken list \<Rightarrow> (expr list \<times> atoken list) option"
  and pipeline :: "nat \<Rightarrow> atoken list \<Rightarrow> (expr \<times> atoken list) option" where
  "operand n ts =
     (case ts of
        AField f # r \<Rightarrow> (case field_chain r of (fs, r') \<Rightarrow> Some (Field (f # fs), r'))
      | AVar x # r \<Rightarrow> (case field_chain r of (fs, r') \<Rightarrow> Some (Var x fs, r'))
      | AStr s # r \<Rightarrow> Some (StrLit s, r)
      | ALeft # r \<Rightarrow>
          (case n of
             0 \<Rightarrow> None
           | Suc m \<Rightarrow>
               (case pipeline m r of
                  Some (e, ARight # r') \<Rightarrow> Some (e, r')
                | _ \<Rightarrow> None))
      | _ \<Rightarrow> None)"
| "arguments n ts =
     (case ts of
        ASpace # r \<Rightarrow>
          if r = [] \<or> hd r = ARight then Some ([], r)
          else (case n of
             0 \<Rightarrow> None
           | Suc m \<Rightarrow>
               (case operand m r of
                  None \<Rightarrow> None
                | Some (e, r') \<Rightarrow> map_option (\<lambda>(es, r''). (e # es, r'')) (arguments m r')))
      | _ \<Rightarrow> Some ([], ts))"
| "pipeline n ts =
     (case n of
        0 \<Rightarrow> None
      | Suc m \<Rightarrow>
          (case ts of
             ASpace # r \<Rightarrow> pipeline m r
           | AIdent f # r \<Rightarrow>
               if f \<in> set builtins
               then map_option (\<lambda>(es, r'). (Call f es, r')) (arguments m r)
               else None
           | _ \<Rightarrow>
               (case operand m ts of
                  Some (e, ASpace # r) \<Rightarrow> Some (e, r)
                | r \<Rightarrow> r)))"

definition whole_pipeline :: "atoken list \<Rightarrow> expr option" where
  "whole_pipeline ts = (case pipeline (2 * length ts + 2) ts of Some (e, []) \<Rightarrow> Some e | _ \<Rightarrow> None)"

datatype action = AEnd | AElse | AIf expr | ARange "string list" expr | AOut expr

definition no_spaces :: "atoken list \<Rightarrow> atoken list" where
  "no_spaces = filter (\<lambda>t. t \<noteq> ASpace)"

text \<open>The variables a \<open>range\<close> declares: the element, or the key and the element.\<close>

definition range_action :: "atoken list \<Rightarrow> action option" where
  "range_action ts =
     (let vars = takeWhile (\<lambda>t. t \<noteq> ADeclare) ts; e = drop (Suc (length vars)) ts in
      if length vars = length ts then map_option (ARange []) (whole_pipeline ts)
      else case no_spaces vars of
        [AVar x] \<Rightarrow> map_option (ARange [x]) (whole_pipeline e)
      | [AVar k, AComma, AVar x] \<Rightarrow> map_option (ARange [k, x]) (whole_pipeline e)
      | _ \<Rightarrow> None)"

definition parse_action :: "string \<Rightarrow> action option" where
  "parse_action s =
     (case action_tokens (dropWhile is_blank s) of
        None \<Rightarrow> None
      | Some ts \<Rightarrow>
          (case ts of
             AIdent f # r \<Rightarrow>
               if f = ''end'' then if no_spaces r = [] then Some AEnd else None
               else if f = ''else'' then if no_spaces r = [] then Some AElse else None
               else if f = ''if'' then map_option AIf (whole_pipeline r)
               else if f = ''range'' then range_action r
               else map_option AOut (whole_pipeline ts)
           | _ \<Rightarrow> map_option AOut (whole_pipeline ts)))"

section \<open>Templates\<close>

text \<open>
  The open \<open>if\<close> and \<open>range\<close> actions, each with the nodes before it and, after an \<open>else\<close>,
  the nodes of its first branch.
\<close>

record frame =
  fr_start :: action
  fr_before :: "node list"
  fr_then :: "node list option"

definition close_frame :: "frame \<Rightarrow> node list \<Rightarrow> node option" where
  "close_frame fr cur =
     (let (a, b) = (case fr_then fr of None \<Rightarrow> (rev cur, []) | Some t \<Rightarrow> (t, rev cur)) in
      case fr_start fr of
        AIf e \<Rightarrow> Some (NIf e a b)
      | ARange xs e \<Rightarrow> Some (NRange xs e a b)
      | _ \<Rightarrow> None)"

fun build :: "piece list \<Rightarrow> frame list \<Rightarrow> node list \<Rightarrow> node list option" where
  "build [] frs cur = (if frs = [] then Some (rev cur) else None)"
| "build (PText s # ps) frs cur = build ps frs (if s = [] then cur else NText s # cur)"
| "build (PAct s # ps) frs cur =
     (case parse_action s of
        None \<Rightarrow> None
      | Some (AOut e) \<Rightarrow> build ps frs (NOut e # cur)
      | Some AElse \<Rightarrow>
          (case frs of
             [] \<Rightarrow> None
           | fr # frs' \<Rightarrow>
               if fr_then fr = None then build ps (fr\<lparr>fr_then := Some (rev cur)\<rparr> # frs') [] else None)
      | Some AEnd \<Rightarrow>
          (case frs of
             [] \<Rightarrow> None
           | fr # frs' \<Rightarrow>
               (case close_frame fr cur of
                  None \<Rightarrow> None
                | Some nd \<Rightarrow> build ps frs' (nd # fr_before fr)))
      | Some start \<Rightarrow> build ps (\<lparr>fr_start = start, fr_before = cur, fr_then = None\<rparr> # frs) [])"

text \<open>A variable must be declared where it is used, even in a branch that is not executed.\<close>

fun declared :: "string list \<Rightarrow> expr \<Rightarrow> bool" where
  "declared xs (Var x fs) = (x \<in> set xs)"
| "declared xs (Call f es) = list_all (declared xs) es"
| "declared xs _ = True"

fun scoped :: "string list \<Rightarrow> node \<Rightarrow> bool" where
  "scoped xs (NText s) = True"
| "scoped xs (NOut e) = declared xs e"
| "scoped xs (NIf e a b) = (declared xs e \<and> list_all (scoped xs) a \<and> list_all (scoped xs) b)"
| "scoped xs (NRange ys e a b) =
     (declared xs e \<and> list_all (scoped (ys @ xs)) a \<and> list_all (scoped (ys @ xs)) b)"

definition parse_template :: "string \<Rightarrow> node list option" where
  "parse_template s =
     (case scan False [] s of
        None \<Rightarrow> None
      | Some ps \<Rightarrow>
          (case build ps [] [] of
             Some ns \<Rightarrow> if list_all (scoped []) ns then Some ns else None
           | None \<Rightarrow> None))"

section \<open>Execution\<close>

text \<open>
  The values of expressions: the data of the template, strings, booleans, the list of
  filters, a filter, and the value of a missing key.
\<close>

datatype tval = VRoot "(string, tmplval) fmap" | VStr string | VBool bool | VList "strmap list" | VMap strmap | VNone

fun field :: "string \<Rightarrow> tval \<Rightarrow> tval option" where
  "field f (VRoot m) = Some (case fmlookup m f of None \<Rightarrow> VNone | Some (TStr s) \<Rightarrow> VStr s | Some (TFilters fs) \<Rightarrow> VList fs)"
| "field f (VMap m) = Some (case fmlookup m f of None \<Rightarrow> VNone | Some s \<Rightarrow> VStr s)"
| "field f _ = None"

fun chain :: "string list \<Rightarrow> tval \<Rightarrow> tval option" where
  "chain [] v = Some v"
| "chain (f # fs) v = Option.bind (field f v) (chain fs)"

fun truth :: "tval \<Rightarrow> bool" where
  "truth (VRoot m) = (m \<noteq> fmempty)"
| "truth (VStr s) = (s \<noteq> [])"
| "truth (VBool b) = b"
| "truth (VList fs) = (fs \<noteq> [])"
| "truth (VMap m) = (m \<noteq> fmempty)"
| "truth VNone = False"

fun eq_val :: "tval \<Rightarrow> tval \<Rightarrow> bool option" where
  "eq_val (VStr s) (VStr t) = Some (s = t)"
| "eq_val (VStr s) VNone = Some False"
| "eq_val VNone (VStr t) = Some False"
| "eq_val _ _ = None"

text \<open>\<open>and\<close> and \<open>or\<close> evaluate their arguments until one decides, and return it.\<close>

fun junction :: "bool \<Rightarrow> tval option list \<Rightarrow> tval option" where
  "junction b [] = None"
| "junction b [v] = v"
| "junction b (v # vs) = Option.bind v (\<lambda>x. if truth x = b then junction b vs else Some x)"

definition call :: "string \<Rightarrow> tval option list \<Rightarrow> tval option" where
  "call f vs =
     (if f = ''and'' then junction True vs
      else if f = ''or'' then junction False vs
      else case vs of
        [Some x] \<Rightarrow> if f = ''not'' then Some (VBool (\<not> truth x)) else None
      | [Some x, Some y] \<Rightarrow>
          if f = ''eq'' then map_option VBool (eq_val x y)
          else if f = ''ne'' then map_option (\<lambda>b. VBool (\<not> b)) (eq_val x y)
          else None
      | _ \<Rightarrow> None)"

fun eval :: "tval \<Rightarrow> (string \<times> tval) list \<Rightarrow> expr \<Rightarrow> tval option" where
  "eval dot vars (Field fs) = chain fs dot"
| "eval dot vars (Var x fs) = Option.bind (map_of vars x) (chain fs)"
| "eval dot vars (StrLit s) = Some (VStr s)"
| "eval dot vars (Call f es) = call f (map (eval dot vars) es)"

fun print_val :: "tval \<Rightarrow> string option" where
  "print_val (VStr s) = Some s"
| "print_val (VBool b) = Some (FormatBool b)"
| "print_val VNone = Some ''<no value>''"
| "print_val _ = None"

text \<open>
  What a \<open>range\<close> goes through: for each round the value of the dot and of the declared
  variables. A filter is gone through in the order of its keys.
\<close>

definition rounds :: "string list \<Rightarrow> tval \<Rightarrow> (tval \<times> (string \<times> tval) list) list option" where
  "rounds xs v =
     (case v of
        VList fs \<Rightarrow>
          (case xs of
             [] \<Rightarrow> Some (map (\<lambda>m. (VMap m, [])) fs)
           | [x] \<Rightarrow> Some (map (\<lambda>m. (VMap m, [(x, VMap m)])) fs)
           | _ \<Rightarrow> None)
      | VMap m \<Rightarrow>
          let kvs = map (\<lambda>k. (k, VStr (case fmlookup m k of None \<Rightarrow> '''' | Some s \<Rightarrow> s))) (sorted_list_of_fset (fmdom m))
          in (case xs of
                [] \<Rightarrow> Some (map (\<lambda>(k, s). (s, [])) kvs)
              | [x] \<Rightarrow> Some (map (\<lambda>(k, s). (s, [(x, s)])) kvs)
              | [k', x] \<Rightarrow> Some (map (\<lambda>(k, s). (s, [(x, s), (k', VStr k)])) kvs)
              | _ \<Rightarrow> None)
      | VNone \<Rightarrow> Some []
      | _ \<Rightarrow> None)"

fun concat_opt :: "string option list \<Rightarrow> string option" where
  "concat_opt [] = Some []"
| "concat_opt (x # xs) = Option.bind x (\<lambda>s. map_option ((@) s) (concat_opt xs))"

fun exec :: "node \<Rightarrow> tval \<Rightarrow> (string \<times> tval) list \<Rightarrow> string option" where
  "exec (NText s) dot vars = Some s"
| "exec (NOut e) dot vars = Option.bind (eval dot vars e) print_val"
| "exec (NIf e a b) dot vars =
     Option.bind (eval dot vars e) (\<lambda>v.
       if truth v then concat_opt (map (\<lambda>nd. exec nd dot vars) a)
       else concat_opt (map (\<lambda>nd. exec nd dot vars) b))"
| "exec (NRange xs e a b) dot vars =
     Option.bind (Option.bind (eval dot vars e) (rounds xs)) (\<lambda>rs.
       if rs = [] then concat_opt (map (\<lambda>nd. exec nd dot vars) b)
       else concat_opt (map (\<lambda>(d, vs). concat_opt (map (\<lambda>nd. exec nd d (vs @ vars)) a)) rs))"

definition render :: "string \<Rightarrow> (string, tmplval) fmap \<Rightarrow> string option" where
  "render s data =
     Option.bind (parse_template s) (\<lambda>ns. concat_opt (map (\<lambda>nd. exec nd (VRoot data) []) ns))"

text \<open>\<open>template.New(...).Parse(script)\<close> followed by \<open>Execute\<close>.\<close>

definition execute_template :: "text_api \<Rightarrow> string \<Rightarrow> (string, tmplval) fmap \<Rightarrow> gerror + string" where
  "execute_template T script data =
     (case render script data of
        Some s \<Rightarrow> Inr s
      | None \<Rightarrow> template_execute T script data)"

section \<open>The bound on the nesting is never reached\<close>

lemma field_chain_length: "field_chain ts = (fs, r) \<Longrightarrow> length r \<le> length ts"
proof (induction ts arbitrary: fs r rule: field_chain.induct)
  case (1 f ts)
  then show ?case by (auto split: prod.splits)
qed auto

lemmas parser_splits = list.split_asm atoken.split_asm prod.split_asm nat.split_asm option.split_asm if_split_asm

lemma parser_shrinks:
  "operand n ts = Some (e, r) \<Longrightarrow> length r < length ts"
  "arguments n ts = Some (es, r) \<Longrightarrow> length r \<le> length ts"
  "pipeline n ts = Some (e, r) \<Longrightarrow> length r \<le> length ts"
proof (induction n ts and n ts and n ts arbitrary: e r and es r and e r rule: operand_arguments_pipeline.induct)
  case (1 n ts)
  from 1(2) show ?case
    by (subst (asm) operand.simps)
      (auto split: parser_splits dest!: field_chain_length dest: 1(1) simp del: pipeline.simps)
next
  case (2 n ts)
  from 2(3) show ?case
    by (subst (asm) arguments.simps)
      (use 2(1,2) in \<open>auto split: parser_splits simp del: operand.simps arguments.simps\<close>, fastforce)
next
  case (3 n ts)
  from "3.prems" show ?case
    by (subst (asm) pipeline.simps)
      (use "3.IH" in \<open>fastforce split: parser_splits simp del: operand.simps arguments.simps pipeline.simps\<close>)
qed

declare operand.simps [simp del] arguments.simps [simp del] pipeline.simps [simp del]

definition enough :: "atoken list \<Rightarrow> bool" where
  "enough ts \<longleftrightarrow>
     (\<forall>n m. 2 * length ts \<le> n \<longrightarrow> 2 * length ts \<le> m \<longrightarrow> operand n ts = operand m ts) \<and>
     (\<forall>n m. 2 * length ts \<le> n \<longrightarrow> 2 * length ts \<le> m \<longrightarrow> arguments n ts = arguments m ts) \<and>
     (\<forall>n m. 2 * length ts < n \<longrightarrow> 2 * length ts < m \<longrightarrow> pipeline n ts = pipeline m ts)"

lemma enough_operand:
  assumes "\<And>r. length r < length ts \<Longrightarrow> enough r" and "2 * length ts \<le> n" and "2 * length ts \<le> m"
  shows "operand n ts = operand m ts"
proof (cases "\<exists>r. ts = ALeft # r")
  case True
  then obtain r n' m' where r: "ts = ALeft # r" "n = Suc n'" "m = Suc m'"
    using assms(2,3) by (cases n; cases m) auto
  with assms have "pipeline n' r = pipeline m' r" by (auto simp: enough_def)
  with r show ?thesis by (simp add: operand.simps)
next
  case False
  then show ?thesis by (simp add: operand.simps split: list.split atoken.split)
qed

lemma enough_arguments:
  assumes IH: "\<And>r. length r < length ts \<Longrightarrow> enough r" and "2 * length ts \<le> n" and "2 * length ts \<le> m"
  shows "arguments n ts = arguments m ts"
proof (cases "\<exists>r. ts = ASpace # r")
  case True
  then obtain r n' m' where r: "ts = ASpace # r" "n = Suc n'" "m = Suc m'"
    using assms(2,3) by (cases n; cases m) auto
  have op: "operand n' r = operand m' r" using IH [of r] assms(2,3) r by (auto simp: enough_def)
  have "arguments n' r' = arguments m' r'" if "operand m' r = Some (e, r')" for e r'
    using IH [of r'] parser_shrinks(1) [OF that] assms(2,3) r by (auto simp: enough_def)
  with op r show ?thesis by (auto simp: arguments.simps split: option.split)
next
  case False
  then show ?thesis by (simp add: arguments.simps split: list.split atoken.split)
qed

lemma enough_pipeline:
  assumes IH: "\<And>r. length r < length ts \<Longrightarrow> enough r"
    and op: "\<And>n m. 2 * length ts \<le> n \<Longrightarrow> 2 * length ts \<le> m \<Longrightarrow> operand n ts = operand m ts"
    and "2 * length ts < n" and "2 * length ts < m"
  shows "pipeline n ts = pipeline m ts"
proof -
  obtain n' m' where r: "n = Suc n'" "m = Suc m'" using assms(3,4) by (cases n; cases m) auto
  have op: "operand n' ts = operand m' ts" using assms(3,4) r by (intro op) auto
  show ?thesis
  proof (cases ts)
    case (Cons t ts')
    then have "pipeline n' ts' = pipeline m' ts'" "arguments n' ts' = arguments m' ts'"
      using IH [of ts'] assms(3,4) r by (auto simp: enough_def)
    with Cons r op show ?thesis
      by (cases t) (simp_all add: pipeline.simps [of "Suc n'"] pipeline.simps [of "Suc m'"])
  qed (use r op in \<open>simp add: pipeline.simps [of "Suc n'"] pipeline.simps [of "Suc m'"]\<close>)
qed

text \<open>
  An operand or an argument list of \<open>k\<close> tokens needs at most \<open>2 * k\<close> levels, a pipeline one more:
  the bound of \<open>whole_pipeline\<close> is never reached.
\<close>

lemma enough_levels: "enough ts"
proof (induction ts rule: length_induct)
  case (1 ts)
  then have IH: "\<And>r. length r < length ts \<Longrightarrow> enough r" by blast
  note op = enough_operand [OF IH]
  show ?case
    unfolding enough_def using op enough_arguments [OF IH] enough_pipeline [OF IH op] by blast
qed

lemma whole_pipeline_bound:
  "2 * length ts < n \<Longrightarrow> whole_pipeline ts = (case pipeline n ts of Some (e, []) \<Rightarrow> Some e | _ \<Rightarrow> None)"
  unfolding whole_pipeline_def using enough_levels [of ts] by (metis enough_def less_add_same_cancel1 zero_less_numeral)

end
