(* ===== verification/Database.thy ===== *)
theory Database
  imports Config Template
begin

text \<open>
  \<^verbatim>\<open>controllers/database\<close>: the connection to a database and the queries every database
  answers (\<^verbatim>\<open>database.go\<close>, \<^verbatim>\<open>types.go\<close>), and the operations on the tables and the view of
  an application database (\<^verbatim>\<open>app_database.go\<close>). A database is a record of its parameters
  and its connection; the operations that change it return the changed record. Logging is
  not modelled.
\<close>

section \<open>Any database\<close>

record BaseDatabase =
  db_Config :: DBParams
  db_connection :: "conn option"

definition NewBaseDatabase :: "DBParams \<Rightarrow> BaseDatabase" where
  "NewBaseDatabase config = \<lparr>db_Config = config, db_connection = None\<rparr>"

definition connectionString :: "DBParams \<Rightarrow> string" where
  "connectionString params =
     ''postgresql://'' @ db_User params @ '':'' @ db_Password params @ ''@'' @ db_Host params @ '':'' @
     db_Port params @ ''/'' @ db_Name params @ ''?sslmode='' @ db_SSLMode params @
     (if db_SSLRootCert params \<noteq> '''' \<and> db_SSLRootCert params \<noteq> ''none''
      then ''&sslrootcert='' @ db_SSLRootCert params else '''')"

definition GetConnection :: "'w pg_api \<Rightarrow> DBParams \<Rightarrow> ('w, gerror + conn) eff" where
  "GetConnection P params =
     (let connStr = connectionString params in perform (PgConnect connStr) (pgx_Connect P connStr))"

text \<open>A failed attempt leaves the connection \<open>nil\<close>, even when there was one before.\<close>

definition base_Connect :: "'w pg_api \<Rightarrow> BaseDatabase \<Rightarrow> ('w, gerror option \<times> BaseDatabase) eff" where
  "base_Connect P db = do {
     r \<leftarrow> GetConnection P (db_Config db);
     case r of
       Inl err \<Rightarrow>
         ret (Some (errors_New (''Error connecting to '' @ db_Host (db_Config db) @ '':'' @
           db_Port (db_Config db) @ ''/'' @ db_Name (db_Config db) @ '' as '' @
           db_User (db_Config db) @ '' : '' @ ErrorText err)), db\<lparr>db_connection := None\<rparr>)
     | Inr c \<Rightarrow> ret (None, db\<lparr>db_connection := Some c\<rparr>)
   }"

definition base_Close :: "'w pg_api \<Rightarrow> BaseDatabase \<Rightarrow> ('w, gerror option) eff" where
  "base_Close P db =
     (case db_connection db of
        Some c \<Rightarrow> perform (PgClose c) (pgx_Close P c)
      | None \<Rightarrow> ret None)"

definition no_connection :: gerror where
  "no_connection = errors_New ''cannot run query because there is no database connection''"

definition RunQuery :: "'w pg_api \<Rightarrow> BaseDatabase \<Rightarrow> string \<Rightarrow> ('w, gerror + Rows) eff" where
  "RunQuery P db query =
     (case db_connection db of
        None \<Rightarrow> ret (Inl no_connection)
      | Some c \<Rightarrow> do {
          r \<leftarrow> perform (PgQuery c query) (pgx_Query P c query);
          case r of
            Inl err \<Rightarrow> ret (Inl (Errorf_wrap (''Error executing query '' @ query @ '', '' @ ErrorText err) err))
          | Inr rows \<Rightarrow> ret (Inr rows)
        })"

definition Exec :: "'w pg_api \<Rightarrow> BaseDatabase \<Rightarrow> string \<Rightarrow> ('w, gerror option) eff" where
  "Exec P db query =
     (case db_connection db of
        None \<Rightarrow> ret (Some no_connection)
      | Some c \<Rightarrow> do {
          r \<leftarrow> perform (PgExec c query) (pgx_Exec P c query);
          case r of
            Some err \<Rightarrow> ret (Some (Errorf_wrap (''Error executing query '' @ query @ '', '' @ ErrorText err) err))
          | None \<Rightarrow> ret None
        })"

text \<open>The loop of \<open>getJoinClause\<close>: \<open>seen\<close> is the set of clauses already taken.\<close>

definition filter_join :: "strmap \<Rightarrow> string option" where
  "filter_join f = (case fmlookup f ''join'' of
     Some join \<Rightarrow> (if join \<noteq> '''' then Some join else None) | None \<Rightarrow> None)"

fun join_loop :: "strmap list \<Rightarrow> string list \<Rightarrow> (string, bool) fmap \<Rightarrow> string list" where
  "join_loop [] joins seen = joins"
| "join_loop (f # filters) joins seen =
     (case filter_join f of
        None \<Rightarrow> join_loop filters joins seen
      | Some join \<Rightarrow>
          (if fmlookup seen join \<noteq> Some True then join_loop filters (joins @ [join]) (fmupd join True seen)
           else join_loop filters joins seen))"

definition getJoinClause :: "strmap list \<Rightarrow> string" where
  "getJoinClause additionalFilters = str_join '' '' (join_loop additionalFilters [] fmempty)"

definition insights_clause :: string where
  "insights_clause = ''(insights_id != '' @ [CHR 0x27] @
     ''00000000-0000-0000-0000-000000000000'' @ [CHR 0x27] @ ''::uuid)''"

definition filter_where :: "strmap \<Rightarrow> string" where
  "filter_where f = ''('' @ (case fmlookup f ''where'' of Some w \<Rightarrow> w | None \<Rightarrow> '''') @ '')''"

definition getWhereClause :: "bool \<Rightarrow> strmap list \<Rightarrow> string" where
  "getWhereClause insightsOnly additionalFilters =
     (let query = str_join '' AND ''
            (map filter_where additionalFilters @ (if insightsOnly then [insights_clause] else []))
      in if length query > 0 then ''WHERE '' @ query else '''')"

fun hasJoinClause :: "strmap list \<Rightarrow> bool" where
  "hasJoinClause [] = False"
| "hasJoinClause (f # filters) = (if filter_join f \<noteq> None then True else hasJoinClause filters)"

definition hostCountQuery :: "string \<Rightarrow> bool \<Rightarrow> strmap list \<Rightarrow> string" where
  "hostCountQuery table insightsOnly additionalFilters =
     (if hasJoinClause additionalFilters then
        ''SELECT count(*) FROM '' @ table @ '' h '' @ getJoinClause additionalFilters @ '' '' @
        getWhereClause insightsOnly additionalFilters
      else ''SELECT count(*) FROM '' @ table @ '' '' @ getWhereClause insightsOnly additionalFilters)"

definition hostIdQuery :: "string \<Rightarrow> bool \<Rightarrow> strmap list \<Rightarrow> string" where
  "hostIdQuery table insightsOnly additionalFilters =
     (if hasJoinClause additionalFilters then
        ''SELECT h.id FROM '' @ table @ '' h '' @ getJoinClause additionalFilters @ '' '' @
        getWhereClause insightsOnly additionalFilters @ '' ORDER BY h.id''
      else ''SELECT id FROM '' @ table @ '' '' @ getWhereClause insightsOnly additionalFilters @ '' ORDER BY id'')"

text \<open>The two row loops. Neither looks at the error that ended the iteration.\<close>

fun count_loop :: "Row list \<Rightarrow> int \<Rightarrow> gerror + int" where
  "count_loop [] response = Inr response"
| "count_loop (r # rows) response =
     (case scan_int64 r of Inl err \<Rightarrow> Inl err | Inr count \<Rightarrow> count_loop rows count)"

fun strings_loop :: "Row list \<Rightarrow> string list \<Rightarrow> gerror + string list" where
  "strings_loop [] ids = Inr ids"
| "strings_loop (r # rows) ids =
     (case scan_string r of Inl err \<Rightarrow> Inl err | Inr i \<Rightarrow> strings_loop rows (ids @ [i]))"

definition CountHosts :: "'w pg_api \<Rightarrow> BaseDatabase \<Rightarrow> string \<Rightarrow> bool \<Rightarrow> strmap list \<Rightarrow>
    ('w, gerror + int) eff" where
  "CountHosts P db table insightsOnly additionalFilters = do {
     r \<leftarrow> RunQuery P db (hostCountQuery table insightsOnly additionalFilters);
     case r of
       Inl err \<Rightarrow> ret (Inl err)
     | Inr rows \<Rightarrow> ret (count_loop (rows_items rows) 0)
   }"

definition GetHostIds :: "'w pg_api \<Rightarrow> BaseDatabase \<Rightarrow> string \<Rightarrow> bool \<Rightarrow> strmap list \<Rightarrow>
    ('w, gerror + string list) eff" where
  "GetHostIds P db table insightsOnly additionalFilters = do {
     r \<leftarrow> RunQuery P db (hostIdQuery table insightsOnly additionalFilters);
     case r of
       Inl err \<Rightarrow> ret (Inl err)
     | Inr rows \<Rightarrow> ret (strings_loop (rows_items rows) [])
   }"

section \<open>The application database\<close>

definition sq :: "string \<Rightarrow> string" where
  "sq s = [CHR 0x27] @ s @ [CHR 0x27]"

definition tab :: "string \<Rightarrow> string" where
  "tab s = CHR 0x09 # s"

definition cullingStaleWarningOffset :: string where "cullingStaleWarningOffset = ''7''"
definition cullingCulledOffset :: string where "cullingCulledOffset = ''14''"
definition initialPassword :: string where "initialPassword = ''havefun''"

text \<open>\<open>viewTemplate\<close> with its arguments: table, stale-warning offset, culled offset.\<close>

definition viewTemplate :: "string \<Rightarrow> string \<Rightarrow> string \<Rightarrow> string" where
  "viewTemplate table stale culled = text_lines
     [''CREATE OR REPLACE VIEW inventory.hosts AS SELECT'',
      tab ''id,'', tab ''account,'', tab ''display_name,'', tab ''created,'', tab ''updated,'',
      tab ''stale_timestamp,'',
      tab (''stale_timestamp + INTERVAL '' @ sq ''1'' @ '' DAY * '' @ sq stale @ '' AS stale_warning_timestamp,''),
      tab (''stale_timestamp + INTERVAL '' @ sq ''1'' @ '' DAY * '' @ sq culled @ '' AS culled_timestamp,''),
      tab ''tags,'', tab ''system_profile,'', tab ''insights_id,'', tab ''reporter,'',
      tab ''per_reporter_staleness,'', tab ''org_id,'', tab ''groups,'', tab ''last_check_in'',
      ''FROM inventory.'' @ table]"

definition NewAppDatabase :: "DBParams \<Rightarrow> BaseDatabase" where
  "NewAppDatabase config = \<lparr>db_Config = config, db_connection = None\<rparr>"

definition alterStatement :: "string \<Rightarrow> string \<Rightarrow> string" where
  "alterStatement user password = ''ALTER ROLE '' @ user @ '' WITH PASSWORD '' @ sq password"

text \<open>
  \<open>rotatePassword\<close> puts the initial password into the parameters and leaves it there; the
  connection it opened is closed when it returns, after the statement has been run.
\<close>

definition rotatePassword :: "'w pg_api \<Rightarrow> BaseDatabase \<Rightarrow> ('w, gerror option \<times> BaseDatabase) eff" where
  "rotatePassword P db = (
     let newPassword = db_Password (db_Config db);
         db1 = db\<lparr>db_Config := (db_Config db)\<lparr>db_Password := initialPassword\<rparr>\<rparr>
     in do {
       (err, db2) \<leftarrow> base_Connect P db1;
       case err of
         Some e \<Rightarrow> ret (Some e, db2)
       | None \<Rightarrow> do {
           err \<leftarrow> Exec P db2 (alterStatement (db_User (db_Config db2)) newPassword);
           _ \<leftarrow> base_Close P db2;
           ret (err, db2)
         }
     })"

definition Connect :: "'w pg_api \<Rightarrow> BaseDatabase \<Rightarrow> ('w, gerror option \<times> BaseDatabase) eff" where
  "Connect P db = do {
     (err, db1) \<leftarrow> base_Connect P db;
     case err of
       Some e \<Rightarrow>
         if str_contains ''28P01'' (ErrorText e) then do {
           (err, db2) \<leftarrow> rotatePassword P db1;
           case err of
             Some e \<Rightarrow> ret (Some e, db2)
           | None \<Rightarrow> base_Connect P db2
         }
         else ret (Some e, db1)
     | None \<Rightarrow> ret (None, db1)
   }"

definition existsQuery :: "string \<Rightarrow> string" where
  "existsQuery tableName =
     ''SELECT exists (SELECT FROM information_schema.tables WHERE table_schema = '' @ sq ''inventory'' @
     '' AND table_name = '' @ sq tableName @ '')''"

definition CheckIfTableExists :: "'w pg_api \<Rightarrow> BaseDatabase \<Rightarrow> string \<Rightarrow> ('w, gerror + bool) eff" where
  "CheckIfTableExists P db tableName =
     (if tableName = '''' then ret (Inr False)
      else do {
        r \<leftarrow> RunQuery P db (existsQuery tableName);
        case r of
          Inl err \<Rightarrow> ret (Inl err)
        | Inr rows \<Rightarrow>
            ret (case rows_items rows of [] \<Rightarrow> rows_scan_none rows | r # _ \<Rightarrow> scan_bool r)
      })"

definition CreateTable :: "'w pg_api \<Rightarrow> text_api \<Rightarrow> BaseDatabase \<Rightarrow> string \<Rightarrow> string \<Rightarrow>
    ('w, gerror option) eff" where
  "CreateTable P T db tableName script =
     (case execute_template T script (fmap_of_list [(''TableName'', TStr tableName)]) of
        Inl err \<Rightarrow> ret (Some err)
      | Inr dbSchemaParsed \<Rightarrow> Exec P db dbSchemaParsed)"

definition dropStatement :: "string \<Rightarrow> string" where
  "dropStatement tableName = ''DROP table '' @ AppFullTableName tableName @ '' CASCADE''"

definition DeleteTable :: "'w pg_api \<Rightarrow> BaseDatabase \<Rightarrow> string \<Rightarrow> ('w, gerror option) eff" where
  "DeleteTable P db tableName = do {
     r \<leftarrow> CheckIfTableExists P db tableName;
     case r of
       Inl err \<Rightarrow> ret (Some err)
     | Inr tableExists \<Rightarrow>
         if \<not> tableExists then ret None else Exec P db (dropStatement tableName)
   }"

definition grantStatement :: string where
  "grantStatement = ''GRANT SELECT ON inventory.hosts TO cyndi_reader''"

definition viewStatement :: "string \<Rightarrow> string" where
  "viewStatement tableName = viewTemplate tableName cullingStaleWarningOffset cullingCulledOffset"

definition UpdateView :: "'w pg_api \<Rightarrow> BaseDatabase \<Rightarrow> string \<Rightarrow> ('w, gerror option) eff" where
  "UpdateView P db tableName = do {
     r \<leftarrow> Exec P db (viewStatement tableName);
     case r of
       Some err \<Rightarrow> ret (Some err)
     | None \<Rightarrow> Exec P db grantStatement
   }"

definition currentTableQuery :: string where
  "currentTableQuery =
     ''SELECT table_name FROM information_schema.view_table_usage WHERE view_schema = '' @ sq ''inventory'' @
     '' AND view_name = '' @ sq ''hosts'' @ '' LIMIT 1;''"

definition GetCurrentTable :: "'w pg_api \<Rightarrow> BaseDatabase \<Rightarrow> ('w, gerror + string option) eff" where
  "GetCurrentTable P db = do {
     r \<leftarrow> RunQuery P db currentTableQuery;
     case r of
       Inl err \<Rightarrow> ret (Inl err)
     | Inr rows \<Rightarrow>
         ret (case rows_items rows of [] \<Rightarrow> Inr None | r # _ \<Rightarrow> scan_string_ptr r)
   }"

definition tablesQuery :: string where
  "tablesQuery =
     ''SELECT table_name FROM information_schema.tables WHERE table_schema = '' @ sq ''inventory'' @
     '' AND table_type = '' @ sq ''BASE TABLE'' @ '' AND table_name LIKE '' @ sq ''hosts_%'' @
     '' ORDER BY table_name''"

definition GetCyndiTables :: "'w pg_api \<Rightarrow> BaseDatabase \<Rightarrow> ('w, gerror + string list) eff" where
  "GetCyndiTables P db = do {
     r \<leftarrow> RunQuery P db tablesQuery;
     case r of
       Inl err \<Rightarrow> ret (Inl err)
     | Inr rows \<Rightarrow> ret (strings_loop (rows_items rows) [])
   }"

section \<open>What the operations ask for\<close>

lemma only_base_Connect [only_intros]:
  "PgConnect (connectionString (db_Config db)) \<in> S \<Longrightarrow> only S (base_Connect P db)"
  unfolding base_Connect_def GetConnection_def Let_def by (auto intro!: only_intros)

lemma only_base_Close [only_intros]: "(\<And>c. PgClose c \<in> S) \<Longrightarrow> only S (base_Close P db)"
  unfolding base_Close_def by (auto intro!: only_intros)

lemma only_RunQuery [only_intros]: "(\<And>c. PgQuery c q \<in> S) \<Longrightarrow> only S (RunQuery P db q)"
  unfolding RunQuery_def by (auto intro!: only_intros)

lemma only_Exec [only_intros]: "(\<And>c. PgExec c q \<in> S) \<Longrightarrow> only S (Exec P db q)"
  unfolding Exec_def by (auto intro!: only_intros)

lemma only_rotatePassword [only_intros]:
  "(\<And>s. PgConnect s \<in> S) \<Longrightarrow> (\<And>c. PgClose c \<in> S) \<Longrightarrow> (\<And>c u p. PgExec c (alterStatement u p) \<in> S) \<Longrightarrow>
   only S (rotatePassword P db)"
  unfolding rotatePassword_def Let_def by (auto intro!: only_intros)

lemma only_Connect [only_intros]:
  "(\<And>s. PgConnect s \<in> S) \<Longrightarrow> (\<And>c. PgClose c \<in> S) \<Longrightarrow> (\<And>c u p. PgExec c (alterStatement u p) \<in> S) \<Longrightarrow>
   only S (Connect P db)"
  unfolding Connect_def by (auto intro!: only_intros)

lemma only_CountHosts [only_intros]:
  "(\<And>c. PgQuery c (hostCountQuery t io fs) \<in> S) \<Longrightarrow> only S (CountHosts P db t io fs)"
  unfolding CountHosts_def by (auto intro!: only_intros)

lemma only_GetHostIds [only_intros]:
  "(\<And>c. PgQuery c (hostIdQuery t io fs) \<in> S) \<Longrightarrow> only S (GetHostIds P db t io fs)"
  unfolding GetHostIds_def by (auto intro!: only_intros)

lemma only_CheckIfTableExists [only_intros]:
  "(\<And>c. PgQuery c (existsQuery t) \<in> S) \<Longrightarrow> only S (CheckIfTableExists P db t)"
  unfolding CheckIfTableExists_def by (auto intro!: only_intros)

lemma only_CreateTable [only_intros]:
  "(\<And>c q. execute_template T script (fmap_of_list [(''TableName'', TStr t)]) = Inr q \<Longrightarrow>
      PgExec c q \<in> S) \<Longrightarrow> only S (CreateTable P T db t script)"
  unfolding CreateTable_def by (auto intro!: only_intros)

lemma only_DeleteTable [only_intros]:
  "(\<And>c. PgQuery c (existsQuery t) \<in> S) \<Longrightarrow> (\<And>c. PgExec c (dropStatement t) \<in> S) \<Longrightarrow>
   only S (DeleteTable P db t)"
  unfolding DeleteTable_def by (auto intro!: only_intros)

lemma only_UpdateView [only_intros]:
  "(\<And>c. PgExec c (viewStatement t) \<in> S) \<Longrightarrow> (\<And>c. PgExec c grantStatement \<in> S) \<Longrightarrow>
   only S (UpdateView P db t)"
  unfolding UpdateView_def by (auto intro!: only_intros)

lemma only_GetCurrentTable [only_intros]:
  "(\<And>c. PgQuery c currentTableQuery \<in> S) \<Longrightarrow> only S (GetCurrentTable P db)"
  unfolding GetCurrentTable_def by (auto intro!: only_intros)

lemma only_GetCyndiTables [only_intros]:
  "(\<And>c. PgQuery c tablesQuery \<in> S) \<Longrightarrow> only S (GetCyndiTables P db)"
  unfolding GetCyndiTables_def by (auto intro!: only_intros)

text \<open>The statements differ in their first letters, so one is never mistaken for another.\<close>

lemma statements_differ [simp]:
  "viewStatement t \<noteq> dropStatement t'" "dropStatement t' \<noteq> viewStatement t"
  "viewStatement t \<noteq> grantStatement" "grantStatement \<noteq> viewStatement t"
  "dropStatement t \<noteq> grantStatement" "grantStatement \<noteq> dropStatement t"
  "alterStatement u p \<noteq> viewStatement t" "viewStatement t \<noteq> alterStatement u p"
  "alterStatement u p \<noteq> dropStatement t" "dropStatement t \<noteq> alterStatement u p"
  by (simp_all add: alterStatement_def viewStatement_def viewTemplate_def text_lines_def dropStatement_def grantStatement_def)

lemma dropStatement_inject [simp]: "dropStatement t = dropStatement t' \<longleftrightarrow> t = t'"
  by (simp add: dropStatement_def)

section \<open>The two host queries\<close>

text \<open>The joins that are used, as a specification: the first occurrence of each.\<close>

definition first_occurrences :: "'a list \<Rightarrow> 'a list" where
  "first_occurrences xs = rev (remdups (rev xs))"

lemma first_occurrences_snoc:
  "first_occurrences (xs @ [x]) = (if x \<in> set xs then first_occurrences xs else first_occurrences xs @ [x])"
  by (simp add: first_occurrences_def)

lemma join_loop_first_occurrences:
  assumes "joins = first_occurrences js" and "\<And>k. fmlookup seen k = Some True \<longleftrightarrow> k \<in> set js"
  shows "join_loop filters joins seen = first_occurrences (js @ List.map_filter filter_join filters)"
  using assms
proof (induction filters joins seen arbitrary: js rule: join_loop.induct)
  case (2 f filters joins seen)
  show ?case
  proof (cases "filter_join f")
    case (Some j)
    have snoc: "js @ List.map_filter filter_join (f # filters) =
        (js @ [j]) @ List.map_filter filter_join filters"
      by (simp add: Some List.map_filter_simps)
    show ?thesis
      unfolding snoc
      using 2(2,3) [OF Some, of "js @ [j]"] "2.prems" Some
      by (auto simp: first_occurrences_snoc insert_absorb)
  qed (use 2(1) [OF _ "2.prems"] in \<open>simp add: List.map_filter_simps\<close>)
qed (simp add: List.map_filter_simps)

lemma hasJoinClause_iff: "hasJoinClause fs \<longleftrightarrow> (\<exists>f \<in> set fs. filter_join f \<noteq> None)"
  by (induction fs) auto

lemma filter_join_nonempty: "filter_join f = Some j \<Longrightarrow> j \<noteq> ''''"
  by (auto simp: filter_join_def split: option.splits if_splits)

lemma str_join_empty_iff: "sep \<noteq> [] \<Longrightarrow> [] \<notin> set ss \<Longrightarrow> str_join sep ss = [] \<longleftrightarrow> ss = []"
  by (induction sep ss rule: str_join.induct) auto

lemma set_map_filter_join:
  "set (List.map_filter filter_join fs) = {j. \<exists>f \<in> set fs. filter_join f = Some j}"
  by (force simp: List.map_filter_def)

text \<open>
  C31: the JOIN part of a host query holds each distinct join text of the filters once, in the
  order of its first occurrence, and a query uses the alias \<open>h\<close> exactly when that part is
  not empty.
\<close>

theorem getJoinClause_spec:
  "getJoinClause fs = str_join '' '' (first_occurrences (List.map_filter filter_join fs)) \<and>
   (hasJoinClause fs \<longleftrightarrow> getJoinClause fs \<noteq> '''')"
proof -
  let ?js = "first_occurrences (List.map_filter filter_join fs)"
  have clause: "getJoinClause fs = str_join '' '' ?js"
    using join_loop_first_occurrences [of "[]" "[]" fmempty fs]
    by (simp add: getJoinClause_def first_occurrences_def)
  have members: "set ?js = {j. \<exists>f \<in> set fs. filter_join f = Some j}"
    by (simp add: first_occurrences_def set_map_filter_join)
  then have "[] \<notin> set ?js" using filter_join_nonempty by fastforce
  then have "str_join '' '' ?js = [] \<longleftrightarrow> set ?js = {}" by (simp add: str_join_empty_iff)
  then show ?thesis using clause members by (auto simp: hasJoinClause_iff)
qed

text \<open>What both queries select from: table, joins and conditions.\<close>

definition host_source :: "string \<Rightarrow> bool \<Rightarrow> strmap list \<Rightarrow> string" where
  "host_source table insightsOnly fs =
     table @ '' '' @ (if hasJoinClause fs then ''h '' @ getJoinClause fs @ '' '' else '''') @
     getWhereClause insightsOnly fs"

text \<open>
  the query that counts hosts and the query that lists them select from the same table
  with the same joins and the same conditions; only the selected column, which is qualified
  when there is a join, and the ordering differ.
\<close>

theorem host_queries_agree:
  "hostCountQuery table insightsOnly fs = ''SELECT count(*) FROM '' @ host_source table insightsOnly fs \<and>
   (let column = (if hasJoinClause fs then ''h.id'' else ''id'') in
    hostIdQuery table insightsOnly fs =
      ''SELECT '' @ column @ '' FROM '' @ host_source table insightsOnly fs @ '' ORDER BY '' @ column)"
  by (simp add: hostCountQuery_def hostIdQuery_def host_source_def)

text \<open>
  Without filters and without the insights condition there is no WHERE clause; otherwise
  the conditions of all filters, each in parentheses, are joined by AND in their order,
  with the insights condition last.
\<close>

lemma getWhereClause_spec:
  "getWhereClause insightsOnly fs =
     (if fs = [] \<and> \<not> insightsOnly then ''''
      else ''WHERE '' @ str_join '' AND ''
        (map filter_where fs @ (if insightsOnly then [insights_clause] else [])))"
proof -
  let ?cs = "map filter_where fs @ (if insightsOnly then [insights_clause] else [])"
  have "[] \<notin> set ?cs" by (auto simp: filter_where_def insights_clause_def)
  then have "str_join '' AND '' ?cs = [] \<longleftrightarrow> ?cs = []" by (simp add: str_join_empty_iff)
  then show ?thesis by (auto simp: getWhereClause_def Let_def)
qed

section \<open>Results that arrive incomplete\<close>

lemma strings_loop_complete:
  "map scan_string rows = map Inr ids \<Longrightarrow> strings_loop rows acc = Inr (acc @ ids)"
  by (induction rows acc arbitrary: ids rule: strings_loop.induct) auto


definition broken_rows :: Rows where
  "broken_rows = \<lparr>rows_items = [\<lparr>scan_int64 = Inr 0, scan_string = Inr ''id1'', scan_string_ptr = Inr None,
     scan_bool = Inr False\<rparr>], rows_scan_none = Inr False, rows_Err = Some no_connection\<rparr>"

definition broken_pg :: "unit pg_api" where
  "broken_pg = \<lparr>pgx_Connect = (\<lambda>_ w. (Inr 1, w)), pgx_Query = (\<lambda>_ _ w. (Inr broken_rows, w)),
     pgx_Exec = (\<lambda>_ _ w. (None, w)), pgx_Close = (\<lambda>_ w. (None, w))\<rparr>"

definition sample_params :: DBParams where
  "sample_params = \<lparr>db_Name = ''n'', db_Host = ''h'', db_Port = ''5432'', db_User = ''u'', db_Password = ''p'',
     db_SSLMode = ''disable'', db_SSLRootCert = ''none''\<rparr>"


section \<open>The initial password\<close>

lemma base_Connect_error:
  "pgx_Connect P (connectionString (db_Config db)) (server w) = (Inl err, s) \<Longrightarrow>
   \<exists>e. run_state (base_Connect P db) w = ((Some e, db\<lparr>db_connection := None\<rparr>),
     w\<lparr>server := s, effects := effects w @ [PgConnect (connectionString (db_Config db))]\<rparr>) \<and>
     (\<exists>p. ErrorText e = p @ ErrorText err)"
  by (simp add: base_Connect_def GetConnection_def Let_def)

lemma str_contains_suffix: "str_contains s t \<Longrightarrow> str_contains s (p @ t)"
proof (induction p)
  case (Cons c p)
  then show ?case by simp
qed simp

lemma base_Connect_ok:
  "pgx_Connect P (connectionString (db_Config db)) (server w) = (Inr c, s) \<Longrightarrow>
   run_state (base_Connect P db) w = ((None, db\<lparr>db_connection := Some c\<rparr>),
     w\<lparr>server := s, effects := effects w @ [PgConnect (connectionString (db_Config db))]\<rparr>)"
  by (simp add: base_Connect_def GetConnection_def Let_def)

text \<open>
  C36: when the server rejects the password (SQLSTATE 28P01) and accepts the initial one, the
  role is given the password of the parameters over a connection that is then closed; but
  the connection that follows is opened with the initial password again, which has just been
  replaced, and the parameters keep it.
\<close>

theorem Connect_after_rotation:
  assumes rejected: "pgx_Connect P (connectionString (db_Config db)) (server w) = (Inl err, s1)"
      "str_contains ''28P01'' (ErrorText err)"
    and initial: "init = (db_Config db)\<lparr>db_Password := initialPassword\<rparr>"
      "pgx_Connect P (connectionString init) s1 = (Inr c, s2)"
    and changed: "pgx_Exec P c (alterStatement (db_User init) (db_Password (db_Config db))) s2 = (None, s3)"
    and closed: "pgx_Close P c s3 = (e, s4)"
    and run: "run_state (Connect P db) w = ((r, db'), w')"
  shows "new_effects w w' = [PgConnect (connectionString (db_Config db)), PgConnect (connectionString init),
      PgExec c (alterStatement (db_User init) (db_Password (db_Config db))), PgClose c,
      PgConnect (connectionString init)] \<and> db_Password (db_Config db') = initialPassword"
proof -
  obtain e1 p where e1: "run_state (base_Connect P db) w = ((Some e1, db\<lparr>db_connection := None\<rparr>),
      w\<lparr>server := s1, effects := effects w @ [PgConnect (connectionString (db_Config db))]\<rparr>)"
    "ErrorText e1 = p @ ErrorText err"
    using base_Connect_error [OF rejected(1)] by blast
  have "str_contains ''28P01'' (ErrorText e1)" using e1(2) rejected(2) str_contains_suffix by simp
  moreover have "run_state (rotatePassword P (db\<lparr>db_connection := None\<rparr>))
      (w\<lparr>server := s1, effects := effects w @ [PgConnect (connectionString (db_Config db))]\<rparr>) =
      ((None, db\<lparr>db_Config := init, db_connection := Some c\<rparr>),
       w\<lparr>server := s4, effects := effects w @ [PgConnect (connectionString (db_Config db)),
         PgConnect (connectionString init),
         PgExec c (alterStatement (db_User init) (db_Password (db_Config db))), PgClose c]\<rparr>)"
    using initial changed closed
    by (simp add: rotatePassword_def Let_def base_Connect_def GetConnection_def Exec_def base_Close_def)
  ultimately show ?thesis
    using run e1(1) initial(1)
    by (auto simp: Connect_def new_effects_def base_Connect_def GetConnection_def Let_def
        split: prod.splits sum.splits)
qed

text \<open>A server whose state is the password of the role.\<close>

definition rejected_password :: gerror where
  "rejected_password = errors_New ''password authentication failed (SQLSTATE 28P01)''"

definition password_pg :: "string pg_api" where
  "password_pg = \<lparr>pgx_Connect = (\<lambda>s pw. (if str_contains ('':'' @ pw @ ''@'') s then Inr 1
       else Inl rejected_password, pw)),
     pgx_Query = (\<lambda>_ _ pw. (Inl rejected_password, pw)),
     pgx_Exec = (\<lambda>_ q pw. (None, if q = alterStatement ''u'' ''p'' then ''p'' else pw)),
     pgx_Close = (\<lambda>_ pw. (None, pw))\<rparr>"

definition rotation_run :: "(gerror option \<times> BaseDatabase) \<times> (string, effect) world" where
  "rotation_run = run_state (Connect password_pg (NewAppDatabase sample_params))
     \<lparr>server = initialPassword, effects = []\<rparr>"

theorem Connect_after_rotation_witness:
  "new_effects \<lparr>server = initialPassword, effects = []\<rparr> (snd rotation_run) =
     [PgConnect (connectionString sample_params),
      PgConnect (connectionString (sample_params\<lparr>db_Password := initialPassword\<rparr>)),
      PgExec 1 (alterStatement ''u'' ''p''), PgClose 1,
      PgConnect (connectionString (sample_params\<lparr>db_Password := initialPassword\<rparr>))] \<and>
   fst (fst rotation_run) \<noteq> None"
proof -
  have start: "pgx_Connect password_pg (connectionString (db_Config (NewAppDatabase sample_params)))
      (server \<lparr>server = initialPassword, effects = []\<rparr>) = (Inl rejected_password, initialPassword)"
    by code_simp
  have contains: "str_contains ''28P01'' (ErrorText rejected_password)" by code_simp
  have again: "pgx_Connect password_pg (connectionString
      ((db_Config (NewAppDatabase sample_params))\<lparr>db_Password := initialPassword\<rparr>)) initialPassword =
      (Inr 1, initialPassword)" by code_simp
  have changed: "pgx_Exec password_pg 1 (alterStatement
      (db_User ((db_Config (NewAppDatabase sample_params))\<lparr>db_Password := initialPassword\<rparr>))
      (db_Password (db_Config (NewAppDatabase sample_params)))) initialPassword = (None, ''p'')" by code_simp
  have closed: "pgx_Close password_pg 1 ''p'' = (None, ''p'')" by (simp add: password_pg_def)
  have run: "run_state (Connect password_pg (NewAppDatabase sample_params))
      \<lparr>server = initialPassword, effects = []\<rparr> = ((fst (fst rotation_run), snd (fst rotation_run)), snd rotation_run)"
    by (simp add: rotation_run_def)
  have "fst (fst rotation_run) \<noteq> None" by code_simp
  with Connect_after_rotation [OF start contains refl again changed closed run] show ?thesis
    by (simp add: NewAppDatabase_def sample_params_def)
qed

end
