(* ===== verification/Float64.thy ===== *)
theory Float64
  imports Prelude "HOL-Library.Log_Nat"
begin

text \<open>
  The \<open>float64\<close> arithmetic of the validation: a float is the rational number it denotes,
  and every operation rounds its exact result to 53 significant bits, ties to even. The
  validation only handles ratios of counts, far from overflow and from the subnormal
  range, so neither is modelled.
\<close>

section \<open>Rounding\<close>

definition round_half_even :: "rat \<Rightarrow> int" where
  "round_half_even x =
     (let f = \<lfloor>x\<rfloor>; d = x - of_int f in
      if d < 1 / 2 then f else if d > 1 / 2 then f + 1 else if even f then f else f + 1)"

text \<open>The binary exponent of a positive rational: \<open>2 ^ e \<le> x < 2 ^ (e + 1)\<close>.\<close>

definition exponent :: "rat \<Rightarrow> int" where
  "exponent x =
     (case quotient_of x of (p, q) \<Rightarrow>
        let k = bitlen p - bitlen q in if 2 powi k \<le> x then k else k - 1)"

definition fl :: "rat \<Rightarrow> rat" where
  "fl x =
     (if x = 0 then 0
      else let u = 2 powi (exponent \<bar>x\<bar> - 52)
           in sgn x * of_int (round_half_even (\<bar>x\<bar> / u)) * u)"

text \<open>\<open>float64(n)\<close> of an integer, division, multiplication, \<open>math.Max\<close>.\<close>

definition float_of_int :: "int \<Rightarrow> rat" where
  "float_of_int n = fl (of_int n)"

definition fdiv :: "rat \<Rightarrow> rat \<Rightarrow> rat" where
  "fdiv a b = fl (a / b)"

definition fmul :: "rat \<Rightarrow> rat \<Rightarrow> rat" where
  "fmul a b = fl (a * b)"

section \<open>Error bounds\<close>

lemma round_half_even_cases:
  "round_half_even x = \<lfloor>x\<rfloor> \<and> x - of_int \<lfloor>x\<rfloor> \<le> 1 / 2 \<or>
   round_half_even x = \<lfloor>x\<rfloor> + 1 \<and> 1 / 2 \<le> x - of_int \<lfloor>x\<rfloor>"
  by (auto simp: round_half_even_def Let_def)

lemma round_half_even_error: "\<bar>of_int (round_half_even x) - x\<bar> \<le> 1 / 2"
  using round_half_even_cases [of x] of_int_floor_le [of x] floor_correct [of x] by auto

lemma round_half_even_int [simp]: "round_half_even (of_int n) = n"
  by (simp add: round_half_even_def)

lemma round_half_even_mono: "x \<le> y \<Longrightarrow> round_half_even x \<le> round_half_even y"
proof (cases "\<lfloor>x\<rfloor> = \<lfloor>y\<rfloor>")
  case True
  assume "x \<le> y"
  with True show ?thesis by (auto simp: round_half_even_def Let_def)
next
  case False
  assume "x \<le> y"
  with False have "\<lfloor>x\<rfloor> + 1 \<le> \<lfloor>y\<rfloor>" by (metis floor_mono order_le_less zless_imp_add1_zle)
  then show ?thesis using round_half_even_cases [of x] round_half_even_cases [of y] by auto
qed

lemma powi_two_le_iff [simp]: "(2 :: rat) powi i \<le> 2 powi j \<longleftrightarrow> i \<le> j"
  by (metis linorder_not_less one_less_numeral_iff power_int_increasing power_int_strict_increasing
      semiring_norm(76) one_le_numeral)

lemma powi_two_less_iff [simp]: "(2 :: rat) powi i < 2 powi j \<longleftrightarrow> i < j"
  by (simp flip: not_le)

lemma powi_two_add: "(2 :: rat) powi (i + j) = 2 powi i * 2 powi j"
  by (simp add: power_int_add)

lemma bitlen_powi:
  assumes "0 < (p :: int)"
  shows "2 powi (bitlen p - 1) \<le> (of_int p :: rat)" and "(of_int p :: rat) < 2 powi (bitlen p)"
proof -
  have len: "0 < bitlen p" using assms bitlen_bounds [of p] bitlen_nonneg [of p] by (cases "bitlen p = 0") auto
  have "2 ^ nat (bitlen p - 1) \<le> p \<and> p < 2 ^ nat (bitlen p)"
    using assms bitlen_bounds by simp
  then have "(2 :: rat) ^ nat (bitlen p - 1) \<le> of_int p" "(of_int p :: rat) < 2 ^ nat (bitlen p)"
    by (metis of_int_le_iff of_int_numeral of_int_power, metis of_int_less_iff of_int_numeral of_int_power)
  with len show "2 powi (bitlen p - 1) \<le> (of_int p :: rat)" "(of_int p :: rat) < 2 powi (bitlen p)"
    by (simp_all add: power_int_def)
qed

lemma exponent_bounds:
  assumes "0 < x"
  shows "2 powi (exponent x) \<le> x" and "x < 2 powi (exponent x + 1)"
proof -
  obtain p q where pq: "quotient_of x = (p, q)" by fastforce
  have q: "0 < q" using pq by (rule quotient_of_denom_pos)
  have x: "x = of_int p / of_int q" using pq by (rule quotient_of_div)
  with assms q have p: "0 < p" by (simp add: zero_less_divide_iff)
  define k where "k = bitlen p - bitlen q"
  have up: "x < 2 powi (k + 1)"
  proof -
    have "of_int p < (2 :: rat) powi (bitlen p)" using p by (rule bitlen_powi)
    also have "\<dots> = 2 powi (k + 1) * 2 powi (bitlen q - 1)"
      by (simp add: k_def flip: powi_two_add)
    also have "\<dots> \<le> 2 powi (k + 1) * of_int q"
      using bitlen_powi(1) [OF q] by (simp add: mult_left_mono)
    finally show ?thesis using q by (simp add: x pos_divide_less_eq)
  qed
  have low: "2 powi (k - 1) \<le> x"
  proof -
    have "2 powi (k - 1) * of_int q \<le> 2 powi (k - 1) * (2 :: rat) powi (bitlen q)"
      using bitlen_powi(2) [OF q] by (simp add: mult_left_mono order_less_imp_le)
    also have "\<dots> = 2 powi (bitlen p - 1)" by (simp add: k_def flip: powi_two_add)
    also have "\<dots> \<le> of_int p" using p by (rule bitlen_powi)
    finally show ?thesis using q by (simp add: x pos_le_divide_eq)
  qed
  have e: "exponent x = (if 2 powi k \<le> x then k else k - 1)"
    by (simp add: exponent_def pq k_def Let_def)
  show "2 powi (exponent x) \<le> x" "x < 2 powi (exponent x + 1)"
    using up low by (auto simp: e not_le)
qed

lemma exponent_unique:
  assumes "0 < x" and "2 powi k \<le> x" and "x < 2 powi (k + 1)"
  shows "exponent x = k"
proof -
  have "(2 :: rat) powi k < 2 powi (exponent x + 1)" "(2 :: rat) powi (exponent x) < 2 powi (k + 1)"
    using order_le_less_trans [OF assms(2) exponent_bounds(2) [OF assms(1)]]
      order_le_less_trans [OF exponent_bounds(1) [OF assms(1)] assms(3)] .
  then show ?thesis by simp
qed

lemma exponent_mono: "0 < x \<Longrightarrow> x \<le> y \<Longrightarrow> exponent x \<le> exponent y"
proof -
  assume "0 < x" "x \<le> y"
  then have "(2 :: rat) powi (exponent x) < 2 powi (exponent y + 1)"
    using exponent_bounds(1) [of x] exponent_bounds(2) [of y] by linarith
  then show ?thesis by simp
qed

lemma fl_pos:
  "0 < x \<Longrightarrow> fl x = of_int (round_half_even (x / 2 powi (exponent x - 52))) * 2 powi (exponent x - 52)"
  by (simp add: fl_def Let_def)

lemma fl_zero [simp]: "fl 0 = 0"
  by (simp add: fl_def)

lemma fl_error: "0 \<le> x \<Longrightarrow> \<bar>fl x - x\<bar> \<le> x / 2 ^ 53"
proof (cases "x = 0")
  case False
  assume "0 \<le> x"
  with False have x: "0 < x" by simp
  define u :: rat where "u = 2 powi (exponent x - 52)"
  have u: "0 < u" by (simp add: u_def)
  have "\<bar>fl x - x\<bar> = \<bar>of_int (round_half_even (x / u)) - x / u\<bar> * u"
    using u by (simp add: fl_pos [OF x] u_def [symmetric] abs_mult_pos' left_diff_distrib)
      (metis abs_mult_pos abs_minus_commute order_less_imp_le left_diff_distrib nonzero_eq_divide_eq
        order_less_irrefl)
  also have "\<dots> \<le> 1 / 2 * u" using round_half_even_error u by (intro mult_right_mono) auto
  also have "\<dots> = 2 powi (exponent x) / 2 ^ 53"
    by (simp add: u_def power_int_diff)
  also have "\<dots> \<le> x / 2 ^ 53" using exponent_bounds(1) [OF x] by (simp add: divide_right_mono)
  finally show ?thesis .
qed simp

lemma fl_lower: "x - x / 9007199254740992 \<le> fl x"
  and fl_upper: "fl x \<le> x + x / 9007199254740992" if "0 \<le> x"
proof -
  have "(2 :: rat) ^ 53 = 9007199254740992" by simp
  with fl_error [OF that] have "\<bar>fl x - x\<bar> \<le> x / 9007199254740992" by metis
  then show "x - x / 9007199254740992 \<le> fl x" "fl x \<le> x + x / 9007199254740992" by linarith+
qed

text \<open>Rounding is monotone, and exact on integers that fit.\<close>

lemma fl_binade:
  assumes "0 < x"
  shows "2 powi (exponent x) \<le> fl x" and "fl x \<le> 2 powi (exponent x + 1)"
proof -
  define u :: rat where "u = 2 powi (exponent x - 52)"
  have u: "0 < u" by (simp add: u_def)
  have split: "2 powi (exponent x) = of_int (2 ^ 52) * u" "2 powi (exponent x + 1) = of_int (2 ^ 53) * u"
    by (simp_all add: u_def power_int_diff power_int_add)
  have "of_int (2 ^ 52) \<le> x / u" "x / u \<le> of_int (2 ^ 53)"
    using exponent_bounds [OF assms] u by (simp_all add: split pos_le_divide_eq pos_divide_le_eq)
  then have "2 ^ 52 \<le> round_half_even (x / u)" "round_half_even (x / u) \<le> 2 ^ 53"
    by (metis round_half_even_int round_half_even_mono)+
  then show "2 powi (exponent x) \<le> fl x" "fl x \<le> 2 powi (exponent x + 1)"
    unfolding split fl_pos [OF assms] u_def [symmetric]
    using u by (intro mult_right_mono; simp only: of_int_le_iff; simp)+
qed

lemma fl_nonneg: "0 \<le> x \<Longrightarrow> 0 \<le> fl x"
  using order_trans [OF zero_le_power_int fl_binade(1), of x] by (cases "x = 0") auto

lemma fl_mono:
  assumes "0 \<le> x" and "x \<le> y"
  shows "fl x \<le> fl y"
proof (cases "x = 0")
  case True
  with assms fl_nonneg show ?thesis by simp
next
  case False
  with assms have x: "0 < x" and y: "0 < y" by auto
  show ?thesis
  proof (cases "exponent x = exponent y")
    case True
    then have "x / 2 powi (exponent y - 52) \<le> y / 2 powi (exponent y - 52)"
      using assms by (simp add: divide_right_mono)
    then show ?thesis
      by (simp add: fl_pos x y True mult_right_mono round_half_even_mono)
  next
    case False
    with exponent_mono [OF x assms(2)] have "exponent x + 1 \<le> exponent y" by simp
    then have "(2 :: rat) powi (exponent x + 1) \<le> 2 powi (exponent y)" by simp
    then show ?thesis using fl_binade [OF x] fl_binade [OF y] by linarith
  qed
qed

lemma fl_exact:
  assumes x: "0 < x" and eq: "x = of_int m * 2 powi k" and k: "exponent x - 52 \<le> k"
  shows "fl x = x"
proof -
  define u :: rat where "u = 2 powi (exponent x - 52)"
  have u: "0 < u" by (simp add: u_def)
  define d where "d = k - (exponent x - 52)"
  have "2 powi k = 2 powi d * u" by (simp add: d_def u_def flip: powi_two_add)
  moreover have "(2 :: rat) powi d = 2 ^ nat d" using k by (simp add: d_def power_int_def)
  ultimately have "x = of_int (m * 2 ^ nat d) * u" by (simp add: eq)
  then have "x / u = of_int (m * 2 ^ nat d)" using u by simp
  then have "of_int (round_half_even (x / u)) = x / u" by (simp only: round_half_even_int)
  then show ?thesis using u by (simp add: fl_pos [OF x] flip: u_def)
qed

lemma fl_of_int [simp]:
  assumes "0 \<le> n" and "n < 2 ^ 53"
  shows "fl (of_int n) = of_int n"
proof (cases "n = 0")
  case False
  with assms have x: "(0 :: rat) < of_int n" by simp
  have "(of_int n :: rat) < of_int (2 ^ 53)" using assms(2) by (simp only: of_int_less_iff)
  then have "(2 :: rat) powi (exponent (of_int n)) < 2 powi 53"
    using exponent_bounds(1) [OF x] by (simp add: power_int_def)
  then have "exponent (of_int n) - 52 \<le> 0" by (simp only: powi_two_less_iff)
  then show ?thesis using fl_exact [OF x, of n 0] by simp
qed simp

lemma fl_half [simp]: "fl (1 / 2) = 1 / 2"
proof (rule fl_exact [of _ 1 "-1"])
  have "exponent (1 / 2) = -1" by (rule exponent_unique) (simp_all add: power_int_def)
  then show "exponent (1 / 2) - 52 \<le> -1" by simp
qed (simp_all add: power_int_def)

section \<open>Decisions on rounded ratios\<close>

text \<open>
  For counts below \<open>2 ^ 52\<close> the rounded ratio exceeds one half exactly when the exact one
  does.
\<close>

lemma fl_gt_half_iff:
  assumes "0 \<le> m" and "0 < n" and "n \<le> 2 ^ 52"
  shows "fl (of_int m / of_int n) > 1 / 2 \<longleftrightarrow> n < 2 * m"
proof
  assume gt: "fl (of_int m / of_int n) > 1 / 2"
  show "n < 2 * m"
  proof (rule ccontr)
    assume "\<not> n < 2 * m"
    then have "(of_int (2 * m) :: rat) \<le> of_int n" by (simp only: of_int_le_iff)
    with assms have "fl (of_int m / of_int n) \<le> fl (1 / 2)"
      by (intro fl_mono) (simp_all add: pos_divide_le_eq)
    with gt show False by simp
  qed
next
  assume lt: "n < 2 * m"
  define x :: rat where "x = of_int m / of_int n"
  have x0: "0 \<le> x" using assms by (simp add: x_def)
  show "fl (of_int m / of_int n) > 1 / 2"
  proof (cases "1 \<le> x")
    case True
    then have "fl (of_int 1) \<le> fl x" by (intro fl_mono) auto
    then show ?thesis using fl_of_int [of 1] by (simp add: x_def)
  next
    case False
    have "(of_int (n + 1) :: rat) \<le> of_int (2 * m)" using lt by (simp only: of_int_le_iff)
    then have "of_int (n + 1) / (2 * of_int n) \<le> (of_int (2 * m) :: rat) / (2 * of_int n)"
      using assms by (intro divide_right_mono) auto
    with assms have ge: "1 / 2 + 1 / (2 * of_int n) \<le> x" by (simp add: x_def add_divide_distrib)
    have "(of_int n :: rat) \<le> of_int (2 ^ 52)" using assms(3) by (simp only: of_int_le_iff)
    with assms have "1 / 2 ^ 53 \<le> (1 :: rat) / (2 * of_int n)" by (simp add: field_simps)
    then have "1 / 9007199254740992 \<le> (1 :: rat) / (2 * of_int n)" by simp
    with ge False fl_lower [OF x0] have "1 / 2 < fl x" by linarith
    then show ?thesis by (simp add: x_def)
  qed
qed

lemma percent_below:
  assumes "0 \<le> m" and "0 < n" and "0 \<le> t" and "t * n \<le> 2 ^ 51" and "100 * m < t * n"
  shows "fmul (fdiv (of_int m) (of_int n)) 100 \<le> of_int t"
proof -
  define x :: rat where "x = of_int m / of_int n"
  have x0: "0 \<le> x" using assms by (simp add: x_def)
  have n: "(0 :: rat) < of_int n" using assms by simp
  have "(of_int (100 * m + 1) :: rat) \<le> of_int (t * n)" using assms(5) by (simp only: of_int_le_iff)
  then have lt: "100 * x + 1 / of_int n \<le> of_int t" using n by (simp add: x_def field_simps)
  have tn: "(of_int t * of_int n :: rat) \<le> 2 ^ 51"
    using of_int_le_iff [where ?'a = rat, THEN iffD2, OF assms(4)] by simp
  then have "of_int t / 9007199254740992 \<le> (1 :: rat) / of_int n" using n by (simp add: field_simps)
  moreover have "0 < 1 / (of_int n :: rat)" using n by simp
  then have "100 * x / 9007199254740992 \<le> of_int t / 9007199254740992" using lt by (intro divide_right_mono) linarith+
  ultimately have "100 * fl x \<le> of_int t" using lt fl_upper [OF x0] by linarith
  then have "fl (fl x * 100) \<le> fl (of_int t)" using fl_nonneg [OF x0] by (intro fl_mono) auto
  moreover have "t * 1 \<le> t * n" using assms by (intro mult_left_mono) auto
  then have "t < 2 ^ 53" using assms(4) by simp
  ultimately show ?thesis using assms(3) by (simp add: fmul_def fdiv_def x_def)
qed

lemma percent_above:
  assumes "0 \<le> m" and "0 < n" and "0 \<le> t" and "t * n \<le> 2 ^ 51" and "t * n < 100 * m"
  shows "of_int t < fmul (fdiv (of_int m) (of_int n)) 100"
proof -
  define x :: rat where "x = of_int m / of_int n"
  define y where "y = fl x * 100"
  have x0: "0 \<le> x" using assms by (simp add: x_def)
  have y0: "0 \<le> y" using fl_nonneg [OF x0] by (simp add: y_def)
  have n: "(0 :: rat) < of_int n" using assms by simp
  define z where "z = of_int t + 1 / (of_int n :: rat)"
  have z0: "0 \<le> z" using assms n by (simp add: z_def)
  have "(of_int (t * n + 1) :: rat) \<le> of_int (100 * m)" using assms(5) by (simp only: of_int_le_iff)
  then have "of_int (t * n + 1) / of_int n \<le> (of_int (100 * m) :: rat) / of_int n"
    using n by (intro divide_right_mono) auto
  then have z: "z \<le> 100 * x" using n by (simp add: x_def z_def add_divide_distrib)
  have tn: "(of_int t * of_int n :: rat) \<le> 2 ^ 51"
    using of_int_le_iff [where ?'a = rat, THEN iffD2, OF assms(4)] by simp
  then have "2 * z / 9007199254740992 < 1 / of_int n" using n by (simp add: z_def field_simps)
  then have small: "of_int t < z - 2 * (z / 9007199254740992)" by (simp add: z_def)
  have "100 * x - 100 * x / 9007199254740992 \<le> y" using fl_lower [OF x0] unfolding y_def by linarith
  moreover have "z - z / 9007199254740992 \<le> 100 * x - 100 * x / 9007199254740992" using z by simp
  ultimately have y: "z - z / 9007199254740992 \<le> y" by linarith
  have "y - y / 9007199254740992 \<le> fl y" using fl_lower [OF y0] .
  moreover have "(z - z / 9007199254740992) - (z - z / 9007199254740992) / 9007199254740992 \<le> y - y / 9007199254740992" using y by simp
  ultimately have "z - 2 * (z / 9007199254740992) \<le> fl y" using z0 by simp
  with small show ?thesis by (simp add: fmul_def fdiv_def x_def y_def)
qed

end
