(* ===== verification/Json.thy ===== *)
theory Json
  imports Hashing Float64
begin

text \<open>
  \<^verbatim>\<open>json.Unmarshal\<close> into an \<open>interface{}\<close>, as \<^verbatim>\<open>connect.go\<close> uses it on the executed
  connector template: a lexer and a pushdown machine over its tokens, both structurally
  recursive like the scanner of the standard library, which reads byte by byte and keeps a
  stack of open arrays and objects. Strings are unquoted with the library's treatment of
  surrogates and of bytes that are not UTF-8, numbers are converted to \<open>float64\<close>.
\<close>

section \<open>Numbers\<close>

text \<open>
  \<open>strconv.ParseFloat(s, 64)\<close> on the number grammar of JSON: the nearest \<open>float64\<close>, ties to
  even, with subnormal numbers at the lower end; \<open>None\<close> is the range error. A negative zero
  is not told apart from zero.
\<close>

definition float64_of :: "rat \<Rightarrow> rat option" where
  "float64_of x =
     (if x = 0 then Some 0
      else let u = 2 powi (max (exponent \<bar>x\<bar>) (-1022) - 52);
               r = of_int (round_half_even (\<bar>x\<bar> / u)) * u
           in if r \<ge> 2 ^ 1024 then None else Some (sgn x * r))"

definition is_digit :: "char \<Rightarrow> bool" where
  "is_digit c = (digit_val c \<noteq> None)"

definition digits_value :: "string \<Rightarrow> int option" where
  "digits_value s =
     (if s \<noteq> [] \<and> list_all is_digit s then Some (foldl (\<lambda>n c. 10 * n + (of_char c - 48)) 0 s) else None)"

text \<open>The exponent of a number, and the digits after its point.\<close>

definition exponent_part :: "string \<Rightarrow> int option" where
  "exponent_part s =
     (case s of
        [] \<Rightarrow> Some 0
      | c # r \<Rightarrow>
          if c = CHR ''e'' \<or> c = CHR ''E'' then
            (case r of
               [] \<Rightarrow> None
             | d # r' \<Rightarrow>
                 if d = CHR ''-'' then map_option uminus (digits_value r')
                 else if d = CHR ''+'' then digits_value r'
                 else digits_value r)
          else None)"

definition fraction_part :: "string \<Rightarrow> (string \<times> string) option" where
  "fraction_part s =
     (case s of
        [] \<Rightarrow> Some ([], [])
      | c # r \<Rightarrow>
          if c = CHR ''.'' then
            (let ds = takeWhile is_digit r in if ds = [] then None else Some (ds, dropWhile is_digit r))
          else Some ([], s))"

definition unsigned_number :: "string \<Rightarrow> rat option" where
  "unsigned_number s =
     (let ds = takeWhile is_digit s in
      if ds = [] \<or> (hd ds = CHR ''0'' \<and> length ds > 1) then None
      else case fraction_part (dropWhile is_digit s) of
        None \<Rightarrow> None
      | Some (ds1, r) \<Rightarrow>
          (case (digits_value (ds @ ds1), exponent_part r) of
             (Some m, Some e) \<Rightarrow> Some (of_int m * 10 powi (e - int (length ds1)))
           | _ \<Rightarrow> None))"

definition json_number :: "string \<Rightarrow> goval option" where
  "json_number s =
     map_option GFloat (Option.bind
       (case s of
          c # r \<Rightarrow> if c = CHR ''-'' then map_option uminus (unsigned_number r) else unsigned_number s
        | [] \<Rightarrow> None) float64_of)"

section \<open>Strings\<close>

definition hex_val :: "char \<Rightarrow> nat option" where
  "hex_val c =
     (let n = of_char c in
      if 48 \<le> n \<and> n \<le> (57 :: nat) then Some (n - 48)
      else if 97 \<le> n \<and> n \<le> 102 then Some (n - 87)
      else if 65 \<le> n \<and> n \<le> 70 then Some (n - 55)
      else None)"

text \<open>\<open>getu4\<close>: four hexadecimal digits.\<close>

definition hex4 :: "string \<Rightarrow> nat option" where
  "hex4 s =
     (case map hex_val (take 4 s) of
        [Some a, Some b, Some c, Some d] \<Rightarrow> Some (((a * 16 + b) * 16 + c) * 16 + d)
      | _ \<Rightarrow> None)"

definition utf8_encode :: "nat \<Rightarrow> string" where
  "utf8_encode r =
     (if r < 128 then [char_of r]
      else if r < 2048 then [char_of (192 + r div 64), char_of (128 + r mod 64)]
      else if r < 65536 then
        [char_of (224 + r div 4096), char_of (128 + r div 64 mod 64), char_of (128 + r mod 64)]
      else [char_of (240 + r div 262144), char_of (128 + r div 4096 mod 64),
        char_of (128 + r div 64 mod 64), char_of (128 + r mod 64)])"

definition replacement :: string where
  "replacement = [CHR 0xEF, CHR 0xBF, CHR 0xBD]"

definition simple_escape :: "char \<Rightarrow> char option" where
  "simple_escape c =
     (if c = CHR 0x22 \<or> c = CHR 0x5C \<or> c = CHR ''/'' then Some c
      else if c = CHR ''b'' then Some (CHR 0x08)
      else if c = CHR ''f'' then Some (CHR 0x0C)
      else if c = CHR ''n'' then Some (CHR 0x0A)
      else if c = CHR ''r'' then Some (CHR 0x0D)
      else if c = CHR ''t'' then Some (CHR 0x09)
      else None)"

text \<open>
  The escape \<open>\u\<close> with the text after it: the bytes it stands for and how much of the text is
  used. A surrogate that is not the first of a pair becomes the replacement character.
\<close>

definition unicode_escape :: "string \<Rightarrow> (string \<times> nat) option" where
  "unicode_escape s =
     (case hex4 s of
        None \<Rightarrow> None
      | Some u \<Rightarrow>
          if 0xD800 \<le> u \<and> u < 0xE000 then
            (case (if take 2 (drop 4 s) = [CHR 0x5C, CHR ''u''] then hex4 (drop 6 s) else None) of
               Some v \<Rightarrow>
                 if u < 0xDC00 \<and> 0xDC00 \<le> v \<and> v < 0xE000
                 then Some (utf8_encode (0x10000 + (u - 0xD800) * 1024 + (v - 0xDC00)), 10)
                 else Some (replacement, 4)
             | None \<Rightarrow> Some (replacement, 4))
          else Some (utf8_encode u, 4))"

function unquote :: "string \<Rightarrow> string option" where
  "unquote [] = Some []"
| "unquote (c # s) =
     (if c = CHR 0x5C then
        (case s of
           [] \<Rightarrow> None
         | e # r \<Rightarrow>
             if e = CHR ''u'' then
               (case unicode_escape r of
                  None \<Rightarrow> None
                | Some (bytes, n) \<Rightarrow> map_option ((@) bytes) (unquote (drop n r)))
             else
               (case simple_escape e of
                  None \<Rightarrow> None
                | Some d \<Rightarrow> map_option ((#) d) (unquote r)))
      else if c = CHR 0x22 \<or> (of_char c :: nat) < 32 then None
      else if (of_char c :: nat) < 128 then map_option ((#) c) (unquote s)
      else let n = rune_len (c # s) in
        map_option ((@) (if n = 1 then replacement else take n (c # s))) (unquote (drop (n - 1) s)))"
  by pat_completeness auto
termination
  by (relation "measure length") auto

section \<open>Tokens\<close>

datatype token =
    LBrace | RBrace | LBracket | RBracket | Colon | Comma
  | Lit goval

text \<open>
  The lexer is between tokens, in a string (after a backslash or not), in a number or in a
  word. What it has read of the token is kept in reverse.
\<close>

datatype lexer = Between | Quoted string | Escaped string | Number string | Word string

definition is_space :: "char \<Rightarrow> bool" where
  "is_space c = (c = CHR '' '' \<or> c = CHR 0x09 \<or> c = CHR 0x0D \<or> c = CHR 0x0A)"

definition is_number_char :: "char \<Rightarrow> bool" where
  "is_number_char c = (is_digit c \<or> c = CHR ''-'' \<or> c = CHR ''+'' \<or> c = CHR ''.'' \<or> c = CHR ''e'' \<or> c = CHR ''E'')"

definition is_lower :: "char \<Rightarrow> bool" where
  "is_lower c = (97 \<le> (of_char c :: nat) \<and> (of_char c :: nat) \<le> 122)"

definition word_token :: "string \<Rightarrow> token option" where
  "word_token s =
     (if s = ''true'' then Some (Lit (GBool True))
      else if s = ''false'' then Some (Lit (GBool False))
      else if s = ''null'' then Some (Lit GNil)
      else None)"

definition punctuation :: "char \<Rightarrow> token option" where
  "punctuation c =
     (if c = CHR ''{'' then Some LBrace else if c = CHR ''}'' then Some RBrace
      else if c = CHR ''['' then Some LBracket else if c = CHR '']'' then Some RBracket
      else if c = CHR '':'' then Some Colon else if c = CHR '','' then Some Comma
      else None)"

text \<open>A byte between tokens: the token it is, if any, and the state it leads to.\<close>

definition lex_start :: "char \<Rightarrow> (token list \<times> lexer) option" where
  "lex_start c =
     (if is_space c then Some ([], Between)
      else if c = CHR 0x22 then Some ([], Quoted [])
      else if is_digit c \<or> c = CHR ''-'' then Some ([], Number [c])
      else if is_lower c then Some ([], Word [c])
      else map_option (\<lambda>t. ([t], Between)) (punctuation c))"

definition lex_finish :: "lexer \<Rightarrow> token list option" where
  "lex_finish q =
     (case q of
        Between \<Rightarrow> Some []
      | Number s \<Rightarrow> map_option (\<lambda>v. [Lit v]) (json_number (rev s))
      | Word s \<Rightarrow> map_option (\<lambda>t. [t]) (word_token (rev s))
      | _ \<Rightarrow> None)"

definition lex_step :: "lexer \<Rightarrow> char \<Rightarrow> (token list \<times> lexer) option" where
  "lex_step q c =
     (case q of
        Quoted s \<Rightarrow>
          if c = CHR 0x22 then map_option (\<lambda>v. ([Lit (GStr v)], Between)) (unquote (rev s))
          else if c = CHR 0x5C then Some ([], Escaped (c # s))
          else Some ([], Quoted (c # s))
      | Escaped s \<Rightarrow> Some ([], Quoted (c # s))
      | Number s \<Rightarrow>
          if is_number_char c then Some ([], Number (c # s))
          else Option.bind (lex_finish q) (\<lambda>ts. map_option (\<lambda>(us, q'). (ts @ us, q')) (lex_start c))
      | Word s \<Rightarrow>
          if is_lower c then Some ([], Word (c # s))
          else Option.bind (lex_finish q) (\<lambda>ts. map_option (\<lambda>(us, q'). (ts @ us, q')) (lex_start c))
      | Between \<Rightarrow> lex_start c)"

fun json_lex :: "lexer \<Rightarrow> string \<Rightarrow> token list option" where
  "json_lex q [] = lex_finish q"
| "json_lex q (c # s) =
     (case lex_step q c of
        None \<Rightarrow> None
      | Some (ts, q') \<Rightarrow> map_option ((@) ts) (json_lex q' s))"

section \<open>Values\<close>

text \<open>
  The open arrays and objects; an object keeps the key whose value comes next. Objects with
  a repeated key keep the last value.
\<close>

datatype container = InArray "goval list" | InObject "(string, goval) fmap" string

datatype mode = WantValue | WantElement | WantMember | WantKey | WantColon | After goval

definition maxNestingDepth :: nat where
  "maxNestingDepth = 10000"

fun close_container :: "container \<Rightarrow> goval \<Rightarrow> goval" where
  "close_container (InArray vs) v = GList (rev (v # vs))"
| "close_container (InObject m k) v = GMap (fmupd k v m)"

definition json_step :: "token \<Rightarrow> mode \<times> container list \<Rightarrow> (mode \<times> container list) option" where
  "json_step t = (\<lambda>(md, st).
     let value = (md = WantValue \<or> md = WantElement); deep = (length st \<ge> maxNestingDepth)
     in case t of
          Lit v \<Rightarrow>
            if value then Some (After v, st)
            else if md = WantMember \<or> md = WantKey then
              (case (v, st) of
                 (GStr k, InObject m _ # st') \<Rightarrow> Some (WantColon, InObject m k # st')
               | _ \<Rightarrow> None)
            else None
        | LBracket \<Rightarrow> if value \<and> \<not> deep then Some (WantElement, InArray [] # st) else None
        | LBrace \<Rightarrow> if value \<and> \<not> deep then Some (WantMember, InObject fmempty [] # st) else None
        | Colon \<Rightarrow> if md = WantColon then Some (WantValue, st) else None
        | Comma \<Rightarrow>
            (case (md, st) of
               (After v, InArray vs # st') \<Rightarrow> Some (WantValue, InArray (v # vs) # st')
             | (After v, InObject m k # st') \<Rightarrow> Some (WantKey, InObject (fmupd k v m) [] # st')
             | _ \<Rightarrow> None)
        | RBracket \<Rightarrow>
            (case (md, st) of
               (WantElement, InArray vs # st') \<Rightarrow> Some (After (GList (rev vs)), st')
             | (After v, InArray vs # st') \<Rightarrow> Some (After (close_container (InArray vs) v), st')
             | _ \<Rightarrow> None)
        | RBrace \<Rightarrow>
            (case (md, st) of
               (WantMember, InObject m k # st') \<Rightarrow> Some (After (GMap m), st')
             | (After v, InObject m k # st') \<Rightarrow> Some (After (close_container (InObject m k) v), st')
             | _ \<Rightarrow> None))"

fun json_steps :: "token list \<Rightarrow> mode \<times> container list \<Rightarrow> (mode \<times> container list) option" where
  "json_steps [] q = Some q"
| "json_steps (t # ts) q = Option.bind (json_step t q) (json_steps ts)"

definition Unmarshal :: "string \<Rightarrow> goval option" where
  "Unmarshal s =
     (case Option.bind (json_lex Between s) (\<lambda>ts. json_steps ts (WantValue, [])) of
        Some (After v, []) \<Rightarrow> Some v
      | _ \<Rightarrow> None)"

end
