(* ===== verification/Connect.thy ===== *)
theory Connect
  imports Config Template Json
begin

text \<open>
  \<^verbatim>\<open>controllers/connect/connect.go\<close>: the Kafka connectors as unstructured Kubernetes
  objects. The resource is built as the nested map the code builds; the accessors of
  unstructured objects and the client are parameters.
\<close>

section \<open>Data\<close>

definition LabelAppName :: string where "LabelAppName = ''cyndi/appName''"
definition LabelInsightsOnly :: string where "LabelInsightsOnly = ''cyndi/insightsOnly''"
definition LabelMaxAge :: string where "LabelMaxAge = ''cyndi/maxAge''"
definition LabelStrimziCluster :: string where "LabelStrimziCluster = ''strimzi.io/cluster''"
definition LabelOwner :: string where "LabelOwner = ''cyndi/owner''"

definition failed :: string where "failed = ''FAILED''"

definition connectorState :: "bool \<Rightarrow> string" where
  "connectorState paused = (if paused then ''paused'' else ''running'')"

record ConnectorConfiguration =
  cc_AppName :: string
  cc_AdditionalFilters :: "strmap list"
  cc_InsightsOnly :: bool
  cc_Paused :: bool
  cc_Cluster :: string
  cc_Topic :: string
  cc_TableName :: string
  cc_DB :: DBParams
  cc_TasksMax :: int
  cc_BatchSize :: int
  cc_MaxAge :: int
  cc_Template :: string
  cc_AllowlistSystemProfile :: string
  cc_TopicReplicationFactor :: int
  cc_DeadLetterQueueTopicName :: string

section \<open>The resource\<close>

definition env_reference :: "string \<Rightarrow> string \<Rightarrow> string" where
  "env_reference appNameFormatted suffix = ''${env:'' @ appNameFormatted @ suffix @ ''}''"

definition connector_data :: "bool \<Rightarrow> ConnectorConfiguration \<Rightarrow> (string, tmplval) fmap" where
  "connector_data eph config =
     (let app = ToUpper (replace_all (CHR ''-'') (CHR ''_'') (cc_AppName config));
          db = (\<lambda>field suffix. TStr (if eph then field (cc_DB config) else env_reference app suffix))
      in fmap_of_list
        [(''TableName'', TStr (cc_TableName config)),
         (''Topic'', TStr (cc_Topic config)),
         (''DBPort'', db db_Port ''_DB_PORT''),
         (''DBHostname'', db db_Host ''_DB_HOSTNAME''),
         (''DBName'', db db_Name ''_DB_NAME''),
         (''DBUser'', db db_User ''_DB_USERNAME''),
         (''DBPassword'', db db_Password ''_DB_PASSWORD''),
         (''AdditionalFilters'', TFilters (cc_AdditionalFilters config)),
         (''TasksMax'', TStr (FormatInt (cc_TasksMax config))),
         (''BatchSize'', TStr (FormatInt (cc_BatchSize config))),
         (''MaxAge'', TStr (FormatInt (cc_MaxAge config))),
         (''InsightsOnly'', TStr (FormatBool (cc_InsightsOnly config))),
         (''AllowlistSP'', TStr (cc_AllowlistSystemProfile config)),
         (''SSLMode'', TStr (db_SSLMode (cc_DB config))),
         (''SSLRootCert'', TStr (db_SSLRootCert (cc_DB config))),
         (''TopicReplicationFactor'', TStr (FormatInt (cc_TopicReplicationFactor config))),
         (''DeadLetterQueueTopicName'', TStr (cc_DeadLetterQueueTopicName config))])"

definition connector_object :: "string \<Rightarrow> string \<Rightarrow> ConnectorConfiguration \<Rightarrow> goval \<Rightarrow> goval" where
  "connector_object name namespace config connectorConfig =
     GMap (fmap_of_list
       [(''metadata'', GMap (fmap_of_list
          [(''name'', GStr name),
           (''namespace'', GStr namespace),
           (''labels'', GMap (fmap_of_list
             [(LabelStrimziCluster, GStr (cc_Cluster config)),
              (LabelAppName, GStr (cc_AppName config)),
              (LabelInsightsOnly, GStr (FormatBool (cc_InsightsOnly config))),
              (LabelMaxAge, GStr (FormatInt (cc_MaxAge config)))]))])),
        (''spec'', GMap (fmap_of_list
          [(''tasksMax'', GInt (cc_TasksMax config)),
           (''class'', GStr ''io.confluent.connect.jdbc.JdbcSinkConnector''),
           (''config'', connectorConfig),
           (''state'', GStr (connectorState (cc_Paused config)))]))])"

definition newConnectorResource :: "'w env \<Rightarrow> string \<Rightarrow> string \<Rightarrow> ConnectorConfiguration \<Rightarrow>
    gerror + goval" where
  "newConnectorResource E name namespace config =
     (case execute_template (env_text E) (cc_Template config) (connector_data (ephemeral E) config) of
        Inl err \<Rightarrow> Inl err
      | Inr configTemplateParsed \<Rightarrow>
          (case Unmarshal (remove_all (CHR 0x0A) configTemplateParsed) of
             None \<Rightarrow> Inl (json_error (env_text E) (remove_all (CHR 0x0A) configTemplateParsed))
           | Some connectorConfig \<Rightarrow>
               Inr (u_SetGroupVersionKind (env_u E) ''kafka.strimzi.io'' ''v1beta2'' ''KafkaConnector''
                 (connector_object name namespace config connectorConfig))))"

section \<open>Operations\<close>

definition CreateConnector :: "'w env \<Rightarrow> string \<Rightarrow> string \<Rightarrow> ConnectorConfiguration \<Rightarrow>
    CyndiPipeline option \<Rightarrow> bool \<Rightarrow> ('w, gerror + goval) eff" where
  "CreateConnector E name namespace config owner dryRun =
     (case newConnectorResource E name namespace config of
        Inl err \<Rightarrow> ret (Inl err)
      | Inr connector \<Rightarrow>
          (case (case owner of
                   None \<Rightarrow> Inr connector
                 | Some own \<Rightarrow>
                     (case u_SetControllerReference (env_u E) own connector of
                        Inl err \<Rightarrow> Inl err
                      | Inr connector1 \<Rightarrow>
                          Inr (u_SetLabels (env_u E)
                            (fmupd LabelOwner (GetUIDString own) (u_GetLabels (env_u E) connector1))
                            connector1))) of
             Inl err \<Rightarrow> ret (Inl err)
           | Inr connector2 \<Rightarrow>
               if dryRun then ret (Inr connector2)
               else do {
                 err \<leftarrow> perform (KubeCreate connector2) (kube_create_connector (env_kube E) connector2);
                 case err of
                   Some e \<Rightarrow> ret (Inl e)
                 | None \<Rightarrow> ret (Inr connector2)
               }))"

definition GetConnector :: "'w env \<Rightarrow> string \<Rightarrow> string \<Rightarrow> ('w, gerror + goval) eff" where
  "GetConnector E name namespace =
     perform (KubeGet KindConnector namespace name) (kube_get_connector (env_kube E) namespace name)"

definition CheckIfConnectorExists :: "'w env \<Rightarrow> string \<Rightarrow> string \<Rightarrow> ('w, gerror + bool) eff" where
  "CheckIfConnectorExists E name namespace =
     (if name = '''' then ret (Inr False)
      else do {
        r \<leftarrow> GetConnector E name namespace;
        case r of
          Inl err \<Rightarrow> if IsNotFound err then ret (Inr False) else ret (Inl err)
        | Inr _ \<Rightarrow> ret (Inr True)
      })"

definition GetConnectorsForOwner :: "'w env \<Rightarrow> string \<Rightarrow> string \<Rightarrow> ('w, gerror + goval list) eff" where
  "GetConnectorsForOwner E namespace owner =
     (let labels = fmap_of_list [(LabelOwner, owner)] in
      perform (KubeList KindConnector namespace labels)
        (kube_list_connectors (env_kube E) namespace labels))"

definition DeleteConnector :: "'w env \<Rightarrow> string \<Rightarrow> string \<Rightarrow> ('w, gerror option) eff" where
  "DeleteConnector E name namespace = do {
     err \<leftarrow> perform (KubeDelete KindConnector namespace name)
       (kube_delete_connector (env_kube E) namespace name);
     case err of
       Some e \<Rightarrow> if \<not> IsNotFound e then ret (Some e) else ret None
     | None \<Rightarrow> ret None
   }"

definition SetConnectorState :: "'w env \<Rightarrow> string \<Rightarrow> string \<Rightarrow> bool \<Rightarrow> ('w, gerror option) eff" where
  "SetConnectorState E name namespace paused = do {
     r \<leftarrow> GetConnector E name namespace;
     case r of
       Inl err \<Rightarrow> ret (Some err)
     | Inr connector \<Rightarrow>
         let desiredState = connectorState paused;
             currentState = (case u_NestedString (env_u E) connector [''spec'', ''state''] of
               Inr (Some s) \<Rightarrow> s | _ \<Rightarrow> '''')
         in if currentState = desiredState then ret None
            else (case u_SetNestedField (env_u E) connector (GStr desiredState) [''spec'', ''state''] of
                    Inl err \<Rightarrow> ret (Some err)
                  | Inr connector1 \<Rightarrow>
                      perform (KubeUpdate connector1) (kube_update_connector (env_kube E) connector1))
   }"

fun failed_task :: "goval list \<Rightarrow> bool" where
  "failed_task [] = False"
| "failed_task (task # tasks) =
     (case task of
        GMap taskMap \<Rightarrow> if fmlookup taskMap ''state'' = Some (GStr failed) then True else failed_task tasks
      | _ \<Rightarrow> failed_task tasks)"

definition IsFailed :: "'w env \<Rightarrow> goval \<Rightarrow> bool" where
  "IsFailed E connector =
     (if u_NestedString (env_u E) connector [''status'', ''connectorStatus'', ''connector'', ''state''] =
         Inr (Some failed) then True
      else (case u_NestedSlice (env_u E) connector [''status'', ''connectorStatus'', ''tasks''] of
              Inr (Some tasks) \<Rightarrow> failed_task tasks
            | _ \<Rightarrow> False))"

lemma failed_task_iff:
  "failed_task tasks \<longleftrightarrow> (\<exists>m. GMap m \<in> set tasks \<and> fmlookup m ''state'' = Some (GStr failed))"
  by (induction tasks) (auto split: goval.splits)

section \<open>What the operations ask for\<close>

lemma post_GetConnector [post_specs]:
  "post (GetConnector E name ns) (\<lambda>r es. es = [KubeGet KindConnector ns name])"
  by (simp add: GetConnector_def post_perform)

lemma post_DeleteConnector [post_specs]:
  "post (DeleteConnector E name ns) (\<lambda>r es. es = [KubeDelete KindConnector ns name] \<and>
     (\<forall>e. r = Some e \<longrightarrow> \<not> IsNotFound e))"
  unfolding DeleteConnector_def by (auto intro!: post_intros)

lemma post_CreateConnector [post_specs]:
  "post (CreateConnector E name ns config owner dryRun) (\<lambda>r es.
     (dryRun \<longrightarrow> es = []) \<and> (es = [] \<or> (\<exists>c. es = [KubeCreate c])) \<and>
     (\<forall>c. r = Inr c \<and> \<not> dryRun \<longrightarrow> es = [KubeCreate c]))"
  unfolding CreateConnector_def by (auto intro!: post_intros)

lemma post_GetConnectorsForOwner [post_specs]:
  "post (GetConnectorsForOwner E ns owner) (\<lambda>r es.
     es = [KubeList KindConnector ns (fmap_of_list [(LabelOwner, owner)])])"
  by (simp add: GetConnectorsForOwner_def Let_def post_perform)

lemma only_GetConnector [only_intros]:
  "KubeGet KindConnector ns n \<in> S \<Longrightarrow> only S (GetConnector E n ns)"
  unfolding GetConnector_def by (auto intro!: only_intros)

lemma only_DeleteConnector [only_intros]:
  "KubeDelete KindConnector ns n \<in> S \<Longrightarrow> only S (DeleteConnector E n ns)"
  unfolding DeleteConnector_def by (auto intro!: only_intros)

lemma only_GetConnectorsForOwner [only_intros]:
  "KubeList KindConnector ns (fmap_of_list [(LabelOwner, own)]) \<in> S \<Longrightarrow> only S (GetConnectorsForOwner E ns own)"
  unfolding GetConnectorsForOwner_def Let_def by (auto intro!: only_intros)

lemma only_CreateConnector [only_intros]:
  "(\<And>c. \<not> dryRun \<Longrightarrow> KubeCreate c \<in> S) \<Longrightarrow> only S (CreateConnector E n ns config own dryRun)"
  unfolding CreateConnector_def by (auto intro!: only_intros)

lemma only_SetConnectorState [only_intros]:
  "KubeGet KindConnector ns n \<in> S \<Longrightarrow> (\<And>c. KubeUpdate c \<in> S) \<Longrightarrow> only S (SetConnectorState E n ns paused)"
  unfolding SetConnectorState_def Let_def by (auto intro!: only_intros)

end
