(* ===== verification/Iteration.thy ===== *)
theory Iteration
  imports Database Connect Float64
begin

text \<open>
  One run of a controller: the state of \<^verbatim>\<open>controllers/iteration.go\<close> and its helpers, the
  loading of the configuration (\<^verbatim>\<open>controllers/config.go\<close>, \<open>LoadDBSecret\<close> and the fetch
  functions of \<^verbatim>\<open>controllers/utils/k8s.go\<close>), the probes (\<^verbatim>\<open>controllers/probes.go\<close>) and
  the metrics (\<^verbatim>\<open>controllers/metrics/metrics.go\<close>).
\<close>

section \<open>State of an iteration\<close>

text \<open>\<open>GetRequeueInterval\<close> is one of two closures.\<close>

datatype requeue = StandardRequeue | ValidationRequeue

record iteration =
  it_Instance :: CyndiPipeline
  it_OriginalInstance :: CyndiPipeline
  it_config :: CyndiConfiguration
  it_HBIDBParams :: DBParams
  it_AppDBParams :: DBParams
  it_AppDb :: BaseDatabase
  it_InventoryDb :: "BaseDatabase option"
  it_requeue :: requeue

text \<open>\<open>reconcile.Result\<close>: the delay in nanoseconds, 0 for the zero value.\<close>

record Result =
  RequeueAfter :: int

definition zero_Result :: Result where
  "zero_Result = \<lparr>RequeueAfter = 0\<rparr>"

type_synonym reconciled = "Result \<times> gerror option"

definition iterationClose :: "'w env \<Rightarrow> iteration \<Rightarrow> ('w, unit) eff" where
  "iterationClose E i = do {
     _ \<leftarrow> base_Close (env_pg E) (it_AppDb i);
     case it_InventoryDb i of
       None \<Rightarrow> ret ()
     | Some db \<Rightarrow> do { _ \<leftarrow> base_Close (env_pg E) db; ret () }
   }"

definition eventNormal :: "string \<Rightarrow> string \<Rightarrow> string list \<Rightarrow> ('w, unit) eff" where
  "eventNormal reason messageFmt args = emit (EventRecorded EventTypeNormal reason messageFmt args)"

definition eventWarning :: "string \<Rightarrow> string \<Rightarrow> string list \<Rightarrow> ('w, unit) eff" where
  "eventWarning reason messageFmt args = emit (EventRecorded EventTypeWarning reason messageFmt args)"

text \<open>
  \<open>ReconcileIteration.error\<close>: the event carries the prefixed text, as the format string; the
  error that comes back is the original one.
\<close>

definition it_error :: "gerror \<Rightarrow> string list \<Rightarrow> ('w, gerror) eff" where
  "it_error err prefixes = do {
     _ \<leftarrow> eventWarning ''Failed''
       (if prefixes \<noteq> [] then str_join '', '' prefixes @ '': '' @ ErrorText err else ErrorText err) [];
     ret err
   }"

definition it_getValidationConfig :: "iteration \<Rightarrow> ValidationConfiguration" where
  "it_getValidationConfig i =
     (if InitialSyncInProgress (Status (it_Instance i)) then cfg_ValidationConfigInit (it_config i)
      else cfg_ValidationConfig (it_config i))"

definition GetRequeueInterval :: "iteration \<Rightarrow> int" where
  "GetRequeueInterval i =
     (case it_requeue i of
        StandardRequeue \<Rightarrow> cfg_StandardInterval (it_config i)
      | ValidationRequeue \<Rightarrow> Interval (it_getValidationConfig i))"

definition set_status :: "(CyndiPipelineStatus \<Rightarrow> CyndiPipelineStatus) \<Rightarrow> iteration \<Rightarrow> iteration" where
  "set_status f i = i\<lparr>it_Instance := (it_Instance i)\<lparr>Status := f (Status (it_Instance i))\<rparr>\<rparr>"

text \<open>The end of a run that fails: the error is reported and returned.\<close>

definition fail :: "iteration \<Rightarrow> gerror \<Rightarrow> string \<Rightarrow> ('w, reconciled outcome \<times> iteration) eff" where
  "fail i err msg = do {
     e \<leftarrow> it_error err [msg];
     ret (Returns (zero_Result, Some e), i)
   }"

definition updateStatusAndRequeue :: "'w env \<Rightarrow> iteration \<Rightarrow> ('w, reconciled outcome \<times> iteration) eff" where
  "updateStatusAndRequeue E i = do {
     table \<leftarrow> GetCurrentTable (env_pg E) (it_AppDb i);
     case table of
       Inl err \<Rightarrow> fail i err ''Error determining current table''
     | Inr t \<Rightarrow>
         let i1 = set_status (\<lambda>s. s\<lparr>ActiveTableName := (case t of None \<Rightarrow> '''' | Some t \<Rightarrow> t)\<rparr>) i;
             delay = (\<lambda>i. wrap64 (1000000000 * GetRequeueInterval i))
         in if \<not> cmp_EqualStatus (env_cmp E) (Status (it_Instance i1)) (Status (it_OriginalInstance i1))
            then do {
              r \<leftarrow> perform (KubeUpdateStatus (it_Instance i1))
                (kube_update_status (env_kube E) (it_Instance i1));
              case r of
                Inl err \<Rightarrow>
                  if IsConflict err then ret (Returns (zero_Result, Some err), i1)
                  else fail i1 err ''Error updating pipeline status''
              | Inr stored \<Rightarrow>
                  let i2 = i1\<lparr>it_Instance := stored\<rparr>
                  in ret (Returns (\<lparr>RequeueAfter = delay i2\<rparr>, None), i2)
            }
            else ret (Returns (\<lparr>RequeueAfter = delay i1\<rparr>, None), i1)
   }"

section \<open>Metrics\<close>

record collector =
  col_Counter :: bool
  col_Name :: string
  col_Help :: string
  col_Labels :: "string list"

definition hostCount :: collector where
  "hostCount = \<lparr>col_Counter = False, col_Name = ''cyndi_hosts_total'',
     col_Help = ''Total number of hosts in the given table in the application database'', col_Labels = [''app'']\<rparr>"

definition inconsistencyRatio :: collector where
  "inconsistencyRatio = \<lparr>col_Counter = False, col_Name = ''cyndi_inconsistency_ratio'',
     col_Help = ''The ratio of inconsistency of data between the source database and the application replica'',
     col_Labels = [''app'']\<rparr>"

definition inconsistencyAbsolute :: collector where
  "inconsistencyAbsolute = \<lparr>col_Counter = False, col_Name = ''cyndi_inconsistency_total'',
     col_Help = ''The total number of hosts that are not consistent with the origin'', col_Labels = [''app'']\<rparr>"

definition inconsistencyThreshold :: collector where
  "inconsistencyThreshold = \<lparr>col_Counter = False, col_Name = ''cyndi_inconsistency_threshold'',
     col_Help = ''The threshold of inconsistency below which the pipeline is considered valid'', col_Labels = [''app'']\<rparr>"

definition validationFailedCount :: collector where
  "validationFailedCount = \<lparr>col_Counter = True, col_Name = ''cyndi_validation_failed_total'',
     col_Help = ''The number of validation iterations that failed'', col_Labels = [''app'']\<rparr>"

definition refreshCount :: collector where
  "refreshCount = \<lparr>col_Counter = True, col_Name = ''cyndi_refresh_total'',
     col_Help = ''The number of times this pipeline has been refreshed'', col_Labels = [''app'', ''reason'']\<rparr>"

text \<open>What \<open>Init\<close> registers, in its order.\<close>

definition collectors :: "collector list" where
  "collectors = [hostCount, inconsistencyRatio, inconsistencyAbsolute, inconsistencyThreshold,
     validationFailedCount, refreshCount]"

lemmas collector_defs = collectors_def hostCount_def inconsistencyRatio_def inconsistencyAbsolute_def
  inconsistencyThreshold_def validationFailedCount_def refreshCount_def

text \<open>
  A use of a collector that has been registered, as a gauge or a counter and with as many
  label values as it has labels. (\<open>WithLabelValues\<close> panics when the number differs.)
\<close>

fun registered :: "metric \<Rightarrow> bool" where
  "registered (GaugeSet n ls v) =
     list_ex (\<lambda>c. col_Name c = n \<and> \<not> col_Counter c \<and> length (col_Labels c) = length ls) collectors"
| "registered (CounterInc n ls) =
     list_ex (\<lambda>c. col_Name c = n \<and> col_Counter c \<and> length (col_Labels c) = length ls) collectors"
| "registered (WithLabelValues n ls) =
     list_ex (\<lambda>c. col_Name c = n \<and> length (col_Labels c) = length ls) collectors"

definition metric :: "metric \<Rightarrow> ('w, unit) eff" where
  "metric m = emit (MetricChanged m)"

definition REFRESH_INVALID_PIPELINE :: string where "REFRESH_INVALID_PIPELINE = ''invalid''"
definition REFRESH_STATE_DEVIATION :: string where "REFRESH_STATE_DEVIATION = ''deviation''"

definition InitLabels :: "CyndiPipeline \<Rightarrow> ('w, unit) eff" where
  "InitLabels inst = (
     let app = AppName (Spec inst)
     in do {
       _ \<leftarrow> metric (WithLabelValues ''cyndi_hosts_total'' [app]);
       _ \<leftarrow> metric (WithLabelValues ''cyndi_inconsistency_threshold'' [app]);
       _ \<leftarrow> metric (WithLabelValues ''cyndi_inconsistency_ratio'' [app]);
       _ \<leftarrow> metric (WithLabelValues ''cyndi_inconsistency_total'' [app]);
       _ \<leftarrow> metric (WithLabelValues ''cyndi_validation_failed_total'' [app]);
       _ \<leftarrow> metric (WithLabelValues ''cyndi_refresh_total'' [app, REFRESH_INVALID_PIPELINE]);
       metric (WithLabelValues ''cyndi_refresh_total'' [app, REFRESH_STATE_DEVIATION])
     })"

definition AppHostCount :: "CyndiPipeline \<Rightarrow> int \<Rightarrow> ('w, unit) eff" where
  "AppHostCount inst value =
     metric (GaugeSet ''cyndi_hosts_total'' [AppName (Spec inst)] (float_of_int value))"

definition ValidationFinished :: "CyndiPipeline \<Rightarrow> int \<Rightarrow> rat \<Rightarrow> int \<Rightarrow> bool \<Rightarrow> ('w, unit) eff" where
  "ValidationFinished inst threshold ratio inconsistentTotal isValid = (
     let app = AppName (Spec inst)
     in do {
       _ \<leftarrow> metric (GaugeSet ''cyndi_inconsistency_threshold'' [app] (fdiv (float_of_int threshold) 100));
       _ \<leftarrow> metric (GaugeSet ''cyndi_inconsistency_ratio'' [app] ratio);
       _ \<leftarrow> metric (GaugeSet ''cyndi_inconsistency_total'' [app] (float_of_int inconsistentTotal));
       if \<not> isValid then metric (CounterInc ''cyndi_validation_failed_total'' [app]) else ret ()
     })"

definition PipelineRefreshed :: "CyndiPipeline \<Rightarrow> string \<Rightarrow> ('w, unit) eff" where
  "PipelineRefreshed inst reason =
     metric (CounterInc ''cyndi_refresh_total'' [AppName (Spec inst), reason])"

section \<open>Probes\<close>

definition probeStartingInitialSync :: "iteration \<Rightarrow> ('w, unit) eff" where
  "probeStartingInitialSync i =
     eventNormal ''InitialSync'' ''Starting data synchronization to %s''
       [status_TableName (Status (it_Instance i))]"

definition probeStateDeviationRefresh :: "iteration \<Rightarrow> string \<Rightarrow> ('w, unit) eff" where
  "probeStateDeviationRefresh i reason = do {
     _ \<leftarrow> PipelineRefreshed (it_Instance i) ''deviation'';
     eventWarning ''Refreshing'' ''Refreshing pipeline due to state deviation: %s'' [reason]
   }"

definition probePipelineDidNotBecomeValid :: "iteration \<Rightarrow> ('w, unit) eff" where
  "probePipelineDidNotBecomeValid i = do {
     _ \<leftarrow> eventWarning ''Refreshing'' ''Pipeline failed to become valid within the given threshold'' [];
     PipelineRefreshed (it_Instance i) ''invalid''
   }"

section \<open>Loading the configuration\<close>

definition configMapName :: string where "configMapName = ''cyndi''"
definition globalConfigNamespace :: string where "globalConfigNamespace = ''cyndi''"

definition FetchConfigMap :: "'w env \<Rightarrow> string \<Rightarrow> string \<Rightarrow> ('w, gerror + strmap option) eff" where
  "FetchConfigMap E namespace name =
     perform (KubeGet KindConfigMap namespace name) (kube_get_configmap (env_kube E) namespace name)"

definition FetchSecret :: "'w env \<Rightarrow> string \<Rightarrow> string \<Rightarrow> ('w, gerror + Secret) eff" where
  "FetchSecret E namespace name =
     perform (KubeGet KindSecret namespace name) (kube_get_secret (env_kube E) namespace name)"

definition FetchCyndiPipeline :: "'w env \<Rightarrow> string \<Rightarrow> string \<Rightarrow> ('w, gerror + CyndiPipeline) eff" where
  "FetchCyndiPipeline E namespace name =
     perform (KubeGet KindPipeline namespace name) (kube_get_pipeline (env_kube E) namespace name)"

text \<open>The list call has no namespace option: the argument is not used.\<close>

definition FetchCyndiPipelines :: "'w env \<Rightarrow> string \<Rightarrow> ('w, gerror + CyndiPipeline list) eff" where
  "FetchCyndiPipelines E namespace =
     perform (KubeList KindPipeline '''' fmempty) (kube_list_pipelines (env_kube E))"

text \<open>The loop over the namespaces; a ConfigMap that does not exist is skipped.\<close>

fun fetchConfigMaps :: "'w env \<Rightarrow> string list \<Rightarrow> strmap option list \<Rightarrow> ('w, gerror + strmap option list) eff"
where
  "fetchConfigMaps E [] configMaps = ret (Inr configMaps)"
| "fetchConfigMaps E (namespace # namespaces) configMaps = do {
     r \<leftarrow> FetchConfigMap E namespace configMapName;
     case r of
       Inl err \<Rightarrow> if \<not> IsNotFound err then ret (Inl err) else fetchConfigMaps E namespaces configMaps
     | Inr cyndiConfig \<Rightarrow> fetchConfigMaps E namespaces (configMaps @ [cyndiConfig])
   }"

definition parseConfig :: "'w env \<Rightarrow> CyndiPipeline \<Rightarrow> ('w, gerror + CyndiConfiguration) eff" where
  "parseConfig E inst = do {
     r \<leftarrow> fetchConfigMaps E [globalConfigNamespace, meta_Namespace (Meta inst)] [];
     case r of
       Inl err \<Rightarrow> ret (Inl err)
     | Inr configMaps \<Rightarrow>
         (case BuildCyndiConfig (Some inst) (Merge configMaps) of
            Inl err \<Rightarrow> ret (Inl (Errorf_wrap (''Error parsing '' @ configMapName @ '' configmap in '' @
              meta_Namespace (Meta inst) @ '': '' @ ErrorText err) err))
          | Inr config \<Rightarrow> ret (Inr config))
   }"

definition LoadDBSecret :: "'w env \<Rightarrow> CyndiConfiguration \<Rightarrow> string \<Rightarrow> string \<Rightarrow> ('w, gerror + DBParams) eff" where
  "LoadDBSecret E config namespace name = do {
     r \<leftarrow> FetchSecret E namespace name;
     case r of
       Inl err \<Rightarrow> ret (Inl err)
     | Inr secret \<Rightarrow> ret (secretParams config secret)
   }"

section \<open>What the operations ask for\<close>

lemma only_iterationClose [only_intros]: "(\<And>c. PgClose c \<in> S) \<Longrightarrow> only S (iterationClose E i)"
  unfolding iterationClose_def by (auto intro!: only_intros)

lemma only_eventNormal [only_intros]:
  "EventRecorded EventTypeNormal reason msg args \<in> S \<Longrightarrow> only S (eventNormal reason msg args)"
  unfolding eventNormal_def by (auto intro!: only_intros)

lemma only_eventWarning [only_intros]:
  "EventRecorded EventTypeWarning reason msg args \<in> S \<Longrightarrow> only S (eventWarning reason msg args)"
  unfolding eventWarning_def by (auto intro!: only_intros)

lemma only_it_error [only_intros]:
  "(\<And>msg. EventRecorded EventTypeWarning ''Failed'' msg [] \<in> S) \<Longrightarrow> only S (it_error err prefixes)"
  unfolding it_error_def by (auto intro!: only_intros)

lemma only_fail [only_intros]:
  "(\<And>msg. EventRecorded EventTypeWarning ''Failed'' msg [] \<in> S) \<Longrightarrow> only S (fail i err msg)"
  unfolding fail_def by (auto intro!: only_intros)

lemma only_metric [only_intros]: "MetricChanged m \<in> S \<Longrightarrow> only S (metric m)"
  unfolding metric_def by (auto intro!: only_intros)

lemma only_InitLabels [only_intros]: "(\<And>m. registered m \<Longrightarrow> MetricChanged m \<in> S) \<Longrightarrow> only S (InitLabels inst)"
  unfolding InitLabels_def by (auto intro!: only_intros simp: collector_defs)

lemma only_AppHostCount [only_intros]: "(\<And>m. registered m \<Longrightarrow> MetricChanged m \<in> S) \<Longrightarrow> only S (AppHostCount inst n)"
  unfolding AppHostCount_def by (auto intro!: only_intros simp: collector_defs)

lemma only_ValidationFinished [only_intros]:
  "(\<And>m. registered m \<Longrightarrow> MetricChanged m \<in> S) \<Longrightarrow> only S (ValidationFinished inst t r n b)"
  unfolding ValidationFinished_def by (auto intro!: only_intros simp: collector_defs)

lemma only_probes [only_intros]:
  "(\<And>m. registered m \<Longrightarrow> MetricChanged m \<in> S) \<Longrightarrow> (\<And>k r m a. EventRecorded k r m a \<in> S) \<Longrightarrow> only S (probeStartingInitialSync i)"
  "(\<And>m. registered m \<Longrightarrow> MetricChanged m \<in> S) \<Longrightarrow> (\<And>k r m a. EventRecorded k r m a \<in> S) \<Longrightarrow>
     only S (probeStateDeviationRefresh i problem)"
  "(\<And>m. registered m \<Longrightarrow> MetricChanged m \<in> S) \<Longrightarrow> (\<And>k r m a. EventRecorded k r m a \<in> S) \<Longrightarrow>
     only S (probePipelineDidNotBecomeValid i)"
  unfolding probeStartingInitialSync_def probeStateDeviationRefresh_def probePipelineDidNotBecomeValid_def
    PipelineRefreshed_def
  by (auto intro!: only_intros simp: collector_defs)

lemma only_UnixNano [only_intros]: "only S (UnixNano E)"
  by (simp add: UnixNano_def only_observe)

lemma only_Now [only_intros]: "only S (Now E)"
  by (simp add: Now_def only_observe)

text \<open>The instance with the active table as the database tells it.\<close>

definition with_active :: "string \<Rightarrow> CyndiPipeline \<Rightarrow> CyndiPipeline" where
  "with_active a inst = inst\<lparr>Status := (Status inst)\<lparr>ActiveTableName := a\<rparr>\<rparr>"

lemma only_updateStatusAndRequeue [only_intros]:
  "(\<And>c. PgQuery c currentTableQuery \<in> S) \<Longrightarrow>
   (\<And>msg. EventRecorded EventTypeWarning ''Failed'' msg [] \<in> S) \<Longrightarrow>
   (\<And>a. KubeUpdateStatus (with_active a (it_Instance i)) \<in> S) \<Longrightarrow>
   only S (updateStatusAndRequeue E i)"
  unfolding updateStatusAndRequeue_def
  by (auto intro!: only_intros simp: Let_def set_status_def with_active_def)

text \<open>The requests that only read, and what is reported: events, and metrics that have been
  registered.\<close>

definition reading :: "effect set" where
  "reading = {e. (\<exists>c q. e = PgQuery c q) \<or> (\<exists>k ns n. e = KubeGet k ns n) \<or> (\<exists>k ns ls. e = KubeList k ns ls)}"

definition reporting :: "effect set" where
  "reporting = {e. (\<exists>m. registered m \<and> e = MetricChanged m) \<or> (\<exists>k r m a. e = EventRecorded k r m a)}"

lemma reading_simps [simp]:
  "PgQuery c q \<in> reading" "KubeGet k ns n \<in> reading" "KubeList k ns ls \<in> reading"
  "PgExec c q \<notin> reading" "KubeCreate g \<notin> reading" "KubeUpdate g \<notin> reading" "KubeDelete k ns n \<notin> reading"
  "KubeUpdatePipeline p \<notin> reading" "KubeUpdateStatus p \<notin> reading"
  "PgConnect s \<notin> reading" "PgClose c \<notin> reading"
  by (simp_all add: reading_def)

lemma reporting_simps [simp]:
  "MetricChanged m \<in> reporting \<longleftrightarrow> registered m" "EventRecorded ty r msg a \<in> reporting"
  "PgExec c q \<notin> reporting" "KubeCreate g \<notin> reporting" "KubeUpdate g \<notin> reporting"
  "KubeDelete k ns n \<notin> reporting" "KubeUpdatePipeline p \<notin> reporting" "KubeUpdateStatus p \<notin> reporting"
  "PgConnect s \<notin> reporting" "PgClose c \<notin> reporting"
  by (simp_all add: reporting_def)

lemma only_Fetch [only_intros]:
  "KubeGet KindConfigMap ns n \<in> S \<Longrightarrow> only S (FetchConfigMap E ns n)"
  "KubeGet KindSecret ns n \<in> S \<Longrightarrow> only S (FetchSecret E ns n)"
  "KubeGet KindPipeline ns n \<in> S \<Longrightarrow> only S (FetchCyndiPipeline E ns n)"
  unfolding FetchConfigMap_def FetchSecret_def FetchCyndiPipeline_def by (auto intro!: only_intros)

lemma only_fetchConfigMaps [only_intros]:
  "(\<And>ns. KubeGet KindConfigMap ns configMapName \<in> S) \<Longrightarrow> only S (fetchConfigMaps E nss cms)"
  by (induction nss arbitrary: cms) (auto intro!: only_intros)

lemma only_parseConfig [only_intros]:
  "(\<And>ns. KubeGet KindConfigMap ns configMapName \<in> S) \<Longrightarrow> only S (parseConfig E inst)"
  unfolding parseConfig_def by (auto intro!: only_intros)

lemma only_LoadDBSecret [only_intros]:
  "KubeGet KindSecret ns n \<in> S \<Longrightarrow> only S (LoadDBSecret E config ns n)"
  unfolding LoadDBSecret_def by (auto intro!: only_intros)

end
