(* ===== verification/Validate.thy ===== *)
theory Validate
  imports Iteration
begin

text \<open>
  \<^verbatim>\<open>controllers/validate.go\<close>: the comparison of the host identifiers in the application
  table with those in the inventory, on \<open>float64\<close> ratios.
\<close>

definition countMismatchThreshold :: rat where
  "countMismatchThreshold = 1 / 2"

definition idDiffMaxLength :: int where
  "idDiffMaxLength = 51"

record validation =
  v_isValid :: bool
  v_mismatchRatio :: rat
  v_mismatchCount :: int
  v_hostCount :: int

definition mismatch_ratio :: "int \<Rightarrow> int \<Rightarrow> rat" where
  "mismatch_ratio mismatch hosts = fdiv (float_of_int mismatch) (max (float_of_int hosts) 1)"

text \<open>The part after both lists of identifiers are there.\<close>

definition compareIds :: "int \<Rightarrow> int \<Rightarrow> string list \<Rightarrow> string list \<Rightarrow> validation" where
  "compareIds validationThresholdPercent appHostCount hbiIds appIds =
     (let inHbiOnly = Difference hbiIds appIds;
          inAppOnly = Difference appIds hbiIds;
          mismatchCount = wrap64 (int (length inHbiOnly) + int (length inAppOnly));
          idMismatchRatio = mismatch_ratio mismatchCount (int (length hbiIds))
      in \<lparr>v_isValid = fmul idMismatchRatio 100 \<le> float_of_int validationThresholdPercent,
          v_mismatchRatio = idMismatchRatio,
          v_mismatchCount = mismatchCount,
          v_hostCount = appHostCount\<rparr>)"

text \<open>What is logged of a list of identifiers: at most the first 51.\<close>

definition truncatedIds :: "string list \<Rightarrow> string list" where
  "truncatedIds ids = take (nat (Min idDiffMaxLength (int (length ids)))) ids"

definition validate :: "'w env \<Rightarrow> iteration \<Rightarrow> BaseDatabase \<Rightarrow> string \<Rightarrow> ('w, gerror + validation) eff" where
  "validate E i inventoryDb hbiSchema = (
     let inst = it_Instance i;
         appTable = AppFullTableName (status_TableName (Status inst));
         inventoryTableName = hbiSchema @ ''.hosts'';
         threshold = PercentageThreshold (it_getValidationConfig i)
     in do {
       r \<leftarrow> CountHosts (env_pg E) (it_AppDb i) appTable False [];
       case r of
         Inl err \<Rightarrow> ret (Inl err)
       | Inr appHostCount \<Rightarrow> do {
           r \<leftarrow> CountHosts (env_pg E) inventoryDb inventoryTableName (InsightsOnly (Spec inst))
             (AdditionalFilters (Spec inst));
           case r of
             Inl err \<Rightarrow> ret (Inl err)
           | Inr hbiHostCount \<Rightarrow> do {
               _ \<leftarrow> AppHostCount inst appHostCount;
               let countMismatch = Abs (wrap64 (hbiHostCount - appHostCount));
               let countMismatchRatio = mismatch_ratio countMismatch hbiHostCount;
               if countMismatchRatio > countMismatchThreshold then do {
                 _ \<leftarrow> ValidationFinished inst threshold countMismatchRatio countMismatch False;
                 ret (Inr \<lparr>v_isValid = False, v_mismatchRatio = countMismatchRatio,
                   v_mismatchCount = countMismatch, v_hostCount = appHostCount\<rparr>)
               }
               else do {
                 r \<leftarrow> GetHostIds (env_pg E) inventoryDb inventoryTableName (InsightsOnly (Spec inst))
                   (AdditionalFilters (Spec inst));
                 case r of
                   Inl err \<Rightarrow> ret (Inl err)
                 | Inr hbiIds \<Rightarrow> do {
                     r \<leftarrow> GetHostIds (env_pg E) (it_AppDb i) appTable False [];
                     case r of
                       Inl err \<Rightarrow> ret (Inl err)
                     | Inr appIds \<Rightarrow> do {
                         let v = compareIds threshold appHostCount hbiIds appIds;
                         _ \<leftarrow> ValidationFinished inst threshold (v_mismatchRatio v) (v_mismatchCount v) (v_isValid v);
                         ret (Inr v)
                       }
                   }
               }
             }
         }
     })"

section \<open>What the comparison decides\<close>

text \<open>The hosts that are in one of the two lists only.\<close>

definition mismatched :: "string list \<Rightarrow> string list \<Rightarrow> string set" where
  "mismatched hbi app = (set hbi - set app) \<union> (set app - set hbi)"

lemma finite_mismatched [simp]: "finite (mismatched hbi app)"
  by (simp add: mismatched_def)

lemma card_mismatched:
  "card (mismatched hbi app) = card (set hbi - set app) + card (set app - set hbi)"
  unfolding mismatched_def by (rule card_Un_disjoint) auto

lemma compareIds_count:
  assumes "distinct hbi" and "distinct app" and "length hbi + length app < 2 ^ 52"
  shows "v_mismatchCount (compareIds t n hbi app) = int (card (mismatched hbi app))"
    and "v_mismatchCount (compareIds t n hbi app) < 2 ^ 52"
proof -
  have "card (set hbi - set app) \<le> length hbi" "card (set app - set hbi) \<le> length app"
    by (meson List.finite_set card_length card_mono Diff_subset order_trans)+
  then have "int (card (mismatched hbi app)) < 2 ^ 52"
    using assms(3) by (simp add: card_mismatched)
  moreover then have "in_int64 (int (card (mismatched hbi app)))" by (simp add: in_int64_def)
  ultimately show "v_mismatchCount (compareIds t n hbi app) = int (card (mismatched hbi app))"
    "v_mismatchCount (compareIds t n hbi app) < 2 ^ 52"
    using assms by (simp_all add: compareIds_def Let_def length_Difference card_mismatched)
qed

lemma mismatch_ratio_exact:
  assumes "0 \<le> m" and "m < 2 ^ 53" and "0 \<le> n" and "n < 2 ^ 53"
  shows "mismatch_ratio m n = fl (of_int m / of_int (max n 1))"
  using assms by (auto simp: mismatch_ratio_def fdiv_def float_of_int_def max_def)

text \<open>
  C7: when the exact share of mismatched hosts is below the threshold the pipeline is
  validated, when it is above it is not. Rounding to \<open>float64\<close> does not change the
  decision for any inventory of up to \<open>2 ^ 51\<close> hosts and percent points; only at
  equality may it.
\<close>

theorem compareIds_decides:
  assumes "distinct hbi" and "distinct app" and "length hbi + length app < 2 ^ 52"
    and "0 \<le> t" and "t * max (int (length hbi)) 1 \<le> 2 ^ 51"
  shows "(100 * int (card (mismatched hbi app)) < t * max (int (length hbi)) 1 \<longrightarrow>
      v_isValid (compareIds t n hbi app)) \<and>
    (100 * int (card (mismatched hbi app)) > t * max (int (length hbi)) 1 \<longrightarrow>
      \<not> v_isValid (compareIds t n hbi app))"
proof -
  define m where "m = v_mismatchCount (compareIds t n hbi app)"
  define h where "h = max (int (length hbi)) 1"
  have m: "m = int (card (mismatched hbi app))" and small: "m < 2 ^ 52"
    using compareIds_count [OF assms(1-3)] by (simp_all add: m_def)
  have h: "0 < h" "h < 2 ^ 53" using assms(3) by (auto simp: h_def max_def)
  have "t * 1 \<le> t * h" using assms(4) h by (intro mult_left_mono) auto
  then have t: "t < 2 ^ 53" using assms(5) by (simp add: h_def)
  have "v_isValid (compareIds t n hbi app) \<longleftrightarrow>
      fmul (mismatch_ratio m (int (length hbi))) 100 \<le> float_of_int t"
    by (simp add: compareIds_def m_def Let_def)
  also have "\<dots> \<longleftrightarrow> fmul (fdiv (of_int m) (of_int h)) 100 \<le> of_int t"
    using m small assms(3,4) t
    by (simp add: mismatch_ratio_exact h_def fdiv_def float_of_int_def)
  finally show ?thesis
    using percent_below [of m h t] percent_above [of m h t] m h assms(4,5)
    by (auto simp: h_def)
qed



theorem compareIds_decides_witness:
  "v_isValid (compareIds 60 2 [''a'', ''b''] [''a'', ''b'']) \<and>
   \<not> v_isValid (compareIds 60 2 [''a'', ''b''] [''b'', ''c''])"
  using compareIds_decides [of "[''a'', ''b'']" "[''a'', ''b'']" 60 2]
    compareIds_decides [of "[''a'', ''b'']" "[''b'', ''c'']" 60 2]
  by (simp add: mismatched_def)


lemma truncatedIds_take: "truncatedIds ids = take 51 ids"
  by (simp add: truncatedIds_def Min_def idDiffMaxLength_def)

end
