(* ===== verification/Lifecycle.thy ===== *)
theory Lifecycle
  imports Pipeline
begin

text \<open>
  The contract of the status conditions, the life cycle of a pipeline that follows from it
  (which state each transition of \<^verbatim>\<open>state.go\<close> leads to), the well-formedness invariant
  of a status and its preservation along every sequence of the operations the controllers
  apply.
\<close>

section \<open>The contract of the condition functions\<close>

locale status_conditions =
  fixes M :: meta_api
  assumes find_empty: "FindStatusCondition M [] T = None"
    and find_set_same: "\<exists>c'. FindStatusCondition M (SetStatusCondition M t cs c) (cond_Type c) = Some c'
          \<and> cond_Status c' = cond_Status c \<and> cond_Reason c' = cond_Reason c
          \<and> cond_Message c' = cond_Message c"
    and find_set_other: "T \<noteq> cond_Type c \<Longrightarrow>
          FindStatusCondition M (SetStatusCondition M t cs c) T = FindStatusCondition M cs T"
    and present_iff: "IsStatusConditionPresentAndEqual M cs T s \<longleftrightarrow>
          (\<exists>c. FindStatusCondition M cs T = Some c \<and> cond_Status c = s)"
begin

lemma IsValid_iff: "IsValid M inst \<longleftrightarrow> GetValid M inst = ConditionTrue"
  by (auto simp: IsValid_def GetValid_def present_iff split: option.split)

lemma GetValid_SetValid [simp]: "GetValid M (SetValid M t s r m h inst) = s"
proof -
  define c where "c = \<lparr>cond_Type = validConditionType, cond_Status = s,
    cond_ObservedGeneration = 0, cond_LastTransitionTime = '''', cond_Reason = r, cond_Message = m\<rparr>"
  have "Conditions (Status (SetValid M t s r m h inst)) =
      SetStatusCondition M t (Conditions (Status inst)) c"
    by (simp add: SetValid_def c_def Let_def split: ConditionStatus.split)
  then show ?thesis
    using find_set_same [of t "Conditions (Status inst)" c] by (auto simp: GetValid_def c_def)
qed

lemma GetValid_cong:
  "Conditions (Status inst) = Conditions (Status inst') \<Longrightarrow> GetValid M inst = GetValid M inst'"
  by (simp add: GetValid_def)

lemma GetValid_TransitionToNew [simp]: "GetValid M (TransitionToNew M t inst) = ConditionUnknown"
  using GetValid_cong [of "TransitionToNew M t inst" "ResetValid M t inst"]
  by (simp add: ResetValid_def)

lemma GetValid_TransitionToInitialSync:
  "TransitionToInitialSync M t v inst = Inr inst' \<Longrightarrow> GetValid M inst' = ConditionUnknown"
  using GetValid_cong [of inst' "ResetValid M t inst"] TransitionToInitialSync_cases(7)
  by (simp add: ResetValid_def)

lemma GetState_iff:
  "GetState M inst =
     (if meta_DeletionTimestamp (Meta inst) \<noteq> None then STATE_REMOVED
      else if PipelineVersion (Status inst) = '''' then STATE_NEW
      else if GetValid M inst = ConditionTrue then STATE_VALID
      else if InitialSyncInProgress (Status inst) then STATE_INITIAL_SYNC
      else if GetValid M inst = ConditionFalse then STATE_INVALID
      else STATE_UNKNOWN)"
  by (simp add: GetState_def IsValid_iff)

end

section \<open>The life cycle\<close>

text \<open>
  The states of a pipeline and the moves between them, as the README describes them: a new
  pipeline starts its initial sync, validation makes it valid or invalid (a failed validation
  during the initial sync leaves it there), any pipeline may be refreshed, and deletion can
  come at any time. Updates that are no transition leave the state alone.
\<close>

inductive lifecycle :: "PipelineState \<Rightarrow> PipelineState \<Rightarrow> bool" where
  stay: "lifecycle s s"
| start_sync: "lifecycle STATE_NEW STATE_INITIAL_SYNC"
| synced: "lifecycle STATE_INITIAL_SYNC STATE_VALID"
| diverged: "lifecycle STATE_VALID STATE_INVALID"
| recovered: "lifecycle STATE_INVALID STATE_VALID"
| refresh: "s \<noteq> STATE_REMOVED \<Longrightarrow> lifecycle s STATE_NEW"
| removed: "lifecycle s STATE_REMOVED"

inductive_simps lifecycle_from:
  "lifecycle STATE_NEW s" "lifecycle STATE_INITIAL_SYNC s" "lifecycle STATE_VALID s"
  "lifecycle STATE_INVALID s" "lifecycle STATE_REMOVED s"

text \<open>
  A status is well formed when its fields agree with one another: without a version nothing
  has been validated and no sync runs; with one, a pipeline that is not in its initial sync
  has been validated, and a valid one is not in its initial sync; failures are counted only
  while the last validation failed.
\<close>

definition wf_status :: "meta_api \<Rightarrow> CyndiPipeline \<Rightarrow> bool" where
  "wf_status M inst \<longleftrightarrow>
     (PipelineVersion (Status inst) = '''' \<longrightarrow>
        \<not> InitialSyncInProgress (Status inst) \<and> GetValid M inst = ConditionUnknown) \<and>
     (PipelineVersion (Status inst) \<noteq> '''' \<and> \<not> InitialSyncInProgress (Status inst) \<longrightarrow>
        GetValid M inst \<noteq> ConditionUnknown) \<and>
     (GetValid M inst = ConditionTrue \<longrightarrow> \<not> InitialSyncInProgress (Status inst)) \<and>
     (GetValid M inst \<noteq> ConditionFalse \<longrightarrow> ValidationFailedCount (Status inst) = 0)"

text \<open>
  What happens to a stored pipeline, one rule per kind of change: the transitions of
  \<^verbatim>\<open>state.go\<close> as the two controllers use them, the bookkeeping fields they write, and
  what users do to the resource.
\<close>

inductive status_step :: "meta_api \<Rightarrow> CyndiPipeline \<Rightarrow> CyndiPipeline \<Rightarrow> bool" for M where
  refresh: "GetState M inst \<noteq> STATE_REMOVED \<Longrightarrow> status_step M inst (TransitionToNew M t inst)"
| start: "\<lbrakk> v \<noteq> ''''; TransitionToInitialSync M t v inst = Inr inst' \<rbrakk> \<Longrightarrow>
    status_step M inst inst'"
| validated: "\<lbrakk> GetState M inst \<notin> {STATE_REMOVED, STATE_NEW}; s \<noteq> ConditionUnknown \<rbrakk> \<Longrightarrow>
    status_step M inst (SetValid M t s r m h inst)"
| bookkeeping: "status_step M inst (inst\<lparr>Status := (Status inst)\<lparr>ActiveTableName := a,
    CyndiConfigVersion := c, status_SpecHash := h\<rparr>\<rparr>)"
| edited: "status_step M inst (inst\<lparr>Spec := spec\<rparr>)"
| relabelled: "meta_DeletionTimestamp meta = meta_DeletionTimestamp (Meta inst) \<Longrightarrow>
    status_step M inst (inst\<lparr>Meta := meta\<rparr>)"
| deleted: "status_step M inst (inst\<lparr>Meta := (Meta inst)\<lparr>meta_DeletionTimestamp := Some t\<rparr>\<rparr>)"

inductive reachable :: "meta_api \<Rightarrow> CyndiPipeline \<Rightarrow> bool" for M where
  created: "meta_DeletionTimestamp (Meta inst) = None \<Longrightarrow> Status inst = zero_Status \<Longrightarrow>
    reachable M inst"
| step: "reachable M inst \<Longrightarrow> status_step M inst inst' \<Longrightarrow> reachable M inst'"

context status_conditions
begin

lemma GetValid_frame [simp]:
  "GetValid M (inst\<lparr>Spec := spec\<rparr>) = GetValid M inst"
  "GetValid M (inst\<lparr>Meta := meta\<rparr>) = GetValid M inst"
  "GetValid M (inst\<lparr>Status := (Status inst)\<lparr>ActiveTableName := a, CyndiConfigVersion := c,
     status_SpecHash := h\<rparr>\<rparr>) = GetValid M inst"
  by (simp_all add: GetValid_def)

lemma wf_zero: "Status inst = zero_Status \<Longrightarrow> wf_status M inst"
  by (simp add: wf_status_def zero_Status_def GetValid_def find_empty)

lemma wf_TransitionToNew: "wf_status M (TransitionToNew M t inst)"
  by (simp add: wf_status_def)

lemma wf_TransitionToInitialSync:
  "v \<noteq> '''' \<Longrightarrow> TransitionToInitialSync M t v inst = Inr inst' \<Longrightarrow> wf_status M inst'"
  by (simp add: wf_status_def GetValid_TransitionToInitialSync TransitionToInitialSync_cases)

lemma wf_SetValid:
  "PipelineVersion (Status inst) \<noteq> '''' \<Longrightarrow> s \<noteq> ConditionUnknown \<Longrightarrow>
   wf_status M (SetValid M t s r m h inst)"
  by (cases s) (simp_all add: wf_status_def)

lemma GetState_version: "GetState M inst \<notin> {STATE_REMOVED, STATE_NEW} \<Longrightarrow>
    PipelineVersion (Status inst) \<noteq> ''''"
  by (auto simp: GetState_def split: if_splits)

lemma wf_step: "status_step M inst inst' \<Longrightarrow> wf_status M inst \<Longrightarrow> wf_status M inst'"
proof (induction rule: status_step.induct)
  case (validated inst s t r m h)
  then show ?case using GetState_version wf_SetValid by blast
next
  case (start v t inst inst')
  then show ?case by (blast intro: wf_TransitionToInitialSync)
qed (simp_all add: wf_TransitionToNew, simp_all add: wf_status_def)

lemma wf_reachable: "reachable M inst \<Longrightarrow> wf_status M inst"
  by (induction rule: reachable.induct) (auto intro: wf_zero wf_step)

lemma wf_known: "wf_status M inst \<Longrightarrow> GetState M inst \<noteq> STATE_UNKNOWN"
  by (cases "GetValid M inst") (auto simp: wf_status_def GetState_iff)

lemma GetState_TransitionToNew:
  "GetState M (TransitionToNew M t inst) =
     (if meta_DeletionTimestamp (Meta inst) \<noteq> None then STATE_REMOVED else STATE_NEW)"
  by (simp add: GetState_def)

lemma GetState_TransitionToInitialSync:
  "v \<noteq> '''' \<Longrightarrow> TransitionToInitialSync M t v inst = Inr inst' \<Longrightarrow> GetState M inst' = STATE_INITIAL_SYNC"
  using TransitionToInitialSync_cases [of M t v inst inst'] GetValid_TransitionToInitialSync [of t v inst inst']
  by (auto simp: GetState_iff [of inst'] GetState_def [of M inst] split: if_splits)

lemma GetState_SetValid:
  assumes "GetState M inst \<notin> {STATE_REMOVED, STATE_NEW}" and "s \<noteq> ConditionUnknown"
  shows "GetState M (SetValid M t s r m h inst) =
    (if s = ConditionTrue then STATE_VALID
     else if InitialSyncInProgress (Status inst) then STATE_INITIAL_SYNC else STATE_INVALID)"
  using assms by (cases s) (auto simp: GetState_iff split: if_splits)

lemma lifecycle_step:
  assumes "status_step M inst inst'" and "wf_status M inst"
  shows "lifecycle (GetState M inst) (GetState M inst')"
  using assms
proof (induction rule: status_step.induct)
  case (refresh inst t)
  then show ?case
    by (simp add: GetState_TransitionToNew lifecycle.intros)
next
  case (start v t inst inst')
  then show ?case
    using GetState_TransitionToInitialSync TransitionToInitialSync_cases(1) [of M t v inst inst']
    by (auto simp: lifecycle_from)
next
  case (validated inst s t r m h)
  then have "GetState M inst \<in> {STATE_INITIAL_SYNC, STATE_VALID, STATE_INVALID}"
    using wf_known [of inst] by (cases "GetState M inst") auto
  with validated show ?case
    by (auto simp: GetState_SetValid lifecycle_from wf_status_def) (auto simp: GetState_iff split: if_splits)
qed (auto simp: GetState_iff lifecycle.intros)

end

section \<open>The API machinery's functions as documented\<close>

text \<open>
  An instance of the parameter, written from the documentation of
  \<^verbatim>\<open>k8s.io/apimachinery/pkg/api/meta\<close>: the first condition of the type is found; setting
  a condition appends it when its type is new, and otherwise updates the found one, with a
  new transition time exactly when the status changes.
\<close>

fun doc_find :: "Condition list \<Rightarrow> string \<Rightarrow> Condition option" where
  "doc_find [] T = None"
| "doc_find (c # cs) T = (if cond_Type c = T then Some c else doc_find cs T)"

definition doc_touch :: "string \<Rightarrow> Condition \<Rightarrow> string" where
  "doc_touch now c = (if cond_LastTransitionTime c = '''' then now else cond_LastTransitionTime c)"

fun doc_set :: "string \<Rightarrow> Condition list \<Rightarrow> Condition \<Rightarrow> Condition list" where
  "doc_set now [] c = [c\<lparr>cond_LastTransitionTime := doc_touch now c\<rparr>]"
| "doc_set now (d # cs) c =
     (if cond_Type d = cond_Type c then
        c\<lparr>cond_LastTransitionTime :=
            (if cond_Status d \<noteq> cond_Status c then doc_touch now c else cond_LastTransitionTime d)\<rparr> # cs
      else d # doc_set now cs c)"

definition doc_meta :: meta_api where
  "doc_meta = \<lparr>SetStatusCondition = doc_set, FindStatusCondition = doc_find,
     IsStatusConditionPresentAndEqual =
       (\<lambda>cs T s. case doc_find cs T of None \<Rightarrow> False | Some c \<Rightarrow> cond_Status c = s)\<rparr>"

lemma doc_find_set_same:
  "\<exists>c'. doc_find (doc_set t cs c) (cond_Type c) = Some c' \<and> cond_Status c' = cond_Status c \<and>
     cond_Reason c' = cond_Reason c \<and> cond_Message c' = cond_Message c"
  by (induction cs) auto

lemma doc_find_set_other: "T \<noteq> cond_Type c \<Longrightarrow> doc_find (doc_set t cs c) T = doc_find cs T"
  by (induction cs) auto

interpretation doc: status_conditions doc_meta
proof
  show "FindStatusCondition doc_meta [] T = None" for T
    by (simp add: doc_meta_def)
qed (auto simp: doc_meta_def doc_find_set_same doc_find_set_other split: option.split)

section \<open>Properties\<close>

text \<open>
  along every sequence of operations a pipeline goes through, its status stays well
  formed, and its state is never the state \<open>UNKNOWN\<close> that the code has for statuses it
  cannot classify.
\<close>

theorem reachable_status_wf:
  assumes "status_conditions M" and "reachable M inst"
  shows "wf_status M inst \<and> GetState M inst \<noteq> STATE_UNKNOWN"
  using status_conditions.wf_reachable [OF assms] status_conditions.wf_known [OF assms(1)] by blast

text \<open>
  every operation on a pipeline moves it along an edge of the life cycle or leaves its
  state alone.
\<close>

theorem lifecycle_respected:
  assumes "status_conditions M" and "reachable M inst" and "status_step M inst inst'"
  shows "lifecycle (GetState M inst) (GetState M inst')"
  using status_conditions.lifecycle_step [OF assms(1,3)] status_conditions.wf_reachable [OF assms(1,2)]
  by blast

text \<open>
  an initial sync can start from the states \<open>NEW\<close> and \<open>INITIAL_SYNC\<close> only. It leads to
  \<open>INITIAL_SYNC\<close> with the given version, an unknown validity and no failures; a pipeline
  without managed connectors keeps the table it has.
\<close>

theorem initial_sync_transition:
  assumes M: "status_conditions M" and v: "v \<noteq> ''''"
  shows "case TransitionToInitialSync M t v inst of
      Inl err \<Rightarrow> GetState M inst \<notin> {STATE_NEW, STATE_INITIAL_SYNC}
    | Inr inst' \<Rightarrow> GetState M inst \<in> {STATE_NEW, STATE_INITIAL_SYNC} \<and>
        GetState M inst' = STATE_INITIAL_SYNC \<and> GetValid M inst' = ConditionUnknown \<and>
        PipelineVersion (Status inst') = v \<and> ValidationFailedCount (Status inst') = 0 \<and>
        status_TableName (Status inst') =
          (if ConnectorsManaged inst \<or> status_TableName (Status inst) = '''' then TableName v
           else status_TableName (Status inst))"
proof (cases "TransitionToInitialSync M t v inst")
  case (Inl err)
  then show ?thesis using TransitionToInitialSync_iff [of M t v inst] by auto
next
  case (Inr inst')
  with TransitionToInitialSync_cases [OF Inr] status_conditions.GetState_TransitionToInitialSync [OF M v Inr]
    status_conditions.GetValid_TransitionToInitialSync [OF M Inr]
  show ?thesis by auto
qed

text \<open>Repeated failed validations.\<close>

fun fail_validation :: "meta_api \<Rightarrow> nat \<Rightarrow> CyndiPipeline \<Rightarrow> CyndiPipeline" where
  "fail_validation M 0 inst = inst"
| "fail_validation M (Suc k) inst =
     SetValid M '''' ConditionFalse ''ValidationFailed'' '''' 0 (fail_validation M k inst)"

lemma fail_validation_count:
  "int k < 2 ^ 63 \<Longrightarrow> ValidationFailedCount (Status inst) = 0 \<Longrightarrow>
   ValidationFailedCount (Status (fail_validation M k inst)) = int k"
proof (induction k)
  case (Suc k)
  then have "in_int64 (1 + int k)" by (simp add: in_int64_def)
  with Suc show ?case by (simp add: add.commute)
qed simp

text \<open>
  consecutive failed validations are counted one by one and a success sets the counter
  back, so the number of attempts compared with the threshold is the number of failures
  since the last success or refresh.
\<close>

theorem failures_are_counted:
  assumes "int k < 2 ^ 63" and "ValidationFailedCount (Status inst) = 0"
  shows "ValidationFailedCount (Status (fail_validation M k inst)) = int k \<and>
    ValidationFailedCount (Status (SetValid M t ConditionTrue r m h (fail_validation M k inst))) = 0"
  using fail_validation_count [OF assms] by simp

section \<open>Concrete pipelines\<close>

lemma new_pipeline_reachable: "reachable doc_meta new_pipeline"
  by (rule reachable.created) (simp_all add: new_pipeline_def)

definition synced_pipeline :: CyndiPipeline where
  "synced_pipeline = (case TransitionToInitialSync doc_meta ''now'' ''1_1'' new_pipeline of
     Inl _ \<Rightarrow> new_pipeline | Inr p \<Rightarrow> p)"

lemma synced_pipeline_step: "status_step doc_meta new_pipeline synced_pipeline"
  by (rule status_step.start [of "''1_1''" _ "''now''"]) (simp, code_simp)

theorem reachable_status_wf_witness: "wf_status doc_meta synced_pipeline \<and> GetState doc_meta synced_pipeline \<noteq> STATE_UNKNOWN"
  using reachable_status_wf [OF doc.status_conditions_axioms]
    reachable.step [OF new_pipeline_reachable synced_pipeline_step] by blast

theorem lifecycle_respected_witness: "lifecycle (GetState doc_meta new_pipeline) (GetState doc_meta synced_pipeline)"
  by (rule lifecycle_respected [OF doc.status_conditions_axioms new_pipeline_reachable synced_pipeline_step])

theorem initial_sync_transition_witness:
  "case TransitionToInitialSync doc_meta ''now'' ''1_1'' new_pipeline of
     Inl err \<Rightarrow> False | Inr p \<Rightarrow> GetState doc_meta p = STATE_INITIAL_SYNC"
proof -
  have "GetState doc_meta new_pipeline = STATE_NEW" by code_simp
  then show ?thesis
    using initial_sync_transition [OF doc.status_conditions_axioms, of "''1_1''" new_pipeline "''now''"]
    by (auto split: sum.splits)
qed

theorem failures_are_counted_witness:
  "ValidationFailedCount (Status (fail_validation doc_meta 3 synced_pipeline)) = 3"
proof -
  have "ValidationFailedCount (Status synced_pipeline) = 0" by code_simp
  then show ?thesis using failures_are_counted [of 3 synced_pipeline doc_meta] by simp
qed

end
