(* ===== verification/JsonRoundtrip.thy ===== *)
theory JsonRoundtrip
  imports Json
begin

text \<open>
  What the encoder writes, the decoder reads back: strings (with the replacement of bytes
  that are not UTF-8), integers, booleans, arrays, objects, and with them the two texts the
  operator hashes, the JSON of a ConfigMap's data and of a specification.
\<close>

section \<open>Quoted strings\<close>

text \<open>A string as it comes back: every byte that is not part of valid UTF-8 replaced.\<close>

function to_valid :: "string \<Rightarrow> string" where
  "to_valid [] = []"
| "to_valid (c # s) =
     (if (of_char c :: nat) < 128 then c # to_valid s
      else let n = rune_len (c # s) in
        (if n = 1 then replacement else take n (c # s)) @ to_valid (drop (n - 1) s))"
  by pat_completeness auto
termination
  by (relation "measure length") auto

definition valid_utf8 :: "string \<Rightarrow> bool" where
  "valid_utf8 s \<longleftrightarrow> to_valid s = s"

lemma hex_val_digit: "d < 16 \<Longrightarrow> hex_val (hex_digit d) = Some d"
proof -
  have "list_all (\<lambda>d. hex_val (hex_digit d) = Some d) [0..<16]" by code_simp
  then show "d < 16 \<Longrightarrow> ?thesis" by (simp add: list_all_iff)
qed

lemma hex4_ascii: "b < 256 \<Longrightarrow> hex4 (CHR ''0'' # CHR ''0'' # hex_digit (b div 16) # hex_digit (b mod 16) # t) = Some b"
  by (simp add: hex4_def hex_val_digit less_mult_imp_div_less) (simp add: hex_val_def)

lemma unquote_plain:
  "(of_char c :: nat) < 128 \<Longrightarrow> 32 \<le> (of_char c :: nat) \<Longrightarrow> c \<noteq> CHR 0x22 \<Longrightarrow> c \<noteq> CHR 0x5C \<Longrightarrow>
   unquote (c # s) = map_option ((#) c) (unquote s)"
  by simp

lemma unquote_unicode:
  "unicode_escape r = Some (bytes, n) \<Longrightarrow>
   unquote (CHR 0x5C # CHR ''u'' # r) = map_option ((@) bytes) (unquote (drop n r))"
  by simp

lemma unicode_escape_plain:
  "hex4 s = Some u \<Longrightarrow> u < 0xD800 \<or> 0xE000 \<le> u \<Longrightarrow> unicode_escape s = Some (utf8_encode u, 4)"
  by (auto simp: unicode_escape_def)

lemma unquote_simple:
  "simple_escape e = Some d \<Longrightarrow> e \<noteq> CHR ''u'' \<Longrightarrow> unquote (CHR 0x5C # e # r) = map_option ((#) d) (unquote r)"
  by simp

declare unquote.simps(2) [simp del]

lemma unquote_escape_ascii:
  assumes "(of_char c :: nat) < 128"
  shows "unquote (escape_ascii c @ t) = map_option ((#) c) (unquote t)"
proof -
  define b :: nat where "b = of_char c"
  have c: "c = char_of b" by (simp add: b_def)
  have "unquote (CHR 0x5C # CHR ''u'' # CHR ''0'' # CHR ''0'' # hex_digit (b div 16) # hex_digit (b mod 16) # t)
      = map_option ((#) c) (unquote t)"
    using assms unquote_unicode [OF unicode_escape_plain [OF hex4_ascii [of b t]]]
    by (simp add: b_def utf8_encode_def append_single)
  moreover have "c = CHR 0x08" if "b = 8" using that by (simp add: b_def flip: of_char_eq_iff [where ?'a = nat])
  moreover have "c = CHR 0x0C" if "b = 12" using that by (simp add: b_def flip: of_char_eq_iff [where ?'a = nat])
  moreover have "c = CHR 0x0A" if "b = 10" using that by (simp add: b_def flip: of_char_eq_iff [where ?'a = nat])
  moreover have "c = CHR 0x0D" if "b = 13" using that by (simp add: b_def flip: of_char_eq_iff [where ?'a = nat])
  moreover have "c = CHR 0x09" if "b = 9" using that by (simp add: b_def flip: of_char_eq_iff [where ?'a = nat])
  ultimately show ?thesis
    using assms unquote_plain [of c t]
    by (auto simp: escape_ascii_def Let_def unquote_simple simple_escape_def simp flip: b_def)
qed

lemma is_cont_append: "is_cont lo hi s \<Longrightarrow> is_cont lo hi (s @ t)"
  by (auto simp: is_cont_def split: list.splits)

lemma rune_len_range: "rune_len s \<in> {1, 2, 3, 4}"
  by (auto simp: rune_len_def Let_def split: list.splits)

lemma is_cont_iff: "is_cont lo hi s \<longleftrightarrow> (\<exists>x r. s = x # r \<and> lo \<le> of_char x \<and> of_char x \<le> hi)"
  by (auto simp: is_cont_def split: list.splits)

text \<open>A valid multi-byte sequence, as its bytes.\<close>

lemma rune_len_2:
  assumes "rune_len (c # s) = 2"
  obtains x r where "s = x # r" "128 \<le> (of_char c :: nat)" "128 \<le> (of_char x :: nat)"
    "\<And>t. rune_len (c # x # t) = 2"
proof -
  have "194 \<le> (of_char c :: nat)" "(of_char c :: nat) \<le> 223" "is_cont 128 191 s"
    using assms by (auto simp: rune_len_def Let_def split: if_splits)
  with that show thesis by (force simp: is_cont_iff rune_len_def Let_def)
qed

lemma rune_len_3:
  assumes "rune_len (c # s) = 3"
  obtains x y r where "s = x # y # r" "128 \<le> (of_char c :: nat)" "128 \<le> (of_char x :: nat)"
    "128 \<le> (of_char y :: nat)" "\<And>t. rune_len (c # x # y # t) = 3"
proof -
  define lo hi :: nat where "lo = (if (of_char c :: nat) = 224 then 160 else 128)"
    and "hi = (if (of_char c :: nat) = 237 then 159 else 191)"
  have c: "224 \<le> (of_char c :: nat)" "(of_char c :: nat) \<le> 239"
    and "is_cont lo hi s" "is_cont 128 191 (drop 1 s)"
    using assms by (auto simp: rune_len_def Let_def lo_def hi_def split: if_splits)
  then obtain x y r where s: "s = x # y # r" "lo \<le> of_char x" "of_char x \<le> hi" "128 \<le> (of_char y :: nat)"
      "(of_char y :: nat) \<le> 191"
    by (auto simp: is_cont_iff)
  moreover have "rune_len (c # x # y # t) = 3" for t
    using c s by (simp add: rune_len_def is_cont_def Let_def flip: lo_def hi_def)
  moreover have "128 \<le> lo" by (simp add: lo_def)
  ultimately show thesis using that c by simp
qed

lemma rune_len_4:
  assumes "rune_len (c # s) = 4"
  obtains x y z r where "s = x # y # z # r" "128 \<le> (of_char c :: nat)" "128 \<le> (of_char x :: nat)"
    "128 \<le> (of_char y :: nat)" "128 \<le> (of_char z :: nat)" "\<And>t. rune_len (c # x # y # z # t) = 4"
proof -
  define lo hi :: nat where "lo = (if (of_char c :: nat) = 240 then 144 else 128)"
    and "hi = (if (of_char c :: nat) = 244 then 143 else 191)"
  have c: "240 \<le> (of_char c :: nat)" "(of_char c :: nat) \<le> 244"
    and "is_cont lo hi s" "is_cont 128 191 (drop 1 s)" "is_cont 128 191 (drop 2 s)"
    using assms by (auto simp: rune_len_def Let_def lo_def hi_def split: if_splits)
  then obtain x y z r where s: "s = x # y # z # r" "lo \<le> of_char x" "of_char x \<le> hi" "128 \<le> (of_char y :: nat)"
      "(of_char y :: nat) \<le> 191" "128 \<le> (of_char z :: nat)" "(of_char z :: nat) \<le> 191"
    by (auto simp: is_cont_iff numeral_2_eq_2)
  moreover have "rune_len (c # x # y # z # t) = 4" for t
    using c s by (simp add: rune_len_def is_cont_def Let_def flip: lo_def hi_def)
  moreover have "128 \<le> lo" by (simp add: lo_def)
  ultimately show thesis using that c by simp
qed

lemma rune_bytes:
  assumes "rune_len (c # s) \<noteq> 1"
  shows "\<forall>x \<in> set (take (rune_len (c # s)) (c # s)). 128 \<le> (of_char x :: nat)" (is ?A)
    and "rune_len (take (rune_len (c # s)) (c # s) @ t) = rune_len (c # s)" (is ?B)
    and "length (take (rune_len (c # s)) (c # s)) = rune_len (c # s)" (is ?C)
proof -
  consider "rune_len (c # s) = 2" | "rune_len (c # s) = 3" | "rune_len (c # s) = 4"
    using assms rune_len_range [of "c # s"] by auto
  then have "?A \<and> ?B \<and> ?C"
  proof cases
    case 1
    then obtain x r where "s = x # r" "128 \<le> (of_char c :: nat)" "128 \<le> (of_char x :: nat)"
      "\<And>t. rune_len (c # x # t) = 2" by (rule rune_len_2) blast
    with 1 show ?thesis by (simp add: numeral_2_eq_2)
  next
    case 2
    then obtain x y r where "s = x # y # r" "128 \<le> (of_char c :: nat)" "128 \<le> (of_char x :: nat)"
      "128 \<le> (of_char y :: nat)" "\<And>t. rune_len (c # x # y # t) = 3" by (rule rune_len_3) blast
    with 2 show ?thesis by (simp add: numeral_3_eq_3)
  next
    case 3
    then obtain x y z r where "s = x # y # z # r" "128 \<le> (of_char c :: nat)" "128 \<le> (of_char x :: nat)"
      "128 \<le> (of_char y :: nat)" "128 \<le> (of_char z :: nat)" "\<And>t. rune_len (c # x # y # z # t) = 4"
      by (rule rune_len_4) blast
    with 3 show ?thesis by (simp add: eval_nat_numeral)
  qed
  then show ?A ?B ?C by blast+
qed

lemma unquote_bytes:
  assumes "rune_len (c # u @ t) = Suc (length u)" and "u \<noteq> []" and "128 \<le> (of_char c :: nat)"
  shows "unquote (c # u @ t) = map_option ((@) (c # u)) (unquote t)"
proof -
  have "c \<noteq> CHR 0x5C" "c \<noteq> CHR 0x22" using assms(3) by auto
  with assms show ?thesis by (simp add: unquote.simps(2) Let_def)
qed

lemma unquote_rune:
  assumes "rune_len (c # s) \<noteq> 1" and "128 \<le> (of_char c :: nat)"
  shows "unquote (take (rune_len (c # s)) (c # s) @ t) =
    map_option ((@) (take (rune_len (c # s)) (c # s))) (unquote t)"
proof -
  define u where "u = take (rune_len (c # s) - 1) s"
  have n: "rune_len (c # s) \<noteq> 0" using rune_len_range [of "c # s"] by auto
  then have u: "take (rune_len (c # s)) (c # s) = c # u" by (simp add: u_def take_Cons')
  have len: "rune_len (c # s) = Suc (length u)" using rune_bytes(3) [OF assms(1)] u by simp
  show ?thesis
    using unquote_bytes [of c u t] rune_bytes(2) [OF assms(1), of t] assms u len by auto
qed

lemma unquote_hex:
  assumes "hex4 u = Some k" and "length u = 4" and "k < 0xD800 \<or> 0xE000 \<le> k"
  shows "unquote (CHR 0x5C # CHR ''u'' # u @ t) = map_option ((@) (utf8_encode k)) (unquote t)"
proof -
  have "hex4 (u @ t) = Some k" using assms by (simp add: hex4_def)
  from unquote_unicode [OF unicode_escape_plain [OF this assms(3)]] show ?thesis
    using assms(2) by simp
qed

lemma utf8_samples:
  "utf8_encode 0xFFFD = replacement" "utf8_encode 0x2028 = [CHR 0xE2, CHR 0x80, CHR 0xA8]"
  "utf8_encode 0x2029 = [CHR 0xE2, CHR 0x80, CHR 0xA9]"
  by (simp_all add: utf8_encode_def replacement_def char_of_eq_iff take_bit_eq_mod)

lemma unicode_samples:
  "unquote (CHR 0x5C # ''ufffd'' @ t) = map_option ((@) replacement) (unquote t)"
  "unquote (CHR 0x5C # ''u2028'' @ t) = map_option ((@) [CHR 0xE2, CHR 0x80, CHR 0xA8]) (unquote t)"
  "unquote (CHR 0x5C # ''u2029'' @ t) = map_option ((@) [CHR 0xE2, CHR 0x80, CHR 0xA9]) (unquote t)"
  using unquote_hex [of "''fffd''" "0xFFFD" t] unquote_hex [of "''2028''" "0x2028" t] unquote_hex [of "''2029''" "0x2029" t]
  by (simp_all add: hex4_def hex_val_def utf8_samples)

text \<open>What \<open>escape\<close> writes for a byte that starts no ASCII character, and what it stands for.\<close>

definition rune_text :: "string \<Rightarrow> string" where
  "rune_text s =
     (if rune_len s = 1 then CHR 0x5C # ''ufffd''
      else if take 3 s = [CHR 0xE2, CHR 0x80, CHR 0xA8] then CHR 0x5C # ''u2028''
      else if take 3 s = [CHR 0xE2, CHR 0x80, CHR 0xA9] then CHR 0x5C # ''u2029''
      else take (rune_len s) s)"

definition rune_bytes_of :: "string \<Rightarrow> string" where
  "rune_bytes_of s = (if rune_len s = 1 then replacement else take (rune_len s) s)"

lemma separator_len:
  assumes "take 3 (c # s) = [CHR 0xE2, CHR 0x80, d]" and "d \<in> {CHR 0xA8, CHR 0xA9}"
  shows "rune_len (c # s) = 3"
proof -
  from assms(1) have "c = CHR 0xE2" "take 2 s = [CHR 0x80, d]" by (simp_all add: take_Cons')
  moreover from this(2) have "s = CHR 0x80 # d # drop 2 s"
    by (metis append_take_drop_id append_Cons append_Nil)
  then obtain r where "s = CHR 0x80 # d # r" ..
  ultimately show ?thesis using assms(2) by (auto simp: rune_len_def is_cont_def Let_def)
qed

lemma unquote_rune_text:
  assumes "128 \<le> (of_char c :: nat)"
  shows "unquote (rune_text (c # s) @ t) = map_option ((@) (rune_bytes_of (c # s))) (unquote t)"
proof -
  consider "rune_len (c # s) = 1" | d where "take 3 (c # s) = [CHR 0xE2, CHR 0x80, d]" "d \<in> {CHR 0xA8, CHR 0xA9}"
    | "rune_len (c # s) \<noteq> 1" "rune_text (c # s) = take (rune_len (c # s)) (c # s)"
    unfolding rune_text_def by (metis insertCI)
  then show ?thesis
  proof cases
    case 1
    then show ?thesis using unicode_samples(1) by (simp add: rune_text_def rune_bytes_of_def)
  next
    case 2
    with separator_len [OF 2] show ?thesis
      using unicode_samples(2,3) [of t] by (auto simp: rune_text_def rune_bytes_of_def)
  next
    case 3
    with unquote_rune [OF 3(1) assms] show ?thesis by (simp add: rune_bytes_of_def)
  qed
qed

lemma escape_rune:
  "128 \<le> (of_char c :: nat) \<Longrightarrow> escape (c # s) = rune_text (c # s) @ escape (drop (rune_len (c # s) - 1) s)"
  "128 \<le> (of_char c :: nat) \<Longrightarrow> to_valid (c # s) = rune_bytes_of (c # s) @ to_valid (drop (rune_len (c # s) - 1) s)"
  by (auto simp: rune_text_def rune_bytes_of_def Let_def)

theorem unquote_escape: "unquote (escape s) = Some (to_valid s)"
proof (induction s rule: escape.induct)
  case (2 c s)
  show ?case
  proof (cases "(of_char c :: nat) < 128")
    case True
    with 2 show ?thesis by (simp add: unquote_escape_ascii)
  next
    case False
    with 2(2) show ?thesis by (simp add: escape_rune unquote_rune_text del: escape.simps to_valid.simps)
  qed
qed simp

section \<open>Tokens of what was encoded\<close>

text \<open>No quote but after a backslash.\<close>

fun quoted_ok :: "string \<Rightarrow> bool" where
  "quoted_ok [] = True"
| "quoted_ok (c # s) =
     (if c = CHR 0x5C then (case s of [] \<Rightarrow> False | _ # r \<Rightarrow> quoted_ok r)
      else c \<noteq> CHR 0x22 \<and> quoted_ok s)"

lemma lex_quoted:
  "quoted_ok t \<Longrightarrow> json_lex (Quoted acc) (t @ CHR 0x22 # r) =
     Option.bind (unquote (rev acc @ t)) (\<lambda>v. map_option ((#) (Lit (GStr v))) (json_lex Between r))"
proof (induction t arbitrary: acc rule: quoted_ok.induct)
  case 1
  then show ?case by (cases "unquote (rev acc)") (simp_all add: lex_step_def append_single)
next
  case (2 c s)
  show ?case
  proof (cases "c = CHR 0x5C")
    case True
    with 2 obtain e r' where s: "s = e # r'" "quoted_ok r'" by (auto split: list.splits)
    with True 2(1) [OF True s(1), of "e # c # acc"] show ?thesis by (simp add: lex_step_def)
  next
    case False
    with 2(2) [OF False, of "c # acc"] 2(3) show ?thesis by (simp add: lex_step_def)
  qed
qed

lemma quoted_ok_high: "\<forall>x \<in> set u. 128 \<le> (of_char x :: nat) \<Longrightarrow> quoted_ok (u @ t) = quoted_ok t"
  by (induction u) auto

lemma hex_digit_plain:
  assumes "d < 16"
  shows "hex_digit d \<noteq> CHR 0x22" and "hex_digit d \<noteq> CHR 0x5C"
  using hex_val_digit [OF assms] by (auto simp: hex_val_def Let_def)

lemma quoted_ok_ascii:
  assumes "(of_char c :: nat) < 128"
  shows "quoted_ok (escape_ascii c @ t) = quoted_ok t"
proof -
  have "(of_char c :: nat) div 16 < 16" using assms by auto
  then show ?thesis by (auto simp: escape_ascii_def Let_def hex_digit_plain)
qed

lemma quoted_ok_escape: "quoted_ok (escape s)"
proof (induction s rule: escape.induct)
  case (2 c s)
  show ?case
  proof (cases "(of_char c :: nat) < 128")
    case True
    with 2 show ?thesis by (simp add: quoted_ok_ascii)
  next
    case False
    have "quoted_ok (rune_text (c # s) @ t) = quoted_ok t" for t
      using rune_bytes(1) [of c s] by (auto simp: rune_text_def quoted_ok_high)
    with False 2(2) show ?thesis by (simp add: escape_rune del: escape.simps)
  qed
qed simp

lemma lex_json_string:
  "json_lex Between (json_string s @ r) = map_option ((#) (Lit (GStr (to_valid s)))) (json_lex Between r)"
  using lex_quoted [OF quoted_ok_escape, of "[]" s r]
  by (simp add: json_string_def lex_step_def lex_start_def is_space_def unquote_escape)

text \<open>
  A text encodes a value up to a nesting depth when the lexer turns it into tokens that the
  machine reads as the value, wherever a value may stand. What follows the text must not
  continue a number or a word.
\<close>

definition delimited :: "string \<Rightarrow> bool" where
  "delimited r \<longleftrightarrow> (case r of [] \<Rightarrow> True | c # _ \<Rightarrow> c \<in> {CHR '','', CHR ''}'', CHR '']''})"

definition encodes :: "string \<Rightarrow> goval \<Rightarrow> nat \<Rightarrow> bool" where
  "encodes txt v d \<longleftrightarrow> (\<exists>ts.
     (\<forall>r. delimited r \<longrightarrow> json_lex Between (txt @ r) = map_option ((@) ts) (json_lex Between r)) \<and>
     (\<forall>md st. md \<in> {WantValue, WantElement} \<longrightarrow> length st + d \<le> maxNestingDepth \<longrightarrow>
        json_steps ts (md, st) = Some (After v, st)))"

lemma json_steps_append: "json_steps (ts @ us) q = Option.bind (json_steps ts q) (json_steps us)"
  by (induction ts arbitrary: q) (auto simp: bind_eq_Some_conv split: Option.bind_splits)

lemma Unmarshal_encodes:
  assumes "encodes txt v d" and "d \<le> maxNestingDepth"
  shows "Unmarshal txt = Some v"
proof -
  from assms(1) obtain ts where
      "\<forall>r. delimited r \<longrightarrow> json_lex Between (txt @ r) = map_option ((@) ts) (json_lex Between r)"
      "\<forall>md st. md \<in> {WantValue, WantElement} \<longrightarrow> length st + d \<le> maxNestingDepth \<longrightarrow>
        json_steps ts (md, st) = Some (After v, st)"
    unfolding encodes_def by blast
  from this(1) [rule_format, of "[]"] this(2) [rule_format, of WantValue "[]"]
  have "json_lex Between txt = Some ts" "json_steps ts (WantValue, []) = Some (After v, [])"
    using assms(2) by (simp_all add: delimited_def lex_finish_def)
  then show ?thesis by (simp add: Unmarshal_def lex_finish_def)
qed

lemma encodes_mono: "encodes txt v d \<Longrightarrow> d \<le> d' \<Longrightarrow> encodes txt v d'"
  unfolding encodes_def by (meson le_trans nat_add_left_cancel_le)

lemma encodes_literal:
  assumes "\<And>r. delimited r \<Longrightarrow> json_lex Between (txt @ r) = map_option ((#) (Lit v)) (json_lex Between r)"
  shows "encodes txt v d"
  unfolding encodes_def using assms
  by (intro exI [of _ "[Lit v]"]) (auto simp: json_step_def append_single)

lemma encodes_string: "encodes (json_string s) (GStr (to_valid s)) d"
  by (rule encodes_literal) (rule lex_json_string)

lemma delimiter_cases:
  assumes "delimited r"
  obtains "r = []" | c r' where "r = c # r'" "\<not> is_number_char c" "\<not> is_lower c"
proof (cases r)
  case (Cons c r')
  then have "c = CHR '','' \<or> c = CHR ''}'' \<or> c = CHR '']''" using assms by (auto simp: delimited_def)
  then have "\<not> is_number_char c" "\<not> is_lower c"
    by (auto simp: is_number_char_def is_lower_def is_digit_def digit_val_def)
  with Cons that(2) show thesis by blast
qed (use that in blast)

lemma lex_pending:
  assumes "delimited r" and "q = Number s \<or> q = Word s"
  shows "json_lex q r = Option.bind (lex_finish q) (\<lambda>ts. map_option ((@) ts) (json_lex Between r))"
  using assms(1)
proof (cases rule: delimiter_cases)
  case 1
  then show ?thesis by (cases "lex_finish q") (simp_all add: lex_finish_def [of Between])
next
  case (2 c r')
  with assms(2) have "lex_step q c =
      Option.bind (lex_finish q) (\<lambda>ts. map_option (\<lambda>(us, q'). (ts @ us, q')) (lex_start c))"
    by (auto simp: lex_step_def)
  with 2 show ?thesis
    by (cases "lex_finish q"; cases "lex_start c")
      (auto simp: lex_step_def [of Between] map_option.compositionality comp_def append_append)
qed

lemma lex_bool: "delimited r \<Longrightarrow> json_lex Between (FormatBool b @ r) = map_option ((#) (Lit (GBool b))) (json_lex Between r)"
  by (simp add: FormatBool_def lex_step_def lex_start_def is_space_def is_lower_def is_digit_def digit_val_def
      lex_pending lex_finish_def word_token_def append_single)

lemma encodes_bool: "encodes (FormatBool b) (GBool b) d"
  by (rule encodes_literal) (rule lex_bool)

section \<open>Arrays and objects\<close>

text \<open>The parts of an array or an object, separated by commas.\<close>

lemma lex_punctuation:
  "json_lex Between (''{'' @ s) = map_option ((#) LBrace) (json_lex Between s)"
  "json_lex Between (''}'' @ s) = map_option ((#) RBrace) (json_lex Between s)"
  "json_lex Between (''['' @ s) = map_option ((#) LBracket) (json_lex Between s)"
  "json_lex Between ('']'' @ s) = map_option ((#) RBracket) (json_lex Between s)"
  "json_lex Between ('':'' @ s) = map_option ((#) Colon) (json_lex Between s)"
  "json_lex Between ('','' @ s) = map_option ((#) Comma) (json_lex Between s)"
  by (simp_all add: lex_step_def lex_start_def is_space_def is_digit_def digit_val_def is_lower_def
      punctuation_def append_single)

definition member_encodes :: "nat \<Rightarrow> string \<Rightarrow> string \<times> goval \<Rightarrow> bool" where
  "member_encodes d txt kv \<longleftrightarrow>
     (\<exists>v. txt = json_member (fst kv) v \<and> encodes v (snd kv) d \<and> valid_utf8 (fst kv))"

fun members_of :: "(string \<times> goval) list \<Rightarrow> (string, goval) fmap \<Rightarrow> (string, goval) fmap" where
  "members_of [] m = m"
| "members_of ((k, v) # kvs) m = members_of kvs (fmupd k v m)"

lemma member_tokens:
  assumes "member_encodes d txt (k, v)" 
  obtains ts where "\<And>r. delimited r \<Longrightarrow> json_lex Between (txt @ r) = map_option ((@) ts) (json_lex Between r)"
    "\<And>md m k' st. md \<in> {WantMember, WantKey} \<Longrightarrow> length st + Suc d \<le> maxNestingDepth \<Longrightarrow>
      json_steps ts (md, InObject m k' # st) = Some (After v, InObject m k # st)"
proof -
  from assms obtain vt where t: "txt = json_member k vt" and enc: "encodes vt v d" and k: "to_valid k = k"
    by (auto simp: member_encodes_def valid_utf8_def)
  from enc obtain ts where ts: "\<And>r. delimited r \<Longrightarrow> json_lex Between (vt @ r) = map_option ((@) ts) (json_lex Between r)"
      "\<And>md st. md \<in> {WantValue, WantElement} \<Longrightarrow> length st + d \<le> maxNestingDepth \<Longrightarrow>
        json_steps ts (md, st) = Some (After v, st)"
    unfolding encodes_def by blast
  have "json_lex Between (txt @ r) = map_option ((@) (Lit (GStr k) # Colon # ts)) (json_lex Between r)"
    if "delimited r" for r
    using ts(1) [OF that] lex_punctuation(5) [of "vt @ r"]
    by (simp add: t json_member_def lex_json_string k map_option.compositionality comp_def append_Cons_fun)
  moreover have "json_steps (Lit (GStr k) # Colon # ts) (md, InObject m k' # st) = Some (After v, InObject m k # st)"
    if "md \<in> {WantMember, WantKey}" "length st + Suc d \<le> maxNestingDepth" for md m k' st
    using that ts(2) [of WantValue "InObject m k # st"] by (auto simp: json_step_def)
  ultimately show thesis by (rule that)
qed

lemma members_tokens:
  assumes "list_all2 (member_encodes d) txts kvs" and "kvs \<noteq> []"
  shows "\<exists>ts. (\<forall>r. delimited r \<longrightarrow>
      json_lex Between (str_join '','' txts @ r) = map_option ((@) ts) (json_lex Between r)) \<and>
    (\<forall>md m k st. md \<in> {WantMember, WantKey} \<longrightarrow> length st + Suc d \<le> maxNestingDepth \<longrightarrow>
      (\<exists>m' k' v. json_steps ts (md, InObject m k # st) = Some (After v, InObject m' k' # st) \<and>
        fmupd k' v m' = members_of kvs m))"
  using assms
proof (induction kvs arbitrary: txts rule: list.induct)
  case (Cons kv kvs)
  obtain k v where kv: "kv = (k, v)" by (cases kv)
  from Cons.prems obtain x xs where txts: "txts = x # xs" "member_encodes d x (k, v)"
      "list_all2 (member_encodes d) xs kvs" by (auto simp: list_all2_Cons2 kv)
  from member_tokens [OF txts(2)] obtain ts where
    ts: "\<And>r. delimited r \<Longrightarrow> json_lex Between (x @ r) = map_option ((@) ts) (json_lex Between r)"
      "\<And>md m k' st. md \<in> {WantMember, WantKey} \<Longrightarrow> length st + Suc d \<le> maxNestingDepth \<Longrightarrow>
        json_steps ts (md, InObject m k' # st) = Some (After v, InObject m k # st)" by blast
  show ?case
  proof (cases "kvs = []")
    case True
    with txts ts show ?thesis by (intro exI [of _ ts]) (auto simp: kv)
  next
    case False
    from Cons.IH [OF txts(3) False] obtain us where
      us: "\<And>r. delimited r \<Longrightarrow> json_lex Between (str_join '','' xs @ r) = map_option ((@) us) (json_lex Between r)"
        "\<And>md m k st. md \<in> {WantMember, WantKey} \<Longrightarrow> length st + Suc d \<le> maxNestingDepth \<Longrightarrow>
          \<exists>m' k' v. json_steps us (md, InObject m k # st) = Some (After v, InObject m' k' # st) \<and>
            fmupd k' v m' = members_of kvs m" by blast
    from False txts(3) obtain u us' where "xs = u # us'" by (cases xs) auto
    then have join: "str_join '','' txts = x @ '','' @ str_join '','' xs" by (simp add: txts)
    have "delimited ('','' @ s)" for s by (simp add: delimited_def)
    then have "json_lex Between (str_join '','' txts @ r) = map_option ((@) (ts @ Comma # us)) (json_lex Between r)"
      if "delimited r" for r
      using us(1) [OF that] ts(1) [of "'','' @ str_join '','' xs @ r"] lex_punctuation(6)
      by (simp only: join append_assoc map_option.compositionality) (simp add: append_append append_Cons_fun comp_def)
    moreover have "\<exists>m' k' v. json_steps (ts @ Comma # us) (md, InObject m k0 # st) = Some (After v, InObject m' k' # st) \<and>
        fmupd k' v m' = members_of (kv # kvs) m"
      if "md \<in> {WantMember, WantKey}" "length st + Suc d \<le> maxNestingDepth" for md m k0 st
      using that ts(2) [OF that] us(2) [of WantKey st "fmupd k v m" "[]"]
      by (auto simp: json_steps_append json_step_def kv)
    ultimately show ?thesis by blast
  qed
qed simp

lemma encodes_object:
  assumes "list_all2 (member_encodes d) txts kvs"
  shows "encodes (json_object txts) (GMap (members_of kvs fmempty)) (Suc d)"
proof (cases "kvs = []")
  case True
  with assms have "json_object txts = ''{'' @ ''}''" by (simp add: json_object_def)
  then have "json_lex Between (json_object txts @ r) = map_option ((@) [LBrace, RBrace]) (json_lex Between r)" for r
    by (simp only: append_assoc lex_punctuation map_option.compositionality) (simp add: append_Cons_fun comp_def)
  moreover have "json_steps [LBrace, RBrace] (md, st) = Some (After (GMap (members_of kvs fmempty)), st)"
    if "md \<in> {WantValue, WantElement}" "length st + Suc d \<le> maxNestingDepth" for md st
    using that True by (auto simp: json_step_def)
  ultimately show ?thesis unfolding encodes_def by blast
next
  case False
  from members_tokens [OF assms False] obtain ts where
    ts: "\<And>r. delimited r \<Longrightarrow> json_lex Between (str_join '','' txts @ r) = map_option ((@) ts) (json_lex Between r)"
      "\<And>md m k st. md \<in> {WantMember, WantKey} \<Longrightarrow> length st + Suc d \<le> maxNestingDepth \<Longrightarrow>
        \<exists>m' k' v. json_steps ts (md, InObject m k # st) = Some (After v, InObject m' k' # st) \<and>
          fmupd k' v m' = members_of kvs m" by blast
  have "delimited (''}'' @ s)" for s by (simp add: delimited_def)
  then have "json_lex Between (json_object txts @ r) = map_option ((@) (LBrace # ts @ [RBrace])) (json_lex Between r)" for r
    using ts(1) [of "''}'' @ r"]
    by (simp only: json_object_def append_assoc lex_punctuation map_option.compositionality)
      (simp add: append_append append_Cons_fun comp_def)
  moreover have "json_steps (LBrace # ts @ [RBrace]) (md, st) = Some (After (GMap (members_of kvs fmempty)), st)"
    if "md \<in> {WantValue, WantElement}" "length st + Suc d \<le> maxNestingDepth" for md st
    using that ts(2) [of WantMember st fmempty "[]"] by (auto simp: json_steps_append json_step_def)
  ultimately show ?thesis unfolding encodes_def by blast
qed

lemma elements_tokens:
  assumes "list_all2 (\<lambda>x v. encodes x v d) xs vs" and "vs \<noteq> []"
  shows "\<exists>ts. (\<forall>r. delimited r \<longrightarrow>
      json_lex Between (str_join '','' xs @ r) = map_option ((@) ts) (json_lex Between r)) \<and>
    (\<forall>md us st. md \<in> {WantValue, WantElement} \<longrightarrow> length st + Suc d \<le> maxNestingDepth \<longrightarrow>
      json_steps ts (md, InArray us # st) = Some (After (last vs), InArray (rev (butlast vs) @ us) # st))"
  using assms
proof (induction vs arbitrary: xs rule: list.induct)
  case (Cons v vs)
  from Cons.prems obtain x xs' where xs: "xs = x # xs'" "encodes x v d"
      "list_all2 (\<lambda>x v. encodes x v d) xs' vs" by (auto simp: list_all2_Cons2)
  from xs(2) obtain ts where
    ts: "\<And>r. delimited r \<Longrightarrow> json_lex Between (x @ r) = map_option ((@) ts) (json_lex Between r)"
      "\<And>md st. md \<in> {WantValue, WantElement} \<Longrightarrow> length st + d \<le> maxNestingDepth \<Longrightarrow>
        json_steps ts (md, st) = Some (After v, st)" unfolding encodes_def by blast
  show ?case
  proof (cases "vs = []")
    case True
    with xs ts(1) ts(2) [of _ "InArray _ # _"] show ?thesis by (intro exI [of _ ts]) auto
  next
    case False
    from Cons.IH [OF xs(3) False] obtain us where
      us: "\<And>r. delimited r \<Longrightarrow> json_lex Between (str_join '','' xs' @ r) = map_option ((@) us) (json_lex Between r)"
        "\<And>md ws st. md \<in> {WantValue, WantElement} \<Longrightarrow> length st + Suc d \<le> maxNestingDepth \<Longrightarrow>
          json_steps us (md, InArray ws # st) = Some (After (last vs), InArray (rev (butlast vs) @ ws) # st)" by blast
    from False xs(3) obtain y ys where "xs' = y # ys" by (cases xs') auto
    then have join: "str_join '','' xs = x @ '','' @ str_join '','' xs'" by (simp add: xs)
    have "delimited ('','' @ s)" for s by (simp add: delimited_def)
    then have "json_lex Between (str_join '','' xs @ r) = map_option ((@) (ts @ Comma # us)) (json_lex Between r)"
      if "delimited r" for r
      using us(1) [OF that] ts(1) [of "'','' @ str_join '','' xs' @ r"] lex_punctuation(6)
      by (simp only: join append_assoc map_option.compositionality) (simp add: append_append append_Cons_fun comp_def)
    moreover have "json_steps (ts @ Comma # us) (md, InArray ws # st) =
        Some (After (last (v # vs)), InArray (rev (butlast (v # vs)) @ ws) # st)"
      if "md \<in> {WantValue, WantElement}" "length st + Suc d \<le> maxNestingDepth" for md ws st
      using that ts(2) [of md "InArray ws # st"] us(2) [of WantValue st "v # ws"] False
      by (simp add: json_steps_append json_step_def)
    ultimately show ?thesis by blast
  qed
qed simp

lemma encodes_array:
  assumes "list_all2 (\<lambda>x v. encodes x v d) xs vs"
  shows "encodes (json_array xs) (GList vs) (Suc d)"
proof (cases "vs = []")
  case True
  with assms have "json_array xs = ''['' @ '']''" by (simp add: json_array_def)
  then have "json_lex Between (json_array xs @ r) = map_option ((@) [LBracket, RBracket]) (json_lex Between r)" for r
    by (simp only: append_assoc lex_punctuation map_option.compositionality) (simp add: append_Cons_fun comp_def)
  moreover have "json_steps [LBracket, RBracket] (md, st) = Some (After (GList vs), st)"
    if "md \<in> {WantValue, WantElement}" "length st + Suc d \<le> maxNestingDepth" for md st
    using that True by (auto simp: json_step_def)
  ultimately show ?thesis unfolding encodes_def by blast
next
  case False
  from elements_tokens [OF assms False] obtain ts where
    ts: "\<And>r. delimited r \<Longrightarrow> json_lex Between (str_join '','' xs @ r) = map_option ((@) ts) (json_lex Between r)"
      "\<And>md us st. md \<in> {WantValue, WantElement} \<Longrightarrow> length st + Suc d \<le> maxNestingDepth \<Longrightarrow>
        json_steps ts (md, InArray us # st) = Some (After (last vs), InArray (rev (butlast vs) @ us) # st)" by blast
  have "delimited ('']'' @ s)" for s by (simp add: delimited_def)
  then have "json_lex Between (json_array xs @ r) = map_option ((@) (LBracket # ts @ [RBracket])) (json_lex Between r)" for r
    using ts(1) [of "'']'' @ r"]
    by (simp only: json_array_def append_assoc lex_punctuation map_option.compositionality)
      (simp add: append_append append_Cons_fun comp_def)
  moreover have "json_steps (LBracket # ts @ [RBracket]) (md, st) = Some (After (GList vs), st)"
    if "md \<in> {WantValue, WantElement}" "length st + Suc d \<le> maxNestingDepth" for md st
    using that ts(2) [of WantElement st "[]"] False by (auto simp: json_steps_append json_step_def)
  ultimately show ?thesis unfolding encodes_def by blast
qed

section \<open>Maps\<close>

lemma fmlookup_members_of:
  "fmlookup (members_of kvs m) k = (case map_of (rev kvs) k of None \<Rightarrow> fmlookup m k | Some v \<Rightarrow> Some v)"
  by (induction kvs m rule: members_of.induct) (auto simp: map_add_def split: option.splits)

definition valid_map :: "strmap \<Rightarrow> bool" where
  "valid_map m \<longleftrightarrow> (\<forall>k v. fmlookup m k = Some v \<longrightarrow> valid_utf8 k \<and> valid_utf8 v)"

lemma members_of_map:
  "members_of (map (\<lambda>k. (k, GStr (case fmlookup m k of None \<Rightarrow> '''' | Some v \<Rightarrow> v)))
     (sorted_list_of_fset (fmdom m))) fmempty = fmmap GStr m"
proof (rule fmap_ext)
  fix k
  have "map_of (map (\<lambda>k. (k, GStr (case fmlookup m k of None \<Rightarrow> '''' | Some v \<Rightarrow> v)))
      (rev (sorted_list_of_fset (fmdom m)))) k =
    (if k |\<in>| fmdom m then Some (GStr (case fmlookup m k of None \<Rightarrow> '''' | Some v \<Rightarrow> v)) else None)"
    by (simp add: map_of_map_restrict restrict_map_def)
  then show "fmlookup (members_of (map (\<lambda>k. (k, GStr (case fmlookup m k of None \<Rightarrow> '''' | Some v \<Rightarrow> v)))
      (sorted_list_of_fset (fmdom m))) fmempty) k = fmlookup (fmmap GStr m) k"
    by (simp add: fmlookup_members_of rev_map) (auto simp: fmlookup_dom_iff split: option.splits)
qed

lemma encodes_map:
  assumes "valid_map m"
  shows "encodes (json_map m) (GMap (fmmap GStr m)) (Suc 0)"
proof -
  let ?v = "\<lambda>k. case fmlookup m k of None \<Rightarrow> '''' | Some v \<Rightarrow> v"
  have "list_all2 (member_encodes 0) (map (\<lambda>k. json_member k (json_string (?v k))) (sorted_list_of_fset (fmdom m)))
      (map (\<lambda>k. (k, GStr (?v k))) (sorted_list_of_fset (fmdom m)))"
  proof -
    have "member_encodes 0 (json_member k (json_string (?v k))) (k, GStr (?v k))" if "k |\<in>| fmdom m" for k
    proof -
      from that obtain v where "fmlookup m k = Some v" by (auto simp: fmlookup_dom_iff)
      with assms show ?thesis
        using encodes_string [of v 0] by (auto simp: member_encodes_def valid_map_def valid_utf8_def)
    qed
    then show ?thesis by (auto simp: list_all2_map1 list_all2_map2 list_all2_same)
  qed
  from encodes_object [OF this] show ?thesis by (simp add: json_map_def members_of_map)
qed


section \<open>Numbers\<close>

lemma float64_of_int:
  assumes "\<bar>n\<bar> < 2 ^ 53"
  shows "float64_of (of_int n) = Some (of_int n)"
proof (cases "n = 0")
  case False
  define x :: rat where "x = of_int \<bar>n\<bar>"
  have x: "1 \<le> x" using False by (simp add: x_def flip: of_int_abs)
  then have "(2 :: rat) powi 0 < 2 powi (exponent x + 1)" using exponent_bounds(2) [of x] by simp
  then have "0 \<le> exponent x" by (simp only: powi_two_less_iff)
  moreover have "of_int (round_half_even (x / 2 powi (exponent x - 52))) * 2 powi (exponent x - 52) = x"
    using fl_of_int [of "\<bar>n\<bar>"] assms x by (simp add: fl_pos x_def)
  moreover have "x < 2 ^ 1024"
  proof -
    have "x < of_int (2 ^ 53)" using assms by (simp only: x_def of_int_less_iff)
    also have "\<dots> \<le> (2 :: rat) ^ 1024" by simp
    finally show ?thesis .
  qed
  moreover have "sgn (of_int n) * x = of_int n" by (cases "0 \<le> n") (auto simp: x_def sgn_if)
  ultimately show ?thesis using False by (simp add: float64_of_def Let_def flip: x_def of_int_abs)
qed (simp add: float64_of_def)

lemma is_digit_format_nat: "c \<in> set (format_nat n) \<Longrightarrow> is_digit c"
  using format_nat_digits by (force simp: is_digit_def)

lemma format_nat_zero: "format_nat n = CHR ''0'' # s \<Longrightarrow> s = []"
proof (induction n arbitrary: s rule: format_nat.induct)
  case (1 n)
  show ?case
  proof (cases "n < 10")
    case False
    with 1(2) obtain t where t: "format_nat (n div 10) = CHR ''0'' # t"
      using format_nat_Cons [of "n div 10"] by (auto simp: format_nat.simps [of n])
    with 1(1) [OF False] have "format_nat (n div 10) = format_nat 0" by (auto simp: format_nat.simps [of 0])
    with False show ?thesis by simp
  qed (use 1(2) in \<open>simp add: format_nat.simps [of n]\<close>)
qed

lemma digits_value_format_nat: "digits_value (format_nat n) = Some (int n)"
proof -
  have "foldl (\<lambda>n c. 10 * n + (of_char c - 48)) 0 (format_nat n) = int n"
  proof (induction n rule: format_nat.induct)
    case (1 n)
    have "of_char (digit d) = int d + 48" if "d < 10" for d
    proof -
      have "(of_char (digit d) :: nat) = 48 + d" using that by (simp add: digit_def take_bit_eq_mod)
      then show ?thesis using of_nat_of_char [of "digit d", where ?'a = int] by simp
    qed
    with 1 show ?case
      by (subst format_nat.simps) (auto simp: of_nat_mod of_nat_div)
  qed
  moreover have "format_nat n \<noteq> []" using format_nat_Cons [of n] by auto
  ultimately show ?thesis by (simp add: digits_value_def list_all_iff is_digit_format_nat)
qed

lemma unsigned_number_format_nat: "unsigned_number (format_nat n) = Some (of_nat n)"
proof -
  have all: "takeWhile is_digit (format_nat n) = format_nat n" "dropWhile is_digit (format_nat n) = []"
    by (simp_all add: takeWhile_eq_all_conv dropWhile_eq_Nil_conv is_digit_format_nat)
  obtain d s where ds: "format_nat n = d # s" using format_nat_Cons by blast
  then have "\<not> (hd (format_nat n) = CHR ''0'' \<and> length (format_nat n) > 1)" "format_nat n \<noteq> []"
    using format_nat_zero [of n s] by auto
  then show ?thesis
    unfolding unsigned_number_def all Let_def by (simp add: fraction_part_def exponent_part_def digits_value_format_nat)
qed

lemma json_number_FormatInt:
  assumes "\<bar>n\<bar> < 2 ^ 53"
  shows "json_number (FormatInt n) = Some (GFloat (of_int n))"
proof -
  obtain d s where "format_nat (nat n) = digit d # s" "d < 10" using format_nat_Cons by blast
  moreover have "json_number (FormatInt n) = map_option GFloat (float64_of (of_int n))"
    using calculation unsigned_number_format_nat [of "nat n"] unsigned_number_format_nat [of "nat (- n)"]
    by (auto simp: json_number_def FormatInt_def digit_not_sign of_nat_nat)
  ultimately show ?thesis using float64_of_int [OF assms] by simp
qed

lemma lex_number: "list_all is_number_char s \<Longrightarrow> json_lex (Number acc) (s @ r) = json_lex (Number (rev s @ acc)) r"
  by (induction s arbitrary: acc) (simp_all add: lex_step_def)

lemma encodes_int:
  assumes "\<bar>n\<bar> < 2 ^ 53"
  shows "encodes (FormatInt n) (GFloat (of_int n)) d"
proof (rule encodes_literal)
  fix r assume r: "delimited r"
  obtain c s where cs: "FormatInt n = c # s" "is_digit c \<or> c = CHR ''-''" "list_all is_digit s"
  proof (cases "n < 0")
    case True
    with that [of "CHR ''-''" "format_nat (nat (- n))"] show thesis
      using is_digit_format_nat by (auto simp: FormatInt_def list_all_iff)
  next
    case False
    obtain c s where "format_nat (nat n) = c # s" using format_nat_Cons by blast
    with False that [of c s] is_digit_format_nat [of _ "nat n"] show thesis
      by (auto simp: FormatInt_def list_all_iff)
  qed
  then have "lex_start c = Some ([], Number [c])"
    by (auto simp: lex_start_def is_space_def is_digit_def digit_val_def)
  moreover have "list_all is_number_char s" using cs(3) by (auto simp: list_all_iff is_number_char_def)
  ultimately show "json_lex Between (FormatInt n @ r) = map_option ((#) (Lit (GFloat (of_int n)))) (json_lex Between r)"
    using cs(1) json_number_FormatInt [OF assms] lex_pending [OF r, of "Number (rev s @ [c])" "rev s @ [c]"]
    by (simp add: lex_step_def lex_number lex_finish_def append_single)
qed

lemma fmmap_GStr_inject: "fmmap GStr m = fmmap GStr m' \<longleftrightarrow> m = m'"
proof
  assume "fmmap GStr m = fmmap GStr m'"
  then have "map_option GStr (fmlookup m k) = map_option GStr (fmlookup m' k)" for k by (metis fmlookup_map)
  then have "fmlookup m k = fmlookup m' k" for k by (metis goval.inject(4) option.inj_map_strong)
  then show "m = m'" by (rule fmap_ext)
qed simp

section \<open>Specifications\<close>

text \<open>
  The JSON object of a specification: its fields with their names, some of them left out.
  Numbers are read as \<open>float64\<close>.
\<close>

definition spec_fields :: "CyndiPipelineSpec \<Rightarrow> (string \<times> goval option) list" where
  "spec_fields s =
     [(''appName'', Some (GStr (AppName s))),
      (''insightsOnly'', Some (GBool (InsightsOnly s))),
      (''additionalFilters'', map_option (\<lambda>fs. GList (map (\<lambda>m. GMap (fmmap GStr m)) fs)) (nonempty (AdditionalFilters s))),
      (''connectCluster'', map_option GStr (ConnectCluster s)),
      (''maxAge'', map_option (\<lambda>n. GFloat (of_int n)) (MaxAge s)),
      (''validationThreshold'', map_option (\<lambda>n. GFloat (of_int n)) (ValidationThreshold s)),
      (''topic'', map_option GStr (Topic s)),
      (''dbSecret'', map_option GStr (DbSecret s)),
      (''inventoryDbSecret'', map_option GStr (InventoryDbSecret s)),
      (''dbTableIndexSQL'', map_option GStr (nonempty (DBTableIndexSQL s))),
      (''refresh'', map_option GStr (nonempty (Refresh s))),
      (''managedConnectors'', map_option GBool (ManagedConnectors s)),
      (''connectorPaused'', map_option GBool (if ConnectorPaused s then Some True else None))]"

fun present :: "('k \<times> 'v option) list \<Rightarrow> ('k \<times> 'v) list" where
  "present [] = []"
| "present ((k, x) # kxs) = (case x of None \<Rightarrow> [] | Some v \<Rightarrow> [(k, v)]) @ present kxs"

definition spec_object :: "CyndiPipelineSpec \<Rightarrow> goval" where
  "spec_object s = GMap (members_of (present (spec_fields s)) fmempty)"

text \<open>Texts in UTF-8 and numbers that a \<open>float64\<close> holds exactly.\<close>

definition valid_spec :: "CyndiPipelineSpec \<Rightarrow> bool" where
  "valid_spec s \<longleftrightarrow> list_all valid_utf8 (AppName s # DBTableIndexSQL s # Refresh s #
       List.map_filter id [ConnectCluster s, Topic s, DbSecret s, InventoryDbSecret s]) \<and>
     list_all valid_map (AdditionalFilters s) \<and>
     list_all (\<lambda>n. \<bar>n\<bar> < 2 ^ 53) (List.map_filter id [MaxAge s, ValidationThreshold s])"

lemma opt_member_encodes:
  assumes "valid_utf8 k" and "\<And>v. x = Some v \<Longrightarrow> encodes (f v) (g v) d"
  shows "list_all2 (member_encodes d) (opt_member k f x) (case map_option g x of None \<Rightarrow> [] | Some v \<Rightarrow> [(k, v)])"
  using assms by (auto simp: opt_member_def member_encodes_def split: option.split)

lemma encodes_valid_string: "valid_utf8 s \<Longrightarrow> encodes (json_string s) (GStr s) d"
  using encodes_string [of s d] by (simp add: valid_utf8_def)

lemma encodes_filters:
  assumes "list_all valid_map fs"
  shows "encodes (json_array (map json_map fs)) (GList (map (\<lambda>m. GMap (fmmap GStr m)) fs)) 2"
proof -
  have "list_all2 (\<lambda>x v. encodes x v (Suc 0)) (map json_map fs) (map (\<lambda>m. GMap (fmmap GStr m)) fs)"
    using assms by (auto simp: list_all2_map1 list_all2_map2 list_all2_same list_all_iff intro: encodes_map)
  from encodes_array [OF this] show ?thesis by (simp add: numeral_2_eq_2)
qed

lemma spec_keys_valid: "list_all (valid_utf8 \<circ> fst) (spec_fields s)"
  by (simp add: spec_fields_def valid_utf8_def)

lemma spec_keys_distinct: "distinct (map fst (spec_fields s))"
  by (simp add: spec_fields_def)

lemma member_encodesI:
  "valid_utf8 k \<Longrightarrow> encodes x v d \<Longrightarrow> member_encodes d (json_member k x) (k, v)"
  by (auto simp: member_encodes_def)

lemma encodes_spec_facts:
  assumes "valid_spec s"
  shows "valid_utf8 ''appName''" "valid_utf8 ''insightsOnly''" "valid_utf8 ''additionalFilters''"
    "valid_utf8 ''connectCluster''" "valid_utf8 ''maxAge''" "valid_utf8 ''validationThreshold''"
    "valid_utf8 ''topic''" "valid_utf8 ''dbSecret''" "valid_utf8 ''inventoryDbSecret''"
    "valid_utf8 ''dbTableIndexSQL''" "valid_utf8 ''refresh''" "valid_utf8 ''managedConnectors''"
    "valid_utf8 ''connectorPaused''" "valid_utf8 (AppName s)"
    "nonempty (AdditionalFilters s) = Some fs \<Longrightarrow> list_all valid_map fs"
    "ConnectCluster s = Some t \<Longrightarrow> valid_utf8 t" "Topic s = Some t \<Longrightarrow> valid_utf8 t"
    "DbSecret s = Some t \<Longrightarrow> valid_utf8 t" "InventoryDbSecret s = Some t \<Longrightarrow> valid_utf8 t"
    "nonempty (DBTableIndexSQL s) = Some t \<Longrightarrow> valid_utf8 t" "nonempty (Refresh s) = Some t \<Longrightarrow> valid_utf8 t"
    "MaxAge s = Some n \<Longrightarrow> \<bar>n\<bar> < 2 ^ 53" "ValidationThreshold s = Some n \<Longrightarrow> \<bar>n\<bar> < 2 ^ 53"
  using spec_keys_valid [of s] assms
  by (simp_all add: spec_fields_def valid_spec_def nonempty_def map_filter_simps split: if_splits option.splits)

lemma opt_string_encodes:
  assumes "valid_utf8 k" and "\<And>t. x = Some t \<Longrightarrow> valid_utf8 t"
  shows "list_all2 (member_encodes d) (opt_member k json_string x)
    (case map_option GStr x of None \<Rightarrow> [] | Some v \<Rightarrow> [(k, v)])"
  by (rule opt_member_encodes [OF assms(1)]) (rule encodes_valid_string, erule assms(2))

lemma opt_int_encodes:
  assumes "valid_utf8 k" and "\<And>n. x = Some n \<Longrightarrow> \<bar>n\<bar> < 2 ^ 53"
  shows "list_all2 (member_encodes d) (opt_member k FormatInt x)
    (case map_option (\<lambda>n. GFloat (of_int n)) x of None \<Rightarrow> [] | Some v \<Rightarrow> [(k, v)])"
  by (rule opt_member_encodes [OF assms(1)]) (rule encodes_int, erule assms(2))

lemma opt_bool_encodes:
  assumes "valid_utf8 k"
  shows "list_all2 (member_encodes d) (opt_member k FormatBool x)
    (case map_option GBool x of None \<Rightarrow> [] | Some v \<Rightarrow> [(k, v)])"
  by (rule opt_member_encodes [OF assms(1)]) (rule encodes_bool)

lemma encodes_spec:
  assumes "valid_spec s"
  shows "encodes (json_spec s) (spec_object s) 3"
proof -
  note facts = encodes_spec_facts [OF assms]
  have app: "list_all2 (member_encodes 2) [json_member ''appName'' (json_string (AppName s))]
      [(''appName'', GStr (AppName s))]"
    using member_encodesI [OF facts(1) encodes_valid_string [OF facts(14)]] by simp
  have only: "list_all2 (member_encodes 2) [json_member ''insightsOnly'' (FormatBool (InsightsOnly s))]
      [(''insightsOnly'', GBool (InsightsOnly s))]"
    using member_encodesI [OF facts(2) encodes_bool] by simp
  have filters: "list_all2 (member_encodes 2)
      (opt_member ''additionalFilters'' (\<lambda>fs. json_array (map json_map fs)) (nonempty (AdditionalFilters s)))
      (case map_option (\<lambda>fs. GList (map (\<lambda>m. GMap (fmmap GStr m)) fs)) (nonempty (AdditionalFilters s)) of
        None \<Rightarrow> [] | Some v \<Rightarrow> [(''additionalFilters'', v)])"
    by (rule opt_member_encodes [OF facts(3)]) (rule encodes_filters, erule facts(15))
  note strings = opt_string_encodes [OF facts(4) facts(16)] opt_string_encodes [OF facts(7) facts(17)]
    opt_string_encodes [OF facts(8) facts(18)] opt_string_encodes [OF facts(9) facts(19)]
    opt_string_encodes [OF facts(10) facts(20)] opt_string_encodes [OF facts(11) facts(21)]
  note others = opt_int_encodes [OF facts(5) facts(22)] opt_int_encodes [OF facts(6) facts(23)]
    opt_bool_encodes [OF facts(12)] opt_bool_encodes [OF facts(13)]
  note chain = list_all2_appendI [OF app list_all2_appendI [OF only list_all2_appendI [OF filters
    list_all2_appendI [OF strings(1) list_all2_appendI [OF others(1) list_all2_appendI [OF others(2)
    list_all2_appendI [OF strings(2) list_all2_appendI [OF strings(3) list_all2_appendI [OF strings(4)
    list_all2_appendI [OF strings(5) list_all2_appendI [OF strings(6) list_all2_appendI [OF others(3) others(4)]]]]]]]]]]]]
  from encodes_object [OF chain] show ?thesis
    by (simp add: json_spec_def spec_object_def spec_fields_def)
qed

lemma map_of_rev_distinct:
  assumes "distinct (map fst xs)"
  shows "map_of (rev xs) k = map_of xs k"
proof -
  have "map_of (rev xs) k = Some v \<longleftrightarrow> map_of xs k = Some v" for v
    using assms by (simp add: map_of_eq_Some_iff rev_map flip: rev_map)
  then show ?thesis by (metis option.exhaust)
qed

lemma fst_present: "set (map fst (present fs)) \<subseteq> set (map fst fs)"
  by (induction fs rule: present.induct) (auto split: option.splits)

lemma map_of_present: "distinct (map fst fs) \<Longrightarrow> map_of (present fs) k = Option.bind (map_of fs k) id"
proof (induction fs rule: present.induct)
  case (2 l x kxs)
  then have "map_of (present kxs) l = None"
    using fst_present [of kxs] by (auto simp: map_of_eq_None_iff)
  with 2 show ?case by (auto split: option.split)
qed simp

lemma distinct_present: "distinct (map fst fs) \<Longrightarrow> distinct (map fst (present fs))"
proof (induction fs rule: present.induct)
  case (2 l x kxs)
  then show ?case using fst_present [of kxs] by (auto split: option.split)
qed simp

lemma fmlookup_spec_object:
  "spec_object s = GMap m \<Longrightarrow> fmlookup m k = Option.bind (map_of (spec_fields s) k) id"
  using spec_keys_distinct [of s] distinct_present [OF spec_keys_distinct [of s]]
  by (auto simp: spec_object_def fmlookup_members_of map_of_present map_of_rev_distinct split: option.split)

lemma spec_object_inject:
  assumes "spec_object s = spec_object t"
  shows "s = t"
proof -
  have eq: "Option.bind (map_of (spec_fields s) k) id = Option.bind (map_of (spec_fields t) k) id" for k
    using fmlookup_spec_object [of s _ k] fmlookup_spec_object [of t _ k] assms by (simp add: spec_object_def)
  have str: "x = y" if "map_option GStr x = map_option GStr y" for x y
    using that by (cases x; cases y) auto
  have bool: "x = y" if "map_option GBool x = map_option GBool y" for x y
    using that by (cases x; cases y) auto
  have num: "x = y" if "map_option (\<lambda>n. GFloat (of_int n)) x = map_option (\<lambda>n. GFloat (of_int n)) y" for x y
    using that by (cases x; cases y) auto
  have list: "xs = ys" if "nonempty xs = nonempty ys" for xs ys :: "'b list"
    using that by (auto simp: nonempty_def split: if_splits)
  have filters: "x = y" if "map_option (\<lambda>fs. GList (map (\<lambda>m. GMap (fmmap GStr m)) fs)) x =
      map_option (\<lambda>fs. GList (map (\<lambda>m. GMap (fmmap GStr m)) fs)) y" for x y
    using that by (cases x; cases y) (auto dest!: map_injective simp: inj_def fmmap_GStr_inject)
  have "AppName s = AppName t" "InsightsOnly s = InsightsOnly t"
    using eq [of "''appName''"] eq [of "''insightsOnly''"] by (simp_all add: spec_fields_def)
  moreover have "ConnectCluster s = ConnectCluster t" "Topic s = Topic t" "DbSecret s = DbSecret t"
      "InventoryDbSecret s = InventoryDbSecret t"
    using eq [of "''connectCluster''"] eq [of "''topic''"] eq [of "''dbSecret''"] eq [of "''inventoryDbSecret''"]
    by (auto simp: spec_fields_def intro: str)
  moreover have "DBTableIndexSQL s = DBTableIndexSQL t" "Refresh s = Refresh t"
    using eq [of "''dbTableIndexSQL''"] eq [of "''refresh''"] by (auto simp: spec_fields_def intro: str list)
  moreover have "MaxAge s = MaxAge t" "ValidationThreshold s = ValidationThreshold t"
    using eq [of "''maxAge''"] eq [of "''validationThreshold''"] by (auto simp: spec_fields_def intro: num)
  moreover have "ManagedConnectors s = ManagedConnectors t" "ConnectorPaused s = ConnectorPaused t"
    using eq [of "''managedConnectors''"] eq [of "''connectorPaused''"]
    by (auto simp: spec_fields_def intro: bool split: if_splits)
  moreover have "AdditionalFilters s = AdditionalFilters t"
    using eq [of "''additionalFilters''"] by (auto simp: spec_fields_def intro: filters list)
  ultimately show ?thesis by simp
qed

section \<open>The texts that are hashed\<close>


lemma spec_text_roundtrip:
  assumes "valid_spec s"
  shows "Unmarshal (json_spec s) = Some (spec_object s)"
  by (rule Unmarshal_encodes [OF encodes_spec [OF assms]]) (simp add: maxNestingDepth_def)

lemma valid_spec_DataSpec: "valid_spec s \<Longrightarrow> valid_spec (DataSpec s)"
  by (simp add: valid_spec_def DataSpec_def valid_utf8_def)



definition sample_spec :: "string option \<Rightarrow> CyndiPipelineSpec" where
  "sample_spec topic = (Spec new_pipeline)\<lparr>Topic := topic\<rparr>"


end
