(* ===== verification/Format.thy ===== *)
theory Format
  imports JsonRoundtrip
begin

text \<open>
  \<^verbatim>\<open>fmt.Sprintf("%v", x)\<close> for the values an \<open>interface{}\<close> holds, as the number
  normalisation of \<^verbatim>\<open>diff.go\<close> uses it. A \<open>float64\<close> is printed with the fewest digits that
  identify it, in exponent notation when its decimal exponent is below \<open>-4\<close> or at least 6.
\<close>

section \<open>Shortest decimal digits\<close>

text \<open>The decimal exponent of a positive number: \<open>10 ^ k \<le> x < 10 ^ (k + 1)\<close>.\<close>

definition decimal_exponent :: "rat \<Rightarrow> int" where
  "decimal_exponent x =
     (case quotient_of x of (p, q) \<Rightarrow>
        let k = int (length (FormatInt p)) - int (length (FormatInt q))
        in if 10 powi k \<le> x then k else k - 1)"

text \<open>
  The decimal numbers with \<open>n\<close> digits around \<open>x\<close>, as multiples of \<open>10 ^ e\<close>, and the one of
  them that is read back as \<open>x\<close> and is nearest to it.
\<close>

definition reads_back :: "rat \<Rightarrow> int \<Rightarrow> int \<Rightarrow> bool" where
  "reads_back x e c \<longleftrightarrow> float64_of (of_int c * 10 powi e) = Some x"

definition nearest_decimal :: "rat \<Rightarrow> int \<Rightarrow> int option" where
  "nearest_decimal x e =
     (let q = x / 10 powi e; lo = \<lfloor>q\<rfloor>; hi = \<lceil>q\<rceil>
      in if reads_back x e lo \<and> (\<not> reads_back x e hi \<or> q - of_int lo \<le> of_int hi - q) then Some lo
         else if reads_back x e hi then Some hi
         else None)"

text \<open>
  From \<open>n\<close> digits on; 17 digits identify every \<open>float64\<close>. The result \<open>(c, e)\<close> is the
  number \<open>c * 10 ^ e\<close>.
\<close>

fun shortest_from :: "nat \<Rightarrow> nat \<Rightarrow> rat \<Rightarrow> int \<Rightarrow> int \<times> int" where
  "shortest_from 0 n x k = (let e = k - int n in (\<lfloor>x / 10 powi e\<rfloor>, e))"
| "shortest_from (Suc m) n x k =
     (let e = k - int n in
      case nearest_decimal x e of
        Some c \<Rightarrow> (c, e)
      | None \<Rightarrow> shortest_from m (Suc n) x k)"

definition shortest :: "rat \<Rightarrow> int \<times> int" where
  "shortest x = shortest_from 17 0 x (decimal_exponent x)"

section \<open>Numbers\<close>

definition strip_zeros :: "string \<Rightarrow> string" where
  "strip_zeros s = rev (dropWhile (\<lambda>c. c = CHR ''0'') (rev s))"

text \<open>\<open>%e\<close>: one digit, the others after a point, a sign and at least two digits of exponent.\<close>

definition fmtE :: "string \<Rightarrow> int \<Rightarrow> string" where
  "fmtE digits ex =
     take 1 digits @ (if length digits > 1 then ''.'' @ drop 1 digits else []) @ ''e'' @
     (if ex < 0 then ''-'' else ''+'') @
     (let s = FormatInt \<bar>ex\<bar> in if length s < 2 then ''0'' @ s else s)"

text \<open>\<open>%f\<close> with the digits there are: the point is before the digit number \<open>dp\<close>.\<close>

definition fmtF :: "string \<Rightarrow> int \<Rightarrow> string" where
  "fmtF digits dp =
     (if dp > 0 then take (nat dp) digits @ replicate (nat dp - length digits) (CHR ''0'') else ''0'') @
     (if int (length digits) > dp then
        ''.'' @ (if dp < 0 then replicate (nat (- dp)) (CHR ''0'') else []) @ drop (nat dp) digits
      else [])"

definition format_positive :: "rat \<Rightarrow> string" where
  "format_positive x =
     (case shortest x of (c, e) \<Rightarrow>
        let all = FormatInt c; digits = strip_zeros all; dp = int (length all) + e; ex = dp - 1
        in if ex < - 4 \<or> ex \<ge> 6 then fmtE digits ex else fmtF digits dp)"

definition FormatFloat :: "rat \<Rightarrow> string" where
  "FormatFloat x =
     (if x = 0 then ''0'' else if x < 0 then ''-'' @ format_positive (- x) else format_positive x)"

section \<open>Values\<close>

text \<open>The keys of a map are printed in order.\<close>

definition format_map :: "strmap \<Rightarrow> string" where
  "format_map m =
     ''map['' @ str_join '' '' (map (\<lambda>k. k @ '':'' @ (case fmlookup m k of None \<Rightarrow> '''' | Some v \<Rightarrow> v))
       (sorted_list_of_fset (fmdom m))) @ '']''"

primrec Sprint :: "goval \<Rightarrow> string" where
  "Sprint GNil = ''<nil>''"
| "Sprint (GBool b) = FormatBool b"
| "Sprint (GInt n) = FormatInt n"
| "Sprint (GFloat x) = FormatFloat x"
| "Sprint (GStr s) = s"
| "Sprint (GList vs) = ''['' @ str_join '' '' (map Sprint vs) @ '']''"
| "Sprint (GMap m) = format_map (fmmap Sprint m)"

section \<open>Integers\<close>

lemma length_format_nat: "0 < n \<Longrightarrow> 10 ^ (length (format_nat n) - 1) \<le> n \<and> n < 10 ^ length (format_nat n)"
proof (induction n rule: format_nat.induct)
  case (1 n)
  show ?case
  proof (cases "n < 10")
    case True
    with 1 show ?thesis by (simp add: format_nat.simps [of n])
  next
    case False
    then have "0 < n div 10" by simp
    define l where "l = length (format_nat (n div 10))"
    have l: "length (format_nat n) = Suc l" "0 < l"
      using False format_nat_Cons [of "n div 10"] by (auto simp: format_nat.simps [of n] l_def)
    then obtain k where k: "l = Suc k" by (cases l) auto
    from 1 False \<open>0 < n div 10\<close> have "10 ^ (l - 1) \<le> n div 10" "n div 10 < 10 ^ l" by (auto simp: l_def)
    then show ?thesis unfolding l by (auto simp: k)
  qed
qed

lemma FormatInt_pos: "0 \<le> n \<Longrightarrow> FormatInt n = format_nat (nat n)"
  by (simp add: FormatInt_def)

lemma decimal_exponent_int:
  assumes "0 < n"
  shows "decimal_exponent (of_int n) = int (length (FormatInt n)) - 1"
    and "10 ^ (length (FormatInt n) - 1) \<le> n" and "n < 10 ^ length (FormatInt n)"
proof -
  define l where "l = length (FormatInt n)"
  have len: "10 ^ (l - 1) \<le> n" "n < 10 ^ l"
    using length_format_nat [of "nat n"] assms by (auto simp: l_def FormatInt_pos nat_less_iff le_nat_iff)
  have "0 < l" using format_nat_Cons [of "nat n"] assms by (auto simp: l_def FormatInt_pos)
  then have "(10 :: rat) powi (int l - 1) = of_int (10 ^ (l - 1))"
    by (cases l) (simp_all add: power_int_def nat_diff_distrib)
  then have "(10 :: rat) powi (int l - 1) \<le> of_int n" using len(1) by (simp only: of_int_le_iff)
  moreover have "quotient_of (of_int n) = (n, 1)" by (simp add: quotient_of_int)
  moreover have "length (FormatInt 1) = 1" by (simp add: FormatInt_def format_nat.simps)
  ultimately show "decimal_exponent (of_int n) = int (length (FormatInt n)) - 1"
    by (simp add: decimal_exponent_def flip: l_def)
  show "10 ^ (length (FormatInt n) - 1) \<le> n" "n < 10 ^ length (FormatInt n)"
    using len by (simp_all add: l_def)
qed

lemma nearest_decimal_int:
  assumes "nearest_decimal (of_int n) (int j) = Some c" and "0 < n" and "n < 10 ^ 6" and "10 ^ j \<le> n"
  shows "c * 10 ^ j = n"
proof -
  define q where "q = (of_int n :: rat) / 10 ^ j"
  have c: "c = \<lfloor>q\<rfloor> \<or> c = \<lceil>q\<rceil>" and rb: "reads_back (of_int n) (int j) c"
    using assms(1) by (auto simp: nearest_decimal_def Let_def q_def power_int_def split: if_splits)
  have "0 \<le> q" using assms(2) by (simp add: q_def)
  then have "c \<le> \<lceil>q\<rceil>" "0 \<le> c" using c by (auto simp: floor_le_ceiling zero_le_ceiling)
  then have "of_int c * 10 ^ j < (q + 1) * 10 ^ j" by (auto simp: ceiling_def) linarith
  also have "\<dots> = of_int (n + 10 ^ j)" by (simp add: q_def field_simps)
  finally have "c * 10 ^ j < n + 10 ^ j"
    by (metis (mono_tags, lifting) of_int_less_iff of_int_mult of_int_numeral of_int_power)
  then have small: "\<bar>c * 10 ^ j\<bar> < 2 ^ 53" using assms(3,4) \<open>0 \<le> c\<close> by (simp add: abs_of_nonneg)
  have "float64_of (of_int (c * 10 ^ j)) = Some (of_int n)" using rb by (simp add: reads_back_def power_int_def)
  with float64_of_int [OF small] have "(of_int (c * 10 ^ j) :: rat) = of_int n" by simp
  then show ?thesis by (simp only: of_int_eq_iff)
qed

lemma nearest_decimal_exact:
  assumes "\<bar>n\<bar> < 2 ^ 53"
  shows "nearest_decimal (of_int n) 0 = Some n"
  using float64_of_int [OF assms] by (simp add: nearest_decimal_def reads_back_def)

lemma shortest_from_int:
  assumes n: "0 < n" "n < 10 ^ 6" and l: "l = length (FormatInt n)"
    and "d < l" and "l \<le> m + d" and "shortest_from m d (of_int n) (int l - 1) = (c, e)"
  shows "0 \<le> e \<and> c * 10 ^ nat e = n"
  using assms(4-6)
proof (induction m arbitrary: d)
  case (Suc m)
  define j where "j = l - 1 - d"
  have e: "int l - 1 - int d = int j" using Suc.prems(1) by (simp add: j_def)
  have "(10 :: int) ^ j \<le> 10 ^ (length (FormatInt n) - 1)" by (rule power_increasing) (simp_all add: j_def l)
  with decimal_exponent_int(2) [OF n(1)] have small: "10 ^ j \<le> n" unfolding l by linarith
  show ?case
  proof (cases "nearest_decimal (of_int n) (int j)")
    case None
    have "j \<noteq> 0"
    proof
      assume "j = 0"
      with None nearest_decimal_exact [of n] n show False by simp
    qed
    with Suc.prems Suc.IH [of "Suc d"] None show ?thesis by (simp add: e) (simp add: j_def)
  next
    case (Some c')
    with Suc.prems nearest_decimal_int [OF Some n small] show ?thesis by (auto simp: e)
  qed
qed simp

lemma shortest_from_lower:
  assumes x: "10 powi k \<le> x" and "shortest_from m d x k = (c, e)"
  shows "e \<le> k \<and> 10 ^ nat (k - e) \<le> c"
  using assms(2)
proof (induction m arbitrary: d)
  have lower: "10 ^ d \<le> \<lfloor>x / 10 powi (k - int d)\<rfloor>" for d
  proof -
    have "(10 :: rat) powi k = 10 powi (int d) * 10 powi (k - int d)"
      using power_int_add [of "10 :: rat" "int d" "k - int d"] by simp
    with x have "10 powi (int d) \<le> x / 10 powi (k - int d)" by (simp add: pos_le_divide_eq)
    then show ?thesis by (simp add: le_floor_iff power_int_def)
  qed
  {
    case 0
    then show ?case using lower [of d] by (auto simp: Let_def)
  next
    case (Suc m)
    have "10 ^ d \<le> c'" if "nearest_decimal x (k - int d) = Some c'" for c'
    proof -
      have "\<lfloor>x / 10 powi (k - int d)\<rfloor> \<le> c'"
        using that floor_le_ceiling by (auto simp: nearest_decimal_def Let_def split: if_splits)
      with lower [of d] show ?thesis by linarith
    qed
    with Suc show ?case by (auto simp: Let_def split: option.splits)
  }
qed

lemma format_nat_shift: "0 < c \<Longrightarrow> format_nat (c * 10 ^ j) = format_nat c @ replicate j (CHR ''0'')"
proof (induction j)
  case (Suc j)
  then have "format_nat (c * 10 ^ j * 10) = format_nat (c * 10 ^ j) @ [CHR ''0'']"
    by (subst format_nat.simps) simp
  with Suc show ?case by (simp add: replicate_append_same ac_simps)
qed simp

lemma strip_zeros_append: "strip_zeros s @ replicate (length s - length (strip_zeros s)) (CHR ''0'') = s"
  and length_strip_zeros: "length (strip_zeros s) \<le> length s"
proof -
  let ?z = "takeWhile (\<lambda>c. c = CHR ''0'') (rev s)"
  have z: "?z = replicate (length ?z) (CHR ''0'')"
    by (rule replicate_length_same [symmetric]) (auto dest: set_takeWhileD)
  have s: "s = strip_zeros s @ rev ?z"
    unfolding strip_zeros_def by (metis rev_append rev_rev_ident takeWhile_dropWhile_id)
  then have "length s - length (strip_zeros s) = length ?z" by (metis add_diff_cancel_left' length_append length_rev)
  with s z show "strip_zeros s @ replicate (length s - length (strip_zeros s)) (CHR ''0'') = s"
    by (metis rev_replicate)
  show "length (strip_zeros s) \<le> length s" by (metis s length_append le_add1)
qed


lemma shortest_int:
  assumes "0 < n" and "n < 10 ^ 6" and "shortest (of_int n) = (c, e)"
  shows "0 \<le> e" and "c * 10 ^ nat e = n"
proof -
  define l where "l = length (FormatInt n)"
  have "0 < l" using format_nat_Cons [of "nat n"] assms by (auto simp: l_def FormatInt_pos)
  have "(10 :: int) ^ (l - 1) < 10 ^ 6"
    using decimal_exponent_int(2) [OF assms(1)] assms(2) unfolding l_def by linarith
  then have "l \<le> 17" using power_less_imp_less_exp [of "10 :: int" "l - 1" 6] by simp
  with shortest_from_int [OF assms(1,2) l_def, of 0 17 c e] \<open>0 < l\<close> assms(3) decimal_exponent_int(1) [OF assms(1)]
  show "0 \<le> e" "c * 10 ^ nat e = n" by (simp_all add: shortest_def flip: l_def)
qed

lemma format_positive_int:
  assumes "0 < n" and "n < 10 ^ 6"
  shows "format_positive (of_int n) = FormatInt n"
proof -
  obtain c e where ce: "shortest (of_int n) = (c, e)" by fastforce
  define j where "j = nat e"
  have e: "e = int j" and n: "c * 10 ^ j = n" using shortest_int [OF assms ce] by (simp_all add: j_def)
  then have c: "0 < c" using assms(1) zero_less_mult_pos2 [of c "10 ^ j"] by simp
  have "nat n = nat c * 10 ^ j" using n c by (simp add: nat_mult_distrib nat_power_eq flip: n)
  with c assms(1) have tx: "FormatInt n = FormatInt c @ replicate j (CHR ''0'')"
    by (simp add: FormatInt_pos format_nat_shift)
  define all where "all = FormatInt c"
  have len: "length (FormatInt n) = length all + j" by (simp add: tx all_def)
  have "(10 :: int) ^ (length (FormatInt n) - 1) < 10 ^ 6"
    using decimal_exponent_int(2) [OF assms(1)] assms(2) by linarith
  then have "length (FormatInt n) - 1 < 6"
    using power_less_imp_less_exp [of "10 :: int" "length (FormatInt n) - 1" 6] by simp
  moreover have "0 < length all" using format_nat_Cons [of "nat c"] c by (auto simp: all_def FormatInt_pos)
  ultimately have dp: "0 < int (length all) + int j" "\<not> 6 < int (length all) + int j" "\<not> int (length all) + int j - 1 < - 4"
    using len by linarith+
  then have "format_positive (of_int n) = strip_zeros all @ replicate (length all + j - length (strip_zeros all)) (CHR ''0'')"
    using length_strip_zeros [of all] len
    by (simp add: format_positive_def ce e Let_def fmtF_def nat_add_distrib flip: all_def)
  also have "length all + j - length (strip_zeros all) = (length all - length (strip_zeros all)) + j"
    using length_strip_zeros [of all] by simp
  also have "strip_zeros all @ replicate \<dots> (CHR ''0'') = all @ replicate j (CHR ''0'')"
    using strip_zeros_append [of all] by (simp add: replicate_add flip: append_assoc)
  finally show ?thesis by (simp add: tx all_def)
qed

lemma format_positive_large:
  assumes "10 ^ 6 \<le> n"
  shows "CHR ''e'' \<in> set (format_positive (of_int n))"
proof -
  have n: "0 < n" using assms by simp
  obtain c e where ce: "shortest (of_int n) = (c, e)" by fastforce
  define k where "k = decimal_exponent (of_int n)"
  have "(10 :: int) ^ 6 < 10 ^ length (FormatInt n)" using decimal_exponent_int(3) [OF n] assms by linarith
  then have "6 < length (FormatInt n)" by (simp only: power_strict_increasing_iff)
  then have k: "6 \<le> k" "k = int (length (FormatInt n) - 1)" by (simp_all add: k_def decimal_exponent_int(1) [OF n])
  have "(10 :: rat) powi k = of_int (10 ^ (length (FormatInt n) - 1))" by (simp add: k(2))
  also have "\<dots> \<le> of_int n" using decimal_exponent_int(2) [OF n] by (simp only: of_int_le_iff)
  finally have "10 powi k \<le> (of_int n :: rat)" .
  from shortest_from_lower [OF this ce [unfolded shortest_def k_def [symmetric]]]
  have d: "e \<le> k" "10 ^ nat (k - e) \<le> c" by auto
  then have "0 < c" by (meson less_le_trans zero_less_numeral zero_less_power)
  from d(2) decimal_exponent_int(3) [OF this] have "(10 :: int) ^ nat (k - e) < 10 ^ length (FormatInt c)" by linarith
  then have "nat (k - e) < length (FormatInt c)" by (simp only: power_strict_increasing_iff)
  with d(1) k(1) have "6 \<le> int (length (FormatInt c)) + e - 1" by linarith
  then show ?thesis by (simp add: format_positive_def ce Let_def fmtE_def)
qed

lemma FormatInt_no_exponent: "CHR ''e'' \<notin> set (FormatInt n)"
proof -
  have "\<not> is_digit (CHR ''e'')" by (simp add: is_digit_def digit_val_def)
  then show ?thesis using is_digit_format_nat by (auto simp: FormatInt_def)
qed

text \<open>
  C17: the number normalisation, which is meant to make an \<open>int64\<close> of the stored connector and
  the \<open>float64\<close> of the newly decoded template comparable, works exactly for numbers of at
  most six digits. From a million on the two are printed differently, so a connector whose
  template holds such a number always looks changed.
\<close>

theorem normalized_numbers_agree:
  "Sprint (GFloat (of_int n)) = Sprint (GInt n) \<longleftrightarrow> \<bar>n\<bar> < 10 ^ 6"
proof -
  have pos: "format_positive (of_int m) = FormatInt m \<longleftrightarrow> m < 10 ^ 6" if "0 < m" for m
    using format_positive_int [OF that] format_positive_large [of m] FormatInt_no_exponent [of m]
    by (cases "m < 10 ^ 6") auto
  consider "n = 0" | "0 < n" | "n < 0" by linarith
  then show ?thesis
  proof cases
    case 3
    with pos [of "- n"] show ?thesis by (simp add: FormatFloat_def FormatInt_def)
  qed (use pos in \<open>simp_all add: FormatFloat_def FormatInt_def format_nat.simps\<close>)
qed

end
