(* ===== verification/PipelineController.thy ===== *)
theory PipelineController
  imports Validate Lifecycle Format
begin

text \<open>
  \<^verbatim>\<open>controllers/cyndipipeline_controller.go\<close> and \<^verbatim>\<open>controllers/diff.go\<close>: the controller that
  creates tables and connectors, keeps the view on the right table, refreshes a pipeline
  that deviates and removes what is stale. Every early return of the code is a branch; a
  panic ends the run after the deferred \<open>Close\<close>.
\<close>

definition cyndipipelineFinalizer :: string where
  "cyndipipelineFinalizer = ''cyndi.cloud.redhat.com/finalizer''"

section \<open>Setup\<close>

text \<open>The zero values of the structs that are filled during the setup.\<close>

definition zero_DBParams :: DBParams where
  "zero_DBParams = \<lparr>db_Name = '''', db_Host = '''', db_Port = '''', db_User = '''', db_Password = '''',
     db_SSLMode = '''', db_SSLRootCert = ''''\<rparr>"

definition zero_ValidationConfiguration :: ValidationConfiguration where
  "zero_ValidationConfiguration = \<lparr>Interval = 0, AttemptsThreshold = 0, PercentageThreshold = 0\<rparr>"

definition zero_CyndiConfiguration :: CyndiConfiguration where
  "zero_CyndiConfiguration = \<lparr>cfg_Topic = '''', cfg_ConnectCluster = '''', cfg_ConnectorTemplate = '''',
     cfg_ConnectorTasksMax = 0, cfg_ConnectorBatchSize = 0, cfg_ConnectorMaxAge = 0,
     cfg_ConnectorAllowlistSystemProfile = '''', cfg_TopicReplicationFactor = 0,
     cfg_DeadLetterQueueTopicName = '''', cfg_InventoryDbSecret = '''', cfg_InventoryDbSchema = '''',
     cfg_DBTableInitScript = '''', cfg_DBTableIndexSQL = '''', cfg_StandardInterval = 0,
     cfg_ValidationConfig = zero_ValidationConfiguration,
     cfg_ValidationConfigInit = zero_ValidationConfiguration,
     cfg_ConfigMapVersion = '''', cfg_SpecHash = '''', cfg_SSLMode = '''', cfg_SSLRootCert = ''''\<rparr>"

definition new_iteration :: "CyndiPipeline \<Rightarrow> iteration" where
  "new_iteration inst = \<lparr>it_Instance = inst, it_OriginalInstance = inst,
     it_config = zero_CyndiConfiguration, it_HBIDBParams = zero_DBParams,
     it_AppDBParams = zero_DBParams,
     it_AppDb = \<lparr>db_Config = zero_DBParams, db_connection = None\<rparr>,
     it_InventoryDb = None, it_requeue = StandardRequeue\<rparr>"

text \<open>
  \<open>setup\<close> once the pipeline has been fetched. The parameters of the application database are
  shared with the database object, so a change \<open>Connect\<close> makes to them is seen in the
  iteration.
\<close>

definition setupInstance :: "'w env \<Rightarrow> CyndiPipeline \<Rightarrow> ('w, iteration \<times> gerror option) eff" where
  "setupInstance E inst = (
     let i = new_iteration inst; namespace = meta_Namespace (Meta inst)
     in do {
       r \<leftarrow> parseConfig E inst;
       case r of
         Inl err \<Rightarrow> ret (i, Some err)
       | Inr config \<Rightarrow> do {
           r \<leftarrow> LoadDBSecret E config namespace (cfg_InventoryDbSecret config);
           case r of
             Inl err \<Rightarrow> ret (i\<lparr>it_config := config\<rparr>, Some err)
           | Inr hbi \<Rightarrow> do {
               r \<leftarrow> LoadDBSecret E config namespace (AppDbSecretName (Spec inst));
               case r of
                 Inl err \<Rightarrow> ret (i\<lparr>it_config := config, it_HBIDBParams := hbi\<rparr>, Some err)
               | Inr app \<Rightarrow> do {
                   (err, db) \<leftarrow> Connect (env_pg E) (NewAppDatabase app);
                   ret (i\<lparr>it_config := config, it_HBIDBParams := hbi, it_AppDBParams := db_Config db,
                     it_AppDb := db\<rparr>, err)
                 }
             }
         }
     })"

text \<open>The iteration is \<open>None\<close> where the code returns the zero \<open>ReconcileIteration\<close>.\<close>

definition reconcilerSetup :: "'w env \<Rightarrow> string \<Rightarrow> string \<Rightarrow> ('w, iteration option \<times> gerror option) eff" where
  "reconcilerSetup E namespace name = do {
     r \<leftarrow> FetchCyndiPipeline E namespace name;
     case r of
       Inl err \<Rightarrow> if IsNotFound err then ret (None, None) else ret (None, Some err)
     | Inr inst \<Rightarrow> do {
         (i, err) \<leftarrow> setupInstance E inst;
         ret (Some i, err)
       }
   }"

section \<open>Stale dependencies\<close>

fun deleteStaleConnectors :: "'w env \<Rightarrow> string \<Rightarrow> string list \<Rightarrow> goval list \<Rightarrow> gerror list \<Rightarrow>
    ('w, gerror list) eff" where
  "deleteStaleConnectors E namespace keep [] errors = ret errors"
| "deleteStaleConnectors E namespace keep (connector # connectors) errors =
     (if \<not> ContainsString keep (u_GetName (env_u E) connector) then do {
        err \<leftarrow> DeleteConnector E (u_GetName (env_u E) connector) namespace;
        deleteStaleConnectors E namespace keep connectors
          (case err of None \<Rightarrow> errors | Some e \<Rightarrow> errors @ [e])
      }
      else deleteStaleConnectors E namespace keep connectors errors)"

fun deleteStaleTables :: "'w env \<Rightarrow> BaseDatabase \<Rightarrow> string list \<Rightarrow> string list \<Rightarrow> gerror list \<Rightarrow>
    ('w, gerror list) eff" where
  "deleteStaleTables E db keep [] errors = ret errors"
| "deleteStaleTables E db keep (table # tables) errors =
     (if \<not> ContainsString keep table then do {
        err \<leftarrow> DeleteTable (env_pg E) db table;
        deleteStaleTables E db keep tables (case err of None \<Rightarrow> errors | Some e \<Rightarrow> errors @ [e])
      }
      else deleteStaleTables E db keep tables errors)"

text \<open>What must be kept, before the database has been asked for the current table.\<close>

definition versionTables :: "meta_api \<Rightarrow> CyndiPipeline \<Rightarrow> string list" where
  "versionTables M inst =
     (if GetState M inst \<noteq> STATE_REMOVED \<and> PipelineVersion (Status inst) \<noteq> ''''
      then [TableName (PipelineVersion (Status inst))] else []) @
     (if GetState M inst \<noteq> STATE_REMOVED \<and> \<not> ConnectorsManaged inst \<and> status_TableName (Status inst) \<noteq> ''''
      then [status_TableName (Status inst)] else [])"

definition versionConnectors :: "meta_api \<Rightarrow> CyndiPipeline \<Rightarrow> string list" where
  "versionConnectors M inst =
     (if GetState M inst \<noteq> STATE_REMOVED \<and> PipelineVersion (Status inst) \<noteq> '''' \<and> ConnectorsManaged inst
      then [ConnectorName (PipelineVersion (Status inst)) (AppName (Spec inst))] else [])"

text \<open>
  What is kept for the current table: nothing when there is none or the pipeline is being
  removed. Deriving the connector's name from the table's may panic.
\<close>

definition currentKeep :: "meta_api \<Rightarrow> CyndiPipeline \<Rightarrow> string option \<Rightarrow> (string list \<times> string list) outcome" where
  "currentKeep M inst current =
     (case current of
        None \<Rightarrow> Returns ([], [])
      | Some table \<Rightarrow>
          if GetState M inst = STATE_REMOVED then Returns ([], [])
          else if ConnectorsManaged inst then
            (case TableNameToConnectorName table (AppName (Spec inst)) of
               Panics \<Rightarrow> Panics
             | Returns connector \<Rightarrow> Returns ([table], [connector]))
          else Returns ([table], []))"

text \<open>
  The function from the point where the database has answered which table is current:
  a failed answer is an error like the others, and the removal goes on without it.
\<close>

definition removeStale :: "'w env \<Rightarrow> iteration \<Rightarrow> gerror + string option \<Rightarrow> ('w, gerror list outcome) eff" where
  "removeStale E i current = (
     let inst = it_Instance i; M = env_meta E; namespace = meta_Namespace (Meta inst);
         errors = (case current of Inl err \<Rightarrow> [err] | Inr _ \<Rightarrow> [])
     in case currentKeep M inst (case current of Inl _ \<Rightarrow> None | Inr t \<Rightarrow> t) of
          Panics \<Rightarrow> ret Panics
        | Returns (tables, connectors) \<Rightarrow> do {
            r \<leftarrow> GetConnectorsForOwner E namespace (GetUIDString inst);
            errors \<leftarrow> (case r of
                Inl err \<Rightarrow> ret (errors @ [err])
              | Inr items \<Rightarrow>
                  deleteStaleConnectors E namespace (versionConnectors M inst @ connectors) items errors);
            r \<leftarrow> GetCyndiTables (env_pg E) (it_AppDb i);
            errors \<leftarrow> (case r of
                Inl err \<Rightarrow> ret (errors @ [err])
              | Inr listed \<Rightarrow>
                  deleteStaleTables E (it_AppDb i) (versionTables M inst @ tables) listed errors);
            ret (Returns errors)
          })"

definition deleteStaleDependencies :: "'w env \<Rightarrow> iteration \<Rightarrow> ('w, gerror list outcome) eff" where
  "deleteStaleDependencies E i = do {
     current \<leftarrow> GetCurrentTable (env_pg E) (it_AppDb i);
     removeStale E i current
   }"

section \<open>Finalizer, connector, view\<close>

text \<open>
  \<open>controllerutil.AddFinalizer\<close> and \<open>RemoveFinalizer\<close> on the list of finalizers. An update
  writes the stored object back into the instance.
\<close>

definition with_finalizers :: "(string list \<Rightarrow> string list) \<Rightarrow> iteration \<Rightarrow> iteration" where
  "with_finalizers f i =
     i\<lparr>it_Instance := (it_Instance i)\<lparr>Meta := (Meta (it_Instance i))\<lparr>meta_Finalizers :=
       f (meta_Finalizers (Meta (it_Instance i)))\<rparr>\<rparr>\<rparr>"

definition updatePipeline :: "'w env \<Rightarrow> iteration \<Rightarrow> ('w, gerror option \<times> iteration) eff" where
  "updatePipeline E i = do {
     r \<leftarrow> perform (KubeUpdatePipeline (it_Instance i)) (kube_update_pipeline (env_kube E) (it_Instance i));
     case r of
       Inl err \<Rightarrow> ret (Some err, i)
     | Inr stored \<Rightarrow> ret (None, i\<lparr>it_Instance := stored\<rparr>)
   }"

definition addFinalizer :: "'w env \<Rightarrow> iteration \<Rightarrow> ('w, gerror option \<times> iteration) eff" where
  "addFinalizer E i =
     (if \<not> ContainsString (meta_Finalizers (Meta (it_Instance i))) cyndipipelineFinalizer
      then updatePipeline E (with_finalizers (\<lambda>fs. fs @ [cyndipipelineFinalizer]) i)
      else ret (None, i))"

definition removeFinalizer :: "'w env \<Rightarrow> iteration \<Rightarrow> ('w, gerror option \<times> iteration) eff" where
  "removeFinalizer E i =
     updatePipeline E (with_finalizers (filter (\<lambda>f. f \<noteq> cyndipipelineFinalizer)) i)"

definition createConnector :: "'w env \<Rightarrow> iteration \<Rightarrow> string \<Rightarrow> bool \<Rightarrow> ('w, gerror + goval) eff" where
  "createConnector E i name dryRun = (
     let inst = it_Instance i; config = it_config i
     in CreateConnector E name (meta_Namespace (Meta inst))
       \<lparr>cc_AppName = AppName (Spec inst),
        cc_AdditionalFilters = AdditionalFilters (Spec inst),
        cc_InsightsOnly = InsightsOnly (Spec inst),
        cc_Paused = ConnectorPaused (Spec inst),
        cc_Cluster = cfg_ConnectCluster config,
        cc_Topic = cfg_Topic config,
        cc_TableName = status_TableName (Status inst),
        cc_DB = it_AppDBParams i,
        cc_TasksMax = cfg_ConnectorTasksMax config,
        cc_BatchSize = cfg_ConnectorBatchSize config,
        cc_MaxAge = cfg_ConnectorMaxAge config,
        cc_Template = cfg_ConnectorTemplate config,
        cc_AllowlistSystemProfile = cfg_ConnectorAllowlistSystemProfile config,
        cc_TopicReplicationFactor = cfg_TopicReplicationFactor config,
        cc_DeadLetterQueueTopicName = cfg_DeadLetterQueueTopicName config\<rparr>
       (Some inst) dryRun)"

definition recreateViewIfNeeded :: "'w env \<Rightarrow> iteration \<Rightarrow> ('w, gerror + bool) eff" where
  "recreateViewIfNeeded E i =
     (if \<not> ConnectorsManaged (it_Instance i) then ret (Inr False)
      else do {
        table \<leftarrow> GetCurrentTable (env_pg E) (it_AppDb i);
        case table of
          Inl err \<Rightarrow> ret (Inl err)
        | Inr t \<Rightarrow>
            if t \<noteq> Some (status_TableName (Status (it_Instance i))) then do {
              err \<leftarrow> UpdateView (env_pg E) (it_AppDb i) (status_TableName (Status (it_Instance i)));
              case err of
                Some e \<Rightarrow> ret (Inl e)
              | None \<Rightarrow> ret (Inr True)
            }
            else ret (Inr False)
      })"

section \<open>Deviation\<close>

definition label :: "'w env \<Rightarrow> goval \<Rightarrow> string \<Rightarrow> string" where
  "label E connector key =
     (case fmlookup (u_GetLabels (env_u E) connector) key of None \<Rightarrow> '''' | Some v \<Rightarrow> v)"

text \<open>\<open>NumberNormalizer\<close> of \<^verbatim>\<open>diff.go\<close>: the filter, which panics when asked about \<open>nil\<close>.\<close>

definition numberFilter :: "goval \<Rightarrow> goval \<Rightarrow> bool outcome" where
  "numberFilter x y =
     (case IsNumber x of
        Panics \<Rightarrow> Panics
      | Returns True \<Rightarrow> Returns True
      | Returns False \<Rightarrow> IsNumber y)"

text \<open>The checks on an existing connector before its configuration is compared.\<close>

definition connectorProblem :: "'w env \<Rightarrow> iteration \<Rightarrow> goval \<Rightarrow> string option" where
  "connectorProblem E i connector =
     (let inst = it_Instance i; config = it_config i in
      if IsFailed E connector then
        Some (''Connector '' @ status_ConnectorName (Status inst) @ '' is in the FAILED state'')
      else if label E connector LabelAppName \<noteq> AppName (Spec inst) then
        Some (''App name disagrees ('' @ label E connector LabelAppName @ '' vs '' @ AppName (Spec inst) @ '')'')
      else if label E connector LabelInsightsOnly \<noteq> FormatBool (InsightsOnly (Spec inst)) then
        Some ''InsightsOnly changed''
      else if label E connector LabelStrimziCluster \<noteq> cfg_ConnectCluster config then
        Some (''ConnectCluster changed from '' @ label E connector LabelStrimziCluster @ '' to '' @
          cfg_ConnectCluster config)
      else if label E connector LabelMaxAge \<noteq> FormatInt (cfg_ConnectorMaxAge config) then
        Some (''MaxAge changed from '' @ label E connector LabelMaxAge @ '' to '' @
          FormatInt (cfg_ConnectorMaxAge config))
      else None)"

text \<open>The comparison of the existing configuration with the one that would be created now.\<close>

definition configurationProblem :: "'w env \<Rightarrow> goval \<Rightarrow> goval \<Rightarrow> string option outcome" where
  "configurationProblem E connector newConnector =
     (case (u_NestedMap (env_u E) connector [''spec'', ''config''],
            u_NestedMap (env_u E) newConnector [''spec'', ''config'']) of
        (Inr currentConfig, Inr newConfig) \<Rightarrow>
          (case cmp_Diff (env_cmp E) numberFilter Sprint currentConfig newConfig of
             Panics \<Rightarrow> Panics
           | Returns diff \<Rightarrow>
               Returns (if length diff > 0 then Some (''Connector configuration has changed: '' @ diff)
                        else None))
      | _ \<Rightarrow> Returns None)"

text \<open>\<open>Inl\<close> is the error, \<open>Inr\<close> the problem found, if any.\<close>

definition checkForDeviation :: "'w env \<Rightarrow> iteration \<Rightarrow> ('w, (gerror + string option) outcome) eff" where
  "checkForDeviation E i = (
     let inst = it_Instance i; config = it_config i; st = Status inst
     in if CyndiConfigVersion st \<noteq> cfg_ConfigMapVersion config then
          ret (Returns (Inr (Some (''ConfigMap changed. New version is '' @ cfg_ConfigMapVersion config))))
        else if status_SpecHash st \<noteq> cfg_SpecHash config then
          ret (Returns (Inr (Some (''Spec changed. New hash is '' @ cfg_SpecHash config))))
        else do {
          r \<leftarrow> CheckIfTableExists (env_pg E) (it_AppDb i) (status_TableName st);
          case r of
            Inl err \<Rightarrow> ret (Returns (Inl err))
          | Inr dbTableExists \<Rightarrow>
              if \<not> dbTableExists then
                ret (Returns (Inr (Some (''Database table '' @ status_TableName st @ '' not found''))))
              else if \<not> ConnectorsManaged inst then ret (Returns (Inr None))
              else do {
                r \<leftarrow> GetConnector E (status_ConnectorName st) (meta_Namespace (Meta inst));
                case r of
                  Inl err \<Rightarrow>
                    if IsNotFound err then
                      ret (Returns (Inr (Some (''Connector '' @ status_ConnectorName st @ '' not found in '' @
                        meta_Namespace (Meta inst)))))
                    else ret (Returns (Inl err))
                | Inr connector \<Rightarrow>
                    (case connectorProblem E i connector of
                       Some problem \<Rightarrow> ret (Returns (Inr (Some problem)))
                     | None \<Rightarrow> do {
                         r \<leftarrow> createConnector E i (status_ConnectorName st) True;
                         case r of
                           Inl err \<Rightarrow> ret (Returns (Inl err))
                         | Inr newConnector \<Rightarrow>
                             (case configurationProblem E connector newConnector of
                                Panics \<Rightarrow> ret Panics
                              | Returns problem \<Rightarrow> ret (Returns (Inr problem)))
                       })
              }
        })"

section \<open>The healthier table\<close>

definition updateView :: "'w env \<Rightarrow> iteration \<Rightarrow> ('w, gerror option) eff" where
  "updateView E i = UpdateView (env_pg E) (it_AppDb i) (status_TableName (Status (it_Instance i)))"

text \<open>Whether the active table is at least as close to the inventory's count: strictly closer.\<close>

definition activeIsHealthier :: "int \<Rightarrow> int \<Rightarrow> int \<Rightarrow> bool" where
  "activeIsHealthier hbi active latest \<longleftrightarrow> Abs (wrap64 (hbi - latest)) > Abs (wrap64 (hbi - active))"

definition countFailure :: "string \<Rightarrow> gerror \<Rightarrow> gerror" where
  "countFailure what err = Errorf_wrap (''Failed to get host count from '' @ what @ '' '' @ ErrorText err) err"

definition updateViewIfHealthier :: "'w env \<Rightarrow> iteration \<Rightarrow> ('w, gerror option \<times> iteration) eff" where
  "updateViewIfHealthier E i = (
     let inst = it_Instance i; P = env_pg E
     in if \<not> ConnectorsManaged inst then ret (None, i)
        else do {
          table \<leftarrow> GetCurrentTable P (it_AppDb i);
          case table of
            Inl err \<Rightarrow> ret (Some (Errorf_wrap (''Failed to determine active table '' @ ErrorText err) err), i)
          | Inr None \<Rightarrow> do { err \<leftarrow> updateView E i; ret (err, i) }
          | Inr (Some t) \<Rightarrow>
              if t = status_TableName (Status inst) then ret (None, i)
              else do {
                (err, db) \<leftarrow> base_Connect P (NewBaseDatabase (it_HBIDBParams i));
                let i = i\<lparr>it_InventoryDb := Some db\<rparr>;
                case err of
                  Some e \<Rightarrow> ret (Some e, i)
                | None \<Rightarrow> do {
                    r \<leftarrow> CountHosts P db (cfg_InventoryDbSchema (it_config i) @ ''.hosts'')
                      (InsightsOnly (Spec inst)) (AdditionalFilters (Spec inst));
                    case r of
                      Inl err \<Rightarrow> ret (Some (countFailure ''inventory'' err), i)
                    | Inr hbi \<Rightarrow> do {
                        r \<leftarrow> CountHosts P (it_AppDb i) (AppFullTableName t) False [];
                        case r of
                          Inl err \<Rightarrow> ret (Some (countFailure ''active table'' err), i)
                        | Inr active \<Rightarrow> do {
                            r \<leftarrow> CountHosts P (it_AppDb i)
                              (AppFullTableName (status_TableName (Status inst))) False [];
                            case r of
                              Inl err \<Rightarrow> ret (Some (countFailure ''application table'' err), i)
                            | Inr latest \<Rightarrow>
                                if activeIsHealthier hbi active latest then ret (None, i)
                                else do { err \<leftarrow> updateView E i; ret (err, i) }
                          }
                      }
                  }
              }
        })"

section \<open>Reconcile\<close>

fun reportErrors :: "gerror list \<Rightarrow> string \<Rightarrow> ('w, unit) eff" where
  "reportErrors [] msg = ret ()"
| "reportErrors (err # errs) msg = do { _ \<leftarrow> it_error err [msg]; reportErrors errs msg }"

definition set_instance :: "CyndiPipeline \<Rightarrow> iteration \<Rightarrow> iteration" where
  "set_instance inst i = i\<lparr>it_Instance := inst\<rparr>"

text \<open>\<open>STATE_REMOVED\<close>.\<close>

definition reconcileRemoved :: "'w env \<Rightarrow> iteration \<Rightarrow> gerror list \<Rightarrow>
    ('w, reconciled outcome \<times> iteration) eff" where
  "reconcileRemoved E i setupErrors =
     (if setupErrors \<noteq> [] \<and> \<not> ephemeral E then ret (Returns (zero_Result, Some (hd setupErrors)), i)
      else do {
        (err, i) \<leftarrow> removeFinalizer E i;
        case err of
          Some e \<Rightarrow> fail i e ''Error removing finalizer''
        | None \<Rightarrow> ret (Returns (zero_Result, None), i)
      })"

text \<open>
  \<open>STATE_NEW\<close> after the transition to the initial sync: the table, the connector, the status.
\<close>

definition provision :: "'w env \<Rightarrow> iteration \<Rightarrow> string \<Rightarrow> ('w, reconciled outcome \<times> iteration) eff" where
  "provision E i pipelineVersion = do {
     _ \<leftarrow> probeStartingInitialSync i;
     r \<leftarrow> CheckIfTableExists (env_pg E) (it_AppDb i) (status_TableName (Status (it_Instance i)));
     case r of
       Inl err \<Rightarrow> fail i err ''Error checking table existence''
     | Inr tableExists \<Rightarrow> do {
         err \<leftarrow> (if \<not> tableExists then
             CreateTable (env_pg E) (env_text E) (it_AppDb i) (status_TableName (Status (it_Instance i)))
               (cfg_DBTableInitScript (it_config i) @ cfg_DBTableIndexSQL (it_config i))
           else ret None);
         case err of
           Some e \<Rightarrow> fail i e ''Error creating table''
         | None \<Rightarrow>
             if ConnectorsManaged (it_Instance i) then do {
               r \<leftarrow> createConnector E i (ConnectorName pipelineVersion (AppName (Spec (it_Instance i)))) False;
               case r of
                 Inl err \<Rightarrow> fail i err ''Error creating connector''
               | Inr _ \<Rightarrow> updateStatusAndRequeue E i
             }
             else do {
               _ \<leftarrow> (if \<not> tableExists then
                   eventWarning ''ExternalConnectorUpdate''
                     ''External connector must be updated to target new table: inventory.%s''
                     [status_TableName (Status (it_Instance i))]
                 else ret ());
               updateStatusAndRequeue E i
             }
       }
   }"

text \<open>
  \<open>STATE_NEW\<close> after the finalizer has been set. The error of \<open>TransitionToInitialSync\<close> is
  not looked at.
\<close>

definition startSync :: "'w env \<Rightarrow> iteration \<Rightarrow> ('w, reconciled outcome \<times> iteration) eff" where
  "startSync E i = do {
     let i = set_status (\<lambda>s. s\<lparr>CyndiConfigVersion := cfg_ConfigMapVersion (it_config i),
       status_SpecHash := cfg_SpecHash (it_config i)\<rparr>) i;
     nanos \<leftarrow> UnixNano E;
     now \<leftarrow> Now E;
     let pipelineVersion = version_of_nanos nanos;
     provision E (set_instance (case TransitionToInitialSync (env_meta E) now pipelineVersion (it_Instance i) of
       Inl _ \<Rightarrow> it_Instance i | Inr inst \<Rightarrow> inst) i) pipelineVersion
   }"

definition reconcileNew :: "'w env \<Rightarrow> iteration \<Rightarrow> ('w, reconciled outcome \<times> iteration) eff" where
  "reconcileNew E i = do {
     (err, i) \<leftarrow> addFinalizer E i;
     case err of
       Some e \<Rightarrow> fail i e ''Error adding finalizer''
     | None \<Rightarrow> startSync E i
   }"

text \<open>The pipeline failed too often: the refresh, after a last look at the active table.\<close>

definition refreshInvalid :: "'w env \<Rightarrow> iteration \<Rightarrow> ('w, reconciled outcome \<times> iteration) eff" where
  "refreshInvalid E i = do {
     i \<leftarrow> (if GetState (env_meta E) (it_Instance i) = STATE_INITIAL_SYNC then do {
            (_, i) \<leftarrow> updateViewIfHealthier E i;
            ret i
          }
          else ret i);
     now \<leftarrow> Now E;
     let i = set_instance (TransitionToNew (env_meta E) now (it_Instance i)) i;
     _ \<leftarrow> probePipelineDidNotBecomeValid i;
     updateStatusAndRequeue E i
   }"

text \<open>The pipeline exists and does not deviate.\<close>

definition reconcileHealthy :: "'w env \<Rightarrow> iteration \<Rightarrow> ('w, reconciled outcome \<times> iteration) eff" where
  "reconcileHealthy E i = (
     let inst = it_Instance i; M = env_meta E
     in if GetState M inst = STATE_VALID then do {
          r \<leftarrow> recreateViewIfNeeded E i;
          case r of
            Inl err \<Rightarrow> fail i err ''Error updating hosts view''
          | Inr updated \<Rightarrow> do {
              _ \<leftarrow> (if updated then
                  eventNormal ''ValidationSucceeded''
                    ''Pipeline became valid. inventory.hosts view now points to %s''
                    [status_TableName (Status inst)]
                else ret ());
              updateStatusAndRequeue E i
            }
        }
        else if GetValid M inst = ConditionFalse \<and>
          ValidationFailedCount (Status inst) \<ge> AttemptsThreshold (it_getValidationConfig i)
        then refreshInvalid E i
        else updateStatusAndRequeue E i)"

text \<open>Any other state: refresh on a deviation, otherwise set the connector's state and go on.\<close>

definition refreshDeviating :: "'w env \<Rightarrow> iteration \<Rightarrow> string \<Rightarrow> ('w, reconciled outcome \<times> iteration) eff" where
  "refreshDeviating E i problem = do {
     _ \<leftarrow> probeStateDeviationRefresh i problem;
     now \<leftarrow> Now E;
     updateStatusAndRequeue E (set_instance (TransitionToNew (env_meta E) now (it_Instance i)) i)
   }"

definition reconcileExisting :: "'w env \<Rightarrow> iteration \<Rightarrow> ('w, reconciled outcome \<times> iteration) eff" where
  "reconcileExisting E i = do {
     r \<leftarrow> checkForDeviation E i;
     case r of
       Panics \<Rightarrow> ret (Panics, i)
     | Returns (Inl err) \<Rightarrow> fail i err ''Error checking for state deviation''
     | Returns (Inr (Some problem)) \<Rightarrow> refreshDeviating E i problem
     | Returns (Inr None) \<Rightarrow> do {
         err \<leftarrow> (if ConnectorsManaged (it_Instance i) then
             SetConnectorState E (status_ConnectorName (Status (it_Instance i)))
               (meta_Namespace (Meta (it_Instance i))) (ConnectorPaused (Spec (it_Instance i)))
           else ret None);
         case err of
           Some e \<Rightarrow> fail i e ''Error setting connector state''
         | None \<Rightarrow> reconcileHealthy E i
       }
   }"

definition reconcileInstance :: "'w env \<Rightarrow> iteration \<Rightarrow> gerror option \<Rightarrow>
    ('w, reconciled outcome \<times> iteration) eff" where
  "reconcileInstance E i setupErr = do {
     setupErrors \<leftarrow> (case setupErr of
         None \<Rightarrow> ret []
       | Some err \<Rightarrow> do { _ \<leftarrow> it_error err []; ret [err] });
     r \<leftarrow> deleteStaleDependencies E i;
     case r of
       Panics \<Rightarrow> ret (Panics, i)
     | Returns errors \<Rightarrow> do {
         let setupErrors = setupErrors @ errors;
         _ \<leftarrow> reportErrors setupErrors ''Error deleting stale dependency'';
         if GetState (env_meta E) (it_Instance i) = STATE_REMOVED then reconcileRemoved E i setupErrors
         else if setupErrors \<noteq> [] then ret (Returns (zero_Result, Some (hd setupErrors)), i)
         else do {
           _ \<leftarrow> InitLabels (it_Instance i);
           if GetState (env_meta E) (it_Instance i) = STATE_NEW then reconcileNew E i
           else reconcileExisting E i
         }
       }
   }"

text \<open>
  \<open>Reconcile\<close>. When the setup fails before there is an iteration, reporting the error
  dereferences the logger of the zero iteration and panics.
\<close>

definition Reconcile :: "'w env \<Rightarrow> string \<Rightarrow> string \<Rightarrow> ('w, reconciled outcome) eff" where
  "Reconcile E namespace name = do {
     (iter, err) \<leftarrow> reconcilerSetup E namespace name;
     case iter of
       None \<Rightarrow>
         (case err of
            Some _ \<Rightarrow> ret Panics
          | None \<Rightarrow> ret (Returns (zero_Result, None)))
     | Some i \<Rightarrow> do {
         (r, i) \<leftarrow> reconcileInstance E i err;
         _ \<leftarrow> iterationClose E i;
         ret r
       }
   }"

section \<open>Watching the ConfigMap\<close>

text \<open>The map function of \<open>SetupWithManager\<close>: the requests a changed ConfigMap causes.\<close>

definition configMapRequests :: "'w env \<Rightarrow> string \<Rightarrow> string \<Rightarrow> ('w, (string \<times> string) list) eff" where
  "configMapRequests E namespace name =
     (if name \<noteq> configMapName then ret []
      else do {
        r \<leftarrow> FetchCyndiPipelines E namespace;
        case r of
          Inl err \<Rightarrow> ret []
        | Inr items \<Rightarrow> ret (map (\<lambda>p. (namespace, meta_Name (Meta p))) items)
      })"

end
