(* ===== verification/ValidationController.thy ===== *)
theory ValidationController
  imports PipelineController
begin

text \<open>
  \<^verbatim>\<open>controllers/validation_controller.go\<close>: the controller that validates a pipeline at
  regular intervals and records the outcome in its status, and the filter on the events
  that trigger it.
\<close>

section \<open>Messages\<close>

text \<open>\<open>%.2f\<close> of a finite \<open>float64\<close>: the exact value rounded to two places, ties to even.\<close>

definition format_2f :: "rat \<Rightarrow> string" where
  "format_2f x =
     (let n = nat (round_half_even (100 * \<bar>x\<bar>))
      in (if x < 0 then ''-'' else '''') @ format_nat (n div 100) @ ''.'' @
         [digit (n mod 100 div 10), digit (n mod 10)])"

definition mismatchMessage :: "int \<Rightarrow> rat \<Rightarrow> string" where
  "mismatchMessage mismatchCount mismatchRatio =
     FormatInt mismatchCount @ '' hosts ('' @ format_2f (fmul mismatchRatio 100) @ ''%) do not match''"

section \<open>Setup\<close>

text \<open>What this controller adds to a setup that has an instance.\<close>

definition connectInventory :: "'w env \<Rightarrow> iteration \<Rightarrow> gerror option \<Rightarrow> ('w, iteration \<times> gerror option) eff" where
  "connectInventory E i err =
     (case err of
        Some e \<Rightarrow> ret (i, Some e)
      | None \<Rightarrow> do {
          (err, db) \<leftarrow> base_Connect (env_pg E) (NewBaseDatabase (it_HBIDBParams i));
          ret (i\<lparr>it_requeue := ValidationRequeue, it_InventoryDb := Some db\<rparr>, err)
        })"

definition validationSetup :: "'w env \<Rightarrow> string \<Rightarrow> string \<Rightarrow> ('w, iteration option \<times> gerror option) eff" where
  "validationSetup E namespace name = do {
     (iter, err) \<leftarrow> reconcilerSetup E namespace name;
     case iter of
       None \<Rightarrow> ret (None, err)
     | Some i \<Rightarrow> do {
         (i, err) \<leftarrow> connectInventory E i err;
         ret (Some i, err)
       }
   }"

section \<open>Reconcile\<close>

text \<open>
  What is recorded of a finished validation. The warning goes to the recorder as it is, not
  as a format string.
\<close>

definition recordValidation :: "'w env \<Rightarrow> iteration \<Rightarrow> validation \<Rightarrow> ('w, iteration) eff" where
  "recordValidation E i v = (
     let M = env_meta E; inst = it_Instance i; msg = mismatchMessage (v_mismatchCount v) (v_mismatchRatio v)
     in if v_isValid v then do {
          _ \<leftarrow> (if GetState M inst = STATE_INVALID then eventNormal ''Valid'' ''Pipeline is valid again'' []
             else ret ());
          now \<leftarrow> Now E;
          ret (set_instance (SetValid M now ConditionTrue ''ValidationSucceeded''
            (''Validation succeeded - '' @ msg) (v_hostCount v) inst) i)
        }
        else do {
          _ \<leftarrow> emit (EventRecorded EventTypeWarning ''ValidationFailed'' ''%s'' [''Validation failed - '' @ msg]);
          now \<leftarrow> Now E;
          ret (set_instance (SetValid M now ConditionFalse ''ValidationFailed''
            (''Validation failed - '' @ msg) (v_hostCount v) inst) i)
        })"

definition validateInstance :: "'w env \<Rightarrow> iteration \<Rightarrow> BaseDatabase \<Rightarrow>
    ('w, reconciled outcome \<times> iteration) eff" where
  "validateInstance E i inventoryDb = do {
     r \<leftarrow> validate E i inventoryDb (cfg_InventoryDbSchema (it_config i));
     case r of
       Inl err \<Rightarrow> fail i err ''Error validating pipeline''
     | Inr v \<Rightarrow> do {
         i \<leftarrow> recordValidation E i v;
         updateStatusAndRequeue E i
       }
   }"

text \<open>\<open>check\<close> is the field \<open>CheckResourceDeviation\<close> of the reconciler.\<close>

definition reconcileValidation :: "'w env \<Rightarrow> bool \<Rightarrow> iteration \<Rightarrow> BaseDatabase \<Rightarrow>
    ('w, reconciled outcome \<times> iteration) eff" where
  "reconcileValidation E check i inventoryDb = (
     let state = GetState (env_meta E) (it_Instance i)
     in if state = STATE_REMOVED \<or> state = STATE_NEW then ret (Returns (zero_Result, None), i)
        else if check then do {
          r \<leftarrow> checkForDeviation E i;
          case r of
            Panics \<Rightarrow> ret (Panics, i)
          | Returns (Inl err) \<Rightarrow> fail i err ''Error checking for state deviation''
          | Returns (Inr (Some problem)) \<Rightarrow> refreshDeviating E i problem
          | Returns (Inr None) \<Rightarrow> validateInstance E i inventoryDb
        }
        else validateInstance E i inventoryDb)"

text \<open>
  The run once there is an iteration. After a successful setup the inventory database is the
  one just connected.
\<close>

definition runValidation :: "'w env \<Rightarrow> bool \<Rightarrow> iteration \<Rightarrow> gerror option \<Rightarrow>
    ('w, reconciled outcome \<times> iteration) eff" where
  "runValidation E check i err =
     (case err of
        Some e \<Rightarrow> do {
          e \<leftarrow> it_error e [];
          ret (Returns (zero_Result, Some e), i)
        }
      | None \<Rightarrow>
          (case it_InventoryDb i of
             Some db \<Rightarrow> reconcileValidation E check i db
           | None \<Rightarrow> ret (Panics, i)))"

text \<open>
  \<open>Reconcile\<close>. As in the other controller, an error without an iteration panics in the
  report of it.
\<close>

definition ReconcileValidation :: "'w env \<Rightarrow> bool \<Rightarrow> string \<Rightarrow> string \<Rightarrow> ('w, reconciled outcome) eff" where
  "ReconcileValidation E check namespace name = do {
     (iter, err) \<leftarrow> validationSetup E namespace name;
     case iter of
       None \<Rightarrow>
         (case err of
            Some _ \<Rightarrow> ret Panics
          | None \<Rightarrow> ret (Returns (zero_Result, None)))
     | Some i \<Rightarrow> do {
         (r, i) \<leftarrow> runValidation E check i err;
         _ \<leftarrow> iterationClose E i;
         ret r
       }
   }"

section \<open>The event filter\<close>

text \<open>
  The update predicate. An object that is not a pipeline has no status to compare; both
  arguments are the object's generation and, for a pipeline, its \<open>InitialSyncInProgress\<close>.
\<close>

record watched =
  w_Generation :: int
  w_InitialSync :: "bool option"

definition eventFilterPredicate :: "watched \<Rightarrow> watched \<Rightarrow> bool" where
  "eventFilterPredicate old new =
     (if w_Generation old \<noteq> w_Generation new then True
      else if w_InitialSync old = Some False \<and> w_InitialSync new = Some True then True
      else False)"

definition watched_pipeline :: "CyndiPipeline \<Rightarrow> watched" where
  "watched_pipeline p = \<lparr>w_Generation = meta_Generation (Meta p),
     w_InitialSync = Some (InitialSyncInProgress (Status p))\<rparr>"

end
