(* ===== verification/AppServer.thy ===== *)
theory AppServer
  imports Database
begin

text \<open>
  What the operations on an application database mean. The locale \<open>sql_server\<close> states what
  PostgreSQL promises for the statements the operator sends, over an abstract state: the
  names of the tables in the schema \<open>inventory\<close> and the table the view \<open>inventory.hosts\<close>
  reads. The locale \<open>table_store\<close> is the interface the controllers rely on; every
  \<open>sql_server\<close> with an open connection provides it through the operations of
  \<^verbatim>\<open>app_database.go\<close>.
\<close>

section \<open>Names\<close>

text \<open>
  Names that mean the same quoted and unquoted: the lower-case letters, digits and
  underscores PostgreSQL leaves alone.
\<close>

definition plain :: "string \<Rightarrow> bool" where
  "plain t \<longleftrightarrow> t \<noteq> '''' \<and> list_all (\<lambda>c. c \<in> set ''abcdefghijklmnopqrstuvwxyz0123456789_'') t"

text \<open>\<open>LIKE 'hosts_%'\<close>: the underscore stands for any one character.\<close>

definition like_hosts :: "string \<Rightarrow> bool" where
  "like_hosts t \<longleftrightarrow> take 5 t = ''hosts'' \<and> 6 \<le> length t"

lemma plain_nonempty [simp]: "plain t \<Longrightarrow> t \<noteq> ''''"
  by (simp add: plain_def)

lemma plain_digit: "d < 10 \<Longrightarrow> digit d \<in> set ''abcdefghijklmnopqrstuvwxyz0123456789_''"
proof -
  assume "d < 10"
  then have "d = 0 \<or> d = 1 \<or> d = 2 \<or> d = 3 \<or> d = 4 \<or> d = 5 \<or> d = 6 \<or> d = 7 \<or> d = 8 \<or> d = 9"
    by presburger
  then show ?thesis by (elim disjE) simp_all
qed

lemma plain_version_table: "0 \<le> n \<Longrightarrow> plain (TableName (version_of_nanos n))"
  using format_nat_digits [of _ "nat n"] plain_digit
  by (fastforce simp: plain_def TableName_def tablePrefix_def version_of_nanos_def FormatInt_def list_all_iff)

lemma like_hosts_version [simp]: "like_hosts (TableName v)"
  by (simp add: like_hosts_def TableName_def tablePrefix_def)

section \<open>The contract of the server\<close>

locale sql_server =
  fixes P :: "'w pg_api" and c :: conn
    and tables :: "'w \<Rightarrow> string set" and view :: "'w \<Rightarrow> string option"
  assumes query_keeps:
      "pgx_Query P c q w = (r, w') \<Longrightarrow> q \<in> {existsQuery t, currentTableQuery, tablesQuery} \<Longrightarrow>
       tables w' = tables w \<and> view w' = view w"
    and exists_answer:
      "pgx_Query P c (existsQuery t) w = (Inr rows, w') \<Longrightarrow> plain t \<Longrightarrow>
       (rows_items rows = [] \<longrightarrow> isl (rows_scan_none rows)) \<and>
       (\<forall>r rs b. rows_items rows = r # rs \<longrightarrow> scan_bool r = Inr b \<longrightarrow> b = (t \<in> tables w))"
    and current_answer:
      "pgx_Query P c currentTableQuery w = (Inr rows, w') \<Longrightarrow>
       (rows_items rows = [] \<longrightarrow> view w = None) \<and>
       (\<forall>r rs x. rows_items rows = r # rs \<longrightarrow> scan_string_ptr r = Inr x \<longrightarrow> x = view w)"
    and tables_answer:
      "pgx_Query P c tablesQuery w = (Inr rows, w') \<Longrightarrow>
       \<exists>ts. set ts = {t \<in> tables w. like_hosts t} \<and>
         list_all2 (\<lambda>r t. isl (scan_string r) \<or> scan_string r = Inr t) (rows_items rows) ts"
    and drop_table:
      "pgx_Exec P c (dropStatement t) w = (None, w') \<Longrightarrow> plain t \<Longrightarrow>
       tables w' = tables w - {t} \<and> view w' = (if view w = Some t then None else view w)"
    and replace_view:
      "pgx_Exec P c (viewStatement t) w = (None, w') \<Longrightarrow> plain t \<Longrightarrow>
       tables w' = tables w \<and> view w' = Some t"
    and grant_select:
      "pgx_Exec P c grantStatement w = (None, w') \<Longrightarrow> tables w' = tables w \<and> view w' = view w"
    and failed_statement:
      "pgx_Exec P c q w = (Some e, w') \<Longrightarrow> tables w' = tables w \<and> view w' = view w"

section \<open>The interface of the controllers\<close>

locale table_store =
  fixes check :: "string \<Rightarrow> ('w, gerror + bool) eff"
    and drop_it :: "string \<Rightarrow> ('w, gerror option) eff"
    and set_view :: "string \<Rightarrow> ('w, gerror option) eff"
    and current :: "('w, gerror + string option) eff"
    and listing :: "('w, gerror + string list) eff"
    and tables :: "'w \<Rightarrow> string set" and view :: "'w \<Rightarrow> string option"
  assumes check_law:
      "run_state (check t) w = (r, w') \<Longrightarrow> plain t \<Longrightarrow>
       tables (server w') = tables (server w) \<and> view (server w') = view (server w) \<and>
       (\<forall>b. r = Inr b \<longrightarrow> b = (t \<in> tables (server w)))"
    and drop_law:
      "run_state (drop_it t) w = (e, w') \<Longrightarrow> plain t \<Longrightarrow>
       (e = None \<longrightarrow> tables (server w') = tables (server w) - {t} \<and>
          view (server w') =
            (if view (server w) = Some t \<and> t \<in> tables (server w) then None else view (server w))) \<and>
       (e \<noteq> None \<longrightarrow> tables (server w') = tables (server w) \<and> view (server w') = view (server w))"
    and set_view_law:
      "run_state (set_view t) w = (e, w') \<Longrightarrow> plain t \<Longrightarrow>
       tables (server w') = tables (server w) \<and>
       (e = None \<longrightarrow> view (server w') = Some t) \<and> view (server w') \<in> {view (server w), Some t}"
    and current_law:
      "run_state current w = (cr, w') \<Longrightarrow>
       tables (server w') = tables (server w) \<and> view (server w') = view (server w) \<and>
       (\<forall>x. cr = Inr x \<longrightarrow> x = view (server w))"
    and listing_law:
      "run_state listing w = (lr, w') \<Longrightarrow>
       tables (server w') = tables (server w) \<and> view (server w') = view (server w) \<and>
       (\<forall>ts. lr = Inr ts \<longrightarrow> set ts = {t \<in> tables (server w). like_hosts t})"
begin

text \<open>After the view was set, asking for the current table gives that table, or fails.\<close>

lemma current_after_set_view:
  assumes "run_state (set_view t) w = (None, w')" and "plain t"
    and "run_state current w' = (Inr x, w'')"
  shows "x = Some t"
  using set_view_law [OF assms(1,2)] current_law [OF assms(3)] by simp

text \<open>A dropped table is neither found nor listed, and it is not the current one.\<close>

lemma gone_after_drop:
  assumes "run_state (drop_it t) w = (None, w')" and "plain t"
  shows "run_state (check t) w' = (Inr b, w'') \<Longrightarrow> \<not> b"
    and "run_state listing w' = (Inr ts, w'') \<Longrightarrow> t \<notin> set ts"
    and "run_state current w' = (Inr x, w'') \<Longrightarrow> (\<forall>u. view (server w) = Some u \<longrightarrow> u \<in> tables (server w)) \<Longrightarrow>
      x \<noteq> Some t"
  using drop_law [OF assms] check_law [of t w' "Inr b" w''] listing_law [of w' "Inr ts" w'']
    current_law [of w' "Inr x" w''] assms(2)
  by (auto split: if_splits)

end

section \<open>The application database provides it\<close>

context sql_server
begin

lemma run_RunQuery:
  "db_connection db = Some c \<Longrightarrow> run_state (RunQuery P db q) w = (r, w') \<Longrightarrow>
   \<exists>a s. pgx_Query P c q (server w) = (a, s) \<and> server w' = s \<and>
     (\<forall>rows. r = Inr rows \<longleftrightarrow> a = Inr rows)"
  by (auto simp: RunQuery_def split: prod.splits sum.splits)

lemma run_Exec:
  "db_connection db = Some c \<Longrightarrow> run_state (Exec P db q) w = (r, w') \<Longrightarrow>
   \<exists>a s. pgx_Exec P c q (server w) = (a, s) \<and> server w' = s \<and> (r = None \<longleftrightarrow> a = None)"
  by (auto simp: Exec_def split: prod.splits option.splits)

lemma run_bind_E:
  assumes "run_state (State_Monad.bind m f) w = (r, w')"
  obtains x w1 where "run_state m w = (x, w1)" and "run_state (f x) w1 = (r, w')"
  using assms by (auto split: prod.splits)

lemma CheckIfTableExists_law:
  assumes "db_connection db = Some c" and run: "run_state (CheckIfTableExists P db t) w = (r, w')"
    and "plain t"
  shows "tables (server w') = tables (server w) \<and> view (server w') = view (server w) \<and>
    (\<forall>b. r = Inr b \<longrightarrow> b = (t \<in> tables (server w)))"
proof -
  from run assms(3) obtain x w1 where q: "run_state (RunQuery P db (existsQuery t)) w = (x, w1)"
    and rest: "w' = w1" "r = (case x of Inl e \<Rightarrow> Inl e | Inr rows \<Rightarrow>
      (case rows_items rows of [] \<Rightarrow> rows_scan_none rows | r # _ \<Rightarrow> scan_bool r))"
    by (auto simp: CheckIfTableExists_def split: prod.splits sum.splits)
  from run_RunQuery [OF assms(1) q] obtain a s where a: "pgx_Query P c (existsQuery t) (server w) = (a, s)"
    "server w1 = s" "\<And>rows. x = Inr rows \<longleftrightarrow> a = Inr rows" by auto
  show ?thesis
    using query_keeps [OF a(1), of t] a rest exists_answer [of t "server w" _ s] assms(3)
    by (auto split: sum.splits list.splits)
qed

lemma GetCurrentTable_law:
  assumes "db_connection db = Some c" and run: "run_state (GetCurrentTable P db) w = (r, w')"
  shows "tables (server w') = tables (server w) \<and> view (server w') = view (server w) \<and>
    (\<forall>x. r = Inr x \<longrightarrow> x = view (server w))"
proof -
  from run obtain x w1 where q: "run_state (RunQuery P db currentTableQuery) w = (x, w1)"
    and rest: "w' = w1" "r = (case x of Inl e \<Rightarrow> Inl e | Inr rows \<Rightarrow>
      (case rows_items rows of [] \<Rightarrow> Inr None | r # _ \<Rightarrow> scan_string_ptr r))"
    by (auto simp: GetCurrentTable_def split: prod.splits sum.splits)
  from run_RunQuery [OF assms(1) q] obtain a s where a: "pgx_Query P c currentTableQuery (server w) = (a, s)"
    "server w1 = s" "\<And>rows. x = Inr rows \<longleftrightarrow> a = Inr rows" by auto
  show ?thesis
    using query_keeps [OF a(1)] a rest current_answer [of "server w" _ s]
    by (auto split: sum.splits list.splits)
qed

lemma strings_loop_answer:
  "list_all2 (\<lambda>r t. isl (scan_string r) \<or> scan_string r = Inr t) rows ts \<Longrightarrow>
   strings_loop rows acc = Inr ids \<Longrightarrow> ids = acc @ ts"
  by (induction rows ts arbitrary: acc rule: list_all2_induct) (fastforce split: sum.splits)+

lemma GetCyndiTables_law:
  assumes "db_connection db = Some c" and run: "run_state (GetCyndiTables P db) w = (r, w')"
  shows "tables (server w') = tables (server w) \<and> view (server w') = view (server w) \<and>
    (\<forall>ts. r = Inr ts \<longrightarrow> set ts = {t \<in> tables (server w). like_hosts t})"
proof -
  from run obtain x w1 where q: "run_state (RunQuery P db tablesQuery) w = (x, w1)"
    and rest: "w' = w1" "r = (case x of Inl e \<Rightarrow> Inl e | Inr rows \<Rightarrow> strings_loop (rows_items rows) [])"
    by (auto simp: GetCyndiTables_def split: prod.splits sum.splits)
  from run_RunQuery [OF assms(1) q] obtain a s where a: "pgx_Query P c tablesQuery (server w) = (a, s)"
    "server w1 = s" "\<And>rows. x = Inr rows \<longleftrightarrow> a = Inr rows" by auto
  show ?thesis
    using query_keeps [OF a(1)] a rest tables_answer [of "server w" _ s] strings_loop_answer
    by (fastforce split: sum.splits)
qed

lemma DeleteTable_law:
  assumes db: "db_connection db = Some c" and run: "run_state (DeleteTable P db t) w = (r, w')"
    and t: "plain t"
  shows "(r = None \<longrightarrow> tables (server w') = tables (server w) - {t} \<and>
      view (server w') =
        (if view (server w) = Some t \<and> t \<in> tables (server w) then None else view (server w))) \<and>
    (r \<noteq> None \<longrightarrow> tables (server w') = tables (server w) \<and> view (server w') = view (server w))"
proof -
  from run obtain x w1 where e: "run_state (CheckIfTableExists P db t) w = (x, w1)"
    and rest: "run_state (case x of Inl err \<Rightarrow> ret (Some err)
      | Inr ex \<Rightarrow> if \<not> ex then ret None else Exec P db (dropStatement t)) w1 = (r, w')"
    unfolding DeleteTable_def by (rule run_bind_E)
  note checked = CheckIfTableExists_law [OF db e t]
  show ?thesis
  proof (cases "x = Inr True")
    case True
    with rest have "run_state (Exec P db (dropStatement t)) w1 = (r, w')" by simp
    from run_Exec [OF db this] obtain a where
      a: "pgx_Exec P c (dropStatement t) (server w1) = (a, server w')" "r = None \<longleftrightarrow> a = None" by auto
    from checked True have "t \<in> tables (server w)" by blast
    with a checked drop_table [OF _ t, of "server w1" "server w'"] show ?thesis
      using failed_statement [of "dropStatement t" "server w1" _ "server w'"] by (cases a) auto
  qed (use rest checked in \<open>auto split: sum.splits if_splits\<close>)
qed

lemma UpdateView_law:
  assumes db: "db_connection db = Some c" and run: "run_state (UpdateView P db t) w = (r, w')"
    and t: "plain t"
  shows "tables (server w') = tables (server w) \<and>
    (r = None \<longrightarrow> view (server w') = Some t) \<and> view (server w') \<in> {view (server w), Some t}"
proof -
  from run obtain x w1 where v: "run_state (Exec P db (viewStatement t)) w = (x, w1)"
    and rest: "run_state (case x of Some err \<Rightarrow> ret (Some err) | None \<Rightarrow> Exec P db grantStatement) w1 = (r, w')"
    unfolding UpdateView_def by (rule run_bind_E)
  from run_Exec [OF db v] obtain a where a: "pgx_Exec P c (viewStatement t) (server w) = (a, server w1)"
    "x = None \<longleftrightarrow> a = None" by auto
  show ?thesis
  proof (cases x)
    case None
    with rest have "run_state (Exec P db grantStatement) w1 = (r, w')" by simp
    from run_Exec [OF db this] obtain b where
      "pgx_Exec P c grantStatement (server w1) = (b, server w')" "r = None \<longleftrightarrow> b = None" by auto
    with a None replace_view [OF _ t, of "server w" "server w1"] show ?thesis
      using grant_select [of "server w1" "server w'"] failed_statement [of grantStatement "server w1" _ "server w'"]
      by (cases b) auto
  qed (use a rest failed_statement [of "viewStatement t" "server w" _ "server w1"] in auto)
qed

end

text \<open>
  A database with an open connection to such a server is a table store.
\<close>

locale app_server = sql_server +
  fixes db :: BaseDatabase
  assumes connected: "db_connection db = Some c"

sublocale app_server \<subseteq> store: table_store "CheckIfTableExists P db" "DeleteTable P db"
  "UpdateView P db" "GetCurrentTable P db" "GetCyndiTables P db" tables view
  by (rule table_store.intro; (rule CheckIfTableExists_law [OF connected] |
      rule DeleteTable_law [OF connected] | rule UpdateView_law [OF connected] |
      rule GetCurrentTable_law [OF connected] | rule GetCyndiTables_law [OF connected]))

end
