(* ===== verification/Reference.thy ===== *)
theory Reference
  imports AppServer Connect Lifecycle
begin

text \<open>
  An in-memory cluster that keeps the promises the development relies on: a PostgreSQL
  server for the statements of the operator, the Kubernetes objects it reads and writes,
  and the accessors of unstructured objects. It shows that the contracts can be met and
  gives the concrete runs on which theorems are instantiated. \<open>cl_flaky\<close> makes the query
  for the current table fail, \<open>cl_up\<close> tells whether connections are accepted.
\<close>

section \<open>Unstructured objects\<close>

fun nested :: "goval \<Rightarrow> string list \<Rightarrow> goval option" where
  "nested g [] = Some g"
| "nested (GMap m) (k # ks) = (case fmlookup m k of None \<Rightarrow> None | Some g \<Rightarrow> nested g ks)"
| "nested _ (k # ks) = None"

fun set_nested :: "goval \<Rightarrow> goval \<Rightarrow> string list \<Rightarrow> goval" where
  "set_nested v g [] = v"
| "set_nested v (GMap m) (k # ks) =
     GMap (fmupd k (set_nested v (case fmlookup m k of None \<Rightarrow> GMap fmempty | Some g \<Rightarrow> g) ks) m)"
| "set_nested v g (k # ks) = g"

definition wrong_type :: gerror where
  "wrong_type = errors_New ''accessor error''"

definition as_string :: "goval \<Rightarrow> string" where
  "as_string g = (case g of GStr s \<Rightarrow> s | _ \<Rightarrow> '''')"

definition ref_labels :: "goval \<Rightarrow> strmap" where
  "ref_labels g = (case nested g [''metadata'', ''labels''] of Some (GMap m) \<Rightarrow> fmmap as_string m | _ \<Rightarrow> fmempty)"

definition ref_u :: unstructured_api where
  "ref_u = \<lparr>
     u_GetName = (\<lambda>g. case nested g [''metadata'', ''name''] of Some (GStr s) \<Rightarrow> s | _ \<Rightarrow> ''''),
     u_GetLabels = ref_labels,
     u_SetLabels = (\<lambda>ls g. set_nested (GMap (fmmap GStr ls)) g [''metadata'', ''labels'']),
     u_SetGroupVersionKind = (\<lambda>grp ver k g.
       set_nested (GStr k) (set_nested (GStr (grp @ ''/'' @ ver)) g [''apiVersion'']) [''kind'']),
     u_SetControllerReference = (\<lambda>own g. Inr (set_nested (GStr (GetUIDString own)) g [''metadata'', ''owner''])),
     u_NestedString = (\<lambda>g p. case nested g p of None \<Rightarrow> Inr None | Some (GStr s) \<Rightarrow> Inr (Some s)
       | Some _ \<Rightarrow> Inl wrong_type),
     u_NestedSlice = (\<lambda>g p. case nested g p of None \<Rightarrow> Inr None | Some (GList xs) \<Rightarrow> Inr (Some xs)
       | Some _ \<Rightarrow> Inl wrong_type),
     u_NestedMap = (\<lambda>g p. case nested g p of None \<Rightarrow> Inr None | Some (GMap m) \<Rightarrow> Inr (Some m)
       | Some _ \<Rightarrow> Inl wrong_type),
     u_SetNestedField = (\<lambda>g v p. Inr (set_nested v g p))\<rparr>"

section \<open>The cluster\<close>

record cluster =
  cl_pipelines :: "CyndiPipeline list"
  cl_configmaps :: "(string \<times> strmap) list"
  cl_secrets :: "(string \<times> strmap) list"
  cl_connectors :: "goval list"
  cl_tables :: "string list"
  cl_view :: "string option"
  cl_counts :: "(string \<times> int) list"
  cl_ids :: "(string \<times> string list) list"
  cl_clock :: int
  cl_up :: bool
  cl_flaky :: bool

definition not_found :: gerror where
  "not_found = \<lparr>ErrorText = ''not found'', IsNotFound = True, IsConflict = False\<rparr>"

definition refused :: gerror where
  "refused = errors_New ''connection refused''"

section \<open>PostgreSQL\<close>

definition cannot_scan :: gerror where
  "cannot_scan = errors_New ''cannot scan''"

definition int_row :: "int \<Rightarrow> Row" where
  "int_row n = \<lparr>scan_int64 = Inr n, scan_string = Inl cannot_scan, scan_string_ptr = Inl cannot_scan,
     scan_bool = Inl cannot_scan\<rparr>"

definition string_row :: "string \<Rightarrow> Row" where
  "string_row s = \<lparr>scan_int64 = Inl cannot_scan, scan_string = Inr s, scan_string_ptr = Inr (Some s),
     scan_bool = Inl cannot_scan\<rparr>"

definition bool_row :: "bool \<Rightarrow> Row" where
  "bool_row b = \<lparr>scan_int64 = Inl cannot_scan, scan_string = Inl cannot_scan,
     scan_string_ptr = Inl cannot_scan, scan_bool = Inr b\<rparr>"

definition rows :: "Row list \<Rightarrow> Rows" where
  "rows rs = \<lparr>rows_items = rs, rows_scan_none = Inl cannot_scan, rows_Err = None\<rparr>"

definition ref_query :: "string \<Rightarrow> cluster \<Rightarrow> gerror + Rows" where
  "ref_query q w =
     (if q = currentTableQuery then
        if cl_flaky w then Inl (errors_New ''canceling statement due to user request'')
        else Inr (rows (case cl_view w of None \<Rightarrow> [] | Some t \<Rightarrow> [string_row t]))
      else if q = tablesQuery then Inr (rows (map string_row (sort (filter like_hosts (cl_tables w)))))
      else if list_ex (\<lambda>t. q = existsQuery t) (cl_tables w) then Inr (rows [bool_row True])
      else (case map_of (cl_counts w) q of
              Some n \<Rightarrow> Inr (rows [int_row n])
            | None \<Rightarrow>
                (case map_of (cl_ids w) q of
                   Some ids \<Rightarrow> Inr (rows (map string_row ids))
                 | None \<Rightarrow> Inr (rows [bool_row False]))))"

definition create_prefix :: string where
  "create_prefix = ''CREATE TABLE inventory.''"

definition ref_exec :: "string \<Rightarrow> cluster \<Rightarrow> gerror option \<times> cluster" where
  "ref_exec q w =
     (case find (\<lambda>t. q = dropStatement t) (cl_tables w) of
        Some t \<Rightarrow> (None, w\<lparr>cl_tables := filter (\<lambda>u. u \<noteq> t) (cl_tables w),
          cl_view := (if cl_view w = Some t then None else cl_view w)\<rparr>)
      | None \<Rightarrow>
     (case find (\<lambda>t. q = viewStatement t) (cl_tables w) of
        Some t \<Rightarrow> (None, w\<lparr>cl_view := Some t\<rparr>)
      | None \<Rightarrow>
     (if q = grantStatement then (None, w)
      else if take (length create_prefix) q = create_prefix then
        (None, w\<lparr>cl_tables := cl_tables w @ [drop (length create_prefix) q]\<rparr>)
      else (Some (errors_New ''syntax error''), w))))"

definition ref_pg :: "cluster pg_api" where
  "ref_pg = \<lparr>pgx_Connect = (\<lambda>s w. (if cl_up w then Inr 1 else Inl refused, w)),
     pgx_Query = (\<lambda>c q w. (ref_query q w, w)),
     pgx_Exec = (\<lambda>c. ref_exec),
     pgx_Close = (\<lambda>c w. (None, w))\<rparr>"

section \<open>Kubernetes\<close>

definition is_pipeline :: "string \<Rightarrow> string \<Rightarrow> CyndiPipeline \<Rightarrow> bool" where
  "is_pipeline ns n p \<longleftrightarrow> meta_Namespace (Meta p) = ns \<and> meta_Name (Meta p) = n"

definition found :: "'a option \<Rightarrow> gerror + 'a" where
  "found x = (case x of None \<Rightarrow> Inl not_found | Some y \<Rightarrow> Inr y)"

definition ref_replace :: "CyndiPipeline \<Rightarrow> cluster \<Rightarrow> cluster" where
  "ref_replace p w = w\<lparr>cl_pipelines := map (\<lambda>q.
     if is_pipeline (meta_Namespace (Meta p)) (meta_Name (Meta p)) q then p else q) (cl_pipelines w)\<rparr>"

definition ref_kube :: "cluster kube_api" where
  "ref_kube = \<lparr>
     kube_get_pipeline = (\<lambda>ns n w. (found (find (is_pipeline ns n) (cl_pipelines w)), w)),
     kube_get_configmap = (\<lambda>ns n w. (found (map_option Some (map_of (cl_configmaps w) ns)), w)),
     kube_get_secret = (\<lambda>ns n w. (found (map_option
       (\<lambda>d. \<lparr>secret_Name = n, secret_Data = d\<rparr>) (map_of (cl_secrets w) n)), w)),
     kube_get_connector = (\<lambda>ns n w. (found (find (\<lambda>g. u_GetName ref_u g = n) (cl_connectors w)), w)),
     kube_list_pipelines = (\<lambda>w. (Inr (cl_pipelines w), w)),
     kube_list_connectors = (\<lambda>ns ls w. (Inr (filter (\<lambda>g. list_all (\<lambda>k. fmlookup (ref_labels g) k = fmlookup ls k)
       (sorted_list_of_fset (fmdom ls))) (cl_connectors w)), w)),
     kube_create_connector = (\<lambda>g w. (None, w\<lparr>cl_connectors := cl_connectors w @ [g]\<rparr>)),
     kube_update_connector = (\<lambda>g w. (None, w\<lparr>cl_connectors := map (\<lambda>h.
       if u_GetName ref_u h = u_GetName ref_u g then g else h) (cl_connectors w)\<rparr>)),
     kube_delete_connector = (\<lambda>ns n w. (None, w\<lparr>cl_connectors :=
       filter (\<lambda>g. u_GetName ref_u g \<noteq> n) (cl_connectors w)\<rparr>)),
     kube_update_pipeline = (\<lambda>p w. (Inr p, ref_replace p w)),
     kube_update_status = (\<lambda>p w. (Inr p, ref_replace p w))\<rparr>"

section \<open>The environment\<close>

definition ref_text :: text_api where
  "ref_text = \<lparr>template_execute = (\<lambda>script data. Inl (errors_New ''template: unexpected action'')),
     json_error = (\<lambda>s. errors_New ''invalid character'')\<rparr>"

definition ref_cmp :: cmp_api where
  "ref_cmp = \<lparr>cmp_Diff = (\<lambda>flt show a b. Returns (if a = b then '''' else ''changed'')),
     cmp_EqualStatus = (=)\<rparr>"

definition ref_env :: "cluster env" where
  "ref_env = \<lparr>env_meta = doc_meta, env_pg = ref_pg, env_kube = ref_kube, env_u = ref_u,
     env_text = ref_text, env_cmp = ref_cmp, env_Getenv = (\<lambda>_. ''''),
     env_UnixNano = (\<lambda>w. (cl_clock w, w\<lparr>cl_clock := cl_clock w + 1\<rparr>)),
     env_Now = (\<lambda>w. (''now'', w))\<rparr>"

lemma ref_env_simps [simp]:
  "env_meta ref_env = doc_meta" "env_pg ref_env = ref_pg" "env_kube ref_env = ref_kube"
  "env_u ref_env = ref_u" "env_text ref_env = ref_text" "env_cmp ref_env = ref_cmp"
  by (simp_all add: ref_env_def)

section \<open>The contract holds\<close>

lemma existsQuery_inject [simp]: "existsQuery t = existsQuery t' \<longleftrightarrow> t = t'"
  by (simp add: existsQuery_def sq_def)

lemma viewStatement_inject [simp]: "viewStatement t = viewStatement t' \<longleftrightarrow> t = t'"
  by (simp add: viewStatement_def viewTemplate_def text_lines_def)

lemma existsQuery_differs [simp]: "existsQuery t \<noteq> currentTableQuery" "existsQuery t \<noteq> tablesQuery"
    "tablesQuery \<noteq> currentTableQuery"
  by (simp_all add: existsQuery_def currentTableQuery_def tablesQuery_def sq_def)

lemma create_differs [simp]:
  "take (length create_prefix) (dropStatement t) \<noteq> create_prefix"
  "take (length create_prefix) (viewStatement t) \<noteq> create_prefix"
  by (simp_all add: create_prefix_def dropStatement_def viewStatement_def viewTemplate_def text_lines_def)

lemmas row_simps = int_row_def string_row_def bool_row_def rows_def

lemma find_eq [simp]: "find ((=) t) ts = (if t \<in> set ts then Some t else None)"
  by (induction ts) auto

lemma find_False [simp]: "find (\<lambda>u. False) ts = None"
  by (induction ts) auto

lemma ref_exec_drop:
  "ref_exec (dropStatement t) w =
     (if t \<in> set (cl_tables w)
      then (None, w\<lparr>cl_tables := filter (\<lambda>u. u \<noteq> t) (cl_tables w),
        cl_view := (if cl_view w = Some t then None else cl_view w)\<rparr>)
      else (Some (errors_New ''syntax error''), w))"
  by (simp add: ref_exec_def)

lemma ref_exec_view:
  "ref_exec (viewStatement t) w =
     (if t \<in> set (cl_tables w) then (None, w\<lparr>cl_view := Some t\<rparr>)
      else (Some (errors_New ''syntax error''), w))"
  by (simp add: ref_exec_def)

lemma ref_exec_grant: "ref_exec grantStatement w = (None, w)"
  by (simp add: ref_exec_def)

lemma ref_exec_failed: "ref_exec q w = (Some e, w') \<Longrightarrow> w' = w"
  by (auto simp: ref_exec_def split: option.splits if_splits)

lemma ref_query_exists:
  assumes "ref_query (existsQuery t) w = Inr rs"
  shows "(rows_items rs = [] \<longrightarrow> isl (rows_scan_none rs)) \<and>
    (\<forall>r rs' b. rows_items rs = r # rs' \<longrightarrow> scan_bool r = Inr b \<longrightarrow> b = (t \<in> set (cl_tables w)))"
  using assms by (auto simp: ref_query_def row_simps list_ex_iff Cons_eq_map_conv split: if_splits option.splits)

lemma ref_query_current:
  assumes "ref_query currentTableQuery w = Inr rs"
  shows "(rows_items rs = [] \<longrightarrow> cl_view w = None) \<and>
    (\<forall>r rs' x. rows_items rs = r # rs' \<longrightarrow> scan_string_ptr r = Inr x \<longrightarrow> x = cl_view w)"
  using assms by (auto simp: ref_query_def row_simps split: if_splits option.splits)

lemma ref_query_tables:
  "ref_query tablesQuery w = Inr (rows (map string_row (sort (filter like_hosts (cl_tables w)))))"
  by (simp add: ref_query_def)

interpretation ref: sql_server ref_pg 1 "\<lambda>w. set (cl_tables w)" cl_view
proof
  show "pgx_Query ref_pg 1 tablesQuery w = (Inr rs, w') \<Longrightarrow>
      \<exists>ts. set ts = {t \<in> set (cl_tables w). like_hosts t} \<and>
        list_all2 (\<lambda>r t. isl (scan_string r) \<or> scan_string r = Inr t) (rows_items rs) ts" for w rs w'
    by (rule exI [of _ "sort (filter like_hosts (cl_tables w))"])
      (auto simp: ref_pg_def ref_query_tables rows_def string_row_def list_all2_map1 list_all2_same)
qed (auto simp: ref_pg_def ref_query_exists ref_query_current ref_exec_drop ref_exec_view ref_exec_grant
    dest: ref_exec_failed ref_query_exists ref_query_current split: if_splits)

section \<open>Sample objects\<close>

definition ref_spec :: CyndiPipelineSpec where
  "ref_spec = \<lparr>AppName = ''advisor'', InsightsOnly = False, AdditionalFilters = [], ConnectCluster = None,
     MaxAge = None, ValidationThreshold = None, Topic = None, DbSecret = None, InventoryDbSecret = None,
     DBTableIndexSQL = '''', Refresh = '''', ManagedConnectors = None, ConnectorPaused = False\<rparr>"

definition ref_ObjectMeta :: ObjectMeta where
  "ref_ObjectMeta = \<lparr>meta_Name = ''advisor'', meta_Namespace = ''app'', meta_UID = ''uid'',
     meta_Generation = 1, meta_ResourceVersion = ''1'', meta_DeletionTimestamp = None,
     meta_Finalizers = []\<rparr>"

definition ref_pipeline :: "CyndiPipelineStatus \<Rightarrow> CyndiPipeline" where
  "ref_pipeline st = \<lparr>Meta = ref_ObjectMeta, Spec = ref_spec, Status = st\<rparr>"

text \<open>The status during the initial sync of a version.\<close>

definition ref_status :: "string \<Rightarrow> CyndiPipelineStatus" where
  "ref_status v = zero_Status\<lparr>PipelineVersion := v, status_TableName := TableName v,
     status_ConnectorName := ConnectorName v ''advisor'', InitialSyncInProgress := True\<rparr>"

definition ref_connector :: "string \<Rightarrow> goval" where
  "ref_connector name = GMap (fmap_of_list [(''metadata'', GMap (fmap_of_list
     [(''name'', GStr name), (''labels'', GMap (fmap_of_list [(LabelOwner, GStr ''uid'')]))]))])"

definition ref_secret :: strmap where
  "ref_secret = fmap_of_list [(''db.host'', ''db''), (''db.user'', ''u''), (''db.password'', ''p''),
     (''db.name'', ''n''), (''db.port'', ''5432'')]"

definition ref_cluster :: "CyndiPipelineStatus \<Rightarrow> cluster" where
  "ref_cluster st = \<lparr>cl_pipelines = [ref_pipeline st], cl_configmaps = [],
     cl_secrets = [(''host-inventory-read-only-db'', ref_secret), (''advisor-db'', ref_secret)],
     cl_connectors = [ref_connector ''cyndi-advisor-1-0'', ref_connector ''cyndi-advisor-1-1'',
       ref_connector ''cyndi-advisor-1-2''],
     cl_tables = [''hosts_v1_0'', ''hosts_v1_1'', ''hosts_v1_2'', ''events''],
     cl_view = Some ''hosts_v1_1'', cl_counts = [], cl_ids = [], cl_clock = 3, cl_up = True,
     cl_flaky = False\<rparr>"

definition start :: "'w \<Rightarrow> ('w, effect) world" where
  "start s = \<lparr>server = s, effects = []\<rparr>"

end
