(* ===== verification/StaleDeletion.thy ===== *)
theory StaleDeletion
  imports PipelineController Reference
begin

text \<open>
  What \<open>deleteStaleDependencies\<close> may and does remove: its requests for any servers, and
  its effect on the tables and the view for servers that keep the contract of
  \<open>sql_server\<close>.
\<close>

section \<open>Requests\<close>

lemma only_deleteStaleConnectors [only_intros]:
  "(\<And>n. n \<notin> set keep \<Longrightarrow> KubeDelete KindConnector ns n \<in> S) \<Longrightarrow>
   only S (deleteStaleConnectors E ns keep cs errors)"
  by (induction cs arbitrary: errors) (auto intro!: only_intros)

lemma only_deleteStaleTables [only_intros]:
  "(\<And>c t. PgQuery c (existsQuery t) \<in> S) \<Longrightarrow> (\<And>c t. t \<notin> set keep \<Longrightarrow> PgExec c (dropStatement t) \<in> S) \<Longrightarrow>
   only S (deleteStaleTables E db keep ts errors)"
  by (induction ts arbitrary: errors) (auto intro!: only_intros)

text \<open>The requests the removal may make when the tables and connectors in the lists are to stay.\<close>

definition stale_requests :: "string \<Rightarrow> string list \<Rightarrow> string list \<Rightarrow> effect set" where
  "stale_requests namespace tables connectors =
     {e. \<exists>c q. e = PgQuery c q} \<union> {e. \<exists>c t. e = PgExec c (dropStatement t) \<and> t \<notin> set tables} \<union>
     {e. \<exists>labels. e = KubeList KindConnector namespace labels} \<union>
     {e. \<exists>n. e = KubeDelete KindConnector namespace n \<and> n \<notin> set connectors}"

lemma stale_requestsD:
  "set es \<subseteq> stale_requests ns tables connectors \<Longrightarrow> PgExec c q \<in> set es \<Longrightarrow>
     \<exists>u. q = dropStatement u \<and> u \<notin> set tables"
  "set es \<subseteq> stale_requests ns tables connectors \<Longrightarrow> KubeDelete k ns' n \<in> set es \<Longrightarrow>
     k = KindConnector \<and> ns' = ns \<and> n \<notin> set connectors"
  by (auto simp: stale_requests_def dest!: subsetD)

lemma only_removeStale:
  assumes "currentKeep (env_meta E) (it_Instance i) (case current of Inl _ \<Rightarrow> None | Inr t \<Rightarrow> t) =
    Returns (tables, connectors)"
  shows "only (stale_requests (meta_Namespace (Meta (it_Instance i)))
      (versionTables (env_meta E) (it_Instance i) @ tables)
      (versionConnectors (env_meta E) (it_Instance i) @ connectors)) (removeStale E i current)"
  unfolding removeStale_def Let_def assms
  by (auto intro!: only_intros simp: stale_requests_def)

lemma run_bindD:
  "run_state (State_Monad.bind m f) w = (r, w') \<Longrightarrow>
   \<exists>x w1. run_state m w = (x, w1) \<and> run_state (f x) w1 = (r, w')"
  by (auto split: prod.splits)

lemma run_deleteStaleDependencies:
  assumes "run_state (deleteStaleDependencies E i) w = (r, w')"
    and "run_state (GetCurrentTable (env_pg E) (it_AppDb i)) w = (x, w1)"
  shows "run_state (removeStale E i x) w1 = (r, w')"
  using assms by (simp add: deleteStaleDependencies_def)

lemma GetCurrentTable_effects:
  "run_state (GetCurrentTable P db) w = (x, w1) \<Longrightarrow>
   \<exists>es. effects w1 = effects w @ es \<and> set es \<subseteq> {e. \<exists>c q. e = PgQuery c q}"
  by (rule only_run) (auto intro!: only_intros)

text \<open>The removal, as a whole, given the answer about the current table.\<close>

lemma deleteStaleDependencies_requests:
  assumes run: "run_state (deleteStaleDependencies E i) w = (r, w')"
    and current: "run_state (GetCurrentTable (env_pg E) (it_AppDb i)) w = (x, w1)"
    and keep: "currentKeep (env_meta E) (it_Instance i) (case x of Inl _ \<Rightarrow> None | Inr t \<Rightarrow> t) =
      Returns (tables, connectors)"
  shows "\<exists>es. effects w' = effects w @ es \<and> set es \<subseteq> stale_requests (meta_Namespace (Meta (it_Instance i)))
    (versionTables (env_meta E) (it_Instance i) @ tables)
    (versionConnectors (env_meta E) (it_Instance i) @ connectors)"
proof -
  obtain es where es: "effects w1 = effects w @ es" "set es \<subseteq> {e. \<exists>c q. e = PgQuery c q}"
    using GetCurrentTable_effects [OF current] by blast
  obtain es' where es': "effects w' = effects w1 @ es'"
    "set es' \<subseteq> stale_requests (meta_Namespace (Meta (it_Instance i)))
      (versionTables (env_meta E) (it_Instance i) @ tables)
      (versionConnectors (env_meta E) (it_Instance i) @ connectors)"
    using only_run [OF only_removeStale [OF keep] run_deleteStaleDependencies [OF run current]] by blast
  have "set es \<subseteq> stale_requests (meta_Namespace (Meta (it_Instance i)))
      (versionTables (env_meta E) (it_Instance i) @ tables)
      (versionConnectors (env_meta E) (it_Instance i) @ connectors)"
    using es(2) by (auto simp: stale_requests_def)
  with es es' show ?thesis by (intro exI [of _ "es @ es'"]) simp
qed


section \<open>Effect on the database\<close>

text \<open>Requests to Kubernetes do not change what \<open>f\<close> reads of the outside.\<close>

definition apart :: "('w \<Rightarrow> 'a) \<Rightarrow> 'w kube_api \<Rightarrow> bool" where
  "apart f K \<longleftrightarrow> (\<forall>ns ls w. f (snd (kube_list_connectors K ns ls w)) = f w) \<and>
     (\<forall>ns n w. f (snd (kube_delete_connector K ns n w)) = f w)"

lemma apartD:
  "apart f K \<Longrightarrow> kube_list_connectors K ns ls w = (a, w') \<Longrightarrow> f w' = f w"
  "apart f K \<Longrightarrow> kube_delete_connector K ns n w = (b, w') \<Longrightarrow> f w' = f w"
  by (metis apart_def snd_conv)+

lemma GetConnectorsForOwner_apart:
  "apart f (env_kube E) \<Longrightarrow> run_state (GetConnectorsForOwner E ns own) w = (r, w') \<Longrightarrow>
   f (server w') = f (server w)"
  by (auto simp: GetConnectorsForOwner_def Let_def split: prod.splits dest: apartD)

lemma DeleteConnector_apart:
  "apart f (env_kube E) \<Longrightarrow> run_state (DeleteConnector E n ns) w = (r, w') \<Longrightarrow>
   f (server w') = f (server w)"
  by (auto simp: DeleteConnector_def split: prod.splits option.splits if_splits dest: apartD)

lemma deleteStaleConnectors_apart:
  assumes "apart f (env_kube E)"
    and "run_state (deleteStaleConnectors E ns keep cs errs) w = (errs', w')"
  shows "f (server w') = f (server w) \<and> (\<exists>new. errs' = errs @ new)"
  using assms(2)
proof (induction cs arbitrary: errs w)
  case (Cons c cs)
  show ?case
  proof (cases "u_GetName (env_u E) c \<in> set keep")
    case False
    with Cons.prems obtain e w1 where d: "run_state (DeleteConnector E (u_GetName (env_u E) c) ns) w = (e, w1)"
      and rest: "run_state (deleteStaleConnectors E ns keep cs
        (case e of None \<Rightarrow> errs | Some e \<Rightarrow> errs @ [e])) w1 = (errs', w')"
      by (auto split: prod.splits)
    show ?thesis
      using Cons.IH [OF rest] DeleteConnector_apart [OF assms(1) d] by (cases e) auto
  qed (use Cons in simp)
qed simp

context sql_server
begin

lemma deleteStaleTables_law:
  assumes "db_connection db = Some c" and "env_pg E = P"
    and "run_state (deleteStaleTables E db keep ts errs) w = (errs', w')" and "\<forall>t \<in> set ts. plain t"
  shows "\<exists>new. errs' = errs @ new \<and> (new = [] \<longrightarrow>
    tables (server w') = tables (server w) - (set ts - set keep) \<and>
    view (server w') =
      (if \<exists>t. view (server w) = Some t \<and> t \<in> tables (server w) \<and> t \<in> set ts - set keep then None
       else view (server w)))"
  using assms(3,4)
proof (induction ts arbitrary: errs w)
  case (Cons t ts)
  show ?case
  proof (cases "t \<in> set keep")
    case False
    with Cons.prems obtain e w1 where d: "run_state (DeleteTable P db t) w = (e, w1)"
      and rest: "run_state (deleteStaleTables E db keep ts
        (case e of None \<Rightarrow> errs | Some e \<Rightarrow> errs @ [e])) w1 = (errs', w')"
      using assms(2) by (auto split: prod.splits)
    from Cons.prems have t: "plain t" and ts: "\<forall>t \<in> set ts. plain t" by auto
    show ?thesis
    proof (cases e)
      case None
      with Cons.IH [OF rest ts] DeleteTable_law [OF assms(1) d t] False show ?thesis
        by (auto split: if_splits)
    qed (use Cons.IH [OF rest ts] in auto)
  qed (use Cons in \<open>auto split: if_splits\<close>)
qed simp

text \<open>The removal with a known answer about the current table.\<close>

lemma removeStale_law:
  assumes db: "db_connection (it_AppDb i) = Some c" and P: "env_pg E = P"
    and kube: "apart (\<lambda>w. (tables w, view w)) (env_kube E)"
    and names: "\<forall>t \<in> tables (server w). plain t"
    and keep: "currentKeep (env_meta E) (it_Instance i) (case x of Inl _ \<Rightarrow> None | Inr t \<Rightarrow> t) =
      Returns (kept, connectors)"
    and run: "run_state (removeStale E i x) w = (Returns errs, w')"
    and clean: "errs = (case x of Inl err \<Rightarrow> [err] | Inr _ \<Rightarrow> [])"
  shows "tables (server w') = {t \<in> tables (server w).
      like_hosts t \<longrightarrow> t \<in> set (versionTables (env_meta E) (it_Instance i) @ kept)}"
    and "view (server w') =
      (if \<exists>t. view (server w) = Some t \<and> t \<in> tables (server w) \<and> like_hosts t \<and>
         t \<notin> set (versionTables (env_meta E) (it_Instance i) @ kept) then None
       else view (server w))"
proof -
  let ?abs = "\<lambda>w. (tables (server w), view (server w))"
  let ?errors = "case x of Inl err \<Rightarrow> [err] | Inr _ \<Rightarrow> []"
  let ?keep = "versionTables (env_meta E) (it_Instance i) @ kept"
  from run keep obtain r1 w1 errs1 w2 r3 w3 errs4 where
    l: "run_state (GetConnectorsForOwner E (meta_Namespace (Meta (it_Instance i)))
      (GetUIDString (it_Instance i))) w = (r1, w1)" and
    k: "run_state (case r1 of Inl err \<Rightarrow> ret (?errors @ [err])
      | Inr items \<Rightarrow> deleteStaleConnectors E (meta_Namespace (Meta (it_Instance i)))
          (versionConnectors (env_meta E) (it_Instance i) @ connectors) items ?errors) w1 = (errs1, w2)" and
    g: "run_state (GetCyndiTables P (it_AppDb i)) w2 = (r3, w3)" and
    d: "run_state (case r3 of Inl err \<Rightarrow> ret (errs1 @ [err])
      | Inr listed \<Rightarrow> deleteStaleTables E (it_AppDb i) ?keep listed errs1) w3 = (errs, w')"
    by (simp add: removeStale_def Let_def P split: prod.splits)
  from GetConnectorsForOwner_apart [OF kube l] have "?abs w1 = ?abs w" by simp
  moreover have "?abs w2 = ?abs w1 \<and> (\<exists>new. errs1 = ?errors @ new)"
    using k deleteStaleConnectors_apart [OF kube, of _ _ _ ?errors w1 errs1 w2]
    by (cases r1) auto
  ultimately have w2: "?abs w2 = ?abs w" and "\<exists>new. errs1 = ?errors @ new" by auto
  then obtain new where new: "errs1 = ?errors @ new" by blast
  note g' = GetCyndiTables_law [OF db g]
  obtain ts where r3: "r3 = Inr ts" using d new clean by (cases r3) auto
  have ts: "set ts = {t \<in> tables (server w). like_hosts t}" "?abs w3 = ?abs w" using g' r3 w2 by auto
  have d': "run_state (deleteStaleTables E (it_AppDb i) ?keep ts errs1) w3 = (errs, w')" using d r3 by simp
  have plain: "\<forall>t \<in> set ts. plain t" using ts names by simp
  obtain new' where new': "errs = errs1 @ new'" and law: "new' = [] \<longrightarrow>
      tables (server w') = tables (server w3) - (set ts - set ?keep) \<and>
      view (server w') =
        (if \<exists>t. view (server w3) = Some t \<and> t \<in> tables (server w3) \<and> t \<in> set ts - set ?keep then None
         else view (server w3))"
    using deleteStaleTables_law [OF db P d' plain] by blast
  have "new' = []" using new new' clean by simp
  with law ts show "tables (server w') = {t \<in> tables (server w). like_hosts t \<longrightarrow> t \<in> set ?keep}"
    "view (server w') = (if \<exists>t. view (server w) = Some t \<and> t \<in> tables (server w) \<and> like_hosts t \<and>
         t \<notin> set ?keep then None else view (server w))"
    by (auto split: if_splits)
qed

end

lemma deleteStaleTables_errors:
  "run_state (deleteStaleTables E db keep ts errs) w = (errs', w') \<Longrightarrow> \<exists>new. errs' = errs @ new"
proof (induction ts arbitrary: errs w)
  case (Cons t ts)
  then show ?case by (fastforce split: prod.splits if_splits option.splits)
qed simp

lemma deleteStaleConnectors_errors:
  "run_state (deleteStaleConnectors E ns keep cs errs) w = (errs', w') \<Longrightarrow> \<exists>new. errs' = errs @ new"
  using deleteStaleConnectors_apart [of "\<lambda>_. ()"] by (auto simp: apart_def)

lemma removeStale_errors:
  assumes "run_state (removeStale E i x) w = (Returns errs, w')"
  shows "\<exists>new. errs = (case x of Inl err \<Rightarrow> [err] | Inr _ \<Rightarrow> []) @ new"
  using assms
  by (fastforce simp: removeStale_def Let_def split: prod.splits outcome.splits sum.splits
      dest: deleteStaleTables_errors deleteStaleConnectors_errors)

lemma stale_tables_removed_law:
  assumes pg: "sql_server (env_pg E) c tables view" and db: "db_connection (it_AppDb i) = Some c"
    and kube: "apart (\<lambda>w. (tables w, view w)) (env_kube E)"
    and names: "\<forall>t \<in> tables (server w). plain t"
    and run: "run_state (deleteStaleDependencies E i) w = (Returns [], w')"
  shows "tables (server w') = {t \<in> tables (server w). like_hosts t \<longrightarrow>
      t \<in> set (versionTables (env_meta E) (it_Instance i)) \<or>
      GetState (env_meta E) (it_Instance i) \<noteq> STATE_REMOVED \<and> view (server w) = Some t} \<and>
    (GetState (env_meta E) (it_Instance i) \<noteq> STATE_REMOVED \<longrightarrow> view (server w') = view (server w))"
proof -
  obtain x w1 where current: "run_state (GetCurrentTable (env_pg E) (it_AppDb i)) w = (x, w1)" by fastforce
  note rest = run_deleteStaleDependencies [OF run current]
  note law = sql_server.GetCurrentTable_law [OF pg db current]
  obtain y where x: "x = Inr y" using removeStale_errors [OF rest] by (cases x) auto
  obtain kept connectors where keep: "currentKeep (env_meta E) (it_Instance i) y = Returns (kept, connectors)"
    using rest x by (auto simp: removeStale_def Let_def split: outcome.splits)
  have kept: "set kept = (if GetState (env_meta E) (it_Instance i) = STATE_REMOVED then {} else set_option y)"
    using keep by (auto simp: currentKeep_def split: option.splits if_splits outcome.splits)
  have names1: "\<forall>t \<in> tables (server w1). plain t" using names law by simp
  have keep': "currentKeep (env_meta E) (it_Instance i) (case x of Inl _ \<Rightarrow> None | Inr t \<Rightarrow> t) =
      Returns (kept, connectors)" and "[] = (case x of Inl err \<Rightarrow> [err] | Inr _ \<Rightarrow> [])"
    using keep x by simp_all
  note removed = sql_server.removeStale_law [OF pg db refl kube names1 keep' rest this(2)]
  show ?thesis using removed law x kept by (auto split: if_splits)
qed


text \<open>
  C34: the removal goes on when the database fails to tell which table is current. If the
  listing and the drops that follow succeed, the table behind the view is dropped (unless
  it is the one of the current version), and with it the view applications read.
\<close>

theorem lost_answer_drops_active_table:
  assumes pg: "sql_server (env_pg E) c tables view" and db: "db_connection (it_AppDb i) = Some c"
    and kube: "apart (\<lambda>w. (tables w, view w)) (env_kube E)"
    and names: "\<forall>t \<in> tables (server w). plain t"
    and lost: "run_state (GetCurrentTable (env_pg E) (it_AppDb i)) w = (Inl err, w1)"
    and run: "run_state (deleteStaleDependencies E i) w = (Returns [err], w')"
    and active: "view (server w) = Some t" "t \<in> tables (server w)" "like_hosts t"
      "t \<notin> set (versionTables (env_meta E) (it_Instance i))"
  shows "t \<notin> tables (server w') \<and> view (server w') = None"
proof -
  note law = sql_server.GetCurrentTable_law [OF pg db lost]
  have names1: "\<forall>t \<in> tables (server w1). plain t" using names law by simp
  have keep: "currentKeep (env_meta E) (it_Instance i) (case Inl err of Inl _ \<Rightarrow> None | Inr t \<Rightarrow> t) =
      Returns ([], [])" by (simp add: currentKeep_def)
  have "[err] = (case Inl err of Inl err \<Rightarrow> [err] | Inr _ \<Rightarrow> [])" by simp
  note removed = sql_server.removeStale_law
    [OF pg db refl kube names1 keep run_deleteStaleDependencies [OF run lost] this]
  show ?thesis using removed law active by auto
qed

section \<open>Concrete runs\<close>

definition ref_db :: BaseDatabase where
  "ref_db = \<lparr>db_Config = zero_DBParams, db_connection = Some 1\<rparr>"

definition ref_config :: CyndiConfiguration where
  "ref_config = zero_CyndiConfiguration\<lparr>cfg_ConnectorTemplate := ''{}'',
     cfg_DBTableInitScript := ''CREATE TABLE inventory.{{.TableName}}''\<rparr>"

definition ref_iteration :: "CyndiPipelineStatus \<Rightarrow> iteration" where
  "ref_iteration st = (new_iteration (ref_pipeline st))\<lparr>it_AppDb := ref_db, it_config := ref_config\<rparr>"

lemma ref_apart: "apart (\<lambda>w. (set (cl_tables w), cl_view w)) (env_kube ref_env)"
  by (simp add: apart_def ref_kube_def)

text \<open>
  A pipeline in the initial sync of version \<open>1_2\<close> while the view reads the table of version
  \<open>1_1\<close>, with a table and a connector left over from version \<open>1_0\<close>.
\<close>

definition sync_world :: "bool \<Rightarrow> (cluster, effect) world" where
  "sync_world flaky = start ((ref_cluster (ref_status ''1_2''))\<lparr>cl_flaky := flaky\<rparr>)"

definition sync_run :: "bool \<Rightarrow> gerror list outcome \<times> (cluster, effect) world" where
  "sync_run flaky = run_state (deleteStaleDependencies ref_env (ref_iteration (ref_status ''1_2''))) (sync_world flaky)"

definition sync_lost :: gerror where
  "sync_lost = errors_New (''Error executing query '' @ currentTableQuery @
     '', canceling statement due to user request'')"

definition sync_current :: "bool \<Rightarrow> (gerror + string option) \<times> (cluster, effect) world" where
  "sync_current flaky = run_state (GetCurrentTable ref_pg ref_db) (sync_world flaky)"

lemma sync_results:
  "fst (sync_run False) = Returns []" "fst (sync_run True) = Returns [sync_lost]"
  "fst (sync_current False) = Inr (Some ''hosts_v1_1'')" "fst (sync_current True) = Inl sync_lost"
  by code_simp+

lemma sync_runs:
  "run_state (deleteStaleDependencies ref_env (ref_iteration (ref_status ''1_2''))) (sync_world False) =
     (Returns [], snd (sync_run False))"
  "run_state (deleteStaleDependencies ref_env (ref_iteration (ref_status ''1_2''))) (sync_world True) =
     (Returns [sync_lost], snd (sync_run True))"
  by (metis sync_run_def sync_results(1) prod.collapse, metis sync_run_def sync_results(2) prod.collapse)

lemma ref_iteration_simps [simp]:
  "it_AppDb (ref_iteration st) = ref_db" "it_Instance (ref_iteration st) = ref_pipeline st"
  "db_connection ref_db = Some 1"
  by (simp_all add: ref_iteration_def new_iteration_def ref_db_def)

lemma sync_currents:
  "run_state (GetCurrentTable (env_pg ref_env) (it_AppDb (ref_iteration (ref_status ''1_2'')))) (sync_world False) =
     (Inr (Some ''hosts_v1_1''), snd (sync_current False))"
  "run_state (GetCurrentTable (env_pg ref_env) (it_AppDb (ref_iteration (ref_status ''1_2'')))) (sync_world True) =
     (Inl sync_lost, snd (sync_current True))"
  unfolding ref_env_simps ref_iteration_simps
  by (metis sync_current_def sync_results(3) prod.collapse, metis sync_current_def sync_results(4) prod.collapse)

lemma sync_state: "GetState doc_meta (ref_pipeline (ref_status ''1_2'')) = STATE_INITIAL_SYNC"
  by code_simp

lemma sync_tables:
  "set (cl_tables (server (sync_world flaky))) = {''hosts_v1_0'', ''hosts_v1_1'', ''hosts_v1_2'', ''events''}"
  "cl_view (server (sync_world flaky)) = Some ''hosts_v1_1''"
  by (simp_all add: sync_world_def start_def ref_cluster_def)

lemma sync_version: "versionTables doc_meta (ref_pipeline (ref_status ''1_2'')) = [''hosts_v1_2'']"
  by code_simp

lemma sync_plain: "\<forall>t \<in> set (cl_tables (server (sync_world flaky))). plain t"
  by (simp add: sync_tables plain_def)

lemma ref_pipeline_simps [simp]:
  "ConnectorsManaged (ref_pipeline st)" "AppName (Spec (ref_pipeline st)) = ''advisor''"
  by (simp_all add: ConnectorsManaged_def ref_pipeline_def ref_spec_def)

lemma ref_sql: "sql_server (env_pg ref_env) 1 (\<lambda>w. set (cl_tables w)) cl_view"
  using ref.sql_server_axioms by simp

lemma ref_connected: "db_connection (it_AppDb (ref_iteration st)) = Some 1"
  by simp

lemma sync_connector: "TableNameToConnectorName ''hosts_v1_1'' ''advisor'' = Returns ''cyndi-advisor-1-1''"
  by code_simp

lemma sync_like:
  "like_hosts ''hosts_v1_0''" "like_hosts ''hosts_v1_1''" "like_hosts ''hosts_v1_2''" "\<not> like_hosts ''events''"
  by code_simp+



theorem lost_answer_drops_active_table_witness:
  "cl_view (server (snd (sync_run True))) = None \<and> cl_view (server (sync_world True)) = Some ''hosts_v1_1''"
proof -
  have "''hosts_v1_1'' \<in> set (cl_tables (server (sync_world True)))" by (simp add: sync_tables)
  moreover have "''hosts_v1_1'' \<notin> set (versionTables (env_meta ref_env) (it_Instance (ref_iteration (ref_status ''1_2''))))"
    by (simp add: sync_version)
  ultimately show ?thesis
    using lost_answer_drops_active_table [OF ref_sql ref_connected ref_apart sync_plain sync_currents(2)
      sync_runs(2) sync_tables(2)] sync_like(2) sync_tables(2) by blast
qed

end
