(* ===== verification/PipelineSafety.thy ===== *)
theory PipelineSafety
  imports ValidationController StaleDeletion
begin

text \<open>
  What the two controllers do to the outside, whatever the servers answer: which statements
  they send, which status they store, when they change the view.
\<close>

section \<open>Requests of the parts\<close>

lemma reading_sub:
  "reading \<subseteq> S \<Longrightarrow> PgQuery c q \<in> S" "reading \<subseteq> S \<Longrightarrow> KubeGet k ns n \<in> S" "reading \<subseteq> S \<Longrightarrow> KubeList k ns ls \<in> S"
  by (auto elim!: subsetD)

lemma reporting_sub:
  "reporting \<subseteq> S \<Longrightarrow> registered m \<Longrightarrow> MetricChanged m \<in> S" "reporting \<subseteq> S \<Longrightarrow> EventRecorded ty r msg a \<in> S"
  by (auto elim!: subsetD)

text \<open>Any result of the queries, when only the rest of the function matters.\<close>

lemmas any_result = post_only [OF only_GetCurrentTable [where S = UNIV]]
  post_only [OF only_CountHosts [where S = UNIV]] post_only [OF only_base_Connect [where S = UNIV]]
  post_only [OF only_UpdateView [where S = UNIV]] post_only [OF only_CheckIfTableExists [where S = UNIV]]

lemma only_checkForDeviation [only_intros]:
  "reading \<subseteq> S \<Longrightarrow> only S (checkForDeviation E i)"
  unfolding checkForDeviation_def createConnector_def Let_def
  by (auto intro!: only_intros reading_sub)

lemma only_updatePipeline [only_intros]:
  "KubeUpdatePipeline (it_Instance i) \<in> S \<Longrightarrow> only S (updatePipeline E i)"
  unfolding updatePipeline_def by (auto intro!: only_intros)

lemma only_recreateViewIfNeeded [only_intros]:
  "reading \<subseteq> S \<Longrightarrow>
   (\<And>c. ConnectorsManaged (it_Instance i) \<Longrightarrow> PgExec c (viewStatement (status_TableName (Status (it_Instance i)))) \<in> S) \<Longrightarrow>
   (\<And>c. PgExec c grantStatement \<in> S) \<Longrightarrow> only S (recreateViewIfNeeded E i)"
  unfolding recreateViewIfNeeded_def by (auto intro!: only_intros reading_sub)

lemma only_reportErrors [only_intros]:
  "(\<And>msg. EventRecorded EventTypeWarning ''Failed'' msg [] \<in> S) \<Longrightarrow> only S (reportErrors errs msg)"
  by (induction errs) (auto intro!: only_intros)

text \<open>The iteration apart from its connection to the inventory.\<close>

definition sans_inventory :: "iteration \<Rightarrow> iteration" where
  "sans_inventory i = i\<lparr>it_InventoryDb := None\<rparr>"

lemma sans_inventory_same:
  assumes "sans_inventory i' = sans_inventory i"
  shows "it_Instance i' = it_Instance i" and "it_OriginalInstance i' = it_OriginalInstance i"
    and "it_config i' = it_config i" and "it_AppDb i' = it_AppDb i"
  using assms unfolding sans_inventory_def by (cases i; cases i'; simp)+

lemma post_updateViewIfHealthier:
  assumes "reading \<subseteq> S" and "\<And>s. PgConnect s \<in> S"
    and "\<And>c. ConnectorsManaged (it_Instance i) \<Longrightarrow> PgExec c (viewStatement (status_TableName (Status (it_Instance i)))) \<in> S"
    and "\<And>c. PgExec c grantStatement \<in> S"
  shows "post (updateViewIfHealthier E i) (\<lambda>r es. set es \<subseteq> S \<and> sans_inventory (snd r) = sans_inventory i)"
proof -
  have "only S (updateViewIfHealthier E i)"
    unfolding updateViewIfHealthier_def updateView_def Let_def using assms
    by (auto intro!: only_intros reading_sub)
  moreover have "post (updateViewIfHealthier E i) (\<lambda>r es. sans_inventory (snd r) = sans_inventory i)"
    unfolding updateViewIfHealthier_def updateView_def Let_def
    by (intro post_intros any_result) (simp_all add: sans_inventory_def)
  ultimately show ?thesis unfolding only_def by (rule post_conj)
qed

section \<open>The status that is stored\<close>

text \<open>
  What the controllers rely on: the contract of the status conditions, and that an update of
  a pipeline that succeeds answers with the object as it was sent, apart from metadata other
  than the deletion timestamp. (The update carries the resource version that was read, so it
  succeeds only when nobody else has changed the object.)
\<close>

locale reconciler_env = status_conditions "env_meta E" for E :: "'w env" +
  assumes update_keeps: "kube_update_pipeline (env_kube E) p w = (Inr p', w') \<Longrightarrow>
    Spec p' = Spec p \<and> Status p' = Status p \<and>
    meta_DeletionTimestamp (Meta p') = meta_DeletionTimestamp (Meta p)"

text \<open>A status a run may store for a pipeline it has fetched.\<close>

definition follows :: "meta_api \<Rightarrow> CyndiPipeline \<Rightarrow> CyndiPipeline \<Rightarrow> bool" where
  "follows M inst p \<longleftrightarrow> wf_status M p \<and> lifecycle (GetState M inst) (GetState M p) \<and>
     meta_DeletionTimestamp (Meta p) = meta_DeletionTimestamp (Meta inst)"

definition status_ok :: "meta_api \<Rightarrow> CyndiPipeline \<Rightarrow> effect set" where
  "status_ok M inst = {e. \<forall>p. e = KubeUpdateStatus p \<longrightarrow> follows M inst p}"

lemma status_ok_simps [simp]:
  "KubeUpdateStatus p \<in> status_ok M inst \<longleftrightarrow> follows M inst p"
  "PgQuery c q \<in> status_ok M inst" "PgExec c q \<in> status_ok M inst" "PgConnect s \<in> status_ok M inst"
  "PgClose c \<in> status_ok M inst" "KubeGet k ns n \<in> status_ok M inst" "KubeList k ns ls \<in> status_ok M inst"
  "KubeCreate g \<in> status_ok M inst" "KubeUpdate g \<in> status_ok M inst" "KubeDelete k ns n \<in> status_ok M inst"
  "KubeUpdatePipeline p \<in> status_ok M inst" "EventRecorded ty r msg a \<in> status_ok M inst"
  "MetricChanged m \<in> status_ok M inst"
  by (simp_all add: status_ok_def)

lemma reading_status_ok [simp]: "reading \<subseteq> status_ok M inst"
  by (auto simp: reading_def)

lemma GetValid_with_active [simp]: "GetValid M (with_active a p) = GetValid M p"
  by (simp add: GetValid_def with_active_def)

lemma GetState_with_active [simp]: "GetState M (with_active a p) = GetState M p"
  by (simp add: GetState_def IsValid_def GetValid_def with_active_def)

lemma follows_with_active [simp]: "follows M inst (with_active a p) \<longleftrightarrow> follows M inst p"
  by (simp add: follows_def wf_status_def) (simp add: with_active_def)

lemma not_removed: "GetState M p \<noteq> STATE_REMOVED \<longleftrightarrow> meta_DeletionTimestamp (Meta p) = None"
  by (simp add: GetState_def)

lemma only_store: "follows M inst (it_Instance i) \<Longrightarrow> only (status_ok M inst) (updateStatusAndRequeue E i)"
  by (auto intro!: only_intros)

context reconciler_env
begin

lemma follows_refl: "wf_status (env_meta E) inst \<Longrightarrow> follows (env_meta E) inst inst"
  by (simp add: follows_def lifecycle.stay)

lemma follows_TransitionToNew:
  "GetState (env_meta E) inst \<noteq> STATE_REMOVED \<Longrightarrow> follows (env_meta E) inst (TransitionToNew (env_meta E) t inst)"
  by (auto simp: follows_def wf_TransitionToNew GetState_TransitionToNew GetState_def intro!: lifecycle.intros)

lemma follows_TransitionToInitialSync:
  assumes "GetState (env_meta E) inst = STATE_NEW" and "GetState (env_meta E) p = STATE_NEW" and "v \<noteq> ''''"
  shows "follows (env_meta E) inst
    (case TransitionToInitialSync (env_meta E) t v p of Inl _ \<Rightarrow> p | Inr q \<Rightarrow> q)"
proof -
  obtain q where "TransitionToInitialSync (env_meta E) t v p = Inr q"
    using assms(2) TransitionToInitialSync_iff by blast
  then show ?thesis
    using wf_TransitionToInitialSync [OF assms(3)] GetState_TransitionToInitialSync [OF assms(3)] assms(1)
      not_removed [of "env_meta E" inst] not_removed [of "env_meta E" q]
    by (simp add: follows_def lifecycle.start_sync)
qed

lemma post_addFinalizer:
  "post (addFinalizer E i) (\<lambda>r es. set es \<subseteq> status_ok (env_meta E) inst \<and>
     (fst r = None \<longrightarrow> Status (it_Instance (snd r)) = Status (it_Instance i) \<and>
        meta_DeletionTimestamp (Meta (it_Instance (snd r))) = meta_DeletionTimestamp (Meta (it_Instance i))))"
  unfolding addFinalizer_def updatePipeline_def
  by (intro post_intros post_perform_result) (auto simp: with_finalizers_def dest: update_keeps)

lemma only_startSync:
  assumes "GetState (env_meta E) inst = STATE_NEW" and "GetState (env_meta E) (it_Instance i) = STATE_NEW"
  shows "only (status_ok (env_meta E) inst) (startSync E i)"
proof -
  have "GetState (env_meta E) (it_Instance (set_status (\<lambda>s. s\<lparr>CyndiConfigVersion := a, status_SpecHash := b\<rparr>) i)) =
      STATE_NEW" for a b
    using assms(2) by (simp add: GetState_new_iff set_status_def)
  then show ?thesis
    unfolding startSync_def provision_def Let_def createConnector_def
    by (intro only_intros follows_TransitionToInitialSync assms)
      (simp_all add: set_instance_def follows_TransitionToInitialSync assms)
qed

lemma only_reconcileNew:
  assumes "it_Instance i = inst" and new: "GetState (env_meta E) inst = STATE_NEW"
  shows "only (status_ok (env_meta E) inst) (reconcileNew E i)"
  unfolding reconcileNew_def
proof (rule only_bind_result, rule post_mono [OF post_addFinalizer [of i inst]])
  fix r :: "gerror option \<times> iteration" and es
  assume r: "set es \<subseteq> status_ok (env_meta E) inst \<and> (fst r = None \<longrightarrow>
    Status (it_Instance (snd r)) = Status (it_Instance i) \<and>
    meta_DeletionTimestamp (Meta (it_Instance (snd r))) = meta_DeletionTimestamp (Meta (it_Instance i)))"
  then have "fst r = None \<Longrightarrow> GetState (env_meta E) (it_Instance (snd r)) = STATE_NEW"
    using assms by (simp add: GetState_new_iff)
  then show "set es \<subseteq> status_ok (env_meta E) inst \<and> only (status_ok (env_meta E) inst)
      (case r of (err, i) \<Rightarrow> case err of Some e \<Rightarrow> fail i e ''Error adding finalizer'' | None \<Rightarrow> startSync E i)"
    using r only_startSync [OF new] by (auto intro!: only_intros)
qed

lemma only_refreshInvalid:
  assumes "it_Instance i = inst" and live: "GetState (env_meta E) inst \<noteq> STATE_REMOVED"
  shows "only (status_ok (env_meta E) inst) (refreshInvalid E i)"
  unfolding refreshInvalid_def
proof (rule only_bind_result)
  let ?S = "status_ok (env_meta E) inst"
  let ?rest = "\<lambda>j. do {
        now \<leftarrow> Now E;
        let i = set_instance (TransitionToNew (env_meta E) now (it_Instance j)) j;
        _ \<leftarrow> probePipelineDidNotBecomeValid i;
        updateStatusAndRequeue E i
      }"
  have rest: "only ?S (?rest j)" if "it_Instance j = inst" for j
    unfolding Let_def
    by (intro only_intros only_store) (simp_all add: set_instance_def that follows_TransitionToNew live)
  have "post (do { (_, i) \<leftarrow> updateViewIfHealthier E i; ret i }) (\<lambda>j es. set es \<subseteq> ?S \<and> only ?S (?rest j))"
    by (rule post_bind, rule post_mono [OF post_updateViewIfHealthier [of ?S]])
      (auto simp: assms(1) intro!: post_intros rest dest: sans_inventory_same(1))
  then show "post (if GetState (env_meta E) (it_Instance i) = STATE_INITIAL_SYNC
      then do { (_, i) \<leftarrow> updateViewIfHealthier E i; ret i } else ret i)
      (\<lambda>j es. set es \<subseteq> ?S \<and> only ?S (?rest j))"
    using rest [OF assms(1)] by (auto intro!: post_intros)
qed

lemma only_reconcileHealthy:
  assumes "it_Instance i = inst" and "wf_status (env_meta E) inst"
    and "GetState (env_meta E) inst \<noteq> STATE_REMOVED"
  shows "only (status_ok (env_meta E) inst) (reconcileHealthy E i)"
  unfolding reconcileHealthy_def Let_def
  by (intro only_intros only_store only_refreshInvalid) (simp_all add: assms follows_refl)

lemma only_reconcileExisting:
  assumes "it_Instance i = inst" and "wf_status (env_meta E) inst"
    and "GetState (env_meta E) inst \<noteq> STATE_REMOVED"
  shows "only (status_ok (env_meta E) inst) (reconcileExisting E i)"
  unfolding reconcileExisting_def refreshDeviating_def
  by (intro only_intros only_store only_reconcileHealthy)
    (simp_all add: assms follows_TransitionToNew set_instance_def)

lemma only_deleteStale: "only (status_ok M inst) (deleteStaleDependencies E i)"
  unfolding deleteStaleDependencies_def removeStale_def Let_def
  by (intro only_intros) simp_all

lemma only_reconcileInstance:
  assumes "it_Instance i = inst" and "wf_status (env_meta E) inst"
  shows "only (status_ok (env_meta E) inst) (reconcileInstance E i err)"
  unfolding reconcileInstance_def reconcileRemoved_def removeFinalizer_def Let_def
  by (intro only_intros only_deleteStale only_reconcileNew only_reconcileExisting) (simp_all add: assms)

end

section \<open>Whole runs\<close>

lemma post_setupInstance:
  assumes "reading \<subseteq> S" and "\<And>s. PgConnect s \<in> S" and "\<And>c. PgClose c \<in> S"
    and "\<And>c u p. PgExec c (alterStatement u p) \<in> S"
  shows "post (setupInstance E inst) (\<lambda>r es. set es \<subseteq> S \<and> it_Instance (fst r) = inst)"
proof -
  have "only S (setupInstance E inst)"
    unfolding setupInstance_def Let_def using assms by (auto intro!: only_intros reading_sub)
  moreover have "post (setupInstance E inst) (\<lambda>r es. it_Instance (fst r) = inst)"
    unfolding setupInstance_def Let_def
    by (intro post_intros post_only [OF only_parseConfig [where S = UNIV]]
        post_only [OF only_LoadDBSecret [where S = UNIV]] post_only [OF only_Connect [where S = UNIV]])
      (simp_all add: new_iteration_def)
  ultimately show ?thesis unfolding only_def by (rule post_conj)
qed

text \<open>A run after the fetch has found the pipeline.\<close>

definition reconcileFetched :: "'w env \<Rightarrow> CyndiPipeline \<Rightarrow> ('w, reconciled outcome) eff" where
  "reconcileFetched E inst = do {
     (i, err) \<leftarrow> setupInstance E inst;
     (r, i) \<leftarrow> reconcileInstance E i err;
     _ \<leftarrow> iterationClose E i;
     ret r
   }"

definition after_fetch :: "'w \<Rightarrow> string \<Rightarrow> string \<Rightarrow> ('w, effect) world \<Rightarrow> ('w, effect) world" where
  "after_fetch s ns n w = w\<lparr>server := s, effects := effects w @ [KubeGet KindPipeline ns n]\<rparr>"

lemma Reconcile_fetched:
  assumes "kube_get_pipeline (env_kube E) ns n (server w) = (Inr inst, s)"
  shows "run_state (Reconcile E ns n) w = run_state (reconcileFetched E inst) (after_fetch s ns n w)"
  using assms
  by (simp add: Reconcile_def reconcileFetched_def reconcilerSetup_def FetchCyndiPipeline_def after_fetch_def
      split: prod.splits)

lemma only_new_fetched:
  assumes "only S m" and "run_state m (after_fetch s ns n w) = (r, w')"
    and "e \<in> set (new_effects w w')"
  shows "e = KubeGet KindPipeline ns n \<or> e \<in> S"
  using onlyD [OF assms(1), of "after_fetch s ns n w"] assms(2,3)
  by (auto simp: new_effects_def after_fetch_def)

lemma only_reconcileFetched:
  assumes "reading \<subseteq> S" and "\<And>s. PgConnect s \<in> S" and "\<And>c. PgClose c \<in> S"
    and "\<And>c u p. PgExec c (alterStatement u p) \<in> S"
    and "\<And>i err. it_Instance i = inst \<Longrightarrow> only S (reconcileInstance E i err)"
  shows "only S (reconcileFetched E inst)"
  unfolding reconcileFetched_def
  by (rule only_bind_result, rule post_mono [OF post_setupInstance [OF assms(1-4)]])
    (auto intro!: only_intros assms)

text \<open>
  C1: every status the pipeline controller stores is well formed and its state is the state
  of the pipeline it has fetched or a successor of it in the life cycle, whatever the
  database and the cluster answer during the run.
\<close>

theorem Reconcile_follows_lifecycle:
  assumes E: "reconciler_env E"
    and fetched: "kube_get_pipeline (env_kube E) ns n (server w) = (Inr inst, s)"
    and wf: "wf_status (env_meta E) inst"
    and run: "run_state (Reconcile E ns n) w = (r, w')"
  shows "\<forall>p. KubeUpdateStatus p \<in> set (new_effects w w') \<longrightarrow>
    wf_status (env_meta E) p \<and> lifecycle (GetState (env_meta E) inst) (GetState (env_meta E) p)"
proof -
  have "only (status_ok (env_meta E) inst) (reconcileFetched E inst)"
    by (rule only_reconcileFetched) (use wf in \<open>auto intro: reconciler_env.only_reconcileInstance [OF E]\<close>)
  from only_new_fetched [OF this run [unfolded Reconcile_fetched [OF fetched]]]
  show ?thesis by (fastforce simp: follows_def)
qed

section \<open>The validation controller\<close>

lemma only_validate [only_intros]:
  "reading \<subseteq> S \<Longrightarrow> (\<And>m. registered m \<Longrightarrow> MetricChanged m \<in> S) \<Longrightarrow> only S (validate E i db schema)"
  unfolding validate_def Let_def by (auto intro!: only_intros reading_sub)

context reconciler_env
begin

lemma follows_SetValid:
  assumes "wf_status (env_meta E) inst" and "GetState (env_meta E) inst \<notin> {STATE_REMOVED, STATE_NEW}"
    and "st \<noteq> ConditionUnknown"
  shows "follows (env_meta E) inst (SetValid (env_meta E) t st reason msg h inst)"
  unfolding follows_def
  using lifecycle_step [OF status_step.validated [OF assms(2,3)] assms(1)] GetState_version [OF assms(2)]
    wf_SetValid [OF _ assms(3)] by simp

lemma only_validateInstance:
  assumes "it_Instance i = inst" and "wf_status (env_meta E) inst"
    and "GetState (env_meta E) inst \<notin> {STATE_REMOVED, STATE_NEW}"
  shows "only (status_ok (env_meta E) inst) (validateInstance E i db)"
proof -
  have "only (status_ok (env_meta E) inst) (do { i \<leftarrow> recordValidation E i v; updateStatusAndRequeue E i })" for v
  proof (rule only_bind_result)
    show "post (recordValidation E i v) (\<lambda>j es. set es \<subseteq> status_ok (env_meta E) inst \<and>
        only (status_ok (env_meta E) inst) (updateStatusAndRequeue E j))"
      unfolding recordValidation_def Let_def eventNormal_def
      using assms(3) by (intro post_intros)
        (auto simp: set_instance_def assms intro!: post_intros only_store follows_SetValid)
  qed
  then show ?thesis
    unfolding validateInstance_def
    by (intro only_bind [OF only_validate] only_case_sum only_fail) simp_all
qed

lemma only_reconcileValidation:
  assumes "it_Instance i = inst" and "wf_status (env_meta E) inst"
  shows "only (status_ok (env_meta E) inst) (reconcileValidation E check i db)"
  unfolding reconcileValidation_def refreshDeviating_def Let_def
  by (intro only_intros only_validateInstance only_store)
    (simp_all add: assms set_instance_def follows_TransitionToNew)

end

text \<open>A run of the validation controller after the fetch has found the pipeline.\<close>

definition validateFetched :: "'w env \<Rightarrow> bool \<Rightarrow> CyndiPipeline \<Rightarrow> ('w, reconciled outcome) eff" where
  "validateFetched E check inst = do {
     (i, err) \<leftarrow> do { (i, err) \<leftarrow> setupInstance E inst; connectInventory E i err };
     (r, i) \<leftarrow> runValidation E check i err;
     _ \<leftarrow> iterationClose E i;
     ret r
   }"

lemma ReconcileValidation_fetched:
  assumes "kube_get_pipeline (env_kube E) ns n (server w) = (Inr inst, s)"
  shows "run_state (ReconcileValidation E check ns n) w =
    run_state (validateFetched E check inst) (after_fetch s ns n w)"
  using assms
  by (simp add: ReconcileValidation_def validateFetched_def validationSetup_def reconcilerSetup_def
      FetchCyndiPipeline_def after_fetch_def split: prod.splits)

lemma post_connectInventory:
  assumes "\<And>s. PgConnect s \<in> S"
  shows "post (connectInventory E i err) (\<lambda>r es. set es \<subseteq> S \<and> it_Instance (fst r) = it_Instance i)"
  unfolding connectInventory_def
  by (intro post_intros post_only [OF only_base_Connect [where S = S]]) (use assms in auto)

lemma only_validateFetched:
  assumes "reading \<subseteq> S" and "reporting \<subseteq> S" and "\<And>s. PgConnect s \<in> S" and "\<And>c. PgClose c \<in> S"
    and "\<And>c u p. PgExec c (alterStatement u p) \<in> S"
    and "\<And>i db. it_Instance i = inst \<Longrightarrow> only S (reconcileValidation E check i db)"
  shows "only S (validateFetched E check inst)"
proof -
  have "post (do { (i, err) \<leftarrow> setupInstance E inst; connectInventory E i err })
      (\<lambda>r es. set es \<subseteq> S \<and> it_Instance (fst r) = inst)"
    by (rule post_bind, rule post_mono [OF post_setupInstance [OF assms(1,3-5)]])
      (auto intro!: post_intros post_connectInventory [OF assms(3)])
  then show ?thesis
    unfolding validateFetched_def runValidation_def
    by (intro only_bind_result, elim post_mono)
      (auto intro!: only_intros assms reporting_sub [OF assms(2)])
qed

text \<open>
  C5: every status the validation controller stores is well formed and follows the life cycle
  from the state of the pipeline it has fetched.
\<close>

theorem ReconcileValidation_follows_lifecycle:
  assumes E: "reconciler_env E"
    and fetched: "kube_get_pipeline (env_kube E) ns n (server w) = (Inr inst, s)"
    and wf: "wf_status (env_meta E) inst"
    and run: "run_state (ReconcileValidation E check ns n) w = (r, w')"
  shows "\<forall>p. KubeUpdateStatus p \<in> set (new_effects w w') \<longrightarrow>
    wf_status (env_meta E) p \<and> lifecycle (GetState (env_meta E) inst) (GetState (env_meta E) p)"
proof -
  have "reporting \<subseteq> status_ok (env_meta E) inst" by (auto simp: reporting_def)
  then have "only (status_ok (env_meta E) inst) (validateFetched E check inst)"
    by (intro only_validateFetched) (use wf in \<open>auto intro: reconciler_env.only_reconcileValidation [OF E]\<close>)
  from only_new_fetched [OF this run [unfolded ReconcileValidation_fetched [OF fetched]]]
  show ?thesis by (fastforce simp: follows_def)
qed

text \<open>The other requests of the validation controller.\<close>

definition validation_requests :: "effect set" where
  "validation_requests = reading \<union> reporting \<union>
     {e. (\<exists>s. e = PgConnect s) \<or> (\<exists>c. e = PgClose c) \<or> (\<exists>p. e = KubeUpdateStatus p) \<or>
       (\<exists>c u p. e = PgExec c (alterStatement u p))}"

lemma only_reconcileValidation_requests: "only validation_requests (reconcileValidation E check i db)"
proof -
  have sub: "reading \<subseteq> validation_requests" by (auto simp: validation_requests_def)
  have reports: "EventRecorded ty rs msg a \<in> validation_requests"
    "registered m \<Longrightarrow> MetricChanged m \<in> validation_requests"
    "KubeUpdateStatus p \<in> validation_requests" for ty rs msg a m p by (auto simp: validation_requests_def)
  show ?thesis
    unfolding reconcileValidation_def refreshDeviating_def validateInstance_def recordValidation_def Let_def
    by (intro only_intros sub reports reading_sub [OF sub])
qed


section \<open>The view\<close>

text \<open>
  When the pipeline controller may point the view to a table: to the table of a valid
  pipeline, or to the table of an initial sync whose validation has failed.
\<close>

definition view_allowed :: "meta_api \<Rightarrow> CyndiPipeline \<Rightarrow> string \<Rightarrow> bool" where
  "view_allowed M inst t \<longleftrightarrow> t = status_TableName (Status inst) \<and> ConnectorsManaged inst \<and>
     (GetState M inst = STATE_VALID \<or> GetState M inst = STATE_INITIAL_SYNC \<and> GetValid M inst = ConditionFalse)"

definition view_ok :: "meta_api \<Rightarrow> CyndiPipeline \<Rightarrow> effect set" where
  "view_ok M inst = {e. \<forall>c t. e = PgExec c (viewStatement t) \<longrightarrow> view_allowed M inst t}"

lemma view_ok_simps [simp]:
  "PgExec c (viewStatement t) \<in> view_ok M inst \<longleftrightarrow> view_allowed M inst t"
  "PgExec c (dropStatement t) \<in> view_ok M inst" "PgExec c grantStatement \<in> view_ok M inst"
  "PgExec c (alterStatement u p) \<in> view_ok M inst"
  "KubeUpdateStatus q \<in> view_ok M inst" "PgQuery c s \<in> view_ok M inst" "PgConnect s \<in> view_ok M inst"
  "PgClose c \<in> view_ok M inst" "KubeGet k ns n \<in> view_ok M inst" "KubeList k ns ls \<in> view_ok M inst"
  "KubeCreate g \<in> view_ok M inst" "KubeUpdate g \<in> view_ok M inst" "KubeDelete k ns n \<in> view_ok M inst"
  "KubeUpdatePipeline q \<in> view_ok M inst" "EventRecorded ty r msg a \<in> view_ok M inst"
  "MetricChanged m \<in> view_ok M inst" "reading \<subseteq> view_ok M inst"
  by (auto simp: view_ok_def reading_def)

lemma only_reconcileHealthy_view:
  assumes "it_Instance i = inst"
  shows "only (view_ok (env_meta E) inst) (reconcileHealthy E i)"
proof -
  let ?S = "view_ok (env_meta E) inst"
  have refresh: "only ?S (refreshInvalid E i)" if "GetValid (env_meta E) inst = ConditionFalse"
    unfolding refreshInvalid_def Let_def
    by (intro only_intros only_post [where P = "\<lambda>_. True"] post_mono [OF post_updateViewIfHealthier [of ?S]])
      (simp_all add: assms that view_allowed_def)
  show ?thesis
    unfolding reconcileHealthy_def Let_def
    by (intro only_intros refresh) (simp_all add: assms view_allowed_def)
qed

lemma only_reconcileInstance_view:
  assumes "it_Instance i = inst" and "GetState (env_meta E) inst \<noteq> STATE_NEW"
  shows "only (view_ok (env_meta E) inst) (reconcileInstance E i err)"
proof -
  have "only (view_ok (env_meta E) inst) (deleteStaleDependencies E i)"
    unfolding deleteStaleDependencies_def removeStale_def Let_def by (intro only_intros) simp_all
  then show ?thesis
    unfolding reconcileInstance_def reconcileRemoved_def removeFinalizer_def reconcileExisting_def
      refreshDeviating_def Let_def
    by (intro only_intros only_reconcileHealthy_view) (simp_all add: assms reconcileNew_def)
qed


section \<open>Metrics\<close>

definition metrics_ok :: "effect set" where
  "metrics_ok = {e. \<forall>m. e = MetricChanged m \<longrightarrow> registered m}"

lemma metrics_ok_simps [simp]:
  "PgExec c q \<in> metrics_ok" "KubeUpdateStatus p \<in> metrics_ok" "PgQuery c s \<in> metrics_ok" "PgConnect s \<in> metrics_ok"
  "PgClose c \<in> metrics_ok" "KubeGet k ns n \<in> metrics_ok" "KubeList k ns ls \<in> metrics_ok"
  "KubeCreate g \<in> metrics_ok" "KubeUpdate g \<in> metrics_ok" "KubeDelete k ns n \<in> metrics_ok"
  "KubeUpdatePipeline p \<in> metrics_ok" "EventRecorded ty r msg a \<in> metrics_ok"
  "MetricChanged m \<in> metrics_ok \<longleftrightarrow> registered m" "reading \<subseteq> metrics_ok" "reporting \<subseteq> metrics_ok"
  by (auto simp: metrics_ok_def reading_def reporting_def)

lemma only_reconcileHealthy_metrics: "only metrics_ok (reconcileHealthy E i)"
proof -
  have "only metrics_ok (refreshInvalid E i)"
    unfolding refreshInvalid_def Let_def
    by (intro only_intros only_post [where P = "\<lambda>_. True"] post_mono [OF post_updateViewIfHealthier [of metrics_ok]]) simp_all
  then show ?thesis
    unfolding reconcileHealthy_def Let_def by (intro only_intros) simp_all
qed

lemma only_reconcileNew_metrics: "only metrics_ok (reconcileNew E i)"
  unfolding reconcileNew_def addFinalizer_def startSync_def provision_def createConnector_def Let_def
  by (intro only_intros) simp_all

lemma only_reconcileInstance_metrics: "only metrics_ok (reconcileInstance E i err)"
proof -
  have "only metrics_ok (deleteStaleDependencies E i)"
    unfolding deleteStaleDependencies_def removeStale_def Let_def by (intro only_intros) simp_all
  then show ?thesis
    unfolding reconcileInstance_def reconcileRemoved_def removeFinalizer_def reconcileExisting_def
      refreshDeviating_def Let_def
    by (intro only_intros only_reconcileHealthy_metrics only_reconcileNew_metrics) simp_all
qed

lemma only_reconcileValidation_metrics: "only metrics_ok (reconcileValidation E check i db)"
  unfolding reconcileValidation_def refreshDeviating_def validateInstance_def recordValidation_def Let_def
  by (intro only_intros) simp_all

text \<open>
  C18: every metric either controller touches, in any run, is one of the collectors \<open>Init\<close> has
  registered, used as the gauge or counter it is and with as many label values as it has
  labels, so no update of a metric panics; the collectors have different names, so
  registering them does not panic either.
\<close>

theorem metrics_registered:
  assumes fetched: "kube_get_pipeline (env_kube E) ns n (server w) = (Inr inst, s)"
    and run: "run_state (Reconcile E ns n) w = (r, w')"
    and run2: "run_state (ReconcileValidation E check ns n) w = (r2, w2)"
  shows "distinct (map col_Name collectors) \<and>
    (\<forall>m. MetricChanged m \<in> set (new_effects w w') \<union> set (new_effects w w2) \<longrightarrow> registered m)"
proof -
  have "only metrics_ok (reconcileFetched E inst)"
    by (rule only_reconcileFetched) (auto intro: only_reconcileInstance_metrics)
  note new = only_new_fetched [OF this run [unfolded Reconcile_fetched [OF fetched]]]
  have "only metrics_ok (validateFetched E check inst)"
    by (rule only_validateFetched [OF _ _ _ _ _ only_reconcileValidation_metrics]) auto
  note new2 = only_new_fetched [OF this run2 [unfolded ReconcileValidation_fetched [OF fetched]]]
  have "distinct (map col_Name collectors)" by (simp add: collector_defs)
  with new new2 show ?thesis by (fastforce simp: metrics_ok_def)
qed

section \<open>Concrete runs\<close>

interpretation ref_env: reconciler_env ref_env
  by unfold_locales (auto simp: ref_kube_def doc.find_empty doc.find_set_same doc.find_set_other doc.present_iff)

lemma sync_fetch:
  "kube_get_pipeline (env_kube ref_env) ''app'' ''advisor'' (server (sync_world b)) =
     (Inr (ref_pipeline (ref_status ''1_2'')), server (sync_world b))"
  by (simp add: ref_kube_def sync_world_def start_def ref_cluster_def found_def is_pipeline_def
      ref_pipeline_def ref_ObjectMeta_def)

lemma sync_valid: "GetValid doc_meta (ref_pipeline (ref_status v)) = ConditionUnknown"
  by (simp add: ref_pipeline_def ref_status_def zero_Status_def GetValid_def doc_meta_def)

lemma sync_wf: "wf_status doc_meta (ref_pipeline (ref_status ''1_2''))"
  by (simp add: wf_status_def sync_valid) (simp add: ref_pipeline_def ref_status_def zero_Status_def)

definition sync_reconcile :: "reconciled outcome \<times> (cluster, effect) world" where
  "sync_reconcile = run_state (Reconcile ref_env ''app'' ''advisor'') (sync_world False)"

definition sync_validation :: "reconciled outcome \<times> (cluster, effect) world" where
  "sync_validation = run_state (ReconcileValidation ref_env True ''app'' ''advisor'') (sync_world False)"

lemma sync_reconcile_run:
  "run_state (Reconcile ref_env ''app'' ''advisor'') (sync_world False) = (fst sync_reconcile, snd sync_reconcile)"
  by (simp add: sync_reconcile_def)

lemma sync_validation_run:
  "run_state (ReconcileValidation ref_env True ''app'' ''advisor'') (sync_world False) =
     (fst sync_validation, snd sync_validation)"
  by (simp add: sync_validation_def)

theorem Reconcile_follows_lifecycle_witness:
  "{p. KubeUpdateStatus p \<in> set (new_effects (sync_world False) (snd sync_reconcile))} \<subseteq>
     {p. wf_status doc_meta p \<and> lifecycle STATE_INITIAL_SYNC (GetState doc_meta p)}"
  using Reconcile_follows_lifecycle [OF ref_env.reconciler_env_axioms sync_fetch _ sync_reconcile_run]
  by (auto simp: sync_wf sync_state)

theorem ReconcileValidation_follows_lifecycle_witness:
  "{p. KubeUpdateStatus p \<in> set (new_effects (sync_world False) (snd sync_validation))} \<subseteq>
     {p. wf_status doc_meta p \<and> lifecycle STATE_INITIAL_SYNC (GetState doc_meta p)}"
  using ReconcileValidation_follows_lifecycle [OF ref_env.reconciler_env_axioms sync_fetch _ sync_validation_run]
  by (auto simp: sync_wf sync_state)



theorem metrics_registered_witness:
  "{m. MetricChanged m \<in> set (new_effects (sync_world False) (snd sync_reconcile)) \<union>
     set (new_effects (sync_world False) (snd sync_validation))} \<subseteq> {m. registered m}"
  using metrics_registered [OF sync_fetch sync_reconcile_run sync_validation_run] by blast

end
