(* ===== verification/Behaviour.thy ===== *)
theory Behaviour
  imports PipelineSafety
begin

text \<open>
  Errors, panics, removal, requeueing and wake-ups: what single runs of the controllers do
  on the branches where something fails or ends.
\<close>

section \<open>A pipeline that cannot be read\<close>

text \<open>
  C33: when the pipeline is gone both controllers return without an error, a delay or any
  further request. Any other failure to read it makes both panic: the error is reported
  through the logger of an iteration that was never filled in.
\<close>

theorem unreadable_pipeline:
  assumes "kube_get_pipeline (env_kube E) ns n (server w) = (Inl err, s)"
  shows "run_state (Reconcile E ns n) w =
      (if IsNotFound err then Returns (zero_Result, None) else Panics, after_fetch s ns n w) \<and>
    run_state (ReconcileValidation E check ns n) w =
      (if IsNotFound err then Returns (zero_Result, None) else Panics, after_fetch s ns n w)"
  using assms
  by (simp_all add: Reconcile_def ReconcileValidation_def validationSetup_def reconcilerSetup_def
      FetchCyndiPipeline_def after_fetch_def)

section \<open>A setup that fails\<close>

definition failed_setup_requests :: "effect set" where
  "failed_setup_requests = reading \<union> reporting \<union>
     {e. (\<exists>c t. e = PgExec c (dropStatement t)) \<or> (\<exists>ns n. e = KubeDelete KindConnector ns n)}"

lemma only_deleteStale_failed: "only failed_setup_requests (deleteStaleDependencies E i)"
  unfolding deleteStaleDependencies_def removeStale_def Let_def
  by (intro only_intros) (simp_all add: failed_setup_requests_def)

lemma reconcileInstance_failed:
  assumes "GetState (env_meta E) (it_Instance i) \<noteq> STATE_REMOVED"
  shows "reconcileInstance E i (Some err) = do {
     _ \<leftarrow> it_error err [];
     r \<leftarrow> deleteStaleDependencies E i;
     case r of
       Panics \<Rightarrow> ret (Panics, i)
     | Returns errors \<Rightarrow> do {
         _ \<leftarrow> reportErrors (err # errors) ''Error deleting stale dependency'';
         ret (Returns (zero_Result, Some err), i)
       }
   }"
  using assms
  by (simp add: reconcileInstance_def Let_def cong: outcome.case_cong)


section \<open>An unreachable database\<close>

lemma post_deleteStaleConnectors:
  "post (deleteStaleConnectors E ns keep cs errs) (\<lambda>r es. \<forall>g \<in> set cs.
     u_GetName (env_u E) g \<notin> set keep \<longrightarrow> KubeDelete KindConnector ns (u_GetName (env_u E) g) \<in> set es)"
proof (induction cs arbitrary: errs)
  case (Cons c cs)
  show ?case
  proof (cases "u_GetName (env_u E) c \<in> set keep")
    case False
    then show ?thesis
      by (simp, intro post_bind post_mono [OF post_DeleteConnector] post_mono [OF Cons.IH]) auto
  qed (use Cons.IH in \<open>simp add: post_def\<close>)
qed (simp add: post_return)

lemma run_no_connection:
  "db_connection db = None \<Longrightarrow> run_state (RunQuery P db q) w = (Inl no_connection, w)"
  by (simp add: RunQuery_def)

text \<open>
  C35: without a connection to the application database the connectors of the pipeline are
  still cleaned up, and nothing but the current version's connector is kept: the connector
  that feeds the table applications read, when it is the one of an earlier version, is
  deleted.
\<close>

theorem unreachable_database_deletes_connectors:
  assumes unreachable: "db_connection (it_AppDb i) = None"
    and listed: "kube_list_connectors (env_kube E) (meta_Namespace (Meta (it_Instance i)))
      (fmap_of_list [(LabelOwner, GetUIDString (it_Instance i))]) (server w) = (Inr connectors, s)"
    and g: "g \<in> set connectors" "u_GetName (env_u E) g \<noteq>
      ConnectorName (PipelineVersion (Status (it_Instance i))) (AppName (Spec (it_Instance i)))"
    and run: "run_state (deleteStaleDependencies E i) w = (r, w')"
  shows "KubeDelete KindConnector (meta_Namespace (Meta (it_Instance i))) (u_GetName (env_u E) g)
    \<in> set (new_effects w w')"
proof -
  let ?inst = "it_Instance i"
  let ?ns = "meta_Namespace (Meta ?inst)" and ?keep = "versionConnectors (env_meta E) ?inst"
  let ?w = "w\<lparr>server := s, effects := effects w @ [KubeList KindConnector ?ns
    (fmap_of_list [(LabelOwner, GetUIDString ?inst)])]\<rparr>"
  obtain errs w1 where del: "run_state (deleteStaleConnectors E ?ns ?keep connectors [no_connection]) ?w = (errs, w1)"
    by fastforce
  have w': "w' = w1"
    using run del listed unreachable
    by (simp add: deleteStaleDependencies_def removeStale_def GetCurrentTable_def GetCyndiTables_def
        run_no_connection currentKeep_def GetConnectorsForOwner_def Let_def)
  have "u_GetName (env_u E) g \<notin> set ?keep" using g(2) by (simp add: versionConnectors_def)
  then show ?thesis
    using postD [OF post_deleteStaleConnectors del] g(1) by (auto simp: new_effects_def w')
qed

section \<open>Removal\<close>

lemma it_error_run: "run_state (it_error err ps) w =
    (err, w\<lparr>effects := effects w @ [EventRecorded EventTypeWarning ''Failed''
      (if ps \<noteq> [] then str_join '', '' ps @ '': '' @ ErrorText err else ErrorText err) []]\<rparr>)"
  by (simp add: it_error_def eventWarning_def)

lemma reportErrors_server: "run_state (reportErrors errs msg) w = (u, w') \<Longrightarrow> server w' = server w"
  by (induction errs arbitrary: w) (auto simp: it_error_run)

lemma updatePipeline_server:
  assumes "\<And>p w. f (snd (kube_update_pipeline (env_kube E) p w)) = f w"
    and "run_state (updatePipeline E i) w = (r, w')"
  shows "f (server w') = f (server w)"
  using assms(2) assms(1) [of "it_Instance i" "server w"]
  by (auto simp: updatePipeline_def split: prod.splits sum.splits)

lemma reconcileRemoved_server:
  assumes "\<And>p w. f (snd (kube_update_pipeline (env_kube E) p w)) = f w"
    and "run_state (reconcileRemoved E i []) w = (r, w')"
  shows "f (server w') = f (server w)"
proof -
  obtain err j w1 where up: "run_state (removeFinalizer E i) w = ((err, j), w1)"
    by (metis surj_pair)
  then have "f (server w1) = f (server w)"
    unfolding removeFinalizer_def by (rule updatePipeline_server [OF assms(1)])
  moreover have "server w' = server w1"
    using assms(2) up by (cases err) (auto simp: reconcileRemoved_def fail_def it_error_run)
  ultimately show ?thesis by simp
qed



section \<open>Requeueing\<close>


section \<open>Starting the initial sync\<close>

definition no_status :: "effect set" where
  "no_status = {e. \<forall>p. e \<noteq> KubeUpdateStatus p}"

lemma no_status_simps [simp]:
  "KubeUpdateStatus p \<notin> no_status" "PgQuery c q \<in> no_status" "PgExec c q \<in> no_status"
  "KubeCreate g \<in> no_status" "EventRecorded ty r msg a \<in> no_status" "MetricChanged m \<in> no_status"
  by (simp_all add: no_status_def)

text \<open>A connector is created before any status is stored.\<close>

definition creates_first :: "effect list \<Rightarrow> bool" where
  "creates_first es \<longleftrightarrow> set es \<subseteq> no_status \<or>
     (\<exists>before g after. es = before @ KubeCreate g # after \<and> set before \<subseteq> no_status)"

lemma creates_firstI: "set es \<subseteq> no_status \<Longrightarrow> creates_first es"
  by (simp add: creates_first_def)

lemma creates_first_Create: "set es \<subseteq> no_status \<Longrightarrow> creates_first (es @ KubeCreate g # es')"
  by (auto simp: creates_first_def)

lemma creates_first_append: "set es \<subseteq> no_status \<Longrightarrow> creates_first es' \<Longrightarrow> creates_first (es @ es')"
  unfolding creates_first_def by (metis append.assoc le_sup_iff set_append)

lemma post_quiet:
  "only no_status m \<Longrightarrow> (\<And>x. post (f x) (\<lambda>_. creates_first)) \<Longrightarrow>
   post (State_Monad.bind m f) (\<lambda>_. creates_first)"
  by (rule post_bind, erule post_only) (rule post_mono [where P = "\<lambda>_. creates_first"], simp, erule creates_first_append)

lemma post_createConnector_first:
  "post (createConnector E i n False) (\<lambda>r es. case r of
     Inl e \<Rightarrow> set es \<subseteq> no_status | Inr c \<Rightarrow> es = [KubeCreate c])"
  unfolding createConnector_def Let_def
  by (rule post_mono [OF post_CreateConnector]) (auto split: sum.split)

lemma post_created:
  assumes "\<And>err. only no_status (f err)" and "only UNIV m"
  shows "post (do { r \<leftarrow> createConnector E i n False; case r of Inl err \<Rightarrow> f err | Inr _ \<Rightarrow> m }) (\<lambda>_. creates_first)"
proof (rule post_bind, rule post_mono [OF post_createConnector_first])
  fix r :: "gerror + goval" and es
  assume r: "case r of Inl e \<Rightarrow> set es \<subseteq> no_status | Inr c \<Rightarrow> es = [KubeCreate c]"
  show "post (case r of Inl err \<Rightarrow> f err | Inr _ \<Rightarrow> m) (\<lambda>_ es'. creates_first (es @ es'))"
  proof (cases r)
    case (Inl e)
    then show ?thesis
      using r by (simp, intro post_only [OF assms(1)]) (simp add: creates_firstI)
  next
    case (Inr c)
    then show ?thesis
      using r creates_first_Create [of "[]"] by (simp, intro post_only [OF assms(2)]) simp
  qed
qed

text \<open>
  C11: when the controller manages the connectors, the run that starts an initial sync stores
  no status before it has created the connector: a status that names a connector is never
  ahead of the request that creates it.
\<close>

theorem sync_creates_connector_first:
  assumes managed: "ConnectorsManaged (it_Instance i)"
    and run: "run_state (startSync E i) w = (r, w')"
  shows "set (new_effects w w') \<subseteq> no_status \<or>
    (\<exists>before g after. new_effects w w' = before @ KubeCreate g # after \<and> set before \<subseteq> no_status)"
proof -
  have still: "ConnectorsManaged (case TransitionToInitialSync M t v p of Inl _ \<Rightarrow> p | Inr q \<Rightarrow> q)"
    if "ConnectorsManaged p" for M t v p
    using that TransitionToInitialSync_cases(3) [of M t v p]
    by (auto simp: ConnectorsManaged_def split: sum.split)
  have provision: "post (provision E j v) (\<lambda>_. creates_first)" if "ConnectorsManaged (it_Instance j)" for j v
    unfolding provision_def
    by (intro post_quiet only_intros post_case_sum post_case_option post_if post_created
        post_only [OF only_fail [where S = no_status]] creates_firstI)
      (use that in \<open>auto intro!: only_intros\<close>)
  have kept: "ConnectorsManaged (it_Instance (set_status f i))" for f
    using managed by (simp add: set_status_def ConnectorsManaged_def)
  have "post (startSync E i) (\<lambda>_. creates_first)"
    unfolding startSync_def Let_def
    by (intro post_quiet only_intros provision) (simp add: set_instance_def still kept)
  from postD [OF this run] obtain es where "effects w' = effects w @ es" "creates_first es" by blast
  then show ?thesis by (simp add: creates_first_def new_effects_def)
qed

section \<open>What the run that starts a sync records\<close>

text \<open>The status records the configuration and specification the run has used.\<close>

definition records :: "iteration \<Rightarrow> CyndiPipeline \<Rightarrow> bool" where
  "records i p \<longleftrightarrow> CyndiConfigVersion (Status p) = cfg_ConfigMapVersion (it_config i) \<and>
     status_SpecHash (Status p) = cfg_SpecHash (it_config i) \<and>
     (\<exists>n. PipelineVersion (Status p) = version_of_nanos n \<and>
       (ConnectorsManaged (it_Instance i) \<longrightarrow> status_TableName (Status p) = TableName (version_of_nanos n) \<and>
          status_ConnectorName (Status p) = ConnectorName (version_of_nanos n) (AppName (Spec (it_Instance i)))))"

lemma TransitionToInitialSync_records:
  assumes "TransitionToInitialSync M t v p = Inr q"
  shows "CyndiConfigVersion (Status q) = CyndiConfigVersion (Status p)"
    and "status_SpecHash (Status q) = status_SpecHash (Status p)"
  using assms by (auto simp: TransitionToInitialSync_def ResetValid_def Let_def split: option.splits)

lemma records_with_active [simp]: "records i (with_active a p) \<longleftrightarrow> records i p"
  by (simp add: records_def with_active_def)


section \<open>Wake-ups\<close>

text \<open>
  the validation controller is woken up by the update that starts an initial sync and by
  every change of the specification (a new generation), and not by the updates of the status
  that it makes itself or by a refresh.
\<close>

theorem validation_wake_ups:
  assumes start: "TransitionToInitialSync M t v p = Inr q" and idle: "\<not> InitialSyncInProgress (Status p)"
  shows "eventFilterPredicate (watched_pipeline p) (watched_pipeline q) \<and>
    \<not> eventFilterPredicate (watched_pipeline p) (watched_pipeline (SetValid M t st reason msg h p)) \<and>
    \<not> eventFilterPredicate (watched_pipeline p) (watched_pipeline (TransitionToNew M t p)) \<and>
    eventFilterPredicate (watched_pipeline p)
      (watched_pipeline (p\<lparr>Meta := (Meta p)\<lparr>meta_Generation := meta_Generation (Meta p) + 1\<rparr>\<rparr>))"
  using TransitionToInitialSync_cases(2,5) [OF start] idle
  by (simp add: eventFilterPredicate_def watched_pipeline_def)


section \<open>The healthier table\<close>

text \<open>
  for counts that are not negative, the active table is kept exactly when its number of
  hosts is strictly closer to the inventory's than that of the new table; the 64-bit
  subtractions do not change the decision.
\<close>

theorem activeIsHealthier_exact:
  assumes "0 \<le> hbi" "hbi < 2 ^ 63" "0 \<le> active" "active < 2 ^ 63" "0 \<le> latest" "latest < 2 ^ 63"
  shows "activeIsHealthier hbi active latest \<longleftrightarrow> \<bar>hbi - latest\<bar> > \<bar>hbi - active\<bar>"
proof -
  have "Abs (wrap64 (hbi - x)) = \<bar>hbi - x\<bar>" if "0 \<le> x" "x < 2 ^ 63" for x
  proof -
    have "in_int64 (hbi - x)" "hbi - x \<noteq> - (2 ^ 63)" using assms(1,2) that by (auto simp: in_int64_def)
    then show ?thesis by (simp add: Abs_nonneg)
  qed
  then show ?thesis using assms by (simp add: activeIsHealthier_def)
qed


section \<open>Refresh\<close>

lemma updateStatusAndRequeue_stores:
  assumes eq: "\<And>a b. cmp_EqualStatus (env_cmp E) a b \<longleftrightarrow> a = b"
    and differs: "PipelineVersion (Status (it_Instance i)) \<noteq> PipelineVersion (Status (it_OriginalInstance i))"
    and run: "run_state (updateStatusAndRequeue E i) w = ((Returns (res, None), i'), w')"
  shows "\<exists>a. KubeUpdateStatus (with_active a (it_Instance i)) \<in> set (effects w')"
proof -
  obtain t w1 where table: "run_state (GetCurrentTable (env_pg E) (it_AppDb i)) w = (Inr t, w1)"
    using run
    by (cases "run_state (GetCurrentTable (env_pg E) (it_AppDb i)) w")
      (auto simp: updateStatusAndRequeue_def fail_def it_error_run split: sum.splits)
  let ?a = "case t of None \<Rightarrow> '''' | Some t \<Rightarrow> t"
  have "\<not> cmp_EqualStatus (env_cmp E) (Status (with_active ?a (it_Instance i))) (Status (it_OriginalInstance i))"
    unfolding eq with_active_def using differs by (auto dest!: arg_cong [where f = PipelineVersion])
  then have "KubeUpdateStatus (with_active ?a (it_Instance i)) \<in> set (effects w')"
    using run table
    by (auto simp: updateStatusAndRequeue_def Let_def set_status_def with_active_def fail_def it_error_run
        split: prod.splits sum.splits if_splits)
  then show ?thesis by blast
qed

text \<open>
  C8: a pipeline that deviates from its configuration is refreshed: a run of the controller
  on it that ends without an error has asked to store a status without a version, that is,
  the state \<open>NEW\<close>. (\<open>cmp.Equal\<close> of two statuses is taken to be their equality.)
\<close>

theorem deviation_refreshes:
  assumes eq: "\<And>a b. cmp_EqualStatus (env_cmp E) a b \<longleftrightarrow> a = b"
    and fresh: "it_OriginalInstance i = it_Instance i" "PipelineVersion (Status (it_Instance i)) \<noteq> ''''"
    and deviates: "run_state (checkForDeviation E i) w = (Returns (Inr (Some problem)), w1)"
    and run: "run_state (reconcileExisting E i) w = ((Returns (res, None), i'), w')"
  shows "\<exists>p. KubeUpdateStatus p \<in> set (effects w') \<and> PipelineVersion (Status p) = '''' \<and> Spec p = Spec (it_Instance i)"
proof -
  obtain w2 where p: "run_state (probeStateDeviationRefresh i problem) w1 = ((), w2)"
    by (cases "run_state (probeStateDeviationRefresh i problem) w1") auto
  obtain now w3 where n: "run_state (Now E) w2 = (now, w3)" by fastforce
  let ?j = "set_instance (TransitionToNew (env_meta E) now (it_Instance i)) i"
  have "run_state (updateStatusAndRequeue E ?j) w3 = ((Returns (res, None), i'), w')"
    using run deviates p n by (simp add: reconcileExisting_def refreshDeviating_def)
  moreover have "PipelineVersion (Status (it_Instance ?j)) \<noteq> PipelineVersion (Status (it_OriginalInstance ?j))"
    using fresh by (simp add: set_instance_def)
  ultimately obtain a where "KubeUpdateStatus (with_active a (it_Instance ?j)) \<in> set (effects w')"
    using updateStatusAndRequeue_stores [OF eq] by blast
  then show ?thesis
    by (intro exI [of _ "with_active a (it_Instance ?j)"]) (simp add: with_active_def set_instance_def)
qed

section \<open>Concrete runs\<close>

definition unreachable_kube :: "cluster env" where
  "unreachable_kube = ref_env\<lparr>env_kube := ref_kube\<lparr>kube_get_pipeline := (\<lambda>_ _ w. (Inl refused, w))\<rparr>\<rparr>"

theorem unreadable_pipeline_witness:
  "fst (run_state (Reconcile unreachable_kube ''app'' ''advisor'') (sync_world False)) = Panics"
proof -
  have "kube_get_pipeline (env_kube unreachable_kube) ''app'' ''advisor'' (server (sync_world False)) =
      (Inl refused, server (sync_world False))" by (simp add: unreachable_kube_def)
  from unreadable_pipeline [OF this] show ?thesis by (simp add: refused_def)
qed


definition offline_iteration :: iteration where
  "offline_iteration = new_iteration (ref_pipeline (ref_status ''1_2''))"

lemma ref_listing:
  "kube_list_connectors ref_kube ns (fmap_of_list [(LabelOwner, ''uid'')]) (server (sync_world b)) =
     (Inr (cl_connectors (server (sync_world b))), server (sync_world b))"
  by (simp add: ref_kube_def sync_world_def start_def ref_cluster_def ref_connector_def ref_labels_def
      as_string_def list_all_iff)

theorem unreachable_database_deletes_connectors_witness:
  "KubeDelete KindConnector ''app'' ''cyndi-advisor-1-1'' \<in> set (new_effects (sync_world False)
     (snd (run_state (deleteStaleDependencies ref_env offline_iteration) (sync_world False))))"
proof -
  have offline: "db_connection (it_AppDb offline_iteration) = None"
    and inst: "it_Instance offline_iteration = ref_pipeline (ref_status ''1_2'')"
    by (simp_all add: offline_iteration_def new_iteration_def)
  have meta: "meta_Namespace (Meta (ref_pipeline st)) = ''app''" "GetUIDString (ref_pipeline st) = ''uid''" for st
    by (simp_all add: ref_pipeline_def ref_ObjectMeta_def GetUIDString_def)
  have listed: "kube_list_connectors (env_kube ref_env) (meta_Namespace (Meta (it_Instance offline_iteration)))
      (fmap_of_list [(LabelOwner, GetUIDString (it_Instance offline_iteration))]) (server (sync_world False)) =
      (Inr (cl_connectors (server (sync_world False))), server (sync_world False))"
    using ref_listing by (simp add: inst meta)
  have g: "ref_connector ''cyndi-advisor-1-1'' \<in> set (cl_connectors (server (sync_world False)))"
    by (simp add: sync_world_def start_def ref_cluster_def)
  have name: "u_GetName (env_u ref_env) (ref_connector ''cyndi-advisor-1-1'') = ''cyndi-advisor-1-1''"
    by (simp add: ref_u_def ref_connector_def)
  have other: "u_GetName (env_u ref_env) (ref_connector ''cyndi-advisor-1-1'') \<noteq>
      ConnectorName (PipelineVersion (Status (it_Instance offline_iteration)))
        (AppName (Spec (it_Instance offline_iteration)))"
    unfolding name inst by (simp add: ref_pipeline_def ref_status_def ref_spec_def ConnectorName_def)
  show ?thesis
    using unreachable_database_deletes_connectors [OF offline listed g other, of
      "fst (run_state (deleteStaleDependencies ref_env offline_iteration) (sync_world False))"
      "snd (run_state (deleteStaleDependencies ref_env offline_iteration) (sync_world False))"]
    by (simp add: name inst meta del: ref_env_simps)
qed

definition doomed_pipeline :: CyndiPipeline where
  "doomed_pipeline = (ref_pipeline (ref_status ''1_2''))\<lparr>Meta := ref_ObjectMeta\<lparr>meta_DeletionTimestamp := Some ''now'',
     meta_Finalizers := [cyndipipelineFinalizer]\<rparr>\<rparr>"

definition doomed_iteration :: iteration where
  "doomed_iteration = (new_iteration doomed_pipeline)\<lparr>it_AppDb := ref_db\<rparr>"

definition doomed_run :: "gerror list outcome \<times> (cluster, effect) world" where
  "doomed_run = run_state (deleteStaleDependencies ref_env doomed_iteration) (sync_world False)"

lemma doomed_clean: "fst doomed_run = Returns []"
  by code_simp

lemma doomed_state: "GetState doc_meta doomed_pipeline = STATE_REMOVED"
  by (simp add: GetState_def doomed_pipeline_def)

lemma not_ephemeral: "\<not> ephemeral ref_env"
  by (simp add: ephemeral_def ref_env_def ParseBool_def)



lemma sync_updates:
  "\<exists>i' w'. run_state (updateStatusAndRequeue ref_env (ref_iteration (ref_status ''1_2''))) (sync_world False) =
     ((Returns (\<lparr>RequeueAfter = 0\<rparr>, None), i'), w') \<and> GetRequeueInterval i' = 0"
  using sync_currents(1)
  by (simp add: updateStatusAndRequeue_def Let_def ref_cmp_def ref_kube_def set_status_def
      GetRequeueInterval_def ref_iteration_def new_iteration_def ref_config_def zero_CyndiConfiguration_def
      ref_pipeline_def ref_status_def zero_Status_def wrap64_def)


text \<open>The sample run that starts a sync: it does store a status.\<close>

definition started :: "(reconciled outcome \<times> iteration) \<times> (cluster, effect) world" where
  "started = run_state (startSync ref_env (ref_iteration zero_Status)) (sync_world False)"

lemma started_run: "run_state (startSync ref_env (ref_iteration zero_Status)) (sync_world False) = (fst started, snd started)"
  by (simp add: started_def)

definition stores :: "effect \<Rightarrow> bool" where
  "stores e = (case e of KubeUpdateStatus _ \<Rightarrow> True | _ \<Rightarrow> False)"

lemma stores_iff: "stores e \<longleftrightarrow> (\<exists>p. e = KubeUpdateStatus p)"
  by (cases e) (simp_all add: stores_def)

lemma started_stores: "\<exists>p. KubeUpdateStatus p \<in> set (new_effects (sync_world False) (snd started))"
proof -
  have "effects (sync_world False) = []" by (simp add: sync_world_def start_def)
  moreover have "list_ex stores (effects (snd started))" by code_simp
  ultimately show ?thesis by (auto simp: new_effects_def list_ex_iff stores_iff)
qed

theorem sync_creates_connector_first_witness:
  "\<exists>before g after. new_effects (sync_world False) (snd started) = before @ KubeCreate g # after \<and> set before \<subseteq> no_status"
proof -
  have "ConnectorsManaged (it_Instance (ref_iteration zero_Status))"
    by simp
  from sync_creates_connector_first [OF this started_run] started_stores show ?thesis
    by (auto simp: no_status_def)
qed


theorem validation_wake_ups_witness:
  "eventFilterPredicate (watched_pipeline new_pipeline) (watched_pipeline synced_pipeline)"
proof -
  have "TransitionToInitialSync doc_meta ''now'' ''1_1'' new_pipeline = Inr synced_pipeline" by code_simp
  moreover have "\<not> InitialSyncInProgress (Status new_pipeline)" by code_simp
  ultimately show ?thesis by (rule validation_wake_ups [THEN conjunct1])
qed


theorem activeIsHealthier_exact_witness: "activeIsHealthier 100 98 90 \<and> \<not> activeIsHealthier 100 90 110"
  using activeIsHealthier_exact [of 100 98 90] activeIsHealthier_exact [of 100 90 110] by simp

text \<open>An initial sync that has reached 90 of 100 hosts while the active table has 50.\<close>

definition counted_world :: "(cluster, effect) world" where
  "counted_world = start ((ref_cluster (ref_status ''1_2''))\<lparr>cl_counts :=
     [(hostCountQuery ''.hosts'' False [], 100), (hostCountQuery ''inventory.hosts_v1_1'' False [], 50),
      (hostCountQuery ''inventory.hosts_v1_2'' False [], 90)]\<rparr>)"

definition counted_view :: "(gerror option \<times> iteration) \<times> (cluster, effect) world" where
  "counted_view = run_state (updateViewIfHealthier ref_env (ref_iteration (ref_status ''1_2''))) counted_world"

lemma counted_query:
  "ref_query currentTableQuery (server counted_world) = Inr (rows [string_row ''hosts_v1_1''])"
  "ref_query (hostCountQuery ''.hosts'' False []) (server counted_world) = Inr (rows [int_row 100])"
  "ref_query (hostCountQuery ''inventory.hosts_v1_1'' False []) (server counted_world) = Inr (rows [int_row 50])"
  "ref_query (hostCountQuery ''inventory.hosts_v1_2'' False []) (server counted_world) = Inr (rows [int_row 90])"
  by code_simp+

definition logged :: "(cluster, effect) world \<Rightarrow> effect \<Rightarrow> (cluster, effect) world" where
  "logged w e = w\<lparr>effects := effects w @ [e]\<rparr>"

lemma server_logged [simp]: "server (logged w e) = server w"
  by (simp add: logged_def)

lemma ref_CountHosts:
  "ref_query (hostCountQuery t io fs) (server w) = Inr (rows [int_row n]) \<Longrightarrow> db_connection db = Some c \<Longrightarrow>
   run_state (CountHosts ref_pg db t io fs) w = (Inr n, logged w (PgQuery c (hostCountQuery t io fs)))"
  by (simp add: CountHosts_def RunQuery_def ref_pg_def logged_def row_simps)

lemma ref_GetCurrentTable:
  "ref_query currentTableQuery (server w) = Inr (rows [string_row t]) \<Longrightarrow> db_connection db = Some c \<Longrightarrow>
   run_state (GetCurrentTable ref_pg db) w = (Inr (Some t), logged w (PgQuery c currentTableQuery))"
  by (simp add: GetCurrentTable_def RunQuery_def ref_pg_def logged_def row_simps)

lemma ref_base_Connect:
  "cl_up (server w) \<Longrightarrow> run_state (base_Connect ref_pg db) w =
     ((None, db\<lparr>db_connection := Some 1\<rparr>), logged w (PgConnect (connectionString (db_Config db))))"
  by (simp add: base_Connect_def GetConnection_def ref_pg_def Let_def logged_def)

lemma ref_UpdateView:
  "t \<in> set (cl_tables (server w)) \<Longrightarrow> db_connection db = Some c \<Longrightarrow>
   cl_view (server (snd (run_state (UpdateView ref_pg db t) w))) = Some t"
  by (simp add: UpdateView_def Exec_def ref_pg_def ref_exec_view ref_exec_grant)

lemma ref_table: "status_TableName (Status (ref_pipeline (ref_status ''1_2''))) = ''hosts_v1_2''"
  by (simp add: ref_pipeline_def ref_status_def TableName_def tablePrefix_def)

lemma ref_filters:
  "InsightsOnly (Spec (ref_pipeline st)) = False" "AdditionalFilters (Spec (ref_pipeline st)) = []"
  "it_HBIDBParams (ref_iteration st) = zero_DBParams" "cfg_InventoryDbSchema (it_config (ref_iteration st)) = ''''"
  by (simp_all add: ref_pipeline_def ref_spec_def ref_iteration_def new_iteration_def ref_config_def zero_CyndiConfiguration_def)


lemma ref_updateStatus:
  assumes "run_state (GetCurrentTable ref_pg (it_AppDb j)) w = (Inr t, w1)"
  shows "\<exists>res i' w'. run_state (updateStatusAndRequeue ref_env j) w = ((Returns (res, None), i'), w')"
  using assms by (auto simp: updateStatusAndRequeue_def Let_def ref_kube_def)

definition stale_iteration :: iteration where
  "stale_iteration = (ref_iteration (ref_status ''1_2''))\<lparr>it_config := zero_CyndiConfiguration\<lparr>cfg_ConfigMapVersion := ''7''\<rparr>\<rparr>"

theorem deviation_refreshes_witness:
  "\<exists>p. KubeUpdateStatus p \<in> set (effects (snd (run_state (reconcileExisting ref_env stale_iteration) (sync_world False))))
     \<and> PipelineVersion (Status p) = ''''"
proof -
  have inst: "it_Instance stale_iteration = ref_pipeline (ref_status ''1_2'')"
    "it_OriginalInstance stale_iteration = ref_pipeline (ref_status ''1_2'')" "it_AppDb stale_iteration = ref_db"
    by (simp_all add: stale_iteration_def ref_iteration_def new_iteration_def)
  have dev: "run_state (checkForDeviation ref_env stale_iteration) (sync_world False) =
      (Returns (Inr (Some (''ConfigMap changed. New version is '' @ ''7''))), sync_world False)"
    by (simp add: checkForDeviation_def inst) (simp add: stale_iteration_def ref_pipeline_def ref_status_def zero_Status_def)
  have q: "ref_query currentTableQuery (server (sync_world False)) = Inr (rows [string_row ''hosts_v1_1''])" by code_simp
  have now: "run_state (Now ref_env) w = (''now'', w)" for w :: "(cluster, effect) world"
    by (simp add: Now_def ref_env_def)
  define w2 where "w2 = snd (run_state (probeStateDeviationRefresh stale_iteration
    (''ConfigMap changed. New version is '' @ ''7'')) (sync_world False))"
  define j where "j = set_instance (TransitionToNew doc_meta ''now'' (it_Instance stale_iteration)) stale_iteration"
  have "server w2 = server (sync_world False)"
    by (simp add: w2_def probeStateDeviationRefresh_def PipelineRefreshed_def metric_def eventWarning_def)
  moreover have "it_AppDb j = ref_db" by (simp add: j_def set_instance_def inst)
  ultimately obtain res i' w' where "run_state (updateStatusAndRequeue ref_env j) w2 = ((Returns (res, None), i'), w')"
    using ref_updateStatus [of j w2 "Some ''hosts_v1_1''"] ref_GetCurrentTable [of w2 "''hosts_v1_1''" ref_db 1] q by auto
  then have run: "run_state (reconcileExisting ref_env stale_iteration) (sync_world False) =
      ((Returns (res, None), i'), w')"
    using dev by (auto simp: reconcileExisting_def refreshDeviating_def now w2_def j_def split: prod.splits)
  have "cmp_EqualStatus (env_cmp ref_env) a b \<longleftrightarrow> a = b" for a b by (simp add: ref_cmp_def)
  moreover have "PipelineVersion (Status (ref_pipeline (ref_status ''1_2''))) \<noteq> ''''"
    by (simp add: ref_pipeline_def ref_status_def)
  ultimately show ?thesis
    using deviation_refreshes [OF _ _ _ dev run] run by (auto simp: inst)
qed

end
