(* ===== verification/Interleaving.thy ===== *)
theory Interleaving
  imports Behaviour
begin

text \<open>
  The two controllers together. Both work on the same pipeline in the API server, in runs that
  overlap with one another and with what users do; the resource version keeps them apart. First:
  a run stores at most one status. Then: the pipeline as a state machine whose steps are the
  requests of the runs, and what every interleaving keeps.
\<close>

section \<open>One status per run\<close>

text \<open>Requests among which at most one stores a status.\<close>

definition once :: "('w, 'a) eff \<Rightarrow> bool" where
  "once m \<longleftrightarrow> post m (\<lambda>_ es. length (filter stores es) \<le> 1)"

definition quiet :: "effect set" where
  "quiet = {e. \<not> stores e}"

lemma quiet_simps [simp]:
  "KubeUpdateStatus p \<notin> quiet" "PgQuery c q \<in> quiet" "PgExec c q \<in> quiet" "PgConnect s \<in> quiet"
  "PgClose c \<in> quiet" "KubeGet k ns n \<in> quiet" "KubeList k ns ls \<in> quiet" "KubeCreate g \<in> quiet"
  "KubeUpdate g \<in> quiet" "KubeDelete k ns n \<in> quiet" "KubeUpdatePipeline p \<in> quiet"
  "EventRecorded ty r msg a \<in> quiet" "MetricChanged m \<in> quiet" "reading \<subseteq> quiet"
  by (auto simp: quiet_def stores_def reading_def)

lemma quiet_none: "set es \<subseteq> quiet \<Longrightarrow> filter stores es = []"
  by (auto simp: quiet_def filter_empty_conv)

lemma once_quiet: "only quiet m \<Longrightarrow> once m"
  unfolding once_def by (erule post_only) (simp add: quiet_none)

lemma once_then:
  assumes "only quiet m" and "\<And>x. once (f x)"
  shows "once (State_Monad.bind m f)"
  unfolding once_def
  by (rule post_bind, rule post_only [OF assms(1)], rule post_mono [OF assms(2) [unfolded once_def]])
    (simp add: quiet_none)

lemma once_before:
  assumes "once m" and "\<And>x. only quiet (f x)"
  shows "once (State_Monad.bind m f)"
  unfolding once_def
  by (rule post_bind, rule post_mono [OF assms(1) [unfolded once_def]], rule post_only [OF assms(2)])
    (simp add: quiet_none)

lemma once_if: "once m \<Longrightarrow> once n \<Longrightarrow> once (if b then m else n)"
  by simp

lemma once_case_sum: "(\<And>e. once (f e)) \<Longrightarrow> (\<And>y. once (g y)) \<Longrightarrow> once (case x of Inl e \<Rightarrow> f e | Inr y \<Rightarrow> g y)"
  by (cases x) auto

lemma once_case_option: "once m \<Longrightarrow> (\<And>y. once (f y)) \<Longrightarrow> once (case x of None \<Rightarrow> m | Some y \<Rightarrow> f y)"
  by (cases x) auto

lemma once_case_prod: "(\<And>a b. once (f a b)) \<Longrightarrow> once (case x of (a, b) \<Rightarrow> f a b)"
  by (cases x) auto

lemma once_case_outcome: "(\<And>y. once (f y)) \<Longrightarrow> once m \<Longrightarrow> once (case x of Returns y \<Rightarrow> f y | Panics \<Rightarrow> m)"
  by (cases x) auto

lemmas once_cases = once_if once_case_sum once_case_option once_case_prod once_case_outcome

lemma once_perform: "once (perform e f)"
  unfolding once_def by (rule post_perform) simp

lemma once_update: "once (updateStatusAndRequeue E i)"
proof -
  have "only quiet (GetCurrentTable (env_pg E) (it_AppDb i))" "only quiet (fail j err msg)" for j err msg
    by (auto intro!: only_intros)
  then show ?thesis
    unfolding updateStatusAndRequeue_def Let_def
    by (intro once_then once_cases once_before [OF once_perform] once_quiet) (auto intro!: only_intros)
qed

text \<open>Everything else a run does is quiet.\<close>

lemma quiet_healthier: "only quiet (updateViewIfHealthier E i)"
  by (rule only_post [where P = "\<lambda>_. True"], rule post_mono [OF post_updateViewIfHealthier [of quiet]]) simp_all

lemma quiet_parts:
  "only quiet (fail i err msg)" "only quiet (deleteStaleDependencies E i)" "only quiet (reportErrors errs msg)"
  "only quiet (checkForDeviation E i)" "only quiet (addFinalizer E i)" "only quiet (removeFinalizer E i)"
  "only quiet (iterationClose E i)" "only quiet (createConnector E i n b)" "only quiet (recreateViewIfNeeded E i)"
  "only quiet (InitLabels inst)" "only quiet (it_error err ps)" "only quiet (ret x)" "only quiet (UnixNano E)" "only quiet (Now E)"
  "only quiet (probeStartingInitialSync i)" "only quiet (probeStateDeviationRefresh i problem)"
  "only quiet (probePipelineDidNotBecomeValid i)" "only quiet (eventNormal t msg args)" "only quiet (eventWarning t msg args)"
  "only quiet (CheckIfTableExists P db t)" "only quiet (CreateTable P T db t script)"
  "only quiet (SetConnectorState E n ns b)"
  unfolding deleteStaleDependencies_def removeStale_def addFinalizer_def removeFinalizer_def createConnector_def Let_def
  by (intro only_intros; simp)+

lemma once_startSync: "once (startSync E i)"
  unfolding startSync_def provision_def Let_def
  by (intro once_then once_cases once_update quiet_parts once_quiet [OF quiet_parts(1)]) (auto intro!: only_intros)

lemma once_refreshInvalid: "once (refreshInvalid E i)"
  unfolding refreshInvalid_def Let_def
  by (intro once_then once_update quiet_parts) (auto intro!: only_intros quiet_healthier)

lemma once_reconcileHealthy: "once (reconcileHealthy E i)"
  unfolding reconcileHealthy_def Let_def
  by (intro once_then once_cases once_update once_refreshInvalid quiet_parts once_quiet [OF quiet_parts(1)])
    (auto intro!: only_intros)

lemma once_refreshDeviating: "once (refreshDeviating E i problem)"
  unfolding refreshDeviating_def by (intro once_then once_update quiet_parts)

lemma once_reconcileExisting: "once (reconcileExisting E i)"
  unfolding reconcileExisting_def
  by (intro once_then once_cases once_reconcileHealthy once_refreshDeviating quiet_parts
        once_quiet [OF quiet_parts(1)] once_quiet [OF quiet_parts(12)])
    (auto intro!: only_intros)

lemma once_reconcileInstance: "once (reconcileInstance E i err)"
  unfolding reconcileInstance_def reconcileNew_def reconcileRemoved_def Let_def
  by (intro once_then once_cases once_startSync once_reconcileExisting quiet_parts
        once_quiet [OF quiet_parts(1)] once_quiet [OF quiet_parts(12)])
    (auto intro!: only_intros)

lemma once_reconcileFetched: "once (reconcileFetched E inst)"
proof -
  have "only quiet (setupInstance E inst)"
    by (rule only_post [where P = "\<lambda>_. True"], rule post_mono [OF post_setupInstance [of quiet]]) simp_all
  then show ?thesis
    unfolding reconcileFetched_def
    by (intro once_then once_case_prod once_before [OF once_reconcileInstance]) (auto intro!: only_intros)
qed

lemma once_validateFetched: "once (validateFetched E check inst)"
proof -
  have quiet_setup: "only quiet (setupInstance E inst)"
    by (rule only_post [where P = "\<lambda>_. True"], rule post_mono [OF post_setupInstance [of quiet]]) simp_all
  have connect: "only quiet (connectInventory E i err)" for i err
    unfolding connectInventory_def Let_def by (auto intro!: only_intros)
  have validate: "only quiet (validate E i db schema)" "only quiet (recordValidation E i v)" for i db schema v
    unfolding recordValidation_def Let_def by (intro only_intros; simp)+
  have "once (runValidation E check i err)" for i err
    unfolding runValidation_def reconcileValidation_def validateInstance_def Let_def
    by (intro once_then once_cases once_update once_refreshDeviating quiet_parts validate
          once_quiet [OF quiet_parts(1)] once_quiet [OF quiet_parts(12)])
  then show ?thesis
    unfolding validateFetched_def
    by (intro once_then once_case_prod once_before) (auto intro!: only_intros quiet_setup connect)
qed

lemma once_new:
  assumes "once m" and "run_state m (after_fetch s ns n w) = (r, w')"
  shows "length (filter stores (new_effects w w')) \<le> 1"
  using postD [OF assms(1) [unfolded once_def] assms(2)]
  by (auto simp: new_effects_def after_fetch_def stores_def)

text \<open>
  C14: a run of either controller stores the status of its pipeline at most once.
\<close>

theorem status_stored_once:
  assumes "kube_get_pipeline (env_kube E) ns n (server w) = (Inr inst, s)"
  shows "length (filter stores (new_effects w (snd (run_state (Reconcile E ns n) w)))) \<le> 1 \<and>
    length (filter stores (new_effects w (snd (run_state (ReconcileValidation E check ns n) w)))) \<le> 1"
  unfolding Reconcile_fetched [OF assms] ReconcileValidation_fetched [OF assms]
  by (intro conjI once_new [OF once_reconcileFetched surjective_pairing] once_new [OF once_validateFetched surjective_pairing])

section \<open>The pipeline both controllers share\<close>

text \<open>A status a run of one of the controllers sends after it has fetched \<open>inst\<close>.\<close>

definition sends :: "'w env \<Rightarrow> CyndiPipeline \<Rightarrow> CyndiPipeline \<Rightarrow> bool" where
  "sends E inst p \<longleftrightarrow>
     (\<exists>ns n w s. kube_get_pipeline (env_kube E) ns n (server w) = (Inr inst, s) \<and>
        (KubeUpdateStatus p \<in> set (new_effects w (snd (run_state (Reconcile E ns n) w))) \<or>
         (\<exists>check. KubeUpdateStatus p \<in> set (new_effects w (snd (run_state (ReconcileValidation E check ns n) w))))))"

text \<open>
  The pipeline as the API server keeps it, with a number that grows with every change, and the runs
  under way: what each has fetched and the version its next update will carry.
\<close>

record system =
  object :: CyndiPipeline
  version :: nat
  runs :: "(CyndiPipeline \<times> nat) set"

text \<open>
  What happens to the pipeline: a run fetches it; somebody changes its specification or
  metadata, or asks for its removal, which cannot be undone; a run writes the finalizers and
  goes on with the answer; a run stores a status. An update that does not carry the current
  version is refused. The status is a subresource: an update of it changes nothing else, and
  the other updates do not change it.
\<close>

inductive sys_step :: "'w env \<Rightarrow> system \<Rightarrow> system \<Rightarrow> bool" for E where
  sys_fetch: "sys_step E s (s\<lparr>runs := insert (object s, version s) (runs s)\<rparr>)"
| sys_edit: "Status p = Status (object s) \<Longrightarrow>
    (meta_DeletionTimestamp (Meta (object s)) \<noteq> None \<Longrightarrow>
       meta_DeletionTimestamp (Meta p) = meta_DeletionTimestamp (Meta (object s))) \<Longrightarrow>
    sys_step E s (s\<lparr>object := p, version := Suc (version s)\<rparr>)"
| sys_finalizers: "(inst, version s) \<in> runs s \<Longrightarrow>
    sys_step E s (s\<lparr>object := (object s)\<lparr>Meta := (Meta (object s))\<lparr>meta_Finalizers := fs\<rparr>\<rparr>, version := Suc (version s),
      runs := insert (inst, Suc (version s)) (runs s)\<rparr>)"
| sys_store: "(inst, version s) \<in> runs s \<Longrightarrow> sends E inst p \<Longrightarrow>
    sys_step E s (s\<lparr>object := (object s)\<lparr>Status := Status p\<rparr>, version := Suc (version s)\<rparr>)"
| sys_conflict: "(inst, v) \<in> runs s \<Longrightarrow> v \<noteq> version s \<Longrightarrow> sys_step E s s"

inductive sys_reachable :: "'w env \<Rightarrow> system \<Rightarrow> bool" for E where
  sys_init: "wf_status (env_meta E) (object s) \<Longrightarrow> runs s = {} \<Longrightarrow> sys_reachable E s"
| sys_next: "sys_reachable E s \<Longrightarrow> sys_step E s s' \<Longrightarrow> sys_reachable E s'"

lemma state_cong:
  assumes "Status p = Status q"
  shows "wf_status M p \<longleftrightarrow> wf_status M q"
    "meta_DeletionTimestamp (Meta p) = meta_DeletionTimestamp (Meta q) \<Longrightarrow> GetState M p = GetState M q"
  using assms by (simp_all add: wf_status_def GetState_def GetValid_def IsValid_def)

lemma sends_follows:
  assumes "reconciler_env E" and "wf_status (env_meta E) inst" and "sends E inst p"
  shows "follows (env_meta E) inst p"
proof -
  from assms(3) obtain ns n w s check where f: "kube_get_pipeline (env_kube E) ns n (server w) = (Inr inst, s)"
    and p: "KubeUpdateStatus p \<in> set (new_effects w (snd (run_state (Reconcile E ns n) w))) \<or>
      KubeUpdateStatus p \<in> set (new_effects w (snd (run_state (ReconcileValidation E check ns n) w)))"
    unfolding sends_def by blast
  let ?S = "status_ok (env_meta E) inst"
  have 1: "only ?S (reconcileFetched E inst)"
    by (rule only_reconcileFetched) (use assms(2) in \<open>auto intro: reconciler_env.only_reconcileInstance [OF assms(1)]\<close>)
  have 2: "only ?S (validateFetched E check inst)"
    by (rule only_validateFetched)
      (use assms(2) in \<open>auto simp: reporting_def intro: reconciler_env.only_reconcileValidation [OF assms(1)]\<close>)
  from p show ?thesis
    unfolding Reconcile_fetched [OF f] ReconcileValidation_fetched [OF f]
    using only_new_fetched [OF 1 surjective_pairing] only_new_fetched [OF 2 surjective_pairing] by fastforce
qed

text \<open>A run that holds the current version has fetched the current status.\<close>

definition current :: "'w env \<Rightarrow> system \<Rightarrow> bool" where
  "current E s \<longleftrightarrow> wf_status (env_meta E) (object s) \<and>
     (\<forall>(inst, v) \<in> runs s. wf_status (env_meta E) inst \<and> v \<le> version s \<and>
        (v = version s \<longrightarrow> Status inst = Status (object s) \<and>
           meta_DeletionTimestamp (Meta inst) = meta_DeletionTimestamp (Meta (object s))))"

lemma current_step:
  assumes E: "reconciler_env E" and "sys_step E s s'" and "current E s"
  shows "current E s' \<and> lifecycle (GetState (env_meta E) (object s)) (GetState (env_meta E) (object s'))"
  using assms(2,3)
proof (cases rule: sys_step.cases)
  case (sys_edit p)
  have "lifecycle (GetState (env_meta E) (object s)) (GetState (env_meta E) p)"
  proof (cases "meta_DeletionTimestamp (Meta p) = meta_DeletionTimestamp (Meta (object s))")
    case True
    then show ?thesis using state_cong(2) [of p "object s" "env_meta E"] sys_edit by (simp add: lifecycle.stay)
  next
    case False
    then have "GetState (env_meta E) p = STATE_REMOVED" 
      using sys_edit(3) not_removed [of "env_meta E" p] by (cases "meta_DeletionTimestamp (Meta (object s))") auto
    then show ?thesis by (simp add: lifecycle.removed)
  qed
  then show ?thesis
    using assms(3) sys_edit state_cong(1) [of p "object s" "env_meta E"] by (fastforce simp: current_def)
next
  case (sys_store inst p)
  then have inst: "wf_status (env_meta E) inst" "Status inst = Status (object s)"
    "meta_DeletionTimestamp (Meta inst) = meta_DeletionTimestamp (Meta (object s))"
    using assms(3) by (auto simp: current_def)
  from sends_follows [OF E inst(1) sys_store(3)] have f: "wf_status (env_meta E) p"
    "lifecycle (GetState (env_meta E) inst) (GetState (env_meta E) p)"
    "meta_DeletionTimestamp (Meta p) = meta_DeletionTimestamp (Meta inst)" by (auto simp: follows_def)
  have "GetState (env_meta E) (object s') = GetState (env_meta E) p" "wf_status (env_meta E) (object s')"
    using state_cong [of "object s'" p] f inst(3) sys_store(1) by simp_all
  moreover have "GetState (env_meta E) inst = GetState (env_meta E) (object s)" using inst(2,3) by (rule state_cong(2))
  ultimately show ?thesis using f(2) sys_store(1) assms(3) by (fastforce simp: current_def)
next
  case (sys_finalizers inst fs)
  then have same: "Status (object s') = Status (object s)"
    "meta_DeletionTimestamp (Meta (object s')) = meta_DeletionTimestamp (Meta (object s))" by simp_all
  with assms(3) sys_finalizers state_cong [OF same(1)] show ?thesis
    by (fastforce simp: current_def lifecycle.stay)
qed (auto simp: current_def lifecycle.stay)

lemma current_reachable:
  assumes "reconciler_env E" and "sys_reachable E s"
  shows "current E s"
  using assms(2)
proof (induction rule: sys_reachable.induct)
  case (sys_init s)
  then show ?case by (simp add: current_def)
qed (use current_step [OF assms(1)] in blast)

text \<open>
  C6: however the runs of both controllers, of any number of workers, and the edits of users
  interleave, the status in the API server stays well formed, every change of it follows the
  life cycle from the state before the change, and a run that is able to store a status has
  computed it from the status it replaces: no update is lost.
\<close>

theorem interleaved_lifecycle:
  assumes "reconciler_env E" and "sys_reachable E s" and "sys_step E s s'"
  shows "wf_status (env_meta E) (object s') \<and>
    lifecycle (GetState (env_meta E) (object s)) (GetState (env_meta E) (object s')) \<and>
    (\<forall>inst. (inst, version s) \<in> runs s \<longrightarrow> Status inst = Status (object s))"
  using current_step [OF assms(1,3) current_reachable [OF assms(1,2)]] current_reachable [OF assms(1,2)]
  by (auto simp: current_def)

section \<open>A concrete interleaving\<close>

theorem status_stored_once_witness:
  "length (filter stores (new_effects (sync_world False) (snd sync_reconcile))) \<le> 1 \<and>
   length (filter stores (new_effects (sync_world False) (snd sync_validation))) \<le> 1"
  using status_stored_once [OF sync_fetch] by (simp add: sync_reconcile_def sync_validation_def)

text \<open>A run has fetched the pipeline in its initial sync; then a user removes the pipeline.\<close>

definition fetched_system :: system where
  "fetched_system = \<lparr>object = ref_pipeline (ref_status ''1_2''), version = 1,
     runs = {(ref_pipeline (ref_status ''1_2''), 1)}\<rparr>"

definition removed_system :: system where
  "removed_system = fetched_system\<lparr>object := (object fetched_system)\<lparr>Meta := (Meta (object fetched_system))
     \<lparr>meta_DeletionTimestamp := Some ''now''\<rparr>\<rparr>, version := 2\<rparr>"

lemma fetched_system_reachable: "sys_reachable ref_env fetched_system"
proof -
  let ?s = "\<lparr>object = ref_pipeline (ref_status ''1_2''), version = 1, runs = {}\<rparr>"
  have "sys_reachable ref_env ?s" by (rule sys_init) (simp_all add: sync_wf)
  moreover have "fetched_system = ?s\<lparr>runs := insert (object ?s, version ?s) (runs ?s)\<rparr>"
    by (simp add: fetched_system_def)
  ultimately show ?thesis using sys_next sys_fetch by metis
qed

lemma removed_system_step: "sys_step ref_env fetched_system removed_system"
proof -
  have "removed_system = fetched_system\<lparr>object := object removed_system, version := Suc (version fetched_system)\<rparr>"
    by (simp add: removed_system_def fetched_system_def)
  moreover have "sys_step ref_env fetched_system
      (fetched_system\<lparr>object := object removed_system, version := Suc (version fetched_system)\<rparr>)"
    by (rule sys_edit) (simp_all add: removed_system_def fetched_system_def ref_pipeline_def ref_ObjectMeta_def)
  ultimately show ?thesis by simp
qed

theorem interleaved_lifecycle_witness:
  "wf_status doc_meta (object removed_system) \<and>
   lifecycle STATE_INITIAL_SYNC (GetState doc_meta (object removed_system)) \<and>
   GetState doc_meta (object removed_system) = STATE_REMOVED"
proof -
  have "GetState doc_meta (object removed_system) = STATE_REMOVED"
    by (simp add: GetState_def removed_system_def)
  moreover have "GetState doc_meta (object fetched_system) = STATE_INITIAL_SYNC"
    by (simp add: fetched_system_def sync_state)
  ultimately show ?thesis
    using interleaved_lifecycle [OF ref_env.reconciler_env_axioms fetched_system_reachable removed_system_step] by simp
qed

end
