(* ===== verification/SyncBound.thy ===== *)
theory SyncBound
  imports Behaviour
begin

text \<open>
  How long an initial sync may last: the failed validations the validation controller records,
  and what the pipeline controller does after so many of them.
\<close>

text \<open>A pipeline after failed validations: the clock, the message and the number of hosts of each.\<close>

fun after_failures :: "meta_api \<Rightarrow> (string \<times> string \<times> int) list \<Rightarrow> CyndiPipeline \<Rightarrow> CyndiPipeline" where
  "after_failures M [] p = p"
| "after_failures M ((now, msg, hosts) # vs) p =
     after_failures M vs (SetValid M now ConditionFalse ''ValidationFailed'' msg hosts p)"

text \<open>These are the pipelines the validation controller computes.\<close>

lemma recordValidation_failure:
  assumes "\<not> v_isValid v"
  shows "\<exists>now msg hosts w'. run_state (recordValidation E i v) w =
    (set_instance (after_failures (env_meta E) [(now, msg, hosts)] (it_Instance i)) i, w')"
  using assms by (auto simp: recordValidation_def Let_def Now_def split: prod.splits)

context status_conditions
begin

lemma after_failures_state:
  "GetState M p = STATE_INITIAL_SYNC \<Longrightarrow> InitialSyncInProgress (Status p) \<Longrightarrow> 0 \<le> ValidationFailedCount (Status p) \<Longrightarrow>
   ValidationFailedCount (Status p) + int (length vs) < 2 ^ 63 \<Longrightarrow>
   GetState M (after_failures M vs p) = STATE_INITIAL_SYNC \<and>
   InitialSyncInProgress (Status (after_failures M vs p)) \<and>
   ValidationFailedCount (Status (after_failures M vs p)) = ValidationFailedCount (Status p) + int (length vs) \<and>
   GetValid M (after_failures M vs p) = (if vs = [] then GetValid M p else ConditionFalse)"
proof (induction vs arbitrary: p)
  case (Cons v vs)
  obtain now msg hosts where v: "v = (now, msg, hosts)" by (cases v)
  let ?p = "SetValid M now ConditionFalse ''ValidationFailed'' msg hosts p"
  have "in_int64 (ValidationFailedCount (Status p) + 1)" using Cons.prems by (simp add: in_int64_def)
  then have "ValidationFailedCount (Status ?p) = ValidationFailedCount (Status p) + 1"
    "GetState M ?p = STATE_INITIAL_SYNC" "InitialSyncInProgress (Status ?p)"
    using Cons.prems by (simp_all add: GetState_SetValid)
  with Cons.IH [of ?p] Cons.prems v show ?case by (auto simp: add.commute)
qed simp

end


text \<open>With three attempts: after two failures the sync goes on, the third one ends it.\<close>

definition failed_sync :: "nat \<Rightarrow> iteration" where
  "failed_sync k = (new_iteration (after_failures doc_meta (replicate k (''now'', ''mismatch'', 5)) synced_pipeline))
     \<lparr>it_config := zero_CyndiConfiguration\<lparr>cfg_ValidationConfigInit := defaultValidationConfig\<rparr>\<rparr>"

lemma synced_pipeline_started: "TransitionToInitialSync doc_meta ''now'' ''1_1'' new_pipeline = Inr synced_pipeline"
  by code_simp


end
