(* ===== verification/TableScripts.thy ===== *)
theory TableScripts
  imports Template Defaults Database
begin

text \<open>
  The scripts of the default configuration as templates: which texts have the table name as
  their only action, what executing them gives, and what \<open>CreateTable\<close> therefore runs.
\<close>

section \<open>Pieces of a text\<close>

text \<open>Text in front of the pieces of another text joins its first piece.\<close>

fun add_text :: "string \<Rightarrow> piece list \<Rightarrow> piece list" where
  "add_text u (PText s # ps) = PText (u @ s) # ps"
| "add_text u ps = ps"

lemma scan_shape: "scan b acc s = Some ps \<Longrightarrow> (\<not> b \<longrightarrow> (\<exists>u qs. ps = PText u # qs)) \<and> ps \<noteq> []"
  by (induction b acc s arbitrary: ps rule: scan.induct) (auto split: if_splits)

lemma scan_acc: "scan False acc s = map_option (add_text (rev acc)) (scan False [] s)"
proof -
  have "scan b (acc2 @ acc1) s = map_option (\<lambda>ps. case ps of PText u # qs \<Rightarrow> PText (rev acc1 @ u) # qs
      | PAct u # qs \<Rightarrow> PAct (rev acc1 @ u) # qs | [] \<Rightarrow> []) (scan b acc2 s)" for b acc1 acc2
    by (induction b acc2 s rule: scan.induct) (auto simp: map_option.compositionality comp_def)
  from this [of False "[]" acc] have "scan False acc s = map_option (\<lambda>ps. case ps of PText u # qs \<Rightarrow> PText (rev acc @ u) # qs
      | PAct u # qs \<Rightarrow> PAct (rev acc @ u) # qs | [] \<Rightarrow> []) (scan False [] s)" by simp
  then show ?thesis
    using scan_shape [of False "[]" s] by (cases "scan False [] s") auto
qed

lemma scan_append:
  assumes "scan b acc s = Some ps" and "s = [] \<or> last s \<noteq> CHR ''{''"
  shows "\<exists>qs u. ps = qs @ [PText u] \<and> (\<forall>r. scan b acc (s @ r) = map_option ((@) qs) (scan False (rev u) r))"
  using assms
proof (induction b acc s arbitrary: ps rule: scan.induct)
  case (1 b acc)
  then show ?case by (auto intro: exI [of _ "[]"] split: if_splits)
next
  case (2 b acc c)
  have "scan False acc (c # r) = scan False (c # acc) r" if "c \<noteq> CHR ''{''" for r
    using that by (cases r) auto
  moreover from 2 have "\<not> b" "ps = [PText (rev (c # acc))]" "c \<noteq> CHR ''{''" by (auto split: if_splits)
  ultimately have "ps = [] @ [PText (rev (c # acc))]"
    "\<forall>r. scan b acc ([c] @ r) = map_option ((@) []) (scan False (rev (rev (c # acc))) r)" by simp_all
  then show ?case by blast
next
  case (3 b acc c d s)
  consider (close) "b" "c = CHR ''}''" "d = CHR ''}''" | (leave) "\<not> b" "c = CHR ''{''" "d = CHR ''{''"
    | (other) "\<not> (b \<and> c = CHR ''}'' \<and> d = CHR ''}'')" "\<not> (\<not> b \<and> c = CHR ''{'' \<and> d = CHR ''{'')"
    by blast
  then show ?case
  proof cases
    case close
    with 3(5) obtain qs where qs: "scan False [] s = Some qs" "ps = PAct (rev acc) # qs" by auto
    moreover have "s = [] \<or> last s \<noteq> CHR ''{''" using 3(6) by (auto split: if_splits)
    ultimately obtain q u where "qs = q @ [PText u]" "\<forall>r. scan False [] (s @ r) = map_option ((@) q) (scan False (rev u) r)"
      using 3(1) close by blast
    with qs(2) close show ?thesis
      by (intro exI [of _ "PAct (rev acc) # q"]) (auto simp: append_Cons_fun map_option.compositionality comp_def)
  next
    case leave
    with 3(5) obtain qs where qs: "scan True [] s = Some qs" "ps = PText (rev acc) # qs" by auto
    then have "s \<noteq> []" by auto
    with 3(6) have "s = [] \<or> last s \<noteq> CHR ''{''" by (auto split: if_splits)
    with qs(1) leave 3(3) obtain q u where "qs = q @ [PText u]" "\<forall>r. scan True [] (s @ r) = map_option ((@) q) (scan False (rev u) r)"
      by blast
    with qs(2) leave show ?thesis
      by (intro exI [of _ "PText (rev acc) # q"]) (auto simp: append_Cons_fun map_option.compositionality comp_def)
  next
    case other
    then have step: "scan b acc (c # d # t) = scan b (c # acc) (d # t)" for t by auto
    have "d # s = [] \<or> last (d # s) \<noteq> CHR ''{''" using 3(6) by simp
    then have "\<exists>qs u. ps = qs @ [PText u] \<and> (\<forall>r. scan b (c # acc) ((d # s) @ r) = map_option ((@) qs) (scan False (rev u) r))"
      using 3(2,4) [of ps] 3(5) other step [of s] by (cases b) (simp_all del: scan.simps append_Cons)
    with step show ?thesis by (simp only: append_Cons)
  qed
qed

section \<open>Scripts for a table\<close>

lemma list_two_cases [case_names Nil One Two]:
  "(s = [] \<Longrightarrow> P) \<Longrightarrow> (\<And>c. s = [c] \<Longrightarrow> P) \<Longrightarrow> (\<And>c d r. s = c # d # r \<Longrightarrow> P) \<Longrightarrow> P"
  by (metis list.exhaust)

text \<open>
  The scripts that create a table use one action, the name of the table. What they produce is
  the text with every occurrence of the action replaced.
\<close>

function instantiate :: "string \<Rightarrow> string \<Rightarrow> string" where
  "instantiate t s =
     (if s = [] then []
      else if take 14 s = ''{{.TableName}}'' then t @ instantiate t (drop 14 s)
      else hd s # instantiate t (tl s))"
  by pat_completeness auto
termination
  by (relation "measure (length \<circ> snd)") auto

declare instantiate.simps [simp del]

fun piece_text :: "string \<Rightarrow> piece \<Rightarrow> string" where
  "piece_text t (PText s) = s"
| "piece_text t (PAct a) = t"

definition table_script :: "string \<Rightarrow> bool" where
  "table_script s =
     (case scan False [] s of
        None \<Rightarrow> False
      | Some ps \<Rightarrow> list_all (\<lambda>p. case p of PText _ \<Rightarrow> True | PAct a \<Rightarrow> a = ''.TableName'') ps)"

definition closed_text :: "string \<Rightarrow> bool" where
  "closed_text s \<longleftrightarrow> s = [] \<or> last s \<noteq> CHR ''{''"

lemma scan_appendI:
  assumes "scan False [] s = Some ps" and "scan False [] r = Some qs" and "closed_text s"
  shows "\<exists>us u. ps = us @ [PText u] \<and> scan False [] (s @ r) = Some (us @ add_text u qs)"
proof -
  from scan_append [OF assms(1)] assms(3) obtain us u where
    "ps = us @ [PText u]" "scan False [] (s @ r) = map_option ((@) us) (scan False (rev u) r)"
    by (auto simp: closed_text_def)
  then show ?thesis using assms(2) scan_acc [of "rev u" r] by simp
qed

lemma table_script_append:
  assumes "table_script s" and "table_script r" and "closed_text s"
  shows "table_script (s @ r)"
proof -
  from assms obtain ps qs where s: "scan False [] s = Some ps" and r: "scan False [] r = Some qs"
    by (auto simp: table_script_def split: option.splits)
  from scan_appendI [OF s r assms(3)] obtain us u where
    "ps = us @ [PText u]" "scan False [] (s @ r) = Some (us @ add_text u qs)" by blast
  moreover obtain v qs' where "qs = PText v # qs'" using scan_shape [OF r] by auto
  ultimately show ?thesis using assms s r by (simp add: table_script_def)
qed

lemma closed_text_append: "closed_text r \<Longrightarrow> r \<noteq> [] \<Longrightarrow> closed_text (s @ r)"
  by (auto simp: closed_text_def)

lemma table_script_lines:
  assumes "list_all (\<lambda>l. table_script (l @ [CHR 0x0A])) ls" and "ls \<noteq> []" and "table_script (last ls)"
  shows "table_script (text_lines ls)"
  using assms
proof (induction ls)
  case (Cons l ls)
  show ?case
  proof (cases "ls = []")
    case False
    then have "text_lines (l # ls) = (l @ [CHR 0x0A]) @ text_lines ls"
      by (cases ls) (simp_all add: text_lines_def)
    moreover have "closed_text (l @ [CHR 0x0A])" by (simp add: closed_text_def)
    ultimately show ?thesis using Cons False by (simp add: table_script_append del: append_assoc)
  qed (use Cons in \<open>simp add: text_lines_def\<close>)
qed simp

lemma default_scripts: "table_script defaultDBTableInitScript" "table_script defaultDBTableIndexSQL"
  unfolding defaultDBTableInitScript_def defaultDBTableIndexSQL_def
  by (rule table_script_lines; code_simp)+


lemma instantiate_text: "hd s \<noteq> CHR ''{'' \<Longrightarrow> s \<noteq> [] \<Longrightarrow> instantiate t s = hd s # instantiate t (tl s)"
  by (subst instantiate.simps) (auto simp: neq_Nil_conv)

lemma instantiate_action: "instantiate t (''{{.TableName}}'' @ s) = t @ instantiate t s"
  by (subst instantiate.simps) simp

lemma scan_inside:
  "scan True acc s = Some ps \<Longrightarrow> \<exists>a r qs. ps = PAct (rev acc @ a) # qs \<and> s = a @ ''}}'' @ r \<and> scan False [] r = Some qs"
proof (induction "True" acc s arbitrary: ps rule: scan.induct)
  case (3 acc c d s)
  show ?case
  proof (cases "c = CHR ''}'' \<and> d = CHR ''}''")
    case True
    with "3.prems" obtain qs where "ps = PAct (rev acc) # qs" "scan False [] s = Some qs" by auto
    with True show ?thesis by (intro exI [of _ "[]"] exI [of _ s] exI [of _ qs]) simp
  next
    case False
    with "3.hyps"(2) [of ps] "3.prems" obtain a r qs where
      "ps = PAct (rev (c # acc) @ a) # qs" "d # s = a @ ''}}'' @ r" "scan False [] r = Some qs" by auto
    then show ?thesis by (intro exI [of _ "c # a"] exI [of _ r] exI [of _ qs]) auto
  qed
qed auto

lemma instantiate_scan:
  "scan False acc s = Some ps \<Longrightarrow> list_all (\<lambda>p. case p of PText _ \<Rightarrow> True | PAct a \<Rightarrow> a = ''.TableName'') ps \<Longrightarrow>
   concat (map (piece_text t) ps) = rev acc @ instantiate t s"
proof (induction s arbitrary: acc ps rule: length_induct)
  case (1 s)
  show ?case
  proof (cases s rule: list_two_cases)
    case Nil
    with 1 show ?thesis by (auto simp: instantiate.simps)
  next
    case (One c)
    then have "instantiate t s = [c]" by (simp add: instantiate.simps)
    with One 1 show ?thesis by auto
  next
    case (Two c d r)
    show ?thesis
    proof (cases "c = CHR ''{'' \<and> d = CHR ''{''")
      case True
      with Two 1(2) obtain qs where qs: "scan True [] r = Some qs" "ps = PText (rev acc) # qs" by auto
      from scan_inside [OF this(1)] obtain a r' qs' where
        a: "qs = PAct a # qs'" "r = a @ ''}}'' @ r'" "scan False [] r' = Some qs'" by auto
      then have "a = ''.TableName''" using 1(3) qs by simp
      moreover have "concat (map (piece_text t) qs') = instantiate t r'"
        using 1(1) [rule_format, of r' "[]" qs'] 1(3) a qs Two by simp
      ultimately show ?thesis
        using True Two a qs instantiate_action [of t r'] by simp
    next
      case False
      with Two 1(2) have sc: "scan False (c # acc) (d # r) = Some ps" by auto
      have "take 14 s \<noteq> ''{{.TableName}}''" using False Two by (auto simp: take_Cons')
      then have "instantiate t s = c # instantiate t (d # r)" using Two by (subst instantiate.simps) auto
      with 1(1) [rule_format, of "d # r" "c # acc" ps] sc 1(3) Two show ?thesis by simp
    qed
  qed
qed

text \<open>The parser keeps such a text as it is, and the execution fills in the name.\<close>

lemma table_action: "parse_action ''.TableName'' = Some (AOut (Field [''TableName'']))"
  by code_simp

definition table_node :: "piece \<Rightarrow> node list" where
  "table_node p = (case p of PText s \<Rightarrow> if s = [] then [] else [NText s] | PAct _ \<Rightarrow> [NOut (Field [''TableName''])])"

lemma build_table:
  "list_all (\<lambda>p. case p of PText _ \<Rightarrow> True | PAct a \<Rightarrow> a = ''.TableName'') ps \<Longrightarrow>
   build ps [] cur = Some (rev cur @ concat (map table_node ps))"
proof (induction ps arbitrary: cur)
  case (Cons p ps)
  then show ?case by (cases p) (auto simp: table_node_def table_action)
qed simp

lemma table_node_scoped: "list_all (scoped []) (concat (map table_node ps))"
  by (induction ps) (auto simp: table_node_def split: piece.splits)

lemma concat_opt_append:
  "concat_opt (xs @ ys) = Option.bind (concat_opt xs) (\<lambda>s. map_option ((@) s) (concat_opt ys))"
  by (induction xs) (auto simp: option.map_comp comp_def append_append split: bind_splits)

lemma exec_table_nodes:
  "fmlookup d ''TableName'' = Some (TStr t) \<Longrightarrow>
   concat_opt (map (\<lambda>nd. exec nd (VRoot d) []) (concat (map table_node ps))) =
     Some (concat (map (piece_text t) ps))"
  by (induction ps) (auto simp: table_node_def  concat_opt_append split: piece.splits)

lemma render_table_script:
  assumes "table_script s"
  shows "render s (fmap_of_list [(''TableName'', TStr t)]) = Some (instantiate t s)"
proof -
  from assms obtain ps where ps: "scan False [] s = Some ps"
    and acts: "list_all (\<lambda>p. case p of PText _ \<Rightarrow> True | PAct a \<Rightarrow> a = ''.TableName'') ps"
    by (auto simp: table_script_def split: option.splits)
  then have "parse_template s = Some (concat (map table_node ps))"
    using table_node_scoped [of ps] build_table [OF acts, of "[]"] by (simp add: parse_template_def)
  then show ?thesis
    using instantiate_scan [OF ps acts, of t] by (simp add: render_def exec_table_nodes)
qed

section \<open>The table of the default configuration\<close>

lemma text_lines_Cons: "ls \<noteq> [] \<Longrightarrow> text_lines (l # ls) = (l @ [CHR 0x0A]) @ text_lines ls"
  by (cases ls) (simp_all add: text_lines_def)

lemma instantiate_prefix:
  "list_all (\<lambda>c. c \<noteq> CHR ''{'') u \<Longrightarrow> instantiate t (u @ s) = u @ instantiate t s"
  by (induction u) (simp_all add: instantiate_text)

lemma default_table_opens:
  "\<exists>r. instantiate t (defaultDBTableInitScript @ defaultDBTableIndexSQL) =
     [CHR 0x0A] @ ''CREATE TABLE inventory.'' @ t @ '' ('' @ r"
proof -
  obtain r where r: "defaultDBTableInitScript = ([CHR 0x0A] @ ''CREATE TABLE inventory.'') @ ''{{.TableName}}'' @ '' ('' @ r"
    unfolding defaultDBTableInitScript_def by (simp add: text_lines_Cons)
  have "instantiate t (defaultDBTableInitScript @ defaultDBTableIndexSQL) =
      ([CHR 0x0A] @ ''CREATE TABLE inventory.'') @ t @ '' ('' @ instantiate t (r @ defaultDBTableIndexSQL)"
    unfolding r append_assoc
    by (subst append_assoc [symmetric], subst instantiate_prefix, simp, subst instantiate_action, subst instantiate_prefix) simp_all
  then show ?thesis by auto
qed

lemma default_script_closed: "closed_text defaultDBTableInitScript"
  unfolding defaultDBTableInitScript_def by (simp add: closed_text_def text_lines_Cons text_lines_def)

text \<open>
  C16: with the default configuration a table is created by one statement batch, the two scripts
  with every \<open>{{.TableName}}\<close> replaced by the name of the table: the templates parse, every
  action is the table name, execution never fails, and the batch opens with the creation of
  \<open>inventory.<name>\<close>.
\<close>

theorem CreateTable_default:
  "CreateTable P T db t (defaultDBTableInitScript @ defaultDBTableIndexSQL) =
     Exec P db (instantiate t (defaultDBTableInitScript @ defaultDBTableIndexSQL)) \<and>
   (\<exists>r. instantiate t (defaultDBTableInitScript @ defaultDBTableIndexSQL) =
     [CHR 0x0A] @ ''CREATE TABLE inventory.'' @ t @ '' ('' @ r)"
proof -
  have "table_script (defaultDBTableInitScript @ defaultDBTableIndexSQL)"
    by (intro table_script_append default_scripts default_script_closed)
  then show ?thesis
    using render_table_script default_table_opens by (simp add: CreateTable_def execute_template_def)
qed

end
