(* ===== verification/GoHeap.thy ===== *)
theory GoHeap
  imports Prelude
begin

text \<open>
  Go's memory, for the code in which aliasing matters: cells with addresses, allocation,
  nullable pointers and slices. The locale \<open>deep_copy\<close> states what a deep copy promises; the
  lemmas after it show that the ways the generated code copies pointers, slices and
  structs keep the promise when the copies of the parts do.
\<close>

section \<open>Cells\<close>

type_synonym addr = nat

record 'c heap =
  cells :: "addr \<Rightarrow> 'c option"
  brk :: addr

definition heap_ok :: "'c heap \<Rightarrow> bool" where
  "heap_ok h \<longleftrightarrow> (\<forall>a. brk h \<le> a \<longrightarrow> cells h a = None)"

definition new_cell :: "'c \<Rightarrow> ('c heap, addr) state" where
  "new_cell c = State (\<lambda>h. (brk h, h\<lparr>cells := (cells h)(brk h \<mapsto> c), brk := Suc (brk h)\<rparr>))"

definition fetch :: "addr \<Rightarrow> ('c heap, 'c option) state" where
  "fetch a = State (\<lambda>h. (cells h a, h))"

definition put :: "addr \<Rightarrow> 'c \<Rightarrow> ('c heap, unit) state" where
  "put a c = State (\<lambda>h. ((), h\<lparr>cells := (cells h)(a \<mapsto> c)\<rparr>))"

lemma run_new_cell [simp]:
  "run_state (new_cell c) h = (brk h, h\<lparr>cells := (cells h)(brk h \<mapsto> c), brk := Suc (brk h)\<rparr>)"
  by (simp add: new_cell_def)

lemma run_fetch [simp]: "run_state (fetch a) h = (cells h a, h)"
  by (simp add: fetch_def)

lemma run_put [simp]: "run_state (put a c) h = ((), h\<lparr>cells := (cells h)(a \<mapsto> c)\<rparr>)"
  by (simp add: put_def)

text \<open>A heap after some code that only adds cells.\<close>

definition extends :: "'c heap \<Rightarrow> 'c heap \<Rightarrow> bool" where
  "extends h h' \<longleftrightarrow> heap_ok h' \<and> brk h \<le> brk h' \<and> (\<forall>a < brk h. cells h' a = cells h a)"

lemma extends_refl [intro]: "heap_ok h \<Longrightarrow> extends h h"
  by (simp add: extends_def)

lemma extends_trans [trans]: "extends h h' \<Longrightarrow> extends h' h'' \<Longrightarrow> extends h h''"
  by (auto simp: extends_def)

lemma extends_new: "heap_ok h \<Longrightarrow> extends h (h\<lparr>cells := (cells h)(brk h \<mapsto> c), brk := Suc (brk h)\<rparr>)"
  by (auto simp: extends_def heap_ok_def)

lemma extends_put: "extends h h' \<Longrightarrow> brk h \<le> a \<Longrightarrow> a < brk h' \<Longrightarrow> extends h (h'\<lparr>cells := (cells h')(a \<mapsto> c)\<rparr>)"
  by (auto simp: extends_def heap_ok_def)

section \<open>Code that runs beside a value\<close>

text \<open>
  Code that owns some cells may overwrite these and allocate others, which it then owns too.
\<close>

inductive mutates :: "'c heap \<Rightarrow> addr set \<Rightarrow> 'c heap \<Rightarrow> addr set \<Rightarrow> bool" where
  mut_stay: "mutates h S h S"
| mut_write: "mutates h S h' S' \<Longrightarrow> a \<in> S' \<Longrightarrow> mutates h S (h'\<lparr>cells := (cells h')(a \<mapsto> c)\<rparr>) S'"
| mut_alloc: "mutates h S h' S' \<Longrightarrow>
    mutates h S (h'\<lparr>cells := (cells h')(brk h' \<mapsto> c), brk := Suc (brk h')\<rparr>) (insert (brk h') S')"

lemma mutates_frame:
  "mutates h S h' S' \<Longrightarrow>
   brk h \<le> brk h' \<and> (\<forall>a < brk h. a \<notin> S \<longrightarrow> a \<notin> S' \<and> cells h' a = cells h a)"
  by (induction rule: mutates.induct) auto

section \<open>The contract of a deep copy\<close>

text \<open>
  \<open>val h x\<close> is the Go value \<open>x\<close> with everything it points to, or \<open>None\<close> if a pointer in it does not lead
  to a cell of its type; \<open>refs h x\<close> are the cells it reaches.
\<close>

locale deep_copy =
  fixes copy :: "'a \<Rightarrow> ('c heap, 'a) state"
    and val :: "'c heap \<Rightarrow> 'a \<Rightarrow> 'v option"
    and refs :: "'c heap \<Rightarrow> 'a \<Rightarrow> addr set"
  assumes frame: "val h x = Some v \<Longrightarrow> (\<And>a. a \<in> refs h x \<Longrightarrow> cells h' a = cells h a) \<Longrightarrow>
      val h' x = Some v \<and> refs h' x = refs h x"
    and inside: "heap_ok h \<Longrightarrow> val h x = Some v \<Longrightarrow> refs h x \<subseteq> {..<brk h}"
    and copies: "heap_ok h \<Longrightarrow> val h x = Some v \<Longrightarrow> run_state (copy x) h = (x', h') \<Longrightarrow>
      extends h h' \<and> val h' x' = Some v \<and> refs h' x' \<subseteq> {brk h..<brk h'}"
begin

lemma survives:
  "heap_ok h \<Longrightarrow> val h x = Some v \<Longrightarrow> extends h h' \<Longrightarrow> val h' x = Some v \<and> refs h' x = refs h x"
  using inside [of h x v] by (intro frame) (auto simp: extends_def)

lemma original_kept:
  "heap_ok h \<Longrightarrow> val h x = Some v \<Longrightarrow> run_state (copy x) h = (x', h') \<Longrightarrow>
   val h' x = Some v \<and> refs h' x \<inter> refs h' x' = {}"
  using copies [of h x v x' h'] survives [of h x v h'] inside [of h x v] by fastforce

text \<open>What the code with the original does is not seen in the copy, and conversely.\<close>

lemma copy_isolated:
  assumes "heap_ok h" and "val h x = Some v" and "run_state (copy x) h = (x', h')"
    and "mutates h' {..<brk h} h'' S"
  shows "val h'' x' = Some v"
  using frame [of h' x' v h''] copies [OF assms(1-3)] mutates_frame [OF assms(4)] by force

lemma original_isolated:
  assumes "heap_ok h" and "val h x = Some v" and "run_state (copy x) h = (x', h')"
    and "mutates h' {brk h..<brk h'} h'' S"
  shows "val h'' x = Some v"
proof -
  have "refs h' x \<subseteq> {..<brk h}" "val h' x = Some v"
    using survives [OF assms(1,2)] copies [OF assms(1-3)] inside [OF assms(1,2)] by auto
  moreover have "brk h \<le> brk h'" using copies [OF assms(1-3)] by (simp add: extends_def)
  ultimately show ?thesis
    using frame [of h' x v h''] mutates_frame [OF assms(4)] by force
qed

end

section \<open>Values, pairs and views\<close>

definition flat_val :: "'c heap \<Rightarrow> 'a \<Rightarrow> 'a option" where
  "flat_val h x = Some x"

definition flat_refs :: "'c heap \<Rightarrow> 'a \<Rightarrow> addr set" where
  "flat_refs h x = {}"

interpretation flat: deep_copy ret flat_val flat_refs
  by unfold_locales (auto simp: flat_val_def flat_refs_def)

definition pair_copy :: "('a \<Rightarrow> ('c heap, 'a) state) \<Rightarrow> ('b \<Rightarrow> ('c heap, 'b) state) \<Rightarrow>
    'a \<times> 'b \<Rightarrow> ('c heap, 'a \<times> 'b) state" where
  "pair_copy f g p = do { x \<leftarrow> f (fst p); y \<leftarrow> g (snd p); ret (x, y) }"

definition pair_val :: "('c heap \<Rightarrow> 'a \<Rightarrow> 'v option) \<Rightarrow> ('c heap \<Rightarrow> 'b \<Rightarrow> 'w option) \<Rightarrow>
    'c heap \<Rightarrow> 'a \<times> 'b \<Rightarrow> ('v \<times> 'w) option" where
  "pair_val f g h p = Option.bind (f h (fst p)) (\<lambda>v. map_option (Pair v) (g h (snd p)))"

definition pair_refs :: "('c heap \<Rightarrow> 'a \<Rightarrow> addr set) \<Rightarrow> ('c heap \<Rightarrow> 'b \<Rightarrow> addr set) \<Rightarrow>
    'c heap \<Rightarrow> 'a \<times> 'b \<Rightarrow> addr set" where
  "pair_refs f g h p = f h (fst p) \<union> g h (snd p)"

lemma deep_copy_pair:
  assumes "deep_copy c v r" and "deep_copy c' v' r'"
  shows "deep_copy (pair_copy c c') (pair_val v v') (pair_refs r r')"
proof
  fix h h' :: "'b heap" and p u
  assume "pair_val v v' h p = Some u" "\<And>a. a \<in> pair_refs r r' h p \<Longrightarrow> cells h' a = cells h a"
  then show "pair_val v v' h' p = Some u \<and> pair_refs r r' h' p = pair_refs r r' h p"
    using deep_copy.frame [OF assms(1), of h "fst p" _ h'] deep_copy.frame [OF assms(2), of h "snd p" _ h']
    by (auto simp: pair_val_def pair_refs_def bind_eq_Some_conv)
next
  fix h p u
  assume "heap_ok h" "pair_val v v' h p = Some u"
  then show "pair_refs r r' h p \<subseteq> {..<brk h}"
    using deep_copy.inside [OF assms(1), of h "fst p"] deep_copy.inside [OF assms(2), of h "snd p"]
    by (fastforce simp: pair_val_def pair_refs_def bind_eq_Some_conv)
next
  fix h h' p p' u
  assume h: "heap_ok h" and u: "pair_val v v' h p = Some u" and run: "run_state (pair_copy c c' p) h = (p', h')"
  from u obtain a b where ab: "v h (fst p) = Some a" "v' h (snd p) = Some b" "u = (a, b)"
    by (auto simp: pair_val_def bind_eq_Some_conv)
  from run obtain x h1 y where x: "run_state (c (fst p)) h = (x, h1)" and y: "run_state (c' (snd p)) h1 = (y, h')"
    and p': "p' = (x, y)" by (auto simp: pair_copy_def split: prod.splits)
  have 1: "extends h h1" "v h1 x = Some a" "r h1 x \<subseteq> {brk h..<brk h1}"
    using deep_copy.copies [OF assms(1) h ab(1) x] by auto
  then have h1: "heap_ok h1" by (simp add: extends_def)
  have "v' h1 (snd p) = Some b" using deep_copy.survives [OF assms(2) h ab(2) 1(1)] by simp
  from deep_copy.copies [OF assms(2) h1 this y]
  have 2: "extends h1 h'" "v' h' y = Some b" "r' h' y \<subseteq> {brk h1..<brk h'}" by auto
  have "v h' x = Some a" "r h' x = r h1 x" using deep_copy.survives [OF assms(1) h1 1(2) 2(1)] by auto
  with 1 2 ab p' show "extends h h' \<and> pair_val v v' h' p' = Some u \<and> pair_refs r r' h' p' \<subseteq> {brk h..<brk h'}"
    by (fastforce simp: pair_val_def pair_refs_def extends_def)
qed

text \<open>A struct whose part \<open>f s\<close> is copied; the rest is shared by assignment.\<close>

lemma deep_copy_view:
  assumes "deep_copy c v r"
    and "\<And>s y. f (g y s) = y" and "\<And>s y. w (g y s) = w s"
    and "\<And>s. copy s = do { y \<leftarrow> c (f s); ret (g y s) }"
    and "\<And>h s. val h s = map_option (w s) (v h (f s))" and "\<And>h s. refs h s = r h (f s)"
  shows "deep_copy copy val refs"
proof
  fix h h' :: "'b heap" and s u
  assume "val h s = Some u" "\<And>a. a \<in> refs h s \<Longrightarrow> cells h' a = cells h a"
  then show "val h' s = Some u \<and> refs h' s = refs h s"
    using deep_copy.frame [OF assms(1), of h "f s" _ h'] assms(5,6) by auto
next
  fix h s u
  assume "heap_ok h" "val h s = Some u"
  then show "refs h s \<subseteq> {..<brk h}"
    using deep_copy.inside [OF assms(1), of h "f s"] assms(5,6) by auto
next
  fix h h' s s' u
  assume h: "heap_ok h" and u: "val h s = Some u" and run: "run_state (copy s) h = (s', h')"
  from u obtain a where a: "v h (f s) = Some a" "u = w s a" by (auto simp: assms(5))
  from run obtain y where y: "run_state (c (f s)) h = (y, h')" "s' = g y s"
    by (auto simp: assms(4) split: prod.splits)
  with a deep_copy.copies [OF assms(1) h a(1) y(1)]
  show "extends h h' \<and> val h' s' = Some u \<and> refs h' s' \<subseteq> {brk h..<brk h'}"
    by (simp add: assms(2,3,5,6))
qed

section \<open>Pointers\<close>

text \<open>
  The cells of one type: \<open>mk\<close> makes a cell of a value, \<open>get\<close> reads a cell of this type.
\<close>

locale cell_kind =
  fixes mk :: "'e \<Rightarrow> 'c" and get :: "'c \<Rightarrow> 'e option"
  assumes get_mk [simp]: "get (mk x) = Some x"

text \<open>
  \<open>if p != nil { *out = new(T); ... }\<close>: a new cell, filled with the copy of the content.
\<close>

definition ptr_copy :: "('e \<Rightarrow> 'c) \<Rightarrow> ('c \<Rightarrow> 'e option) \<Rightarrow> 'e \<Rightarrow> ('e \<Rightarrow> ('c heap, 'e) state) \<Rightarrow>
    addr option \<Rightarrow> ('c heap, addr option) state" where
  "ptr_copy mk get zero ecopy p =
     (case p of
        None \<Rightarrow> ret None
      | Some a \<Rightarrow> do {
          b \<leftarrow> new_cell (mk zero);
          c \<leftarrow> fetch a;
          case Option.bind c get of
            None \<Rightarrow> ret (Some b)
          | Some e \<Rightarrow> do { e' \<leftarrow> ecopy e; put b (mk e'); ret (Some b) }
        })"

definition ptr_val :: "('c \<Rightarrow> 'e option) \<Rightarrow> ('c heap \<Rightarrow> 'e \<Rightarrow> 'v option) \<Rightarrow> 'c heap \<Rightarrow> addr option \<Rightarrow> 'v option option" where
  "ptr_val get ev h p =
     (case p of
        None \<Rightarrow> Some None
      | Some a \<Rightarrow> map_option Some (Option.bind (Option.bind (cells h a) get) (ev h)))"

definition ptr_refs :: "('c \<Rightarrow> 'e option) \<Rightarrow> ('c heap \<Rightarrow> 'e \<Rightarrow> addr set) \<Rightarrow> 'c heap \<Rightarrow> addr option \<Rightarrow> addr set" where
  "ptr_refs get er h p =
     (case p of
        None \<Rightarrow> {}
      | Some a \<Rightarrow> insert a (case Option.bind (cells h a) get of None \<Rightarrow> {} | Some e \<Rightarrow> er h e))"

lemma allocated: "heap_ok h \<Longrightarrow> cells h a = Some c \<Longrightarrow> a < brk h"
  by (metis heap_ok_def linorder_not_le option.distinct(1))

context cell_kind
begin

lemma deep_copy_ptr:
  assumes "deep_copy c v r"
  shows "deep_copy (ptr_copy mk get zero c) (ptr_val get v) (ptr_refs get r)"
proof
  fix h h' :: "'c heap" and p u
  assume "ptr_val get v h p = Some u" "\<And>a. a \<in> ptr_refs get r h p \<Longrightarrow> cells h' a = cells h a"
  then show "ptr_val get v h' p = Some u \<and> ptr_refs get r h' p = ptr_refs get r h p"
    using deep_copy.frame [OF assms, of h _ _ h']
    by (cases p) (fastforce simp: ptr_val_def ptr_refs_def bind_eq_Some_conv)+
next
  fix h p u
  assume "heap_ok h" "ptr_val get v h p = Some u"
  then show "ptr_refs get r h p \<subseteq> {..<brk h}"
    using deep_copy.inside [OF assms, of h]
    by (cases p) (fastforce simp: ptr_val_def ptr_refs_def bind_eq_Some_conv allocated)+
next
  fix h h' p p' u
  assume h: "heap_ok h" and u: "ptr_val get v h p = Some u" and run: "run_state (ptr_copy mk get zero c p) h = (p', h')"
  show "extends h h' \<and> ptr_val get v h' p' = Some u \<and> ptr_refs get r h' p' \<subseteq> {brk h..<brk h'}"
  proof (cases p)
    case None
    with h u run show ?thesis by (auto simp: ptr_copy_def ptr_val_def ptr_refs_def)
  next
    case (Some a)
    let ?h1 = "h\<lparr>cells := (cells h)(brk h \<mapsto> mk zero), brk := Suc (brk h)\<rparr>"
    from u Some obtain d e w where e: "cells h a = Some d" "get d = Some e" "v h e = Some w" "u = Some w"
      by (auto simp: ptr_val_def bind_eq_Some_conv)
    have ext: "extends h ?h1" using h by (rule extends_new)
    then have h1: "heap_ok ?h1" by (simp add: extends_def)
    have w: "v ?h1 e = Some w" using deep_copy.survives [OF assms h e(3) ext] by simp
    obtain e' h2 where c: "run_state (c e) ?h1 = (e', h2)" by fastforce
    from deep_copy.copies [OF assms h1 w c]
    have e': "extends ?h1 h2" "v h2 e' = Some w" "r h2 e' \<subseteq> {Suc (brk h)..<brk h2}" by auto
    have b: "brk h < brk h2" using e'(1) by (simp add: extends_def)
    have "a \<noteq> brk h" using allocated [OF h e(1)] by simp
    with run Some e c have h': "p' = Some (brk h)" "h' = h2\<lparr>cells := (cells h2)(brk h \<mapsto> mk e')\<rparr>"
      by (auto simp: ptr_copy_def)
    have "v h' e' = Some w \<and> r h' e' = r h2 e'" using e'(2,3) h'(2) by (intro deep_copy.frame [OF assms]) auto
    moreover have "extends h h'"
      unfolding h'(2) using extends_trans [OF ext e'(1)] b by (intro extends_put) auto
    ultimately show ?thesis using e'(3) b e(4) h' by (auto simp: ptr_val_def ptr_refs_def)
  qed
qed

end

section \<open>Slices\<close>

text \<open>A slice that is not nil: the array it lies in, where it starts there, and its length.\<close>

record slice =
  sl_array :: addr
  sl_offset :: nat
  sl_len :: nat

definition elems :: "('c \<Rightarrow> 'e list option) \<Rightarrow> 'c heap \<Rightarrow> slice \<Rightarrow> 'e list option" where
  "elems get h s =
     Option.bind (Option.bind (cells h (sl_array s)) get) (\<lambda>xs.
       if sl_offset s + sl_len s \<le> length xs then Some (take (sl_len s) (drop (sl_offset s) xs)) else None)"

text \<open>\<open>(*in)[i]\<close> and the assignment to \<open>(*out)[i]\<close>.\<close>

definition load :: "('c \<Rightarrow> 'e list option) \<Rightarrow> slice \<Rightarrow> nat \<Rightarrow> ('c heap, 'e option) state" where
  "load get s i = State (\<lambda>h. (Option.bind (elems get h s) (\<lambda>xs. if i < length xs then Some (xs ! i) else None), h))"

definition store :: "('e list \<Rightarrow> 'c) \<Rightarrow> ('c \<Rightarrow> 'e list option) \<Rightarrow> addr \<Rightarrow> nat \<Rightarrow> 'e \<Rightarrow> ('c heap, unit) state" where
  "store mk get b i e = do {
     c \<leftarrow> fetch b;
     case Option.bind c get of
       None \<Rightarrow> ret ()
     | Some xs \<Rightarrow> put b (mk (xs[i := e]))
   }"

fun copy_loop :: "('e list \<Rightarrow> 'c) \<Rightarrow> ('c \<Rightarrow> 'e list option) \<Rightarrow> ('e \<Rightarrow> ('c heap, 'e) state) \<Rightarrow>
    slice \<Rightarrow> addr \<Rightarrow> nat list \<Rightarrow> ('c heap, unit) state" where
  "copy_loop mk get ecopy s b [] = ret ()"
| "copy_loop mk get ecopy s b (i # is) = do {
     x \<leftarrow> load get s i;
     case x of
       None \<Rightarrow> ret ()
     | Some e \<Rightarrow> do { e' \<leftarrow> ecopy e; store mk get b i e'; copy_loop mk get ecopy s b is }
   }"

text \<open>\<open>if s != nil { *out = make([]T, len(*in)); for i := range *in { ... } }\<close>\<close>

definition slice_copy :: "('e list \<Rightarrow> 'c) \<Rightarrow> ('c \<Rightarrow> 'e list option) \<Rightarrow> 'e \<Rightarrow> ('e \<Rightarrow> ('c heap, 'e) state) \<Rightarrow>
    slice option \<Rightarrow> ('c heap, slice option) state" where
  "slice_copy mk get zero ecopy p =
     (case p of
        None \<Rightarrow> ret None
      | Some s \<Rightarrow> do {
          b \<leftarrow> new_cell (mk (replicate (sl_len s) zero));
          copy_loop mk get ecopy s b [0..<sl_len s];
          ret (Some \<lparr>sl_array = b, sl_offset = 0, sl_len = sl_len s\<rparr>)
        })"

definition slice_val :: "('c \<Rightarrow> 'e list option) \<Rightarrow> ('c heap \<Rightarrow> 'e \<Rightarrow> 'v option) \<Rightarrow> 'c heap \<Rightarrow> slice option \<Rightarrow> 'v list option option" where
  "slice_val get ev h p =
     (case p of
        None \<Rightarrow> Some None
      | Some s \<Rightarrow> map_option Some (Option.bind (elems get h s) (\<lambda>xs. those (map (ev h) xs))))"

definition slice_refs :: "('c \<Rightarrow> 'e list option) \<Rightarrow> ('c heap \<Rightarrow> 'e \<Rightarrow> addr set) \<Rightarrow> 'c heap \<Rightarrow> slice option \<Rightarrow> addr set" where
  "slice_refs get er h p =
     (case p of
        None \<Rightarrow> {}
      | Some s \<Rightarrow> insert (sl_array s) (case elems get h s of None \<Rightarrow> {} | Some xs \<Rightarrow> \<Union> (er h ` set xs)))"

lemma those_map: "those (map f xs) = Some vs \<longleftrightarrow> list_all2 (\<lambda>x v. f x = Some v) xs vs"
proof (induction xs arbitrary: vs)
  case (Cons x xs)
  then show ?case by (cases vs) (auto split: option.splits)
qed auto

lemma list_all2_left: "list_all2 P xs vs \<Longrightarrow> x \<in> set xs \<Longrightarrow> \<exists>w. P x w"
  by (induction rule: list_all2_induct) auto

lemma elems_cong: "cells h' (sl_array s) = cells h (sl_array s) \<Longrightarrow> elems get h' s = elems get h s"
  by (simp add: elems_def)

lemma elems_length: "elems get h s = Some xs \<Longrightarrow> length xs = sl_len s"
  by (auto simp: elems_def bind_eq_Some_conv split: if_splits)

lemma elems_allocated: "heap_ok h \<Longrightarrow> elems get h s = Some xs \<Longrightarrow> sl_array s < brk h"
  by (auto simp: elems_def bind_eq_Some_conv allocated)

lemma run_load [simp]:
  "run_state (load get s i) h = (Option.bind (elems get h s) (\<lambda>xs. if i < length xs then Some (xs ! i) else None), h)"
  by (simp add: load_def)

text \<open>Arrays are the cells that hold lists.\<close>

locale array_kind = cell_kind mk get for mk :: "'e list \<Rightarrow> 'c" and get :: "'c \<Rightarrow> 'e list option"
begin

lemma run_store:
  "cells h b = Some (mk xs) \<Longrightarrow> run_state (store mk get b i e) h = ((), h\<lparr>cells := (cells h)(b \<mapsto> mk (xs[i := e]))\<rparr>)"
  by (simp add: store_def)

text \<open>One round: the array gets the copy, every other cell there was stays.\<close>

lemma copy_elem:
  assumes dc: "deep_copy c v r" and h: "heap_ok h" and b: "b < brk h" "cells h b = Some (mk arr)"
    and x: "v h x = Some z" and y: "run_state (c x) h = (y, h1)"
    and h2: "h2 = h1\<lparr>cells := (cells h1)(b \<mapsto> mk (arr[i := y]))\<rparr>"
  shows "run_state (store mk get b i y) h1 = ((), h2)" "heap_ok h2" "brk h \<le> brk h2"
    "a < brk h \<Longrightarrow> a \<noteq> b \<Longrightarrow> cells h2 a = cells h a" "cells h2 b = Some (mk (arr[i := y]))"
    "v h2 y = Some z \<and> r h2 y \<subseteq> {brk h..<brk h2}"
proof -
  from deep_copy.copies [OF dc h x y]
  have c1: "extends h h1" "v h1 y = Some z" "r h1 y \<subseteq> {brk h..<brk h1}" by auto
  have "cells h1 b = Some (mk arr)" using c1(1) b by (simp add: extends_def)
  then show "run_state (store mk get b i y) h1 = ((), h2)" by (simp add: run_store h2)
  show "heap_ok h2" "brk h \<le> brk h2" "a < brk h \<Longrightarrow> a \<noteq> b \<Longrightarrow> cells h2 a = cells h a"
    "cells h2 b = Some (mk (arr[i := y]))"
    using c1(1) b(1) by (auto simp: h2 extends_def heap_ok_def)
  have "v h2 y = Some z \<and> r h2 y = r h1 y"
    using c1(2,3) b(1) by (intro deep_copy.frame [OF dc]) (auto simp: h2)
  with c1(3) show "v h2 y = Some z \<and> r h2 y \<subseteq> {brk h..<brk h2}" by (simp add: h2)
qed

text \<open>
  The loop, entered with \<open>ys\<close> copied and the rest of the array \<open>b\<close> still zero: all that is
  below \<open>b\<close> stays, and in the end the array holds copies of all elements.
\<close>

lemma copy_loop_copies:
  assumes dc: "deep_copy c v r"
  shows "heap_ok h \<Longrightarrow> b < brk h \<Longrightarrow> sl_array s < b \<Longrightarrow> elems get h s = Some (us @ xs) \<Longrightarrow>
    cells h b = Some (mk (ys @ replicate (length xs) zero)) \<Longrightarrow> length ys = length us \<Longrightarrow>
    list_all2 (\<lambda>y w. v h y = Some w \<and> r h y \<subseteq> {Suc b..<brk h}) ys ws \<Longrightarrow>
    list_all2 (\<lambda>x w. v h x = Some w \<and> r h x \<subseteq> {..<b}) xs zs \<Longrightarrow>
    run_state (copy_loop mk get c s b [length us..<length us + length xs]) h = (u, h') \<Longrightarrow>
    \<exists>ys'. heap_ok h' \<and> brk h \<le> brk h' \<and> (\<forall>a < b. cells h' a = cells h a) \<and> cells h' b = Some (mk ys') \<and>
      list_all2 (\<lambda>y w. v h' y = Some w \<and> r h' y \<subseteq> {Suc b..<brk h'}) ys' (ws @ zs)"
proof (induction xs arbitrary: h us ys ws zs)
  case Nil
  then show ?case by auto
next
  case (Cons x xs)
  from Cons.prems(8) obtain z zs' where z: "zs = z # zs'" "v h x = Some z"
    and zs': "list_all2 (\<lambda>x w. v h x = Some w \<and> r h x \<subseteq> {..<b}) xs zs'"
    by (auto simp: list_all2_Cons1)
  obtain y h1 where y: "run_state (c x) h = (y, h1)" by fastforce
  obtain h2 where h2: "h2 = h1\<lparr>cells := (cells h1)(b \<mapsto> mk ((ys @ replicate (length (x # xs)) zero)[length us := y]))\<rparr>"
    by blast
  note step = copy_elem [OF dc Cons.prems(1,2,5) z(2) y h2]
  have "[length us..<length us + length (x # xs)] = length us # [length (us @ [x])..<length (us @ [x]) + length xs]"
    by (subst upt_conv_Cons) (simp_all del: upt_Suc)
  then have run: "run_state (copy_loop mk get c s b [length (us @ [x])..<length (us @ [x]) + length xs]) h2 = (u, h')"
    using Cons.prems(9) y step(1) by (simp add: Cons.prems(4) nth_append del: upt_Suc)
  have old: "v h2 a = Some w \<and> r h2 a = r h a" if "v h a = Some w" "r h a \<subseteq> {..<brk h}" "b \<notin> r h a" for a w
    using that step(4) by (intro deep_copy.frame [OF dc]) auto
  have "list_all2 (\<lambda>y w. v h2 y = Some w \<and> r h2 y \<subseteq> {Suc b..<brk h2}) (ys @ [y]) (ws @ [z])"
    using Cons.prems(2,7) step(3,6)
    by (intro list_all2_appendI) (auto elim!: list_all2_mono dest!: old)
  moreover have "list_all2 (\<lambda>x w. v h2 x = Some w \<and> r h2 x \<subseteq> {..<b}) xs zs'"
    using zs' Cons.prems(2) by (auto elim!: list_all2_mono dest!: old)
  moreover have "elems get h2 s = Some ((us @ [x]) @ xs)"
    using Cons.prems(2,3,4) step(4) elems_cong [of h2 s h get] by simp
  moreover have "cells h2 b = Some (mk ((ys @ [y]) @ replicate (length xs) zero))"
    using step(5) Cons.prems(6) by (simp add: list_update_append)
  ultimately obtain ys' where "heap_ok h'" "brk h2 \<le> brk h'" "\<forall>a < b. cells h' a = cells h2 a"
    "cells h' b = Some (mk ys')" "list_all2 (\<lambda>y w. v h' y = Some w \<and> r h' y \<subseteq> {Suc b..<brk h'}) ys' ((ws @ [z]) @ zs')"
    using Cons.IH [of h2 "us @ [x]" "ys @ [y]" "ws @ [z]" zs'] step(2,3) Cons.prems(2,3,6) run by auto
  then show ?case using z(1) step(3,4) Cons.prems(2) by (intro exI [of _ ys']) auto
qed

lemma slice_copies:
  assumes dc: "deep_copy c v r" and h: "heap_ok h" and u: "slice_val get v h p = Some u"
    and run: "run_state (slice_copy mk get zero c p) h = (p', h')"
  shows "extends h h' \<and> slice_val get v h' p' = Some u \<and> slice_refs get r h' p' \<subseteq> {brk h..<brk h'}"
proof (cases p)
  case None
  with h u run show ?thesis by (auto simp: slice_copy_def slice_val_def slice_refs_def)
next
  case (Some s)
  from u Some obtain xs vs where xs: "elems get h s = Some xs" "list_all2 (\<lambda>x w. v h x = Some w) xs vs" "u = Some vs"
    by (auto simp: slice_val_def bind_eq_Some_conv those_map)
  let ?h1 = "h\<lparr>cells := (cells h)(brk h \<mapsto> mk (replicate (length xs) zero)), brk := Suc (brk h)\<rparr>"
  have ext: "extends h ?h1" using h by (rule extends_new)
  have arr: "sl_array s < brk h" using elems_allocated [OF h xs(1)] .
  have h1: "heap_ok ?h1" "brk h < brk ?h1" using ext by (auto simp: extends_def)
  have parts: "list_all2 (\<lambda>x w. v ?h1 x = Some w \<and> r ?h1 x \<subseteq> {..<brk h}) xs vs"
    using xs(2) by (rule list_all2_mono) (use deep_copy.survives [OF dc h _ ext] deep_copy.inside [OF dc h] in auto)
  have loop: "run_state (copy_loop mk get c s (brk h) [length []..<length [] + length xs]) ?h1 = ((), h')"
    and p': "p' = Some \<lparr>sl_array = brk h, sl_offset = 0, sl_len = length xs\<rparr>"
    using run Some elems_length [OF xs(1)] by (auto simp: slice_copy_def split: prod.splits)
  have el: "elems get ?h1 s = Some ([] @ xs)" using arr xs(1) elems_cong [of ?h1 s h get] by simp
  have zeros: "cells ?h1 (brk h) = Some (mk ([] @ replicate (length xs) zero))" by simp
  from copy_loop_copies [OF dc h1 arr el zeros refl list_all2_Nil [THEN iffD2, OF refl] parts loop]
  obtain ys where ys: "heap_ok h'" "brk ?h1 \<le> brk h'" "\<forall>a < brk h. cells h' a = cells ?h1 a"
    "cells h' (brk h) = Some (mk ys)" "list_all2 (\<lambda>y w. v h' y = Some w \<and> r h' y \<subseteq> {Suc (brk h)..<brk h'}) ys vs"
    unfolding append_Nil by blast
  have "length ys = length xs" using list_all2_lengthD [OF ys(5)] list_all2_lengthD [OF xs(2)] by simp
  then have "elems get h' \<lparr>sl_array = brk h, sl_offset = 0, sl_len = length xs\<rparr> = Some ys"
    using ys(4) by (simp add: elems_def)
  moreover have "those (map (v h') ys) = Some vs"
    unfolding those_map using ys(5) by (rule list_all2_mono) simp
  moreover have "r h' y \<subseteq> {Suc (brk h)..<brk h'}" if "y \<in> set ys" for y
    using list_all2_left [OF ys(5) that] by blast
  ultimately show ?thesis
    using ys(1-3) xs(3) p' by (fastforce simp: extends_def slice_val_def slice_refs_def)
qed

lemma deep_copy_slice:
  assumes dc: "deep_copy c v r"
  shows "deep_copy (slice_copy mk get zero c) (slice_val get v) (slice_refs get r)"
proof
  fix h h' :: "'c heap" and p u
  assume u: "slice_val get v h p = Some u" and same: "\<And>a. a \<in> slice_refs get r h p \<Longrightarrow> cells h' a = cells h a"
  show "slice_val get v h' p = Some u \<and> slice_refs get r h' p = slice_refs get r h p"
  proof (cases p)
    case (Some s)
    with u obtain xs vs where xs: "elems get h s = Some xs" "list_all2 (\<lambda>x w. v h x = Some w) xs vs" "u = Some vs"
      by (auto simp: slice_val_def bind_eq_Some_conv those_map)
    with Some same have same': "cells h' a = cells h a" if "a = sl_array s \<or> (\<exists>x \<in> set xs. a \<in> r h x)" for a
      using that by (auto simp: slice_refs_def)
    have xs': "elems get h' s = Some xs" using elems_cong [of h' s h get] same' xs(1) by simp
    have elem: "v h' x = Some w \<and> r h' x = r h x" if "x \<in> set xs" "v h x = Some w" for x w
      using that same' by (intro deep_copy.frame [OF dc]) auto
    have "list_all2 (\<lambda>x w. v h' x = Some w) xs vs"
      using xs(2) elem by (auto simp: list_all2_conv_all_nth)
    moreover have "r h' x = r h x" if "x \<in> set xs" for x
      using list_all2_left [OF xs(2) that] elem [OF that] by blast
    ultimately show ?thesis
      using Some xs xs' by (simp add: slice_val_def slice_refs_def those_map)
  qed (use u in \<open>simp add: slice_val_def slice_refs_def\<close>)
next
  fix h p u
  assume h: "heap_ok h" and u: "slice_val get v h p = Some u"
  show "slice_refs get r h p \<subseteq> {..<brk h}"
  proof (cases p)
    case (Some s)
    with u obtain xs vs where "elems get h s = Some xs" "list_all2 (\<lambda>x w. v h x = Some w) xs vs"
      by (auto simp: slice_val_def bind_eq_Some_conv those_map)
    then show ?thesis
      using Some elems_allocated [OF h] deep_copy.inside [OF dc h]
      by (fastforce simp: slice_refs_def dest: list_all2_left)
  qed (simp add: slice_refs_def)
qed (use slice_copies [OF dc] in blast)

end

end
