(* ===== verification/DeepCopy.thy ===== *)
theory DeepCopy
  imports GoHeap Pipeline
begin

text \<open>
  \<^verbatim>\<open>api/v1alpha1/zz_generated.deepcopy.go\<close>: the deep copies of the resource, on a heap. The
  structs are here as Go lays them out, with pointers and slices where the code has them;
  \<open>spec_val\<close>, \<open>status_val\<close> and \<open>pipeline_val\<close> read them as the records of \<open>Pipeline\<close>. A run of a
  controller keeps such a copy, \<open>OriginalInstance\<close>, beside the object it changes in
  place.

  A \<open>DeepCopyInto\<close> is a function from the source struct to the destination struct. (Its
  destination is always new, so it does not matter when a field is written.) The
  metadata and the conditions are copied by the API machinery: the parameter \<open>metav1\<close>, of
  which the locale \<open>metav1_copies\<close> states what its documentation promises.
\<close>

section \<open>Structs in memory\<close>

record spec_struct =
  g_AppName :: string
  g_InsightsOnly :: bool
  g_AdditionalFilters :: "slice option"
  g_ConnectCluster :: "addr option"
  g_MaxAge :: "addr option"
  g_ValidationThreshold :: "addr option"
  g_Topic :: "addr option"
  g_DbSecret :: "addr option"
  g_InventoryDbSecret :: "addr option"
  g_DBTableIndexSQL :: string
  g_Refresh :: string
  g_ManagedConnectors :: "addr option"
  g_ConnectorPaused :: bool

record status_struct =
  g_ValidationFailedCount :: int
  g_PipelineVersion :: string
  g_ConnectorName :: string
  g_TableName :: string
  g_CyndiConfigVersion :: string
  g_SpecHash :: string
  g_InitialSyncInProgress :: bool
  g_ActiveTableName :: string
  g_Conditions :: "slice option"
  g_HostCount :: int

record TypeMeta =
  Kind :: string
  APIVersion :: string

record 'm pipeline_struct =
  g_TypeMeta :: TypeMeta
  g_ObjectMeta :: 'm
  g_Spec :: spec_struct
  g_Status :: status_struct

record 'l list_struct =
  g_ListTypeMeta :: TypeMeta
  g_ListMeta :: 'l
  g_Items :: "slice option"

text \<open>The zero values \<open>new\<close> and \<open>make\<close> fill memory with.\<close>

definition zero_TypeMeta :: TypeMeta where
  "zero_TypeMeta = \<lparr>Kind = '''', APIVersion = ''''\<rparr>"

definition zero_spec :: spec_struct where
  "zero_spec = \<lparr>g_AppName = '''', g_InsightsOnly = False, g_AdditionalFilters = None, g_ConnectCluster = None,
     g_MaxAge = None, g_ValidationThreshold = None, g_Topic = None, g_DbSecret = None,
     g_InventoryDbSecret = None, g_DBTableIndexSQL = '''', g_Refresh = '''', g_ManagedConnectors = None,
     g_ConnectorPaused = False\<rparr>"

definition zero_status :: status_struct where
  "zero_status = \<lparr>g_ValidationFailedCount = 0, g_PipelineVersion = '''', g_ConnectorName = '''',
     g_TableName = '''', g_CyndiConfigVersion = '''', g_SpecHash = '''', g_InitialSyncInProgress = False,
     g_ActiveTableName = '''', g_Conditions = None, g_HostCount = 0\<rparr>"

definition zero_Condition :: Condition where
  "zero_Condition = \<lparr>cond_Type = '''', cond_Status = ConditionUnknown, cond_ObservedGeneration = 0,
     cond_LastTransitionTime = '''', cond_Reason = '''', cond_Message = ''''\<rparr>"

text \<open>What a cell may hold; \<open>COther\<close> is memory of the metadata.\<close>

datatype ('m, 'l, 'f) cell =
    CStr string
  | CInt int
  | CBool bool
  | CMap strmap
  | CMaps "addr option list"
  | CConds "Condition list"
  | CSpec spec_struct
  | CStatus status_struct
  | CPipeline "'m pipeline_struct"
  | CPipelines "'m pipeline_struct list"
  | CList "'l list_struct"
  | COther 'f

fun get_str where "get_str (CStr s) = Some s" | "get_str _ = None"
fun get_int where "get_int (CInt i) = Some i" | "get_int _ = None"
fun get_bool where "get_bool (CBool b) = Some b" | "get_bool _ = None"
fun get_map where "get_map (CMap m) = Some m" | "get_map _ = None"
fun get_maps where "get_maps (CMaps ms) = Some ms" | "get_maps _ = None"
fun get_conds where "get_conds (CConds cs) = Some cs" | "get_conds _ = None"
fun get_spec where "get_spec (CSpec s) = Some s" | "get_spec _ = None"
fun get_status where "get_status (CStatus s) = Some s" | "get_status _ = None"
fun get_pipeline where "get_pipeline (CPipeline p) = Some p" | "get_pipeline _ = None"
fun get_pipelines where "get_pipelines (CPipelines ps) = Some ps" | "get_pipelines _ = None"
fun get_list where "get_list (CList l) = Some l" | "get_list _ = None"

interpretation str_cell: cell_kind CStr get_str by unfold_locales simp
interpretation int_cell: cell_kind CInt get_int by unfold_locales simp
interpretation bool_cell: cell_kind CBool get_bool by unfold_locales simp
interpretation map_cell: cell_kind CMap get_map by unfold_locales simp
interpretation maps_cell: array_kind CMaps get_maps by unfold_locales simp
interpretation conds_cell: array_kind CConds get_conds by unfold_locales simp
interpretation spec_cell: cell_kind CSpec get_spec by unfold_locales simp
interpretation status_cell: cell_kind CStatus get_status by unfold_locales simp
interpretation pipeline_cell: cell_kind CPipeline get_pipeline by unfold_locales simp
interpretation pipelines_cell: array_kind CPipelines get_pipelines by unfold_locales simp
interpretation list_cell: cell_kind CList get_list by unfold_locales simp

section \<open>The specification\<close>

text \<open>\<open>*out = new(string); **out = **in\<close>, and the same for the other types.\<close>

definition copy_string :: "addr option \<Rightarrow> (('m, 'l, 'f) cell heap, addr option) state" where
  "copy_string = ptr_copy CStr get_str '''' ret"

definition copy_int64 :: "addr option \<Rightarrow> (('m, 'l, 'f) cell heap, addr option) state" where
  "copy_int64 = ptr_copy CInt get_int 0 ret"

definition copy_bool :: "addr option \<Rightarrow> (('m, 'l, 'f) cell heap, addr option) state" where
  "copy_bool = ptr_copy CBool get_bool False ret"

text \<open>\<open>for key, val := range *in { (*out)[key] = val }\<close>, in any order of the keys.\<close>

fun copy_entries :: "strmap \<Rightarrow> string list \<Rightarrow> strmap \<Rightarrow> strmap" where
  "copy_entries m [] out = out"
| "copy_entries m (k # ks) out =
     copy_entries m ks (case fmlookup m k of None \<Rightarrow> out | Some v \<Rightarrow> fmupd k v out)"

definition copy_map :: "addr option \<Rightarrow> (('m, 'l, 'f) cell heap, addr option) state" where
  "copy_map = ptr_copy CMap get_map fmempty (\<lambda>m. ret (copy_entries m (sorted_list_of_fset (fmdom m)) fmempty))"

definition copy_filters :: "slice option \<Rightarrow> (('m, 'l, 'f) cell heap, slice option) state" where
  "copy_filters = slice_copy CMaps get_maps None copy_map"

definition CyndiPipelineSpec_DeepCopyInto :: "spec_struct \<Rightarrow> (('m, 'l, 'f) cell heap, spec_struct) state" where
  "CyndiPipelineSpec_DeepCopyInto s = do {
     additionalFilters \<leftarrow> copy_filters (g_AdditionalFilters s);
     connectCluster \<leftarrow> copy_string (g_ConnectCluster s);
     maxAge \<leftarrow> copy_int64 (g_MaxAge s);
     validationThreshold \<leftarrow> copy_int64 (g_ValidationThreshold s);
     topic \<leftarrow> copy_string (g_Topic s);
     dbSecret \<leftarrow> copy_string (g_DbSecret s);
     inventoryDbSecret \<leftarrow> copy_string (g_InventoryDbSecret s);
     managedConnectors \<leftarrow> copy_bool (g_ManagedConnectors s);
     ret (s\<lparr>g_AdditionalFilters := additionalFilters, g_ConnectCluster := connectCluster,
       g_MaxAge := maxAge, g_ValidationThreshold := validationThreshold, g_Topic := topic,
       g_DbSecret := dbSecret, g_InventoryDbSecret := inventoryDbSecret,
       g_ManagedConnectors := managedConnectors\<rparr>)
   }"

definition CyndiPipelineSpec_DeepCopy :: "addr option \<Rightarrow> (('m, 'l, 'f) cell heap, addr option) state" where
  "CyndiPipelineSpec_DeepCopy = ptr_copy CSpec get_spec zero_spec CyndiPipelineSpec_DeepCopyInto"

text \<open>
  The value of a specification in memory. The record of \<open>Pipeline\<close> does not tell nil from
  empty; \<open>raw_Filters\<close> does.
\<close>

record go_spec = CyndiPipelineSpec +
  raw_Filters :: "strmap option list option"

definition filters_of :: "strmap option list option \<Rightarrow> strmap list" where
  "filters_of fs = map (\<lambda>m. case m of None \<Rightarrow> fmempty | Some m \<Rightarrow> m) (case fs of None \<Rightarrow> [] | Some ms \<Rightarrow> ms)"

abbreviation string_val :: "('m, 'l, 'f) cell heap \<Rightarrow> addr option \<Rightarrow> string option option" where
  "string_val \<equiv> ptr_val get_str flat_val"

abbreviation int64_val :: "('m, 'l, 'f) cell heap \<Rightarrow> addr option \<Rightarrow> int option option" where
  "int64_val \<equiv> ptr_val get_int flat_val"

abbreviation bool_val :: "('m, 'l, 'f) cell heap \<Rightarrow> addr option \<Rightarrow> bool option option" where
  "bool_val \<equiv> ptr_val get_bool flat_val"

abbreviation filters_val :: "('m, 'l, 'f) cell heap \<Rightarrow> slice option \<Rightarrow> strmap option list option option" where
  "filters_val \<equiv> slice_val get_maps (ptr_val get_map flat_val)"

definition spec_val :: "('m, 'l, 'f) cell heap \<Rightarrow> spec_struct \<Rightarrow> go_spec option" where
  "spec_val h s = do {
     fs \<leftarrow> filters_val h (g_AdditionalFilters s);
     cc \<leftarrow> string_val h (g_ConnectCluster s);
     ma \<leftarrow> int64_val h (g_MaxAge s);
     vt \<leftarrow> int64_val h (g_ValidationThreshold s);
     tp \<leftarrow> string_val h (g_Topic s);
     ds \<leftarrow> string_val h (g_DbSecret s);
     is \<leftarrow> string_val h (g_InventoryDbSecret s);
     mc \<leftarrow> bool_val h (g_ManagedConnectors s);
     Some \<lparr>AppName = g_AppName s, InsightsOnly = g_InsightsOnly s, AdditionalFilters = filters_of fs,
       ConnectCluster = cc, MaxAge = ma, ValidationThreshold = vt, Topic = tp, DbSecret = ds,
       InventoryDbSecret = is, DBTableIndexSQL = g_DBTableIndexSQL s, Refresh = g_Refresh s,
       ManagedConnectors = mc, ConnectorPaused = g_ConnectorPaused s, raw_Filters = fs\<rparr>
   }"

definition spec_refs :: "('m, 'l, 'f) cell heap \<Rightarrow> spec_struct \<Rightarrow> addr set" where
  "spec_refs h s =
     slice_refs get_maps (ptr_refs get_map flat_refs) h (g_AdditionalFilters s) \<union>
     ptr_refs get_str flat_refs h (g_ConnectCluster s) \<union> ptr_refs get_int flat_refs h (g_MaxAge s) \<union>
     ptr_refs get_int flat_refs h (g_ValidationThreshold s) \<union> ptr_refs get_str flat_refs h (g_Topic s) \<union>
     ptr_refs get_str flat_refs h (g_DbSecret s) \<union> ptr_refs get_str flat_refs h (g_InventoryDbSecret s) \<union>
     ptr_refs get_bool flat_refs h (g_ManagedConnectors s)"

lemma copy_entries_lookup:
  "fmlookup (copy_entries m ks out) k = (if k \<in> set ks \<and> k |\<in>| fmdom m then fmlookup m k else fmlookup out k)"
  by (induction ks arbitrary: out) (auto split: option.splits)

text \<open>The order in which \<open>range\<close> delivers the keys plays no part.\<close>

lemma copy_entries_all: "set ks = fset (fmdom m) \<Longrightarrow> copy_entries m ks fmempty = m"
  by (rule fmap_ext) (auto simp: copy_entries_lookup fmdom_notD)

lemma copy_entries_sorted [simp]: "copy_entries m (sorted_list_of_fset (fmdom m)) fmempty = m"
  by (rule copy_entries_all) simp

interpretation string_copy: deep_copy copy_string string_val "ptr_refs get_str flat_refs"
  unfolding copy_string_def by (rule str_cell.deep_copy_ptr) (rule flat.deep_copy_axioms)

interpretation int64_copy: deep_copy copy_int64 int64_val "ptr_refs get_int flat_refs"
  unfolding copy_int64_def by (rule int_cell.deep_copy_ptr) (rule flat.deep_copy_axioms)

interpretation bool_copy: deep_copy copy_bool bool_val "ptr_refs get_bool flat_refs"
  unfolding copy_bool_def by (rule bool_cell.deep_copy_ptr) (rule flat.deep_copy_axioms)

interpretation map_copy: deep_copy copy_map "ptr_val get_map flat_val" "ptr_refs get_map flat_refs"
  unfolding copy_map_def copy_entries_sorted by (rule map_cell.deep_copy_ptr) (rule flat.deep_copy_axioms)

interpretation filters_copy: deep_copy copy_filters filters_val "slice_refs get_maps (ptr_refs get_map flat_refs)"
  unfolding copy_filters_def by (rule maps_cell.deep_copy_slice) (rule map_copy.deep_copy_axioms)

lemmas pair_defs = pair_copy_def pair_val_def pair_refs_def

lemma spec_deep_copy: "deep_copy CyndiPipelineSpec_DeepCopyInto spec_val spec_refs"
proof (rule deep_copy_view [where
      f = "\<lambda>s. (g_AdditionalFilters s, g_ConnectCluster s, g_MaxAge s, g_ValidationThreshold s, g_Topic s,
        g_DbSecret s, g_InventoryDbSecret s, g_ManagedConnectors s)" and
      g = "\<lambda>(fs, cc, ma, vt, tp, ds, is, mc) s. s\<lparr>g_AdditionalFilters := fs, g_ConnectCluster := cc,
        g_MaxAge := ma, g_ValidationThreshold := vt, g_Topic := tp, g_DbSecret := ds, g_InventoryDbSecret := is,
        g_ManagedConnectors := mc\<rparr>" and
      w = "\<lambda>s (fs, cc, ma, vt, tp, ds, is, mc). \<lparr>AppName = g_AppName s, InsightsOnly = g_InsightsOnly s,
        AdditionalFilters = filters_of fs, ConnectCluster = cc, MaxAge = ma, ValidationThreshold = vt, Topic = tp,
        DbSecret = ds, InventoryDbSecret = is, DBTableIndexSQL = g_DBTableIndexSQL s, Refresh = g_Refresh s,
        ManagedConnectors = mc, ConnectorPaused = g_ConnectorPaused s, raw_Filters = fs\<rparr>"])
  show "deep_copy
     (pair_copy copy_filters (pair_copy copy_string (pair_copy copy_int64 (pair_copy copy_int64
       (pair_copy copy_string (pair_copy copy_string (pair_copy copy_string copy_bool)))))))
     (pair_val filters_val (pair_val string_val (pair_val int64_val (pair_val int64_val
       (pair_val string_val (pair_val string_val (pair_val string_val bool_val)))))))
     (pair_refs (slice_refs get_maps (ptr_refs get_map flat_refs)) (pair_refs (ptr_refs get_str flat_refs)
       (pair_refs (ptr_refs get_int flat_refs) (pair_refs (ptr_refs get_int flat_refs)
       (pair_refs (ptr_refs get_str flat_refs) (pair_refs (ptr_refs get_str flat_refs)
       (pair_refs (ptr_refs get_str flat_refs) (ptr_refs get_bool flat_refs))))))))"
    by (intro deep_copy_pair filters_copy.deep_copy_axioms string_copy.deep_copy_axioms
          int64_copy.deep_copy_axioms bool_copy.deep_copy_axioms)
qed (simp_all add: CyndiPipelineSpec_DeepCopyInto_def spec_val_def spec_refs_def pair_defs map_option_bind
      map_conv_bind_option comp_def Un_assoc split_beta)

interpretation spec_copy: deep_copy CyndiPipelineSpec_DeepCopyInto spec_val spec_refs
  by (rule spec_deep_copy)

interpretation spec_ptr: deep_copy CyndiPipelineSpec_DeepCopy "ptr_val get_spec spec_val" "ptr_refs get_spec spec_refs"
  unfolding CyndiPipelineSpec_DeepCopy_def by (rule spec_cell.deep_copy_ptr) (rule spec_deep_copy)

section \<open>The metadata and the conditions: the interface\<close>

text \<open>
  \<open>DeepCopyInto\<close> of \<open>ObjectMeta\<close>, \<open>ListMeta\<close> and \<open>Condition\<close>, with the zero values and the meaning of
  the two kinds of metadata.
\<close>

record ('m, 'l, 'f, 'mv, 'lv) metav1 =
  om_zero :: 'm
  om_copy :: "'m \<Rightarrow> (('m, 'l, 'f) cell heap, 'm) state"
  om_val :: "('m, 'l, 'f) cell heap \<Rightarrow> 'm \<Rightarrow> 'mv option"
  om_refs :: "('m, 'l, 'f) cell heap \<Rightarrow> 'm \<Rightarrow> addr set"
  lm_zero :: 'l
  lm_copy :: "'l \<Rightarrow> (('m, 'l, 'f) cell heap, 'l) state"
  lm_val :: "('m, 'l, 'f) cell heap \<Rightarrow> 'l \<Rightarrow> 'lv option"
  lm_refs :: "('m, 'l, 'f) cell heap \<Rightarrow> 'l \<Rightarrow> addr set"
  cond_copy :: "Condition \<Rightarrow> (('m, 'l, 'f) cell heap, Condition) state"

text \<open>They are deep copies. A condition holds no pointers.\<close>

locale metav1_copies =
  fixes A :: "('m, 'l, 'f, 'mv, 'lv) metav1"
  assumes om: "deep_copy (om_copy A) (om_val A) (om_refs A)"
    and lm: "deep_copy (lm_copy A) (lm_val A) (lm_refs A)"
    and cond: "deep_copy (cond_copy A) flat_val flat_refs"

section \<open>The status\<close>

definition CyndiPipelineStatus_DeepCopyInto :: "('m, 'l, 'f, 'mv, 'lv) metav1 \<Rightarrow> status_struct \<Rightarrow>
    (('m, 'l, 'f) cell heap, status_struct) state" where
  "CyndiPipelineStatus_DeepCopyInto A s = do {
     conditions \<leftarrow> slice_copy CConds get_conds zero_Condition (cond_copy A) (g_Conditions s);
     ret (s\<lparr>g_Conditions := conditions\<rparr>)
   }"

definition CyndiPipelineStatus_DeepCopy :: "('m, 'l, 'f, 'mv, 'lv) metav1 \<Rightarrow> addr option \<Rightarrow>
    (('m, 'l, 'f) cell heap, addr option) state" where
  "CyndiPipelineStatus_DeepCopy A = ptr_copy CStatus get_status zero_status (CyndiPipelineStatus_DeepCopyInto A)"

record go_status = CyndiPipelineStatus +
  raw_Conditions :: "Condition list option"

definition status_val :: "('m, 'l, 'f) cell heap \<Rightarrow> status_struct \<Rightarrow> go_status option" where
  "status_val h s = do {
     cs \<leftarrow> slice_val get_conds flat_val h (g_Conditions s);
     Some \<lparr>ValidationFailedCount = g_ValidationFailedCount s, PipelineVersion = g_PipelineVersion s,
       status_ConnectorName = g_ConnectorName s, status_TableName = g_TableName s,
       CyndiConfigVersion = g_CyndiConfigVersion s, status_SpecHash = g_SpecHash s,
       InitialSyncInProgress = g_InitialSyncInProgress s, ActiveTableName = g_ActiveTableName s,
       Conditions = (case cs of None \<Rightarrow> [] | Some cs \<Rightarrow> cs), HostCount = g_HostCount s, raw_Conditions = cs\<rparr>
   }"

definition status_refs :: "('m, 'l, 'f) cell heap \<Rightarrow> status_struct \<Rightarrow> addr set" where
  "status_refs h s = slice_refs get_conds flat_refs h (g_Conditions s)"

section \<open>The resource\<close>

definition CyndiPipeline_DeepCopyInto :: "('m, 'l, 'f, 'mv, 'lv) metav1 \<Rightarrow> 'm pipeline_struct \<Rightarrow>
    (('m, 'l, 'f) cell heap, 'm pipeline_struct) state" where
  "CyndiPipeline_DeepCopyInto A p = do {
     m \<leftarrow> om_copy A (g_ObjectMeta p);
     spec \<leftarrow> CyndiPipelineSpec_DeepCopyInto (g_Spec p);
     status \<leftarrow> CyndiPipelineStatus_DeepCopyInto A (g_Status p);
     ret (p\<lparr>g_TypeMeta := g_TypeMeta p, g_ObjectMeta := m, g_Spec := spec, g_Status := status\<rparr>)
   }"

definition zero_pipeline :: "('m, 'l, 'f, 'mv, 'lv) metav1 \<Rightarrow> 'm pipeline_struct" where
  "zero_pipeline A = \<lparr>g_TypeMeta = zero_TypeMeta, g_ObjectMeta = om_zero A, g_Spec = zero_spec, g_Status = zero_status\<rparr>"

definition CyndiPipeline_DeepCopy :: "('m, 'l, 'f, 'mv, 'lv) metav1 \<Rightarrow> addr option \<Rightarrow>
    (('m, 'l, 'f) cell heap, addr option) state" where
  "CyndiPipeline_DeepCopy A = ptr_copy CPipeline get_pipeline (zero_pipeline A) (CyndiPipeline_DeepCopyInto A)"

text \<open>A \<open>runtime.Object\<close> is nil or holds a pointer, which could be nil itself.\<close>

datatype runtime_Object = NilObject | Object "addr option"

definition CyndiPipeline_DeepCopyObject :: "('m, 'l, 'f, 'mv, 'lv) metav1 \<Rightarrow> addr option \<Rightarrow>
    (('m, 'l, 'f) cell heap, runtime_Object) state" where
  "CyndiPipeline_DeepCopyObject A p = do {
     c \<leftarrow> CyndiPipeline_DeepCopy A p;
     ret (if c \<noteq> None then Object c else NilObject)
   }"

record 'mv go_pipeline =
  v_TypeMeta :: TypeMeta
  v_ObjectMeta :: 'mv
  v_Spec :: go_spec
  v_Status :: go_status

definition pipeline_val :: "('m, 'l, 'f, 'mv, 'lv) metav1 \<Rightarrow> ('m, 'l, 'f) cell heap \<Rightarrow> 'm pipeline_struct \<Rightarrow>
    'mv go_pipeline option" where
  "pipeline_val A h p = do {
     m \<leftarrow> om_val A h (g_ObjectMeta p);
     spec \<leftarrow> spec_val h (g_Spec p);
     status \<leftarrow> status_val h (g_Status p);
     Some \<lparr>v_TypeMeta = g_TypeMeta p, v_ObjectMeta = m, v_Spec = spec, v_Status = status\<rparr>
   }"

definition pipeline_refs :: "('m, 'l, 'f, 'mv, 'lv) metav1 \<Rightarrow> ('m, 'l, 'f) cell heap \<Rightarrow> 'm pipeline_struct \<Rightarrow> addr set" where
  "pipeline_refs A h p = om_refs A h (g_ObjectMeta p) \<union> spec_refs h (g_Spec p) \<union> status_refs h (g_Status p)"

section \<open>Lists of the resource\<close>

definition CyndiPipelineList_DeepCopyInto :: "('m, 'l, 'f, 'mv, 'lv) metav1 \<Rightarrow> 'l list_struct \<Rightarrow>
    (('m, 'l, 'f) cell heap, 'l list_struct) state" where
  "CyndiPipelineList_DeepCopyInto A l = do {
     m \<leftarrow> lm_copy A (g_ListMeta l);
     items \<leftarrow> slice_copy CPipelines get_pipelines (zero_pipeline A) (CyndiPipeline_DeepCopyInto A) (g_Items l);
     ret (l\<lparr>g_ListTypeMeta := g_ListTypeMeta l, g_ListMeta := m, g_Items := items\<rparr>)
   }"

definition CyndiPipelineList_DeepCopy :: "('m, 'l, 'f, 'mv, 'lv) metav1 \<Rightarrow> addr option \<Rightarrow>
    (('m, 'l, 'f) cell heap, addr option) state" where
  "CyndiPipelineList_DeepCopy A =
     ptr_copy CList get_list \<lparr>g_ListTypeMeta = zero_TypeMeta, g_ListMeta = lm_zero A, g_Items = None\<rparr>
       (CyndiPipelineList_DeepCopyInto A)"

definition CyndiPipelineList_DeepCopyObject :: "('m, 'l, 'f, 'mv, 'lv) metav1 \<Rightarrow> addr option \<Rightarrow>
    (('m, 'l, 'f) cell heap, runtime_Object) state" where
  "CyndiPipelineList_DeepCopyObject A p = do {
     c \<leftarrow> CyndiPipelineList_DeepCopy A p;
     ret (if c \<noteq> None then Object c else NilObject)
   }"

definition list_val :: "('m, 'l, 'f, 'mv, 'lv) metav1 \<Rightarrow> ('m, 'l, 'f) cell heap \<Rightarrow> 'l list_struct \<Rightarrow>
    (TypeMeta \<times> 'lv \<times> 'mv go_pipeline list option) option" where
  "list_val A h l = do {
     m \<leftarrow> lm_val A h (g_ListMeta l);
     items \<leftarrow> slice_val get_pipelines (pipeline_val A) h (g_Items l);
     Some (g_ListTypeMeta l, m, items)
   }"

definition list_refs :: "('m, 'l, 'f, 'mv, 'lv) metav1 \<Rightarrow> ('m, 'l, 'f) cell heap \<Rightarrow> 'l list_struct \<Rightarrow> addr set" where
  "list_refs A h l = lm_refs A h (g_ListMeta l) \<union> slice_refs get_pipelines (pipeline_refs A) h (g_Items l)"

section \<open>All of them are deep copies\<close>

context metav1_copies
begin

lemma status_deep_copy: "deep_copy (CyndiPipelineStatus_DeepCopyInto A) status_val status_refs"
  by (rule deep_copy_view [OF conds_cell.deep_copy_slice [OF cond], where f = g_Conditions and
        g = "\<lambda>cs s. s\<lparr>g_Conditions := cs\<rparr>" and
        w = "\<lambda>s cs. \<lparr>ValidationFailedCount = g_ValidationFailedCount s, PipelineVersion = g_PipelineVersion s,
          status_ConnectorName = g_ConnectorName s, status_TableName = g_TableName s,
          CyndiConfigVersion = g_CyndiConfigVersion s, status_SpecHash = g_SpecHash s,
          InitialSyncInProgress = g_InitialSyncInProgress s, ActiveTableName = g_ActiveTableName s,
          Conditions = (case cs of None \<Rightarrow> [] | Some cs \<Rightarrow> cs), HostCount = g_HostCount s, raw_Conditions = cs\<rparr>"])
     (simp_all add: CyndiPipelineStatus_DeepCopyInto_def status_val_def status_refs_def
        map_conv_bind_option comp_def)

lemma pipeline_deep_copy: "deep_copy (CyndiPipeline_DeepCopyInto A) (pipeline_val A) (pipeline_refs A)"
  by (rule deep_copy_view [OF deep_copy_pair [OF om deep_copy_pair [OF spec_deep_copy status_deep_copy]],
        where f = "\<lambda>p. (g_ObjectMeta p, g_Spec p, g_Status p)" and
        g = "\<lambda>(m, s, t) p. p\<lparr>g_ObjectMeta := m, g_Spec := s, g_Status := t\<rparr>" and
        w = "\<lambda>p (m, s, t). \<lparr>v_TypeMeta = g_TypeMeta p, v_ObjectMeta = m, v_Spec = s, v_Status = t\<rparr>"])
     (simp_all add: CyndiPipeline_DeepCopyInto_def pipeline_val_def pipeline_refs_def pair_defs map_option_bind
        map_conv_bind_option comp_def Un_assoc split_beta)

lemma list_deep_copy: "deep_copy (CyndiPipelineList_DeepCopyInto A) (list_val A) (list_refs A)"
  by (rule deep_copy_view [OF deep_copy_pair [OF lm pipelines_cell.deep_copy_slice [OF pipeline_deep_copy]],
        where f = "\<lambda>l. (g_ListMeta l, g_Items l)" and
        g = "\<lambda>(m, is) l. l\<lparr>g_ListMeta := m, g_Items := is\<rparr>" and
        w = "\<lambda>l (m, is). (g_ListTypeMeta l, m, is)"])
     (simp_all add: CyndiPipelineList_DeepCopyInto_def list_val_def list_refs_def pair_defs map_option_bind
        map_conv_bind_option comp_def split_beta)

lemma pipeline_ptr: "deep_copy (CyndiPipeline_DeepCopy A) (ptr_val get_pipeline (pipeline_val A)) (ptr_refs get_pipeline (pipeline_refs A))"
  unfolding CyndiPipeline_DeepCopy_def by (rule pipeline_cell.deep_copy_ptr) (rule pipeline_deep_copy)

lemma list_ptr: "deep_copy (CyndiPipelineList_DeepCopy A) (ptr_val get_list (list_val A)) (ptr_refs get_list (list_refs A))"
  unfolding CyndiPipelineList_DeepCopy_def by (rule list_cell.deep_copy_ptr) (rule list_deep_copy)

lemma status_ptr: "deep_copy (CyndiPipelineStatus_DeepCopy A) (ptr_val get_status status_val) (ptr_refs get_status status_refs)"
  unfolding CyndiPipelineStatus_DeepCopy_def by (rule status_cell.deep_copy_ptr) (rule status_deep_copy)

end

text \<open>A pointer to a pipeline with all it leads to, and the same for lists.\<close>

definition pipeline_at :: "('m, 'l, 'f, 'mv, 'lv) metav1 \<Rightarrow> ('m, 'l, 'f) cell heap \<Rightarrow> addr option \<Rightarrow>
    'mv go_pipeline option option" where
  "pipeline_at A = ptr_val get_pipeline (pipeline_val A)"

definition list_at :: "('m, 'l, 'f, 'mv, 'lv) metav1 \<Rightarrow> ('m, 'l, 'f) cell heap \<Rightarrow> addr option \<Rightarrow>
    (TypeMeta \<times> 'lv \<times> 'mv go_pipeline list option) option option" where
  "list_at A = ptr_val get_list (list_val A)"

sublocale metav1_copies \<subseteq> instances: deep_copy "CyndiPipeline_DeepCopy A" "pipeline_at A" "ptr_refs get_pipeline (pipeline_refs A)"
  unfolding pipeline_at_def by (rule pipeline_ptr)

sublocale metav1_copies \<subseteq> lists: deep_copy "CyndiPipelineList_DeepCopy A" "list_at A" "ptr_refs get_list (list_refs A)"
  unfolding list_at_def by (rule list_ptr)

lemma ptr_copy_nil: "run_state (ptr_copy mk get zero c p) h = (q, h') \<Longrightarrow> q = None \<longleftrightarrow> p = None"
  by (auto simp: ptr_copy_def split: option.splits prod.splits)

context metav1_copies
begin

lemma pipeline_isolated:
  assumes "heap_ok h" and "pipeline_at A h (Some a) = Some (Some v)"
    and "run_state (CyndiPipeline_DeepCopy A (Some a)) h = (b, h')"
  shows "b \<noteq> None \<and> pipeline_at A h' b = Some (Some v) \<and> pipeline_at A h' (Some a) = Some (Some v) \<and>
    (\<forall>h1 S1. mutates h' {..<brk h} h1 S1 \<longrightarrow> pipeline_at A h1 b = Some (Some v)) \<and>
    (\<forall>h2 S2. mutates h' {brk h..<brk h'} h2 S2 \<longrightarrow> pipeline_at A h2 (Some a) = Some (Some v))"
proof -
  have "b \<noteq> None" using assms(3) ptr_copy_nil unfolding CyndiPipeline_DeepCopy_def by fastforce
  then show ?thesis
    using instances.copies [OF assms] instances.original_kept [OF assms]
      instances.copy_isolated [OF assms] instances.original_isolated [OF assms] by blast
qed

lemma list_isolated:
  assumes "heap_ok h" and "list_at A h p = Some v"
    and "run_state (CyndiPipelineList_DeepCopy A p) h = (q, h')"
  shows "list_at A h' q = Some v \<and> list_at A h' p = Some v \<and>
    ptr_refs get_list (list_refs A) h' p \<inter> ptr_refs get_list (list_refs A) h' q = {} \<and>
    (\<forall>h1 S1. mutates h' {..<brk h} h1 S1 \<longrightarrow> list_at A h1 q = Some v)"
  using lists.copies [OF assms] lists.original_kept [OF assms] lists.copy_isolated [OF assms] by blast

end

section \<open>The documented metadata\<close>

text \<open>
  The metadata of \<open>Pipeline\<close> in memory, copied the way the API machinery does: the time of
  deletion is a pointer and the finalizers are a slice.
\<close>

record meta_struct =
  r_Name :: string
  r_Namespace :: string
  r_UID :: string
  r_Generation :: int
  r_ResourceVersion :: string
  r_DeletionTimestamp :: "addr option"
  r_Finalizers :: "slice option"

datatype meta_cell = MTime string | MStrings "string list"

fun get_time where "get_time (COther (MTime t)) = Some t" | "get_time _ = None"
fun get_strings where "get_strings (COther (MStrings ss)) = Some ss" | "get_strings _ = None"

interpretation time_cell: cell_kind "\<lambda>t. COther (MTime t)" get_time by unfold_locales simp
interpretation strings_cell: array_kind "\<lambda>ss. COther (MStrings ss)" get_strings by unfold_locales simp

definition doc_meta_copy :: "meta_struct \<Rightarrow> (('m, 'l, meta_cell) cell heap, meta_struct) state" where
  "doc_meta_copy m = do {
     t \<leftarrow> ptr_copy (\<lambda>t. COther (MTime t)) get_time '''' ret (r_DeletionTimestamp m);
     fs \<leftarrow> slice_copy (\<lambda>ss. COther (MStrings ss)) get_strings '''' ret (r_Finalizers m);
     ret (m\<lparr>r_DeletionTimestamp := t, r_Finalizers := fs\<rparr>)
   }"

definition doc_meta_val :: "('m, 'l, meta_cell) cell heap \<Rightarrow> meta_struct \<Rightarrow> ObjectMeta option" where
  "doc_meta_val h m = do {
     t \<leftarrow> ptr_val get_time flat_val h (r_DeletionTimestamp m);
     fs \<leftarrow> slice_val get_strings flat_val h (r_Finalizers m);
     Some \<lparr>meta_Name = r_Name m, meta_Namespace = r_Namespace m, meta_UID = r_UID m,
       meta_Generation = r_Generation m, meta_ResourceVersion = r_ResourceVersion m,
       meta_DeletionTimestamp = t, meta_Finalizers = (case fs of None \<Rightarrow> [] | Some fs \<Rightarrow> fs)\<rparr>
   }"

definition doc_meta_refs :: "('m, 'l, meta_cell) cell heap \<Rightarrow> meta_struct \<Rightarrow> addr set" where
  "doc_meta_refs h m =
     ptr_refs get_time flat_refs h (r_DeletionTimestamp m) \<union> slice_refs get_strings flat_refs h (r_Finalizers m)"

definition doc_metav1 :: "(meta_struct, string, meta_cell, ObjectMeta, string) metav1" where
  "doc_metav1 = \<lparr>om_zero = \<lparr>r_Name = '''', r_Namespace = '''', r_UID = '''', r_Generation = 0,
       r_ResourceVersion = '''', r_DeletionTimestamp = None, r_Finalizers = None\<rparr>,
     om_copy = doc_meta_copy, om_val = doc_meta_val, om_refs = doc_meta_refs,
     lm_zero = '''', lm_copy = ret, lm_val = flat_val, lm_refs = flat_refs, cond_copy = ret\<rparr>"

lemma doc_meta_deep_copy: "deep_copy doc_meta_copy doc_meta_val doc_meta_refs"
  by (rule deep_copy_view [OF deep_copy_pair [OF time_cell.deep_copy_ptr [OF flat.deep_copy_axioms]
          strings_cell.deep_copy_slice [OF flat.deep_copy_axioms]],
        where f = "\<lambda>m. (r_DeletionTimestamp m, r_Finalizers m)" and
        g = "\<lambda>(t, fs) m. m\<lparr>r_DeletionTimestamp := t, r_Finalizers := fs\<rparr>" and
        w = "\<lambda>m (t, fs). \<lparr>meta_Name = r_Name m, meta_Namespace = r_Namespace m, meta_UID = r_UID m,
          meta_Generation = r_Generation m, meta_ResourceVersion = r_ResourceVersion m,
          meta_DeletionTimestamp = t, meta_Finalizers = (case fs of None \<Rightarrow> [] | Some fs \<Rightarrow> fs)\<rparr>"])
     (simp_all add: doc_meta_copy_def doc_meta_val_def doc_meta_refs_def pair_defs map_option_bind
        map_conv_bind_option comp_def split_beta)

interpretation doc_copies: metav1_copies doc_metav1
  by (rule metav1_copies.intro) (simp_all add: doc_metav1_def doc_meta_deep_copy flat.deep_copy_axioms)

text \<open>With these, a pipeline in memory is a pipeline of the model.\<close>

definition pipeline_of :: "ObjectMeta go_pipeline \<Rightarrow> CyndiPipeline" where
  "pipeline_of v = \<lparr>Meta = v_ObjectMeta v, Spec = CyndiPipelineSpec.truncate (v_Spec v),
     Status = CyndiPipelineStatus.truncate (v_Status v)\<rparr>"

section \<open>What a run relies on\<close>

text \<open>A pipeline in memory with one of each: a condition, a filter, pointers, a finalizer.\<close>

definition demo_condition :: Condition where
  "demo_condition = zero_Condition\<lparr>cond_Type := ''Valid'', cond_Status := ConditionTrue\<rparr>"

definition demo_struct :: "meta_struct pipeline_struct" where
  "demo_struct = \<lparr>g_TypeMeta = zero_TypeMeta,
     g_ObjectMeta = \<lparr>r_Name = ''advisor'', r_Namespace = ''app'', r_UID = ''uid'', r_Generation = 1,
       r_ResourceVersion = ''7'', r_DeletionTimestamp = None,
       r_Finalizers = Some \<lparr>sl_array = 5, sl_offset = 0, sl_len = 1\<rparr>\<rparr>,
     g_Spec = zero_spec\<lparr>g_AppName := ''advisor'',
       g_AdditionalFilters := Some \<lparr>sl_array = 2, sl_offset = 0, sl_len = 2\<rparr>, g_Topic := Some 4\<rparr>,
     g_Status = zero_status\<lparr>g_Conditions := Some \<lparr>sl_array = 1, sl_offset = 0, sl_len = 1\<rparr>\<rparr>\<rparr>"

definition demo_heap :: "(meta_struct, string, meta_cell) cell heap" where
  "demo_heap = \<lparr>cells = [0 \<mapsto> CPipeline demo_struct, 1 \<mapsto> CConds [demo_condition], 2 \<mapsto> CMaps [Some 3, None],
     3 \<mapsto> CMap (fmap_of_list [(''name'', ''f'')]), 4 \<mapsto> CStr ''events'', 5 \<mapsto> COther (MStrings [''finalizer''])],
     brk = 6\<rparr>"

definition demo_value :: "ObjectMeta go_pipeline" where
  "demo_value = the (the (pipeline_at doc_metav1 demo_heap (Some 0)))"

text \<open>\<open>SetStatusCondition\<close> writes into the array of the conditions.\<close>

definition demo_write :: "(meta_struct, string, meta_cell) cell heap \<Rightarrow> (meta_struct, string, meta_cell) cell heap" where
  "demo_write h = h\<lparr>cells := (cells h)(1 \<mapsto> CConds [demo_condition\<lparr>cond_Status := ConditionFalse\<rparr>])\<rparr>"

lemma demo_heap_ok: "heap_ok demo_heap"
  by (simp add: heap_ok_def demo_heap_def)

lemma demo_value_at: "pipeline_at doc_metav1 demo_heap (Some 0) = Some (Some demo_value)"
  unfolding demo_value_def by code_simp

text \<open>A list with this pipeline as its item.\<close>

definition demo_list_heap :: "(meta_struct, string, meta_cell) cell heap" where
  "demo_list_heap = demo_heap\<lparr>cells := (cells demo_heap)(6 \<mapsto> CPipelines [demo_struct],
     7 \<mapsto> CList \<lparr>g_ListTypeMeta = zero_TypeMeta, g_ListMeta = ''9'',
       g_Items = Some \<lparr>sl_array = 6, sl_offset = 0, sl_len = 1\<rparr>\<rparr>), brk := 8\<rparr>"

lemma demo_list_heap_ok: "heap_ok demo_list_heap"
  by (simp add: heap_ok_def demo_list_heap_def demo_heap_def)

lemma demo_list_at: "list_at doc_metav1 demo_list_heap (Some 7) = Some (Some (zero_TypeMeta, ''9'', Some [demo_value]))"
  unfolding demo_value_def by code_simp

text \<open>An object in an interface is never a nil pointer.\<close>

lemma DeepCopyObject_nil:
  "fst (run_state (CyndiPipeline_DeepCopyObject A p) h) \<noteq> Object None"
  "fst (run_state (CyndiPipeline_DeepCopyObject A p) h) = NilObject \<longleftrightarrow> p = None"
  using ptr_copy_nil [of CPipeline get_pipeline "zero_pipeline A" "CyndiPipeline_DeepCopyInto A" p h]
  by (auto simp: CyndiPipeline_DeepCopyObject_def CyndiPipeline_DeepCopy_def split: prod.splits)

text \<open>
  C10: The copy a run keeps of the pipeline it fetched. It reads like the pipeline, with nil and empty
  told apart; whatever the code that holds the pipeline writes afterwards, into the struct or
  through any pointer, slice or map it reaches, the copy keeps the values that were fetched,
  and writes to the copy do not reach the pipeline. So the comparison of the two statuses at the
  end of a run compares with what was fetched.
\<close>

theorem DeepCopy_isolated:
  assumes "metav1_copies A" and "heap_ok h" and "pipeline_at A h (Some a) = Some (Some v)"
    and "run_state (CyndiPipeline_DeepCopy A (Some a)) h = (b, h')"
  shows "b \<noteq> None \<and> pipeline_at A h' b = Some (Some v) \<and> pipeline_at A h' (Some a) = Some (Some v) \<and>
    (\<forall>h1 S1. mutates h' {..<brk h} h1 S1 \<longrightarrow> pipeline_at A h1 b = Some (Some v)) \<and>
    (\<forall>h2 S2. mutates h' {brk h..<brk h'} h2 S2 \<longrightarrow> pipeline_at A h2 (Some a) = Some (Some v))"
  using metav1_copies.pipeline_isolated [OF assms] .

theorem DeepCopy_isolated_witness:
  "pipeline_at doc_metav1 (demo_write (snd (run_state (CyndiPipeline_DeepCopy doc_metav1 (Some 0)) demo_heap)))
     (fst (run_state (CyndiPipeline_DeepCopy doc_metav1 (Some 0)) demo_heap)) = Some (Some demo_value) \<and>
   pipeline_at doc_metav1 (demo_write (snd (run_state (CyndiPipeline_DeepCopy doc_metav1 (Some 0)) demo_heap)))
     (Some 0) \<noteq> Some (Some demo_value)"
proof -
  let ?r = "run_state (CyndiPipeline_DeepCopy doc_metav1 (Some 0)) demo_heap"
  have "mutates (snd ?r) {..<brk demo_heap} (demo_write (snd ?r)) {..<brk demo_heap}"
    unfolding demo_write_def by (rule mut_write [OF mut_stay]) (simp add: demo_heap_def)
  then have "pipeline_at doc_metav1 (demo_write (snd ?r)) (fst ?r) = Some (Some demo_value)"
    using DeepCopy_isolated [OF doc_copies.metav1_copies_axioms demo_heap_ok demo_value_at surjective_pairing] by blast
  moreover have "pipeline_at doc_metav1 (demo_write (snd ?r)) (Some 0) \<noteq> Some (Some demo_value)"
    unfolding demo_value_def by code_simp
  ultimately show ?thesis by blast
qed

text \<open>
  The copy of a list, items and all, reads like the list and shares no memory with it.
\<close>

theorem list_DeepCopy_isolated:
  assumes "metav1_copies A" and "heap_ok h" and "list_at A h p = Some v"
    and "run_state (CyndiPipelineList_DeepCopy A p) h = (q, h')"
  shows "list_at A h' q = Some v \<and> list_at A h' p = Some v \<and>
    ptr_refs get_list (list_refs A) h' p \<inter> ptr_refs get_list (list_refs A) h' q = {} \<and>
    (\<forall>h1 S1. mutates h' {..<brk h} h1 S1 \<longrightarrow> list_at A h1 q = Some v)"
  using metav1_copies.list_isolated [OF assms] .

theorem list_DeepCopy_isolated_witness:
  "list_at doc_metav1 (snd (run_state (CyndiPipelineList_DeepCopy doc_metav1 (Some 7)) demo_list_heap))
     (fst (run_state (CyndiPipelineList_DeepCopy doc_metav1 (Some 7)) demo_list_heap)) =
     Some (Some (zero_TypeMeta, ''9'', Some [demo_value]))"
  using list_DeepCopy_isolated [OF doc_copies.metav1_copies_axioms demo_list_heap_ok demo_list_at surjective_pairing]
  by blast

end
