(* ===== verification/Startup.thy ===== *)
theory Startup
  imports Iteration Connect
begin

text \<open>
  \<^verbatim>\<open>main.go\<close>: the start of the process. The command line is parsed the way the package
  \<^verbatim>\<open>flag\<close> does; the manager, the client set and the registry of the metrics are parameters,
  and every call of them is recorded. The registration of the API types
  (\<^verbatim>\<open>groupversion_info.go\<close>), of the controllers (\<open>SetupWithManager\<close>) and of the metrics
  (\<open>Init\<close>) is here too, as the requests they send.
\<close>

section \<open>The command line\<close>

record flags =
  metricsAddr :: string
  probeAddr :: string
  enableLeaderElection :: bool

definition default_flags :: flags where
  "default_flags = \<lparr>metricsAddr = '':8080'', probeAddr = '':8081'', enableLeaderElection = False\<rparr>"

text \<open>
  Packages the program is linked with may define flags of their own; \<open>linked\<close> says which
  names they define and whether the value is boolean.
\<close>

datatype flag_kind = StringFlag | BoolFlag

definition flag_kind_of :: "(string \<Rightarrow> flag_kind option) \<Rightarrow> string \<Rightarrow> flag_kind option" where
  "flag_kind_of linked name =
     (if name = ''metrics-addr'' \<or> name = ''health-probe-bind-address'' then Some StringFlag
      else if name = ''enable-leader-election'' then Some BoolFlag
      else linked name)"

definition set_flag :: "string \<Rightarrow> string \<Rightarrow> flags \<Rightarrow> flags" where
  "set_flag name v f =
     (if name = ''metrics-addr'' then f\<lparr>metricsAddr := v\<rparr>
      else if name = ''health-probe-bind-address'' then f\<lparr>probeAddr := v\<rparr>
      else if name = ''enable-leader-election'' then
        f\<lparr>enableLeaderElection := (case ParseBool v of Some b \<Rightarrow> b | None \<Rightarrow> False)\<rparr>
      else f)"

text \<open>
  The result of \<open>flag.Parse\<close>: the flags and the arguments that are left, a request for help,
  or an error, which is printed. On the last two the process ends, with the codes 0 and 2.
\<close>

datatype parsed = Parsed flags "string list" | HelpWanted | BadFlag

text \<open>The name of a flag and the value after an equals sign, which is not looked for at the start.\<close>

definition split_name :: "string \<Rightarrow> string \<times> string option" where
  "split_name s =
     (let rest = tl s; n = takeWhile (\<lambda>c. c \<noteq> CHR ''='') rest in
      (take 1 s @ n, if length n < length rest then Some (drop (Suc (length n)) rest) else None))"

function parse_flags :: "(string \<Rightarrow> flag_kind option) \<Rightarrow> flags \<Rightarrow> string list \<Rightarrow> parsed" where
  "parse_flags linked f [] = Parsed f []"
| "parse_flags linked f (s # args) =
     (if length s < 2 \<or> hd s \<noteq> CHR ''-'' then Parsed f (s # args)
      else if s = ''--'' then Parsed f args
      else
        let body = (if s ! 1 = CHR ''-'' then drop 2 s else drop 1 s) in
        if body = [] \<or> hd body = CHR ''-'' \<or> hd body = CHR ''='' then BadFlag
        else
          let (name, v) = split_name body in
          case flag_kind_of linked name of
            None \<Rightarrow>
              if name = ''help'' \<or> name = ''h'' then HelpWanted
              else BadFlag
          | Some BoolFlag \<Rightarrow>
              let v = (case v of Some v \<Rightarrow> v | None \<Rightarrow> ''true'') in
              if ParseBool v = None then BadFlag
              else parse_flags linked (set_flag name v f) args
          | Some StringFlag \<Rightarrow>
              (case v of
                 Some v \<Rightarrow> parse_flags linked (set_flag name v f) args
               | None \<Rightarrow>
                   (case args of
                      [] \<Rightarrow> BadFlag
                    | v # args' \<Rightarrow> parse_flags linked (set_flag name v f) args')))"
  by pat_completeness auto
termination
  by (relation "measure (\<lambda>(_, _, args). length args)") auto

declare parse_flags.simps(2) [simp del]

section \<open>Requests\<close>

record manager_options =
  MetricsBindAddress :: string
  Port :: nat
  LeaderElection :: bool
  LeaderElectionID :: string
  HealthProbeBindAddress :: string
  RenewDeadline :: int
  LeaseDuration :: int

text \<open>What a controller is built with; the last field is that of the \<open>ValidationReconciler\<close>.\<close>

record controller_setup =
  Named :: string
  For :: string
  Owns :: "(string \<times> string \<times> string) list"
  Watches :: "string list"
  EventFilter :: bool
  CheckResourceDeviation :: "bool option"

datatype boot =
    AddToScheme string "string list"
  | SetLogger bool
  | GetConfig
  | NewManager manager_options
  | NewClientset
  | SetupController controller_setup
  | Register collector
  | AddHealthzCheck string
  | AddReadyzCheck string
  | StartManager

text \<open>
  Every call may fail; \<open>GetConfigOrDie\<close> ends the process itself, \<open>utilruntime.Must\<close> and
  \<open>MustRegister\<close> panic.
\<close>

record 'w process_api =
  boot_call :: "boot \<Rightarrow> 'w \<Rightarrow> gerror option \<times> 'w"
  boot_Getenv :: "string \<Rightarrow> string"
  boot_linked :: "string \<Rightarrow> flag_kind option"

datatype exit = Exit nat | Crash

type_synonym 'w process = "('w, boot, exit) io"

definition request :: "'w process_api \<Rightarrow> boot \<Rightarrow> ('w, boot, gerror option) io" where
  "request P b = perform b (boot_call P b)"

text \<open>A call, the end of the process when it fails, and the rest of the start otherwise.\<close>

definition step :: "'w process_api \<Rightarrow> boot \<Rightarrow> exit \<Rightarrow> 'w process \<Rightarrow> 'w process" where
  "step P b end rest = do {
     err \<leftarrow> request P b;
     if err \<noteq> None then ret end else rest
   }"

lemma run_step:
  "run_state (step P b end rest) w =
     (let (err, s) = boot_call P b (server w); w' = w\<lparr>server := s, effects := effects w @ [b]\<rparr>
      in if err \<noteq> None then (end, w') else run_state rest w')"
  by (simp add: step_def request_def split: prod.split)

section \<open>Registration\<close>

definition GroupVersion :: "string \<times> string" where
  "GroupVersion = (''cyndi.cloud.redhat.com'', ''v1alpha1'')"

text \<open>What \<open>SchemeBuilder.Register\<close> has collected before \<open>main\<close>.\<close>

definition registered_types :: "string list" where
  "registered_types = [''CyndiPipeline'', ''CyndiPipelineList'']"

definition connectorGVK :: "string \<times> string \<times> string" where
  "connectorGVK = (''kafka.strimzi.io'', ''v1beta2'', ''KafkaConnector'')"

definition SetupWithManager_cyndi :: controller_setup where
  "SetupWithManager_cyndi = \<lparr>Named = ''cyndi-controller'', For = ''CyndiPipeline'', Owns = [connectorGVK],
     Watches = [''ConfigMap''], EventFilter = False, CheckResourceDeviation = None\<rparr>"

definition SetupWithManager_validation :: "bool \<Rightarrow> controller_setup" where
  "SetupWithManager_validation check = \<lparr>Named = ''cyndi-validation'', For = ''CyndiPipeline'', Owns = [],
     Watches = [], EventFilter = True, CheckResourceDeviation = Some check\<rparr>"

text \<open>\<open>metrics.Init\<close>: \<open>MustRegister\<close> registers one collector after the other.\<close>

fun register_all :: "'w process_api \<Rightarrow> collector list \<Rightarrow> 'w process \<Rightarrow> 'w process" where
  "register_all P [] rest = rest"
| "register_all P (c # cs) rest = step P (Register c) Crash (register_all P cs rest)"

definition metrics_Init :: "'w process_api \<Rightarrow> 'w process \<Rightarrow> 'w process" where
  "metrics_Init P rest = register_all P collectors rest"

section \<open>The process\<close>

text \<open>\<open>n * time.Second\<close>, a constant of the program.\<close>

definition seconds :: "int \<Rightarrow> int" where
  "seconds n = n * 1000000000"

definition manager_options_of :: "flags \<Rightarrow> manager_options" where
  "manager_options_of f = \<lparr>MetricsBindAddress = metricsAddr f, Port = 9443,
     LeaderElection = enableLeaderElection f, LeaderElectionID = ''212d6419.cloud.redhat.com'',
     HealthProbeBindAddress = probeAddr f, RenewDeadline = seconds 60, LeaseDuration = seconds 90\<rparr>"

definition init :: "'w process_api \<Rightarrow> 'w process \<Rightarrow> 'w process" where
  "init P rest =
     step P (AddToScheme ''client-go'' []) Crash
       (step P (AddToScheme (fst GroupVersion) registered_types) Crash rest)"

text \<open>From the manager on, once the flags are known.\<close>

definition start_manager :: "'w process_api \<Rightarrow> flags \<Rightarrow> 'w process" where
  "start_manager P f =
     step P GetConfig (Exit 1)
       (step P (NewManager (manager_options_of f)) (Exit 1)
         (step P GetConfig (Exit 1)
           (step P NewClientset (Exit 1)
             (step P (SetupController (SetupWithManager_validation True)) (Exit 1)
               (step P (SetupController SetupWithManager_cyndi) (Exit 1)
                 (metrics_Init P
                   (step P (AddHealthzCheck ''healthz'') (Exit 1)
                     (step P (AddReadyzCheck ''readyz'') (Exit 1)
                       (step P StartManager (Exit 1) (ret (Exit 0)))))))))))"

definition main :: "'w process_api \<Rightarrow> string list \<Rightarrow> 'w process" where
  "main P args =
     (case parse_flags (boot_linked P) default_flags args of
        HelpWanted \<Rightarrow> ret (Exit 0)
      | BadFlag \<Rightarrow> ret (Exit 2)
      | Parsed f rest \<Rightarrow> do {
          emit (SetLogger (boot_Getenv P ''DEV_MODE'' = ''true''));
          start_manager P f
        })"

definition process :: "'w process_api \<Rightarrow> string list \<Rightarrow> 'w process" where
  "process P args = init P (main P args)"

section \<open>The order of the start\<close>

text \<open>The requests of a start that reaches the end, in order.\<close>

definition boot_sequence :: "flags \<Rightarrow> boot list" where
  "boot_sequence f = [GetConfig, NewManager (manager_options_of f), GetConfig, NewClientset,
     SetupController (SetupWithManager_validation True), SetupController SetupWithManager_cyndi] @
     map Register collectors @ [AddHealthzCheck ''healthz'', AddReadyzCheck ''readyz'', StartManager]"

text \<open>
  \<open>in_order bs m\<close>: whatever fails, the requests of \<open>m\<close> are the first of \<open>bs\<close>, and \<open>m\<close> ends with
  code 0 only after all of them.
\<close>

definition in_order :: "boot list \<Rightarrow> 'w process \<Rightarrow> bool" where
  "in_order bs m \<longleftrightarrow> post m (\<lambda>r es. \<exists>rest. bs = es @ rest \<and> (r = Exit 0 \<longrightarrow> rest = []))"

lemma in_order_ret: "in_order [] (ret r)"
  unfolding in_order_def by (auto intro!: post_intros)

lemma in_order_step:
  "in_order bs m \<Longrightarrow> end \<noteq> Exit 0 \<Longrightarrow> in_order (b # bs) (step P b end m)"
  unfolding in_order_def step_def request_def
  by (intro post_intros) (auto elim!: post_mono)

lemma in_order_register: "in_order bs m \<Longrightarrow> in_order (map Register cs @ bs) (register_all P cs m)"
  by (induction cs) (auto intro!: in_order_step)

lemma in_order_start: "in_order (boot_sequence f) (start_manager P f)"
  unfolding boot_sequence_def start_manager_def metrics_Init_def append.simps
  by (intro in_order_step in_order_register in_order_ret) simp_all

definition init_sequence :: "bool \<Rightarrow> boot list" where
  "init_sequence dev = [AddToScheme ''client-go'' [], AddToScheme (fst GroupVersion) registered_types, SetLogger dev]"

lemma in_order_emit: "in_order bs m \<Longrightarrow> in_order (b # bs) (do { emit b; m })"
  unfolding in_order_def by (intro post_intros) (auto elim!: post_mono)

lemma in_order_process:
  assumes "parse_flags (boot_linked P) default_flags args = Parsed f left"
  shows "in_order (init_sequence (boot_Getenv P ''DEV_MODE'' = ''true'') @ boot_sequence f) (process P args)"
  unfolding process_def init_def main_def init_sequence_def append.simps
  by (intro in_order_step) (simp_all add: assms in_order_emit in_order_start)

text \<open>A flag that is given as one argument with its value.\<close>

lemma split_name_eq:
  "CHR ''='' \<notin> set n \<Longrightarrow> n \<noteq> [] \<Longrightarrow> split_name (n @ CHR ''='' # v) = (n, Some v)"
  by (cases n) (auto simp: split_name_def Let_def takeWhile_append)

lemma split_name_plain:
  assumes "CHR ''='' \<notin> set n"
  shows "split_name n = (n, None)"
proof -
  have "takeWhile (\<lambda>c. c \<noteq> CHR ''='') (tl n) = tl n"
    using assms by (cases n) (auto simp: takeWhile_eq_all_conv)
  then show ?thesis unfolding split_name_def Let_def by (simp only:) (cases n; simp)
qed

text \<open>The settings as a command line, in three of the forms that are accepted.\<close>

definition print_flags :: "flags \<Rightarrow> string list" where
  "print_flags f = [''--metrics-addr='' @ metricsAddr f, ''-health-probe-bind-address'', probeAddr f,
     ''-enable-leader-election='' @ FormatBool (enableLeaderElection f)]"

lemma parse_metrics_addr:
  "parse_flags linked f ((''--metrics-addr='' @ v) # args) = parse_flags linked (f\<lparr>metricsAddr := v\<rparr>) args"
  using split_name_eq [of "''metrics-addr''" v] by (simp add: parse_flags.simps(2) flag_kind_of_def set_flag_def)

lemma parse_probe_addr:
  "parse_flags linked f (''-health-probe-bind-address'' # v # args) = parse_flags linked (f\<lparr>probeAddr := v\<rparr>) args"
  using split_name_plain [of "''health-probe-bind-address''"] by (simp add: parse_flags.simps(2) flag_kind_of_def set_flag_def)

lemma parse_leader_election:
  "parse_flags linked f ((''-enable-leader-election='' @ FormatBool b) # args) =
     parse_flags linked (f\<lparr>enableLeaderElection := b\<rparr>) args"
  using split_name_eq [of "''enable-leader-election''" "FormatBool b"]
  by (simp add: parse_flags.simps(2) flag_kind_of_def set_flag_def FormatBool_def ParseBool_def)

text \<open>
  C29: a command line made of settings gives these settings back, whatever the addresses are
  (also when they are empty, or look like flags themselves) and whatever flags other packages define.
\<close>

theorem flags_roundtrip: "parse_flags linked g (print_flags f) = Parsed f []"
  unfolding print_flags_def by (simp only: parse_metrics_addr parse_probe_addr parse_leader_election) simp


text \<open>A process whose second controller cannot be set up.\<close>

definition failing_api :: "unit process_api" where
  "failing_api = \<lparr>boot_call = (\<lambda>b s. (if b = SetupController SetupWithManager_cyndi then Some (errors_New ''no'') else None, s)),
     boot_Getenv = (\<lambda>_. ''''), boot_linked = (\<lambda>n. if n = ''kubeconfig'' then Some StringFlag else None)\<rparr>"

lemma failing_api_simps:
  "boot_call failing_api b s = (if b = SetupController SetupWithManager_cyndi then Some (errors_New ''no'') else None, s)"
  "boot_Getenv failing_api v = ''''"
  by (simp_all add: failing_api_def)


end
