(* ===== verification/DiffReporter.thy ===== *)
theory DiffReporter
  imports Lang
begin

text \<open>
  The \<open>DiffReporter\<close> of \<^verbatim>\<open>controllers/diff.go\<close>, which \<^verbatim>\<open>go-cmp\<close> drives through two values: it is
  told of every step down, of the outcome at every leaf, and of every step up. The steps, the two
  values a step leads to and their printing belong to \<^verbatim>\<open>go-cmp\<close> and are parameters.
\<close>

section \<open>The reporter\<close>

record 'p cmp_path =
  Values :: "'p \<Rightarrow> goval \<times> goval"
  print_path :: "'p list \<Rightarrow> string"
  print_value :: "goval \<Rightarrow> string"

record 'p DiffReporter =
  path :: "'p list"
  diffs :: "string list"

definition PushStep :: "'p \<Rightarrow> 'p DiffReporter \<Rightarrow> 'p DiffReporter" where
  "PushStep ps r = r\<lparr>path := path r @ [ps]\<rparr>"

text \<open>\<open>fmt.Sprintf("%#v:\n\t-: %+v\n\t+: %+v\n", r.path, vx, vy)\<close>\<close>

definition diff_entry :: "'p cmp_path \<Rightarrow> 'p list \<Rightarrow> string" where
  "diff_entry C ps =
     (let (vx, vy) = Values C (last ps) in
      print_path C ps @ '':'' @ [CHR 0x0A, CHR 0x09] @ ''-: '' @ print_value C vx @
      [CHR 0x0A, CHR 0x09] @ ''+: '' @ print_value C vy @ [CHR 0x0A])"

definition Report :: "'p cmp_path \<Rightarrow> bool \<Rightarrow> 'p DiffReporter \<Rightarrow> 'p DiffReporter" where
  "Report C eq r = (if \<not> eq then r\<lparr>diffs := diffs r @ [diff_entry C (path r)]\<rparr> else r)"

text \<open>\<open>r.path[:len(r.path)-1]\<close>, a slice expression that panics on an empty path.\<close>

definition PopStep :: "'p DiffReporter \<Rightarrow> 'p DiffReporter outcome" where
  "PopStep r = (if path r = [] then Panics else Returns (r\<lparr>path := take (length (path r) - 1) (path r)\<rparr>))"

definition reporter_String :: "'p DiffReporter \<Rightarrow> string" where
  "reporter_String r = str_join [CHR 0x0A] (diffs r)"

section \<open>A comparison\<close>

text \<open>The way \<^verbatim>\<open>go-cmp\<close> takes: at the end of each step a leaf, with its outcome, or further steps.\<close>

datatype 'p walk = Leaf 'p bool | Inner 'p "'p walk list"

fun visit :: "'p cmp_path \<Rightarrow> 'p walk \<Rightarrow> 'p DiffReporter \<Rightarrow> 'p DiffReporter outcome"
  and visit_all :: "'p cmp_path \<Rightarrow> 'p walk list \<Rightarrow> 'p DiffReporter \<Rightarrow> 'p DiffReporter outcome" where
  "visit C (Leaf ps eq) r = PopStep (Report C eq (PushStep ps r))"
| "visit C (Inner ps ws) r =
     (case visit_all C ws (PushStep ps r) of Panics \<Rightarrow> Panics | Returns r \<Rightarrow> PopStep r)"
| "visit_all C [] r = Returns r"
| "visit_all C (w # ws) r = (case visit C w r of Panics \<Rightarrow> Panics | Returns r \<Rightarrow> visit_all C ws r)"

text \<open>The paths of the leaves that differ, from left to right.\<close>

fun unequal :: "'p list \<Rightarrow> 'p walk \<Rightarrow> 'p list list" where
  "unequal ps (Leaf p eq) = (if eq then [] else [ps @ [p]])"
| "unequal ps (Inner p ws) = concat (map (unequal (ps @ [p])) ws)"

lemma visit_reports:
  "visit C w r = Returns (r\<lparr>diffs := diffs r @ map (diff_entry C) (unequal (path r) w)\<rparr>)"
  "visit_all C ws r = Returns (r\<lparr>diffs := diffs r @ map (diff_entry C) (concat (map (unequal (path r)) ws))\<rparr>)"
  by (induction C w r and C ws r rule: visit_visit_all.induct)
    (auto simp: PushStep_def PopStep_def Report_def)

text \<open>
  A comparison from a new reporter never panics, leaves the path empty and collects one entry
  for every leaf that differs, in order; so the text is empty exactly when no leaf differs.
\<close>

lemma reporter_collects:
  "\<exists>r. visit C w \<lparr>path = [], diffs = []\<rparr> = Returns r \<and> path r = [] \<and>
     diffs r = map (diff_entry C) (unequal [] w) \<and>
     (reporter_String r = '''' \<longleftrightarrow> unequal [] w = [])"
proof -
  have "str_join [CHR 0x0A] (map (diff_entry C) pss) = '''' \<longleftrightarrow> pss = []" for pss
    by (cases pss rule: remdups_adj.cases) (auto simp: diff_entry_def Let_def split: prod.splits)
  then show ?thesis by (simp add: visit_reports reporter_String_def)
qed

end
