(* ===== verification/Spec2Isabelle.thy ===== *)
theory Spec2Isabelle
  imports Interleaving SyncBound TableScripts DeepCopy Startup DiffReporter
begin

text \<open>
  \<^bold>\<open>A model of the Cyndi operator.\<close> The operator replicates the hosts of an inventory
  database into tables of application databases. For every \<^verbatim>\<open>CyndiPipeline\<close> resource it
  creates a table and a Kafka connector that fills it, compares the table with the
  inventory at regular intervals, points the view \<^verbatim>\<open>inventory.hosts\<close> to a table that has
  become valid, and starts again with a new table when the pipeline deviates from its
  configuration or does not become valid. Two controllers act on the same resource: the
  pipeline controller and the validation controller.

  \<^bold>\<open>Parts and theories.\<close> Names of definitions are those of the Go code under \<^verbatim>\<open>src/\<close>.

  \<^item> \<open>Prelude\<close>: Go values the code is written with (errors, panics, \<^verbatim>\<open>int64\<close>, string
    functions, decimal notation), the monad of runs with their recorded requests, and the
    rules for statements about what a run requests (\<open>post\<close>, \<open>only\<close>).
  \<^item> \<open>Lang\<close>: \<^verbatim>\<open>controllers/utils/lang.go\<close> and \<^verbatim>\<open>misc.go\<close>.
  \<^item> \<open>Pipeline\<close>: \<^verbatim>\<open>api/v1alpha1\<close>, the resource and its operations; \<open>Lifecycle\<close>: the states
    as a step relation, its reachable statuses and their invariant.
  \<^item> \<open>GoHeap\<close>, \<open>DeepCopy\<close>: memory with pointers, slices and maps, the contract of a deep copy,
    and \<^verbatim>\<open>api/v1alpha1/zz_generated.deepcopy.go\<close>.
  \<^item> \<open>Hashing\<close>: the hashes of \<^verbatim>\<open>controllers/utils/k8s.go\<close> through JSON encoding and FNV-1a.
  \<^item> \<open>Defaults\<close>, \<open>Config\<close>: \<^verbatim>\<open>controllers/config\<close>.
  \<^item> \<open>Externals\<close>: the interfaces of the code the operator calls and does not contain.
  \<^item> \<open>Json\<close>, \<open>JsonRoundtrip\<close>: decoding as \<^verbatim>\<open>encoding/json\<close> does it, and that it inverts the encoding
    of \<open>Hashing\<close>; \<open>Format\<close>: the texts of numbers under \<^verbatim>\<open>%v\<close>; \<open>Template\<close>: the part of
    \<^verbatim>\<open>text/template\<close> the operator's templates use.
  \<^item> \<open>Database\<close>: \<^verbatim>\<open>controllers/database\<close>; \<open>AppServer\<close>: the contract of a database server
    and the store of tables the operations implement on it; \<open>TableScripts\<close>: the default scripts
    as templates.
  \<^item> \<open>Connect\<close>: \<^verbatim>\<open>controllers/connect\<close>.
  \<^item> \<open>Iteration\<close>: \<^verbatim>\<open>controllers/iteration.go\<close>, \<^verbatim>\<open>probes.go\<close>, \<^verbatim>\<open>config.go\<close> and
    \<^verbatim>\<open>controllers/metrics\<close>.
  \<^item> \<open>Float64\<close>, \<open>Validate\<close>: \<^verbatim>\<open>controllers/validate.go\<close> and the rounding of its quotients.
  \<^item> \<open>PipelineController\<close>: \<^verbatim>\<open>controllers/cyndipipeline_controller.go\<close> and \<^verbatim>\<open>diff.go\<close>, with the
    unused reporter of the latter in \<open>DiffReporter\<close>;
    \<open>ValidationController\<close>: \<^verbatim>\<open>controllers/validation_controller.go\<close>.
  \<^item> \<open>Startup\<close>: \<^verbatim>\<open>main.go\<close>, \<^verbatim>\<open>groupversion_info.go\<close> and the registration of the controllers and
    of the metrics.
  \<^item> \<open>Reference\<close>: a cluster in memory that implements the interfaces of \<open>Externals\<close>.
  \<^item> \<open>StaleDeletion\<close>, \<open>PipelineSafety\<close>, \<open>Behaviour\<close>: what the controllers do; \<open>SyncBound\<close>: how long an
    initial sync lasts; \<open>Interleaving\<close>: both controllers and the users on the pipeline they share.

  \<^bold>\<open>State and requests.\<close> A run of a controller is a function of the state of the outside
  world, of which nothing is assumed, and of the list of requests sent so far. Every query,
  statement, client call, event and metric update is a value of the type \<open>effect\<close> and is
  recorded in order, so a statement about a run is a statement about its result and its
  requests. Errors are values of a sum type, a panic is the value \<open>Panics\<close>, and every early
  return of the code is a branch. Log lines are not recorded.

  \<^bold>\<open>Parameters.\<close> The PostgreSQL driver, the Kubernetes client, the accessors of
  unstructured objects, the condition helpers of apimachinery, its copies of metadata, the
  controller manager, \<^verbatim>\<open>go-cmp\<close>, templates outside the modelled part of the language, the
  texts of JSON errors and the clock are records of functions. Where a theorem relies on their
  documented behaviour it names it: the locale \<open>status_conditions\<close> (finding a condition
  after setting one), \<open>sql_server\<close> (what the catalogue of a server shows after a statement),
  \<open>reconciler_env\<close> (an update returns the object that was sent, up to its version) and
  \<open>metav1_copies\<close> (the copies of metadata and conditions are deep). Each of them is interpreted,
  on the documented implementation of the helpers and on the cluster in memory. The locales
  \<open>deep_copy\<close>, \<open>cell_kind\<close> and \<open>array_kind\<close> are interpreted on the generated copies and on the
  cells of their heap.

  \<^bold>\<open>What is shown.\<close>

  \<^item> \<^emph>\<open>Life cycle\<close> (\<open>Lifecycle\<close>, \<open>PipelineSafety\<close>): the states of a pipeline follow the
    documented diagram and its status stays well formed along every sequence of
    operations, and every status either controller stores, in any run against any
    servers, follows it from the status it read. A run stores at most one status, and under
    the version check of the API server the status that is stored follows the diagram along
    every interleaving of the two controllers and the users (\<open>Interleaving\<close>). An initial sync
    ends after the configured number of failed validations (\<open>SyncBound\<close>).
  \<^item> \<^emph>\<open>Copies\<close> (\<open>DeepCopy\<close>): the copy a run compares the status with is not reached by anything
    the run writes, which is why the model can keep both as values.
  \<^item> \<^emph>\<open>Removal of what is stale\<close> (\<open>StaleDeletion\<close>): as long as the database answers, live
    tables and connectors are spared and all others are gone afterwards; the operations on
    tables refine a set of names. Where the database does not answer, the active table and
    its connector may be lost, which is shown too.
  \<^item> \<^emph>\<open>The view\<close> (\<open>PipelineSafety\<close>, \<open>Behaviour\<close>): it moves only to the pipeline's own table,
    when that is valid or the active one is not healthier.
  \<^item> \<^emph>\<open>Validation\<close> (\<open>Validate\<close>): the decision taken in \<^verbatim>\<open>float64\<close> is the exact one for up
    to \<open>2 ^ 51\<close> hosts and percent points, except at equality.
  \<^item> \<^emph>\<open>Configuration\<close> (\<open>Config\<close>): which inputs are rejected, which setting wins, and which
    changes refresh a pipeline; the texts that are hashed decode to what was encoded, so they
    lose nothing (\<open>JsonRoundtrip\<close>); the default scripts create the table they name
    (\<open>TableScripts\<close>); numbers of a connector's configuration compare equal only below a million
    (\<open>Format\<close>).
  \<^item> \<^emph>\<open>Errors and order\<close> (\<open>Behaviour\<close>): what a failed setup, a missing pipeline, a failed
    removal leave behind, and the order of connector and status in a starting sync; every
    metric that is touched has been registered (\<open>PipelineSafety\<close>); the start of the process
    happens in order or not at all (\<open>Startup\<close>).

  \<^bold>\<open>Bounds.\<close> All recursion is structural or has a termination proof. The parser of template
  actions takes a bound on the nesting; twice the number of tokens is always enough
  (\<open>whole_pipeline_bound\<close>), so the bound of \<open>whole_pipeline\<close> changes nothing. Counts and intervals
  are integers with the wrap-around of \<^verbatim>\<open>int64\<close> written out where the code can reach it.
  \<^verbatim>\<open>float64\<close> values are rationals rounded to 53 bits. The quotients of the validation stay far
  inside the range of the format; the decoder of JSON handles subnormal numbers and the
  overflow. Negative zero is not told from zero.

  \<^bold>\<open>Not modelled.\<close> Log lines, the constructors of the two reconcilers (which only store the
  clients), and the test support.
\<close>

end
